(* ===== verification/Prelude.thy ===== *)
theory Prelude
  imports Main "HOL-Library.AList" "HOL-Library.Word" "HOL-Library.Char_ord"
    "HOL-Library.List_Lexorder" "HOL-Library.Product_Lexorder"
begin

text \<open>
  What every theory of the development shares: instants and durations of Go's package
  \<^verbatim>\<open>time\<close>, 64-bit wrap-around, association lists for Go's maps, and the collections of
  lemmas the component theories add to.
\<close>

named_theorems store_inv \<open>success of a database call, as an equivalence\<close>
named_theorems keep \<open>what an operation of the database preserves\<close>
named_theorems time_simps \<open>instants and durations as integers\<close>

section \<open>Instants and durations\<close>

text \<open>
  An instant is its number of nanoseconds since the Unix epoch; a duration its number of
  nanoseconds. \<^verbatim>\<open>Time.Add\<close> is exact over the instants the program meets, \<^verbatim>\<open>Time.Sub\<close> saturates
  at the ends of a 64-bit duration. \<open>zero_time\<close> is Go's zero \<^verbatim>\<open>time.Time{}\<close>, midnight of
  1 January of year 1.
\<close>

type_synonym instant = int
type_synonym duration = int

definition second :: duration where "second = 1000000000"
definition minute :: duration where "minute = 60 * second"
definition hour :: duration where "hour = 60 * minute"

definition zero_time :: instant where "zero_time = - 62135596800 * 1000000000"

definition min_int64 :: int where "min_int64 = - 9223372036854775808"
definition max_int64 :: int where "max_int64 = 9223372036854775807"

definition time_add :: "instant \<Rightarrow> duration \<Rightarrow> instant" where
  "time_add t d = t + d"

definition time_sub :: "instant \<Rightarrow> instant \<Rightarrow> duration" where
  "time_sub t u = max min_int64 (min max_int64 (t - u))"

definition unix_seconds :: "instant \<Rightarrow> int" where
  "unix_seconds t = t div second"

definition from_unix :: "int \<Rightarrow> instant" where
  "from_unix s = s * second"

declare second_def [time_simps] minute_def [time_simps] hour_def [time_simps]
  time_add_def [time_simps]

lemma second_pos [simp]: "0 < second"
  by (simp add: second_def)

lemma time_sub_pos: "u < t \<Longrightarrow> 0 < time_sub t u"
  by (auto simp: time_sub_def min_int64_def max_int64_def min_def max_def)

lemma time_sub_le: "time_sub t u \<le> max min_int64 (t - u)"
  by (auto simp: time_sub_def)

lemma time_sub_exact: "\<bar>t - u\<bar> \<le> max_int64 \<Longrightarrow> time_sub t u = t - u"
  by (auto simp: time_sub_def min_int64_def max_int64_def min_def max_def)

lemma from_unix_le: "from_unix (unix_seconds t) \<le> t"
  using div_mult_mod_eq [of t second] pos_mod_sign [of second t]
  by (simp add: from_unix_def unix_seconds_def second_def)

lemma from_unix_gt: "t < from_unix (unix_seconds t) + second"
  using div_mult_mod_eq [of t second] pos_mod_bound [of second t]
  by (simp add: from_unix_def unix_seconds_def second_def)

lemma unix_from_unix [simp]: "unix_seconds (from_unix s) = s"
  by (simp add: from_unix_def unix_seconds_def second_def)

section \<open>Signed 64-bit arithmetic\<close>

text \<open>The value a Go \<^verbatim>\<open>int64\<close> holds after an operation whose exact result is the argument.\<close>

definition int64 :: "int \<Rightarrow> int" where
  "int64 x = (x + 9223372036854775808) mod 18446744073709551616 - 9223372036854775808"

lemma int64_word: "int64 x = sint (word_of_int x :: 64 word)"
  by (simp add: int64_def sint_sbintrunc' signed_take_bit_eq_take_bit_shift take_bit_eq_mod)

lemma int64_id: "min_int64 \<le> x \<Longrightarrow> x \<le> max_int64 \<Longrightarrow> int64 x = x"
  by (simp add: int64_def min_int64_def max_int64_def)

lemma int64_bounds: "min_int64 \<le> int64 x \<and> int64 x \<le> max_int64"
proof -
  have "0 \<le> (x + 9223372036854775808) mod 18446744073709551616"
    and "(x + 9223372036854775808) mod 18446744073709551616 < 18446744073709551616"
    by simp_all
  then show ?thesis by (simp add: int64_def min_int64_def max_int64_def)
qed

text \<open>Go's integer division truncates towards zero.\<close>

definition quot :: "int \<Rightarrow> int \<Rightarrow> int" where
  "quot a b = sgn a * sgn b * (\<bar>a\<bar> div \<bar>b\<bar>)"

lemma quot_nonneg: "0 \<le> a \<Longrightarrow> 0 < b \<Longrightarrow> quot a b = a div b"
  by (cases "a = 0") (simp_all add: quot_def)

section \<open>Go maps as association lists\<close>

text \<open>
  A Go map is an association list with distinct keys (\<open>goMap\<close>); a \<^verbatim>\<open>range\<close> over it visits the
  entries in an order the runtime chooses, which is a permutation handed to the operation.
\<close>

abbreviation goMap :: "('k \<times> 'v) list \<Rightarrow> bool" where
  "goMap m \<equiv> distinct (map fst m)"

lemma length_delete_le: "length (AList.delete k m) \<le> length m"
  by (simp add: AList.delete_eq)

lemma length_delete_less:
  "k \<in> fst ` set m \<Longrightarrow> length (AList.delete k m) < length m"
  by (force simp: AList.delete_eq intro!: length_filter_less)

lemma length_update_new: "k \<notin> fst ` set m \<Longrightarrow> length (AList.update k v m) = Suc (length m)"
  by (induction m) auto

lemma length_update_le: "length (AList.update k v m) \<le> Suc (length m)"
  by (induction m) auto

lemma length_update_old: "k \<in> fst ` set m \<Longrightarrow> length (AList.update k v m) = length m"
  by (induction m) auto

lemma map_of_delete_key [simp]:
  "map_of (AList.delete k m) j = (if j = k then None else map_of m j)"
  by (simp add: AList.delete_conv')

lemma map_of_update_key [simp]:
  "map_of (AList.update k v m) j = (if j = k then Some v else map_of m j)"
  by (simp add: AList.update_conv')

lemma goMap_delete [simp, intro]: "goMap m \<Longrightarrow> goMap (AList.delete k m)"
  by (rule AList.distinct_delete)

lemma goMap_update [simp, intro]: "goMap m \<Longrightarrow> goMap (AList.update k v m)"
  by (rule AList.distinct_update)

lemma goMap_filter [simp, intro]: "goMap m \<Longrightarrow> goMap (filter P m)"
  by (induction m) auto

lemma map_of_filter_goMap:
  "goMap m \<Longrightarrow> map_of (filter P m) k =
     (case map_of m k of None \<Rightarrow> None | Some v \<Rightarrow> if P (k, v) then Some v else None)"
  by (induction m) (auto split: option.splits simp: map_of_eq_None_iff dest: map_of_SomeD)

section \<open>Lists of rows\<close>

lemma filter_eq_singleton_distinct:
  assumes "distinct (map f xs)" and "x \<in> set xs"
  shows "filter (\<lambda>y. f y = f x) xs = [x]"
  using assms by (induction xs) (auto simp: filter_empty_conv rev_image_eqI)

lemma distinct_map_filter': "distinct (map f xs) \<Longrightarrow> distinct (map f (filter P xs))"
  by (simp add: distinct_map_filter)

lemma find_snoc:
  "find p (xs @ [x]) = (case find p xs of None \<Rightarrow> if p x then Some x else None | Some q \<Rightarrow> Some q)"
  by (induction xs) auto

text \<open>A row after an update: a changed one, or an old one the update did not select.\<close>

lemma in_map_ifE:
  assumes "x \<in> set (map (\<lambda>r. if p r then g r else r) rows)"
  obtains r where "r \<in> set rows" "p r" "x = g r" | "x \<in> set rows" "\<not> p x"
  using assms by auto

end
