(* ===== verification/SqlStore.thy ===== *)
theory SqlStore
  imports Prelude
begin

text \<open>
  How \<^verbatim>\<open>server/internal/store\<close> talks to the database: every call of the driver may fail, a
  statement may violate a constraint, and a transaction takes effect as a whole or not at all.
  A connection is the database's contents with a script that says which of the coming driver
  calls fail (an exhausted script: no more failures), so that theorems about all scripts are
  theorems about all failure patterns. Times are compared as instants: the store converts every
  time it binds to UTC, and the driver's text form of UTC times sorts like the instants.
\<close>

section \<open>Errors and connections\<close>

datatype store_error =
    ErrNotFound
  | ErrConflict
  | ErrLoginRestartRequired
  | ErrInvalidSecondFactor
  | ErrExactlyOneFactor \<comment> \<open>the anonymous error of \<^verbatim>\<open>ConsumeLoginSecondFactor\<close>\<close>
  | ErrDriver \<comment> \<open>any error of the driver, a constraint violation included\<close>

record 'db conn =
  contents :: 'db
  faults :: "bool list"

type_synonym ('db, 'a) dbop = "'db conn \<Rightarrow> (store_error + 'a) \<times> 'db conn"

definition ready :: "'db conn \<Rightarrow> bool" where
  "ready s \<longleftrightarrow> (case faults s of [] \<Rightarrow> True | f # _ \<Rightarrow> \<not> f)"

definition advance :: "'db conn \<Rightarrow> 'db conn" where
  "advance s = s\<lparr>faults := tl (faults s)\<rparr>"

section \<open>Operations\<close>

definition ok :: "'a \<Rightarrow> ('db, 'a) dbop" where
  "ok x s = (Inr x, s)"

definition fail :: "store_error \<Rightarrow> ('db, 'a) dbop" where
  "fail e s = (Inl e, s)"

definition bind :: "('db, 'a) dbop \<Rightarrow> ('a \<Rightarrow> ('db, 'b) dbop) \<Rightarrow> ('db, 'b) dbop" where
  "bind m f s = (case m s of (Inl e, t) \<Rightarrow> (Inl e, t) | (Inr x, t) \<Rightarrow> f x t)"

text \<open>One call of the driver that returns nothing of interest but its error.\<close>

definition io :: "('db, unit) dbop" where
  "io s = (if ready s then Inr () else Inl ErrDriver, advance s)"

definition query :: "('db \<Rightarrow> 'a) \<Rightarrow> ('db, 'a) dbop" where
  "query q = bind io (\<lambda>_ s. (Inr (q (contents s)), s))"

text \<open>\<^verbatim>\<open>QueryRowContext(...).Scan(...)\<close> with \<^verbatim>\<open>sql.ErrNoRows\<close> turned into the given error.\<close>

definition query_row :: "store_error \<Rightarrow> ('db \<Rightarrow> 'a option) \<Rightarrow> ('db, 'a) dbop" where
  "query_row none q = bind (query q) (\<lambda>r. case r of None \<Rightarrow> fail none | Some x \<Rightarrow> ok x)"

text \<open>\<^verbatim>\<open>QueryContext\<close>, a \<^verbatim>\<open>Scan\<close> for each row, then \<^verbatim>\<open>rows.Err()\<close>.\<close>

fun scan_rows :: "'a list \<Rightarrow> ('db, 'a list) dbop" where
  "scan_rows [] = bind io (\<lambda>_. ok [])"
| "scan_rows (r # rs) = bind io (\<lambda>_. bind (scan_rows rs) (\<lambda>xs. ok (r # xs)))"

definition query_rows :: "('db \<Rightarrow> 'a list) \<Rightarrow> ('db, 'a list) dbop" where
  "query_rows q = bind (query q) scan_rows"

text \<open>
  A statement maps the contents to the new contents and the number of affected rows; None is a
  violated constraint, which the driver reports as an error and which changes nothing.
\<close>

type_synonym 'db stmt = "'db \<Rightarrow> ('db \<times> nat) option"

definition exec :: "'db stmt \<Rightarrow> ('db, nat) dbop" where
  "exec st = bind io (\<lambda>_ s. case st (contents s) of
     None \<Rightarrow> (Inl ErrDriver, s) | Some (c, n) \<Rightarrow> (Inr n, s\<lparr>contents := c\<rparr>))"

text \<open>\<^verbatim>\<open>requireAffected\<close>: the result's row count is read, and a count of zero is the given error.\<close>

definition requireAffected :: "('db, nat) dbop \<Rightarrow> store_error \<Rightarrow> ('db, unit) dbop" where
  "requireAffected m emptyError =
     bind m (\<lambda>n. bind io (\<lambda>_. if n = 0 then fail emptyError else ok ()))"

text \<open>
  \<^verbatim>\<open>BeginTx\<close>, the body, \<^verbatim>\<open>Commit\<close>; every error return runs the deferred \<^verbatim>\<open>Rollback\<close>, and a
  commit that fails leaves the database as it was.
\<close>

definition transaction :: "('db, 'a) dbop \<Rightarrow> ('db, 'a) dbop" where
  "transaction m s =
     (case io s of
        (Inl e, s1) \<Rightarrow> (Inl e, s1)
      | (Inr _, s1) \<Rightarrow>
          (case m s1 of
             (Inl e, s2) \<Rightarrow> (Inl e, s2\<lparr>contents := contents s1\<rparr>)
           | (Inr x, s2) \<Rightarrow>
               (case io s2 of
                  (Inl e, s3) \<Rightarrow> (Inl e, s3\<lparr>contents := contents s1\<rparr>)
                | (Inr _, s3) \<Rightarrow> (Inr x, s3))))"

section \<open>Success\<close>

lemma contents_advance [simp]: "contents (advance s) = contents s"
  by (simp add: advance_def)

lemma ok_Inr [store_inv]: "ok x s = (Inr y, s') \<longleftrightarrow> y = x \<and> s' = s"
  by (auto simp: ok_def)

lemma fail_Inr [store_inv]: "fail e s = (Inr y, s') \<longleftrightarrow> False"
  by (simp add: fail_def)

lemma bind_Inr [store_inv]:
  "bind m f s = (Inr y, s') \<longleftrightarrow> (\<exists>x t. m s = (Inr x, t) \<and> f x t = (Inr y, s'))"
  by (auto simp: bind_def split: prod.splits sum.splits)

lemma io_Inr [store_inv]: "io s = (Inr u, s') \<longleftrightarrow> ready s \<and> s' = advance s"
  by (auto simp: io_def)

lemma query_Inr [store_inv]:
  "query q s = (Inr x, s') \<longleftrightarrow> ready s \<and> x = q (contents s) \<and> s' = advance s"
  by (auto simp: query_def store_inv)

lemma query_row_Inr [store_inv]:
  "query_row e q s = (Inr x, s') \<longleftrightarrow> ready s \<and> q (contents s) = Some x \<and> s' = advance s"
  by (auto simp: query_row_def store_inv split: option.splits)

lemma exec_Inr [store_inv]:
  "exec st s = (Inr n, s') \<longleftrightarrow>
     ready s \<and> (\<exists>c. st (contents s) = Some (c, n) \<and> s' = (advance s)\<lparr>contents := c\<rparr>)"
  by (auto simp: exec_def store_inv split: option.splits)

lemma requireAffected_Inr [store_inv]:
  "requireAffected m e s = (Inr u, s') \<longleftrightarrow>
     (\<exists>n t. m s = (Inr n, t) \<and> ready t \<and> 0 < n \<and> s' = advance t)"
  by (auto simp: requireAffected_def store_inv split: if_splits)

lemma transaction_Inr [store_inv]:
  "transaction m s = (Inr x, s') \<longleftrightarrow>
     ready s \<and> (\<exists>t. m (advance s) = (Inr x, t) \<and> ready t \<and> s' = advance t)"
  by (auto simp: transaction_def io_def split: prod.splits sum.splits)

lemma scan_rows_Inr: "scan_rows rs s = (Inr xs, s') \<Longrightarrow> xs = rs \<and> contents s' = contents s"
  by (induction rs arbitrary: xs s s') (fastforce simp: store_inv)+

lemma query_rows_Inr:
  "query_rows q s = (Inr xs, s') \<Longrightarrow> xs = q (contents s) \<and> contents s' = contents s"
  by (auto simp: query_rows_def store_inv dest: scan_rows_Inr)

section \<open>Errors leave no trace\<close>

lemma transaction_rollback: "transaction m s = (Inl e, s') \<Longrightarrow> contents s' = contents s"
  by (auto simp: transaction_def io_def split: prod.splits sum.splits if_splits)

lemma io_contents [simp]: "contents (snd (io s)) = contents s"
  by (simp add: io_def)

lemma query_row_contents: "contents (snd (query_row e q s)) = contents s"
  by (simp add: query_row_def query_def bind_def io_def ok_def fail_def split: option.splits)

lemma scan_rows_contents: "contents (snd (scan_rows rs s)) = contents s"
proof (induction rs arbitrary: s)
  case Nil
  then show ?case by (simp add: bind_def io_def ok_def)
next
  case (Cons r rs)
  from Cons.IH [of "advance s"] show ?case
    by (auto simp: bind_def io_def ok_def split: prod.splits sum.splits)
qed

lemma query_rows_contents: "contents (snd (query_rows q s)) = contents s"
  by (simp add: query_rows_def query_def bind_def io_def scan_rows_contents)

lemma exec_error: "exec st s = (Inl e, s') \<Longrightarrow> contents s' = contents s \<and> e = ErrDriver"
  by (auto simp: exec_def bind_def io_def split: option.splits prod.splits if_splits)

text \<open>A lone statement whose row count cannot be read is reported as an error, but took effect.\<close>

lemma requireAffected_exec:
  "requireAffected (exec st) e s = (r, s') \<Longrightarrow>
     ((\<exists>e'. r = Inl e') \<and> contents s' = contents s) \<or>
     (\<exists>n. st (contents s) = Some (contents s', n) \<and> (r = Inr () \<longrightarrow> 0 < n))"
  by (auto simp: requireAffected_def exec_def bind_def io_def ok_def fail_def
      split: option.splits prod.splits if_splits)

lemma outcomeI:
  assumes "\<And>e s'. m s = (Inl e, s') \<Longrightarrow> A e s'" and "\<And>x s'. m s = (Inr x, s') \<Longrightarrow> B x s'"
  shows "case m s of (Inl e, s') \<Rightarrow> A e s' | (Inr x, s') \<Rightarrow> B x s'"
  using assms by (auto split: prod.splits sum.splits)

section \<open>Calm connections\<close>

text \<open>On a connection with no failure ahead an operation is determined by the contents.\<close>

definition calm :: "'db \<Rightarrow> 'db conn" where
  "calm T = \<lparr>contents = T, faults = []\<rparr>"

lemma contents_calm [simp]: "contents (calm T) = T"
  by (simp add: calm_def)

lemma calm_update [simp]: "(calm T)\<lparr>contents := T'\<rparr> = calm T'"
  by (simp add: calm_def)

lemma io_calm [simp]: "io (calm T) = (Inr (), calm T)"
  by (simp add: io_def ready_def advance_def calm_def)

lemma bind_Inl_result: "m s = (Inl e, t) \<Longrightarrow> bind m f s = (Inl e, t)"
  by (simp add: bind_def)

lemma bind_Inr_result: "m s = (Inr x, t) \<Longrightarrow> bind m f s = f x t"
  by (simp add: bind_def)

lemma query_calm [simp]: "query q (calm T) = (Inr (q T), calm T)"
  by (simp add: query_def bind_def)

lemma query_row_calm [simp]:
  "query_row e q (calm T) = (case q T of None \<Rightarrow> Inl e | Some x \<Rightarrow> Inr x, calm T)"
  by (simp add: query_row_def bind_def ok_def fail_def split: option.splits)

lemma scan_rows_calm [simp]: "scan_rows rs (calm T) = (Inr rs, calm T)"
  by (induction rs) (simp_all add: bind_def ok_def)

lemma query_rows_calm [simp]: "query_rows q (calm T) = (Inr (q T), calm T)"
  by (simp add: query_rows_def bind_def)

lemma exec_calm [simp]:
  "exec st (calm T) =
     (case st T of None \<Rightarrow> (Inl ErrDriver, calm T) | Some (T', n) \<Rightarrow> (Inr n, calm T'))"
  by (simp add: exec_def bind_def split: option.splits)

lemma affected_calm [simp]:
  "requireAffected (exec st) e (calm T) =
     (case st T of None \<Rightarrow> (Inl ErrDriver, calm T)
      | Some (T', n) \<Rightarrow> (if n = 0 then Inl e else Inr (), calm T'))"
  by (simp add: requireAffected_def bind_def ok_def fail_def split: option.splits)

lemma transaction_calm:
  "m (calm T) = (r, calm T') \<Longrightarrow>
     transaction m (calm T) = (r, calm (case r of Inl _ \<Rightarrow> T | Inr _ \<Rightarrow> T'))"
  by (simp add: transaction_def split: sum.splits)

lemma transaction_calm_eq:
  "m (calm T) = (if b then (Inl e, calm T1) else if b' then (Inl e', calm T2) else (r, calm T3)) \<Longrightarrow>
     transaction m (calm T) = (if b then (Inl e, calm T) else if b' then (Inl e', calm T)
       else (r, calm (case r of Inl _ \<Rightarrow> T | Inr _ \<Rightarrow> T3)))"
  by (simp add: transaction_calm)

lemmas calm_simps = bind_def ok_def fail_def

section \<open>Invariants of operations\<close>

text \<open>
  \<open>preserves P m\<close>: the operation keeps \<open>P\<close> of the contents whatever it returns and whatever
  fails. The rules \<open>keep\<close> reduce it to the statements an operation executes.
\<close>

definition keeps :: "('db \<Rightarrow> bool) \<Rightarrow> 'db stmt \<Rightarrow> bool" where
  "keeps P st \<longleftrightarrow> (\<forall>T T' n. P T \<longrightarrow> st T = Some (T', n) \<longrightarrow> P T')"

definition preserves :: "('db \<Rightarrow> bool) \<Rightarrow> ('db, 'a) dbop \<Rightarrow> bool" where
  "preserves P m \<longleftrightarrow> (\<forall>s. P (contents s) \<longrightarrow> P (contents (snd (m s))))"

lemma keepsI: "(\<And>T T' n. P T \<Longrightarrow> st T = Some (T', n) \<Longrightarrow> P T') \<Longrightarrow> keeps P st"
  by (auto simp: keeps_def)

lemma preservesD: "preserves P m \<Longrightarrow> P (contents s) \<Longrightarrow> m s = (r, s') \<Longrightarrow> P (contents s')"
  by (force simp: preserves_def)

lemma preserves_ok [keep]: "preserves P (ok x)"
  by (simp add: preserves_def ok_def)

lemma preserves_fail [keep]: "preserves P (fail e)"
  by (simp add: preserves_def fail_def)

lemma preserves_io [keep]: "preserves P io"
  by (simp add: preserves_def)

lemma preserves_bind [keep]:
  "preserves P m \<Longrightarrow> (\<And>x. preserves P (f x)) \<Longrightarrow> preserves P (bind m f)"
  unfolding preserves_def bind_def by (fastforce split: prod.splits sum.splits)

lemma preserves_query [keep]: "preserves P (query q)"
  by (simp add: preserves_def query_def bind_def io_def)

lemma preserves_query_row [keep]: "preserves P (query_row e q)"
  by (simp add: preserves_def query_row_contents)

lemma preserves_query_rows [keep]: "preserves P (query_rows q)"
  by (simp add: preserves_def query_rows_contents)

lemma preserves_exec [keep]: "keeps P st \<Longrightarrow> preserves P (exec st)"
  by (auto simp: preserves_def keeps_def exec_def bind_def io_def split: option.splits prod.splits)

lemma preserves_if [keep]:
  "(b \<Longrightarrow> preserves P m) \<Longrightarrow> (\<not> b \<Longrightarrow> preserves P m') \<Longrightarrow> preserves P (if b then m else m')"
  by simp

lemma preserves_requireAffected [keep]: "preserves P m \<Longrightarrow> preserves P (requireAffected m e)"
  unfolding requireAffected_def by (auto intro!: keep)

lemma preserves_transaction [keep]: "preserves P m \<Longrightarrow> preserves P (transaction m)"
  unfolding preserves_def transaction_def io_def
  by (auto split: prod.splits sum.splits) (metis contents_advance snd_conv)+

lemma preserves_option [keep]:
  "preserves P m \<Longrightarrow> (\<And>x. preserves P (f x)) \<Longrightarrow> preserves P (case z of None \<Rightarrow> m | Some x \<Rightarrow> f x)"
  by (simp split: option.splits)

section \<open>Statements on lists of rows\<close>

definition sql_update :: "('r \<Rightarrow> bool) \<Rightarrow> ('r \<Rightarrow> 'r) \<Rightarrow> 'r list \<Rightarrow> 'r list \<times> nat" where
  "sql_update p f rows = (map (\<lambda>r. if p r then f r else r) rows, length (filter p rows))"

definition sql_delete :: "('r \<Rightarrow> bool) \<Rightarrow> 'r list \<Rightarrow> 'r list \<times> nat" where
  "sql_delete p rows = (filter (\<lambda>r. \<not> p r) rows, length (filter p rows))"

lemma fst_sql_update: "fst (sql_update p f rows) = map (\<lambda>r. if p r then f r else r) rows"
  by (simp add: sql_update_def)

lemma fst_sql_delete: "fst (sql_delete p rows) = filter (\<lambda>r. \<not> p r) rows"
  by (simp add: sql_delete_def)

lemma snd_sql_update_pos: "0 < snd (sql_update p f rows) \<longleftrightarrow> (\<exists>r \<in> set rows. p r)"
  by (auto simp: sql_update_def filter_empty_conv)

lemma snd_sql_delete_pos: "0 < snd (sql_delete p rows) \<longleftrightarrow> (\<exists>r \<in> set rows. p r)"
  by (auto simp: sql_delete_def filter_empty_conv)

lemma map_key_update:
  "(\<And>r. p r \<Longrightarrow> g (f r) = g r) \<Longrightarrow> map g (map (\<lambda>r. if p r then f r else r) rows) = map g rows"
  by simp

end
