(* ===== verification/GoStrings.thy ===== *)
theory GoStrings
  imports Prelude
begin

text \<open>
  The functions of Go's packages \<^verbatim>\<open>strings\<close>, \<^verbatim>\<open>strconv\<close> and \<^verbatim>\<open>fmt\<close> the server uses, on
  byte strings (a Go string is a sequence of bytes, and \<open>char\<close> is a byte). Each definition
  computes the documented result; the lemmas are the facts the components rely on.
\<close>

section \<open>Prefixes, suffixes, substrings\<close>

definition hasPrefix :: "string \<Rightarrow> string \<Rightarrow> bool" where
  "hasPrefix s p \<longleftrightarrow> take (length p) s = p"

definition hasSuffix :: "string \<Rightarrow> string \<Rightarrow> bool" where
  "hasSuffix s p \<longleftrightarrow> hasPrefix (rev s) (rev p)"

definition trimPrefix :: "string \<Rightarrow> string \<Rightarrow> string" where
  "trimPrefix s p = (if hasPrefix s p then drop (length p) s else s)"

definition trimSuffix :: "string \<Rightarrow> string \<Rightarrow> string" where
  "trimSuffix s p = (if hasSuffix s p then take (length s - length p) s else s)"

fun containsSub :: "string \<Rightarrow> string \<Rightarrow> bool" where
  "containsSub [] p = (p = [])"
| "containsSub (c # cs) p = (hasPrefix (c # cs) p \<or> containsSub cs p)"

lemma hasPrefix_append [simp]: "hasPrefix (p @ s) p"
  by (simp add: hasPrefix_def)

lemma hasPrefixE: "hasPrefix s p \<Longrightarrow> \<exists>t. s = p @ t"
  unfolding hasPrefix_def by (metis append_take_drop_id)

lemma hasPrefix_iff: "hasPrefix s p \<longleftrightarrow> (\<exists>t. s = p @ t)"
  by (auto dest: hasPrefixE)

lemma hasSuffix_iff: "hasSuffix s p \<longleftrightarrow> (\<exists>t. s = t @ p)"
  by (auto simp: hasSuffix_def hasPrefix_iff) (metis rev_append rev_rev_ident)

lemma trimPrefix_append [simp]: "trimPrefix (p @ s) p = s"
  by (simp add: trimPrefix_def)

lemma trimSuffix_append [simp]: "trimSuffix (s @ p) p = s"
  by (simp add: trimSuffix_def hasSuffix_iff)

lemma containsSub_iff: "containsSub s p \<longleftrightarrow> (\<exists>a b. s = a @ p @ b)"
proof (induction s)
  case Nil
  then show ?case by simp
next
  case (Cons c cs)
  show ?case
  proof
    assume "containsSub (c # cs) p"
    then show "\<exists>a b. c # cs = a @ p @ b"
      using Cons.IH by (auto simp: hasPrefix_iff) (metis append_Cons append_Nil)+
  next
    assume "\<exists>a b. c # cs = a @ p @ b"
    then obtain a b where ab: "c # cs = a @ p @ b" by blast
    show "containsSub (c # cs) p"
    proof (cases a)
      case Nil
      with ab have "hasPrefix (c # cs) p" by (auto simp: hasPrefix_iff)
      then show ?thesis by simp
    next
      case (Cons x a')
      with ab Cons.IH show ?thesis by auto
    qed
  qed
qed

lemma containsSub_char: "containsSub s [c] \<longleftrightarrow> c \<in> set s"
  by (auto simp: containsSub_iff in_set_conv_decomp)

section \<open>Splitting at a byte\<close>

text \<open>\<^verbatim>\<open>strings.Split\<close> and \<^verbatim>\<open>strings.Cut\<close> with a separator of one byte.\<close>

fun splitOn :: "char \<Rightarrow> string \<Rightarrow> string list" where
  "splitOn c [] = [[]]"
| "splitOn c (x # xs) =
     (if x = c then [] # splitOn c xs
      else case splitOn c xs of [] \<Rightarrow> [[x]] | p # ps \<Rightarrow> (x # p) # ps)"

fun cutAt :: "char \<Rightarrow> string \<Rightarrow> string \<times> string \<times> bool" where
  "cutAt c [] = ([], [], False)"
| "cutAt c (x # xs) =
     (if x = c then ([], xs, True) else case cutAt c xs of (a, b, f) \<Rightarrow> (x # a, b, f))"

text \<open>\<^verbatim>\<open>s[strings.LastIndex(s, c)+1:]\<close>, the part after the last separator.\<close>

definition afterLast :: "char \<Rightarrow> string \<Rightarrow> string" where
  "afterLast c s = rev (takeWhile (\<lambda>x. x \<noteq> c) (rev s))"

lemma splitOn_nonempty [simp]: "splitOn c s \<noteq> []"
  by (induction s) (auto split: list.splits)

lemma splitOn_none: "c \<notin> set s \<Longrightarrow> splitOn c s = [s]"
  by (induction s) auto

lemma splitOn_append: "c \<notin> set a \<Longrightarrow> splitOn c (a @ c # b) = a # splitOn c b"
  by (induction a) (auto split: list.splits)

lemma splitOn_parts: "p \<in> set (splitOn c s) \<Longrightarrow> c \<notin> set p"
  by (induction s arbitrary: p) (auto split: list.splits if_splits)

lemma splitOn_two: "splitOn c s = [a, b] \<Longrightarrow> s = a @ c # b"
proof (induction s arbitrary: a)
  case Nil
  then show ?case by simp
next
  case (Cons x xs)
  show ?case
  proof (cases "x = c")
    case True
    with Cons.prems have "a = []" and "splitOn c xs = [b]" by auto
    moreover have "xs = b"
      using \<open>splitOn c xs = [b]\<close>
      by (induction xs arbitrary: b) (auto split: if_splits list.splits)
    ultimately show ?thesis using True by simp
  next
    case False
    with Cons.prems obtain p where "splitOn c xs = [p, b]" and "a = x # p"
      by (auto split: list.splits)
    with Cons.IH show ?thesis by simp
  qed
qed

lemma splitOn_one: "splitOn c s = [a] \<Longrightarrow> s = a"
  by (induction s arbitrary: a) (auto split: if_splits list.splits)

lemma splitOn_Cons: "splitOn c s = p # q # ps \<Longrightarrow> \<exists>t. s = p @ c # t \<and> splitOn c t = q # ps"
proof (induction s arbitrary: p)
  case Nil
  then show ?case by simp
next
  case (Cons x xs)
  show ?case
  proof (cases "x = c")
    case True
    with Cons.prems show ?thesis by auto
  next
    case False
    with Cons.prems obtain p' where "splitOn c xs = p' # q # ps" and p: "p = x # p'"
      by (auto split: list.splits)
    with Cons.IH obtain t where "xs = p' @ c # t" and "splitOn c t = q # ps" by blast
    with p show ?thesis by auto
  qed
qed

lemma splitOn_three: "splitOn c s = [a, b, d] \<Longrightarrow> s = a @ c # b @ c # d"
  by (drule splitOn_Cons) (auto dest: splitOn_two)

lemma cutAt_found: "c \<notin> set a \<Longrightarrow> cutAt c (a @ c # b) = (a, b, True)"
  by (induction a) auto

lemma cutAt_none: "c \<notin> set a \<Longrightarrow> cutAt c a = (a, [], False)"
  by (induction a) auto

lemma cutAt_first: "cutAt c s = (a, b, f) \<Longrightarrow> c \<notin> set a"
  by (induction s arbitrary: a b f) (auto split: if_splits prod.splits)

lemma afterLast_no_sep: "c \<notin> set (afterLast c s)"
  by (auto simp: afterLast_def dest: set_takeWhileD)

section \<open>Replacing\<close>

text \<open>\<^verbatim>\<open>strings.ReplaceAll\<close>; the program never passes an empty \<open>old\<close>.\<close>

function replaceAll :: "string \<Rightarrow> string \<Rightarrow> string \<Rightarrow> string" where
  "replaceAll old new s =
     (case s of
        [] \<Rightarrow> []
      | c # cs \<Rightarrow>
          if old \<noteq> [] \<and> hasPrefix s old then new @ replaceAll old new (drop (length old) s)
          else c # replaceAll old new cs)"
  by pat_completeness auto
termination
  by (relation "measure (\<lambda>(old, new, s). length s)") auto

declare replaceAll.simps [simp del]

lemma replaceAll_Nil [simp]: "replaceAll old new [] = []"
  by (simp add: replaceAll.simps)

lemma replaceAll_Cons:
  "replaceAll old new (c # cs) =
     (if old \<noteq> [] \<and> hasPrefix (c # cs) old
      then new @ replaceAll old new (drop (length old) (c # cs))
      else c # replaceAll old new cs)"
  by (subst replaceAll.simps) simp

lemma replaceAll_char:
  "replaceAll [d] new (c # cs) = (if c = d then new else [c]) @ replaceAll [d] new cs"
  by (simp add: replaceAll_Cons hasPrefix_def)

lemma set_replaceAll_char:
  "set (replaceAll [d] new s) \<subseteq> (set s - {d}) \<union> set new"
  by (induction s) (auto simp: replaceAll_char)

lemma replaceAll_char_absent: "d \<notin> set new \<Longrightarrow> d \<notin> set (replaceAll [d] new s)"
  using set_replaceAll_char [of d new s] by auto

lemma replaceAll_char_id: "d \<notin> set s \<Longrightarrow> replaceAll [d] new s = s"
  by (induction s) (auto simp: replaceAll_char)

lemma replaceAll_char_append:
  "replaceAll [d] new (s @ t) = replaceAll [d] new s @ replaceAll [d] new t"
  by (induction s) (auto simp: replaceAll_char)

lemma set_replaceAll: "set (replaceAll old new s) \<subseteq> set s \<union> set new"
proof (induction old new s rule: replaceAll.induct)
  case (1 old new s)
  show ?case
  proof (cases s)
    case Nil
    then show ?thesis by simp
  next
    case (Cons c cs)
    have "set (drop (length old) s) \<subseteq> set s" by (rule set_drop_subset)
    with 1 Cons show ?thesis by (auto simp: replaceAll_Cons)
  qed
qed

section \<open>White space and letter case\<close>

text \<open>
  \<^verbatim>\<open>strings.TrimSpace\<close> removes leading and trailing code points with the property
  White\_Space; \<open>space_runes\<close> lists their UTF-8 encodings. \<^verbatim>\<open>strings.ToLower\<close> and
  \<^verbatim>\<open>strings.ToUpper\<close> map ASCII strings byte by byte; what they do with other strings is
  given by the Unicode tables, the parameter \<open>uni\<close>.
\<close>

definition byte :: "nat \<Rightarrow> char" where "byte n = char_of n"

definition space_runes :: "string list" where
  "space_runes =
     map (\<lambda>n. [byte n]) [9, 10, 11, 12, 13, 32] @
     [[byte 0xC2, byte 0x85], [byte 0xC2, byte 0xA0], [byte 0xE1, byte 0x9A, byte 0x80]] @
     map (\<lambda>n. [byte 0xE2, byte 0x80, byte n]) [0x80..<0x8B] @
     [[byte 0xE2, byte 0x80, byte 0xA8], [byte 0xE2, byte 0x80, byte 0xA9],
      [byte 0xE2, byte 0x80, byte 0xAF], [byte 0xE2, byte 0x81, byte 0x9F],
      [byte 0xE3, byte 0x80, byte 0x80]]"

function trimLeft :: "string list \<Rightarrow> string \<Rightarrow> string" where
  "trimLeft ps s =
     (case find (\<lambda>p. p \<noteq> [] \<and> hasPrefix s p) ps of
        None \<Rightarrow> s
      | Some p \<Rightarrow> trimLeft ps (drop (length p) s))"
  by pat_completeness auto
termination
  by (relation "measure (\<lambda>(ps, s). length s)")
     (auto simp: find_Some_iff hasPrefix_iff)

declare trimLeft.simps [simp del]

definition trimSpace :: "string \<Rightarrow> string" where
  "trimSpace s = rev (trimLeft (map rev space_runes) (rev (trimLeft space_runes s)))"

definition ascii :: "string \<Rightarrow> bool" where
  "ascii s \<longleftrightarrow> list_all (\<lambda>c. of_char c < (128::nat)) s"

definition lower_byte :: "char \<Rightarrow> char" where
  "lower_byte c = (let n = of_char c :: nat in if 65 \<le> n \<and> n \<le> 90 then char_of (n + 32) else c)"

definition upper_byte :: "char \<Rightarrow> char" where
  "upper_byte c = (let n = of_char c :: nat in if 97 \<le> n \<and> n \<le> 122 then char_of (n - 32) else c)"

definition toLower :: "(string \<Rightarrow> string) \<Rightarrow> string \<Rightarrow> string" where
  "toLower uni s = (if ascii s then map lower_byte s else uni s)"

definition toUpper :: "(string \<Rightarrow> string) \<Rightarrow> string \<Rightarrow> string" where
  "toUpper uni s = (if ascii s then map upper_byte s else uni s)"

lemma trimLeft_suffix: "\<exists>a. s = a @ trimLeft ps s"
proof (induction ps s rule: trimLeft.induct)
  case (1 ps s)
  show ?case
  proof (cases "find (\<lambda>p. p \<noteq> [] \<and> hasPrefix s p) ps")
    case None
    then show ?thesis by (simp add: trimLeft.simps)
  next
    case (Some p)
    with 1 obtain a where a: "drop (length p) s = a @ trimLeft ps (drop (length p) s)" by blast
    have "s = take (length p) s @ drop (length p) s" by simp
    also have "\<dots> = (take (length p) s @ a) @ trimLeft ps s"
      using Some a by (simp add: trimLeft.simps [of ps s])
    finally show ?thesis by blast
  qed
qed

lemma trimSpace_infix: "\<exists>a b. s = a @ trimSpace s @ b"
proof -
  obtain a where a: "s = a @ trimLeft space_runes s" using trimLeft_suffix by blast
  obtain b where "rev (trimLeft space_runes s) = b @ rev (trimSpace s)"
    using trimLeft_suffix [of "rev (trimLeft space_runes s)" "map rev space_runes"]
    by (auto simp: trimSpace_def)
  then have "trimLeft space_runes s = trimSpace s @ rev b"
    by (metis rev_append rev_rev_ident)
  with a show ?thesis by metis
qed

lemma length_trimSpace_le: "length (trimSpace s) \<le> length s"
  using trimSpace_infix [of s] by (metis le_add1 le_add2 le_trans length_append)

section \<open>Decimal numbers\<close>

text \<open>\<open>digits_of\<close> is \<^verbatim>\<open>strconv.FormatInt\<close> in base ten; \<open>padded\<close> is the verb \<open>%0wd\<close>.\<close>

definition digit_char :: "nat \<Rightarrow> char" where "digit_char d = char_of (48 + d)"

fun digits_of :: "nat \<Rightarrow> string" where
  "digits_of n = (if n < 10 then [digit_char n] else digits_of (n div 10) @ [digit_char (n mod 10)])"

declare digits_of.simps [simp del]

definition formatInt :: "int \<Rightarrow> string" where
  "formatInt i = (if i < 0 then CHR ''-'' # digits_of (nat (- i)) else digits_of (nat i))"

definition padded :: "nat \<Rightarrow> int \<Rightarrow> string" where
  "padded w i =
     (let sign = (if i < 0 then ''-'' else []); ds = digits_of (nat \<bar>i\<bar>)
      in sign @ replicate (w - length sign - length ds) (CHR ''0'') @ ds)"

definition is_digit :: "char \<Rightarrow> bool" where
  "is_digit c \<longleftrightarrow> 48 \<le> (of_char c :: nat) \<and> (of_char c :: nat) \<le> 57"

definition digit_val :: "char \<Rightarrow> nat" where "digit_val c = of_char c - 48"

definition nat_of_digits :: "string \<Rightarrow> nat" where
  "nat_of_digits s = foldl (\<lambda>n c. 10 * n + digit_val c) 0 s"

lemma is_digit_digit_char [simp]: "d < 10 \<Longrightarrow> is_digit (digit_char d)"
  by (simp add: is_digit_def digit_char_def)

lemma digit_val_digit_char [simp]: "d < 10 \<Longrightarrow> digit_val (digit_char d) = d"
  by (simp add: digit_val_def digit_char_def)

lemma digits_of_digits: "c \<in> set (digits_of n) \<Longrightarrow> is_digit c"
proof (induction n rule: digits_of.induct)
  case (1 n)
  then show ?case by (subst (asm) (2) digits_of.simps) (auto split: if_splits)
qed

lemma digits_of_nonempty [simp]: "digits_of n \<noteq> []"
  by (subst digits_of.simps) simp

lemma nat_of_digits_append:
  "nat_of_digits (s @ [c]) = 10 * nat_of_digits s + digit_val c"
  by (simp add: nat_of_digits_def)

lemma nat_of_digits_of [simp]: "nat_of_digits (digits_of n) = n"
proof (induction n rule: digits_of.induct)
  case (1 n)
  show ?case
  proof (cases "n < 10")
    case True
    then show ?thesis by (subst digits_of.simps) (simp add: nat_of_digits_def)
  next
    case False
    with 1 show ?thesis
      by (subst digits_of.simps) (simp add: nat_of_digits_append)
  qed
qed

lemma length_digits_of: "n < 10 ^ k \<Longrightarrow> 0 < k \<Longrightarrow> length (digits_of n) \<le> k"
proof (induction n arbitrary: k rule: digits_of.induct)
  case (1 n)
  show ?case
  proof (cases "n < 10")
    case True
    with "1.prems" show ?thesis by (subst digits_of.simps) simp
  next
    case False
    with "1.prems" obtain j where k: "k = Suc j" and j: "0 < j"
      by (cases k; cases "k - 1") auto
    with "1.prems" have "n div 10 < 10 ^ j" by (simp add: less_mult_imp_div_less mult.commute)
    with "1.IH" [OF False] j have "length (digits_of (n div 10)) \<le> j" by blast
    with False k show ?thesis by (subst digits_of.simps) simp
  qed
qed

lemma padded_length: "0 \<le> i \<Longrightarrow> i < 10 ^ w \<Longrightarrow> 0 < w \<Longrightarrow> length (padded w i) = w"
proof -
  assume i: "0 \<le> i" "i < 10 ^ w" "0 < w"
  then have "nat i < 10 ^ w" by (simp add: nat_less_iff)
  then have "length (digits_of (nat i)) \<le> w" using i(3) by (rule length_digits_of)
  with i show ?thesis by (simp add: padded_def Let_def)
qed

lemma padded_digits: "0 \<le> i \<Longrightarrow> c \<in> set (padded w i) \<Longrightarrow> is_digit c"
  by (auto simp: padded_def Let_def is_digit_def [of "CHR ''0''"] dest: digits_of_digits)

end
