(* ===== verification/Schema.thy ===== *)
theory Schema
  imports SqlStore GoStrings
begin

text \<open>
  The tables of \<^verbatim>\<open>server/internal/store/store.go\<close>: its row structs, the database they form, the
  constraints its \<^verbatim>\<open>Migrate\<close> declares (\<open>wf_tables\<close>), and the statements that read and write
  single tables.
\<close>

section \<open>Rows\<close>

definition SessionStarting :: string where "SessionStarting = ''starting''"
definition SessionRunning :: string where "SessionRunning = ''running''"
definition SessionExited :: string where "SessionExited = ''exited''"
definition SessionLost :: string where "SessionLost = ''lost''"
definition SessionClosed :: string where "SessionClosed = ''closed''"

lemmas session_status_defs =
  SessionStarting_def SessionRunning_def SessionExited_def SessionLost_def SessionClosed_def

record User =
  u_ID :: string
  u_Username :: string
  u_PasswordHash :: string
  u_CreatedAt :: instant
  u_UpdatedAt :: instant

record UserTwoFactor =
  tf_UserID :: string
  tf_ConfigurationID :: string
  tf_SecretCiphertext :: string
  tf_SetupExpiresAt :: "instant option"
  tf_EnabledAt :: "instant option"
  tf_LastTOTPCounter :: "int option"
  tf_CreatedAt :: instant
  tf_UpdatedAt :: instant

record RecoveryCode =
  rc_ID :: string
  rc_UserID :: string
  rc_CodeHash :: string
  rc_UsedAt :: "instant option"
  rc_CreatedAt :: instant

record LoginChallenge =
  lc_JTI :: string
  lc_UserID :: string
  lc_ConfigurationID :: string
  lc_ExpiresAt :: instant
  lc_ConsumedAt :: "instant option"
  lc_CreatedAt :: instant

record RecoveryCodeInput =
  rci_ID :: string
  rci_Hash :: string

record AgentToken =
  tok_ID :: string
  tok_Name :: string
  tok_TokenHash :: string
  tok_ExpiresAt :: instant
  tok_UsedAt :: "instant option"
  tok_RevokedAt :: "instant option"
  tok_CreatedAt :: instant

record CreateAgentTokenParams =
  ctp_ID :: string
  ctp_Name :: string
  ctp_TokenHash :: string
  ctp_ExpiresAt :: instant

record Device =
  dev_ID :: string
  dev_Name :: string
  dev_Platform :: string
  dev_AgentVersion :: string
  dev_Fingerprint :: string
  dev_CredentialHash :: string
  dev_Authorized :: bool
  dev_LastSeenAt :: "instant option"
  dev_CreatedAt :: instant
  dev_UpdatedAt :: instant

record TerminalSession =
  ts_ID :: string
  ts_DeviceID :: string
  ts_Title :: string
  ts_ShellPath :: string
  ts_WorkingDirectory :: string
  ts_Status :: string
  ts_AgentPID :: int
  ts_LastOutputSeq :: int
  ts_CreatedAt :: instant
  ts_UpdatedAt :: instant

record AuditEvent =
  ae_ID :: string
  ae_UserID :: string
  ae_DeviceID :: string
  ae_SessionID :: string
  ae_EventType :: string
  ae_Summary :: string
  ae_MetadataJSON :: string
  ae_CreatedAt :: instant

record OutputChunk =
  oc_ID :: string
  oc_SessionID :: string
  oc_StartSeq :: int
  oc_EndSeq :: int
  oc_StoragePath :: string
  oc_ByteSize :: int
  oc_CreatedAt :: instant

record CommandSnippet =
  cs_ID :: string
  cs_Name :: string
  cs_Command :: string
  cs_CreatedAt :: instant
  cs_UpdatedAt :: instant

text \<open>\<^verbatim>\<open>ConsumeLoginSecondFactorParams\<close>.\<close>

record ConsumeParams =
  cp_ChallengeJTI :: string
  cp_UserID :: string
  cp_ConfigurationID :: string
  cp_TOTPCounter :: "int option"
  cp_RecoveryHash :: string
  cp_Now :: instant
  cp_Audit :: AuditEvent

section \<open>The database\<close>

record tables =
  users :: "User list"
  user_two_factor :: "UserTwoFactor list"
  two_factor_recovery_codes :: "RecoveryCode list"
  login_challenges :: "LoginChallenge list"
  agent_tokens :: "AgentToken list"
  devices :: "Device list"
  terminal_sessions :: "TerminalSession list"
  audit_events :: "AuditEvent list"
  terminal_output_chunks :: "OutputChunk list"
  command_snippets :: "CommandSnippet list"

definition empty_tables :: tables where
  "empty_tables = \<lparr>users = [], user_two_factor = [], two_factor_recovery_codes = [],
     login_challenges = [], agent_tokens = [], devices = [], terminal_sessions = [],
     audit_events = [], terminal_output_chunks = [], command_snippets = []\<rparr>"

text \<open>Primary keys, unique columns and foreign keys, table by table as \<^verbatim>\<open>Migrate\<close> declares them.\<close>

definition wf_tables :: "tables \<Rightarrow> bool" where
  "wf_tables T \<longleftrightarrow>
     distinct (map u_ID (users T)) \<and> distinct (map u_Username (users T)) \<and>
     distinct (map tf_UserID (user_two_factor T)) \<and>
     (\<forall>r \<in> set (user_two_factor T). tf_UserID r \<in> u_ID ` set (users T)) \<and>
     distinct (map rc_ID (two_factor_recovery_codes T)) \<and>
     distinct (map (\<lambda>r. (rc_UserID r, rc_CodeHash r)) (two_factor_recovery_codes T)) \<and>
     (\<forall>r \<in> set (two_factor_recovery_codes T). rc_UserID r \<in> u_ID ` set (users T)) \<and>
     distinct (map lc_JTI (login_challenges T)) \<and>
     (\<forall>r \<in> set (login_challenges T). lc_UserID r \<in> u_ID ` set (users T)) \<and>
     distinct (map tok_ID (agent_tokens T)) \<and> distinct (map tok_TokenHash (agent_tokens T)) \<and>
     distinct (map dev_ID (devices T)) \<and>
     distinct (map ts_ID (terminal_sessions T)) \<and>
     (\<forall>r \<in> set (terminal_sessions T). ts_DeviceID r \<in> dev_ID ` set (devices T)) \<and>
     distinct (map ae_ID (audit_events T)) \<and>
     distinct (map oc_ID (terminal_output_chunks T)) \<and>
     (\<forall>r \<in> set (terminal_output_chunks T). oc_SessionID r \<in> ts_ID ` set (terminal_sessions T)) \<and>
     distinct (map cs_ID (command_snippets T))"

lemma wf_empty: "wf_tables empty_tables"
  by (simp add: wf_tables_def empty_tables_def)

section \<open>Statements shared by the operations\<close>

type_synonym 'a store = "(tables, 'a) dbop"

definition insert_audit :: "AuditEvent \<Rightarrow> tables stmt" where
  "insert_audit e T =
     (if ae_ID e \<in> ae_ID ` set (audit_events T) then None
      else Some (T\<lparr>audit_events := audit_events T @ [e]\<rparr>, 1))"

text \<open>\<^verbatim>\<open>insertAuditEvent\<close>, on the pool or in a transaction.\<close>

definition insertAuditEvent :: "AuditEvent \<Rightarrow> unit store" where
  "insertAuditEvent e = bind (exec (insert_audit e)) (\<lambda>_. ok ())"

definition CreateAuditEvent :: "instant \<Rightarrow> AuditEvent \<Rightarrow> AuditEvent store" where
  "CreateAuditEvent now e0 =
     (let e = (if ae_CreatedAt e0 = zero_time then e0\<lparr>ae_CreatedAt := now\<rparr> else e0)
      in bind (insertAuditEvent e) (\<lambda>_. ok e))"

text \<open>\<^verbatim>\<open>audit.Writer.Log\<close>, with the identifier a fresh UUID would be.\<close>

definition audit_log :: "string \<Rightarrow> instant \<Rightarrow> AuditEvent \<Rightarrow> unit store" where
  "audit_log uuid now e0 =
     (let e1 = (if ae_ID e0 = [] then e0\<lparr>ae_ID := uuid\<rparr> else e0);
          e2 = (if ae_CreatedAt e1 = zero_time then e1\<lparr>ae_CreatedAt := now\<rparr> else e1);
          e3 = (if ae_MetadataJSON e2 = [] then e2\<lparr>ae_MetadataJSON := ''{}''\<rparr> else e2)
      in bind (CreateAuditEvent now e3) (\<lambda>_. ok ()))"

lemma insert_audit_wf: "insert_audit e T = Some (T', n) \<Longrightarrow> wf_tables T \<Longrightarrow> wf_tables T'"
  by (auto simp: insert_audit_def wf_tables_def split: if_splits)

end
