(* ===== verification/TwoFactorStore.thy ===== *)
theory TwoFactorStore
  imports Schema
begin

text \<open>
  The part of \<^verbatim>\<open>server/internal/store/store.go\<close> about users, login challenges and two-factor
  settings. A statement is a definition of its own (\<open>stmt_...\<close>); an operation composes them as
  the Go function does. The times an operation reads from the clock are arguments.
\<close>

section \<open>Users\<close>

definition insert_user :: "User \<Rightarrow> tables stmt" where
  "insert_user u T =
     (if u_ID u \<in> u_ID ` set (users T) \<or> u_Username u \<in> u_Username ` set (users T) then None
      else Some (T\<lparr>users := users T @ [u]\<rparr>, 1))"

definition CreateUser :: "instant \<Rightarrow> User \<Rightarrow> User store" where
  "CreateUser now u0 =
     (let u1 = (if u_CreatedAt u0 = zero_time then u0\<lparr>u_CreatedAt := now\<rparr> else u0);
          u2 = (if u_UpdatedAt u1 = zero_time then u1\<lparr>u_UpdatedAt := now\<rparr> else u1)
      in bind (exec (insert_user u2)) (\<lambda>_. ok u2))"

definition GetUserByUsername :: "string \<Rightarrow> User store" where
  "GetUserByUsername name =
     query_row ErrNotFound (\<lambda>T. find (\<lambda>u. u_Username u = name) (users T))"

definition GetUserByID :: "string \<Rightarrow> User store" where
  "GetUserByID uid = query_row ErrNotFound (\<lambda>T. find (\<lambda>u. u_ID u = uid) (users T))"

section \<open>Login challenges\<close>

text \<open>The hundred rows, at most, that \<^verbatim>\<open>order by expires_at, jti limit 100\<close> selects.\<close>

definition expired_victims :: "instant \<Rightarrow> LoginChallenge list \<Rightarrow> string list" where
  "expired_victims now rows =
     map lc_JTI (take 100 (sort_key (\<lambda>r. (lc_ExpiresAt r, lc_JTI r))
       (filter (\<lambda>r. lc_ExpiresAt r < now) rows)))"

definition stmt_purge_expired :: "instant \<Rightarrow> tables stmt" where
  "stmt_purge_expired now T =
     (let victims = expired_victims now (login_challenges T);
          (rows, n) = sql_delete (\<lambda>r. lc_JTI r \<in> set victims) (login_challenges T)
      in Some (T\<lparr>login_challenges := rows\<rparr>, n))"

definition stmt_drop_active :: "string \<Rightarrow> instant \<Rightarrow> tables stmt" where
  "stmt_drop_active uid now T =
     (let (rows, n) = sql_delete
            (\<lambda>r. lc_UserID r = uid \<and> lc_ConsumedAt r = None \<and> now \<le> lc_ExpiresAt r) (login_challenges T)
      in Some (T\<lparr>login_challenges := rows\<rparr>, n))"

definition stmt_insert_challenge :: "LoginChallenge \<Rightarrow> tables stmt" where
  "stmt_insert_challenge c T =
     (if lc_JTI c \<in> lc_JTI ` set (login_challenges T) \<or> lc_UserID c \<notin> u_ID ` set (users T) then None
      else Some (T\<lparr>login_challenges := login_challenges T @ [c\<lparr>lc_ConsumedAt := None\<rparr>]\<rparr>, 1))"

definition CreateLoginChallenge :: "instant \<Rightarrow> LoginChallenge \<Rightarrow> unit store" where
  "CreateLoginChallenge now c0 =
     (let c = (if lc_CreatedAt c0 = zero_time then c0\<lparr>lc_CreatedAt := now\<rparr> else c0)
      in transaction
           (bind (exec (stmt_purge_expired (lc_CreatedAt c))) (\<lambda>_.
            bind (exec (stmt_drop_active (lc_UserID c) (lc_CreatedAt c))) (\<lambda>_.
            bind (exec (stmt_insert_challenge c)) (\<lambda>_. ok ())))))"

definition stmt_consume_challenge :: "instant \<Rightarrow> string \<Rightarrow> string \<Rightarrow> string \<Rightarrow> tables stmt" where
  "stmt_consume_challenge now jti uid cfg T =
     (let (rows, n) = sql_update
            (\<lambda>r. lc_JTI r = jti \<and> lc_UserID r = uid \<and> lc_ConfigurationID r = cfg \<and>
                 lc_ConsumedAt r = None \<and> now \<le> lc_ExpiresAt r)
            (\<lambda>r. r\<lparr>lc_ConsumedAt := Some now\<rparr>) (login_challenges T)
      in Some (T\<lparr>login_challenges := rows\<rparr>, n))"

section \<open>Two-factor settings\<close>

text \<open>
  \<open>counter_open r c\<close> is the guard \<^verbatim>\<open>last_totp_counter is null or last_totp_counter < ?\<close>.
\<close>

definition counter_open :: "UserTwoFactor \<Rightarrow> int \<Rightarrow> bool" where
  "counter_open r c = (case tf_LastTOTPCounter r of None \<Rightarrow> True | Some l \<Rightarrow> l < c)"

definition stmt_bump_counter :: "int \<Rightarrow> instant \<Rightarrow> string \<Rightarrow> string \<Rightarrow> tables stmt" where
  "stmt_bump_counter c now uid cfg T =
     (let (rows, n) = sql_update
            (\<lambda>r. tf_UserID r = uid \<and> tf_ConfigurationID r = cfg \<and> tf_EnabledAt r \<noteq> None \<and> counter_open r c)
            (\<lambda>r. r\<lparr>tf_LastTOTPCounter := Some c, tf_UpdatedAt := now\<rparr>) (user_two_factor T)
      in Some (T\<lparr>user_two_factor := rows\<rparr>, n))"

definition stmt_use_recovery :: "instant \<Rightarrow> string \<Rightarrow> string \<Rightarrow> tables stmt" where
  "stmt_use_recovery now uid h T =
     (let (rows, n) = sql_update
            (\<lambda>r. rc_UserID r = uid \<and> rc_CodeHash r = h \<and> rc_UsedAt r = None)
            (\<lambda>r. r\<lparr>rc_UsedAt := Some now\<rparr>) (two_factor_recovery_codes T)
      in Some (T\<lparr>two_factor_recovery_codes := rows\<rparr>, n))"

definition enabled_row :: "string \<Rightarrow> tables \<Rightarrow> UserTwoFactor option" where
  "enabled_row uid T = find (\<lambda>r. tf_UserID r = uid \<and> tf_EnabledAt r \<noteq> None) (user_two_factor T)"

definition ConsumeLoginSecondFactor :: "ConsumeParams \<Rightarrow> unit store" where
  "ConsumeLoginSecondFactor p =
     (let hasTOTP = cp_TOTPCounter p \<noteq> None; hasRecovery = cp_RecoveryHash p \<noteq> []; now = cp_Now p
      in if hasTOTP = hasRecovery then fail ErrExactlyOneFactor
         else transaction
           (bind (requireAffected (exec (stmt_consume_challenge now (cp_ChallengeJTI p) (cp_UserID p)
                    (cp_ConfigurationID p))) ErrLoginRestartRequired) (\<lambda>_.
            bind (query_row ErrLoginRestartRequired
                    (\<lambda>T. map_option tf_ConfigurationID (enabled_row (cp_UserID p) T))) (\<lambda>current.
            if current \<noteq> cp_ConfigurationID p then fail ErrLoginRestartRequired
            else
              bind (case cp_TOTPCounter p of
                      Some c \<Rightarrow> requireAffected (exec (stmt_bump_counter c now (cp_UserID p)
                                  (cp_ConfigurationID p))) ErrInvalidSecondFactor
                    | None \<Rightarrow> requireAffected (exec (stmt_use_recovery now (cp_UserID p)
                                  (cp_RecoveryHash p))) ErrInvalidSecondFactor) (\<lambda>_.
              if ae_EventType (cp_Audit p) \<noteq> [] then insertAuditEvent (cp_Audit p) else ok ())))))"

text \<open>\<^verbatim>\<open>normalizePendingTwoFactor\<close>: instants have no zone, so only the zero times change.\<close>

definition normalizePendingTwoFactor :: "instant \<Rightarrow> UserTwoFactor \<Rightarrow> UserTwoFactor" where
  "normalizePendingTwoFactor now s0 =
     (let s1 = (if tf_CreatedAt s0 = zero_time then s0\<lparr>tf_CreatedAt := now\<rparr> else s0)
      in if tf_UpdatedAt s1 = zero_time then s1\<lparr>tf_UpdatedAt := now\<rparr> else s1)"

definition pending_row :: "UserTwoFactor \<Rightarrow> UserTwoFactor" where
  "pending_row s = s\<lparr>tf_EnabledAt := None, tf_LastTOTPCounter := None\<rparr>"

text \<open>
  The row an update of a pending setting leaves: the new setting, with the creation time of the
  row it replaces.
\<close>

definition replace_pending :: "UserTwoFactor \<Rightarrow> UserTwoFactor \<Rightarrow> UserTwoFactor" where
  "replace_pending s r =
     r\<lparr>tf_ConfigurationID := tf_ConfigurationID s, tf_SecretCiphertext := tf_SecretCiphertext s,
       tf_SetupExpiresAt := tf_SetupExpiresAt s, tf_EnabledAt := None, tf_LastTOTPCounter := None,
       tf_UpdatedAt := tf_UpdatedAt s\<rparr>"

definition stmt_upsert_pending :: "UserTwoFactor \<Rightarrow> tables stmt" where
  "stmt_upsert_pending s T =
     (if tf_UserID s \<in> tf_UserID ` set (user_two_factor T)
      then let (rows, n) = sql_update (\<lambda>r. tf_UserID r = tf_UserID s \<and> tf_EnabledAt r = None)
                 (replace_pending s) (user_two_factor T)
           in Some (T\<lparr>user_two_factor := rows\<rparr>, n)
      else if tf_UserID s \<notin> u_ID ` set (users T) then None
      else Some (T\<lparr>user_two_factor := user_two_factor T @ [pending_row s]\<rparr>, 1))"

definition stmt_insert_pending :: "UserTwoFactor \<Rightarrow> tables stmt" where
  "stmt_insert_pending s T =
     (if tf_UserID s \<in> tf_UserID ` set (user_two_factor T) then Some (T, 0)
      else if tf_UserID s \<notin> u_ID ` set (users T) then None
      else Some (T\<lparr>user_two_factor := user_two_factor T @ [pending_row s]\<rparr>, 1))"

definition stmt_replace_pending :: "UserTwoFactor \<Rightarrow> string \<Rightarrow> tables stmt" where
  "stmt_replace_pending s previous T =
     (let (rows, n) = sql_update
            (\<lambda>r. tf_UserID r = tf_UserID s \<and> tf_ConfigurationID r = previous \<and> tf_EnabledAt r = None)
            (replace_pending s) (user_two_factor T)
      in Some (T\<lparr>user_two_factor := rows\<rparr>, n))"

definition SavePendingTwoFactor :: "instant \<Rightarrow> UserTwoFactor \<Rightarrow> unit store" where
  "SavePendingTwoFactor now s0 =
     (let s = normalizePendingTwoFactor now s0
      in requireAffected (exec (stmt_upsert_pending s)) ErrConflict)"

definition SavePendingTwoFactorIfUnchanged :: "instant \<Rightarrow> UserTwoFactor \<Rightarrow> string \<Rightarrow> unit store" where
  "SavePendingTwoFactorIfUnchanged now s0 previous =
     (let s = normalizePendingTwoFactor now s0
      in requireAffected
           (if previous = [] then exec (stmt_insert_pending s)
            else exec (stmt_replace_pending s previous)) ErrConflict)"

definition GetUserTwoFactor :: "string \<Rightarrow> UserTwoFactor store" where
  "GetUserTwoFactor uid =
     query_row ErrNotFound (\<lambda>T. find (\<lambda>r. tf_UserID r = uid) (user_two_factor T))"

definition GetEnabledTwoFactor :: "string \<Rightarrow> UserTwoFactor store" where
  "GetEnabledTwoFactor uid = query_row ErrNotFound (enabled_row uid)"

definition GetPendingTwoFactor :: "string \<Rightarrow> instant \<Rightarrow> UserTwoFactor store" where
  "GetPendingTwoFactor uid now =
     query_row ErrNotFound (\<lambda>T. find (\<lambda>r. tf_UserID r = uid \<and> tf_EnabledAt r = None \<and>
       (case tf_SetupExpiresAt r of None \<Rightarrow> False | Some x \<Rightarrow> now < x)) (user_two_factor T))"

definition stmt_enable :: "string \<Rightarrow> string \<Rightarrow> int \<Rightarrow> instant \<Rightarrow> tables stmt" where
  "stmt_enable uid cfg c now T =
     (let (rows, n) = sql_update
            (\<lambda>r. tf_UserID r = uid \<and> tf_ConfigurationID r = cfg \<and> tf_EnabledAt r = None \<and>
                 (case tf_SetupExpiresAt r of None \<Rightarrow> False | Some x \<Rightarrow> now < x))
            (\<lambda>r. r\<lparr>tf_EnabledAt := Some now, tf_SetupExpiresAt := None,
                   tf_LastTOTPCounter := Some c, tf_UpdatedAt := now\<rparr>) (user_two_factor T)
      in Some (T\<lparr>user_two_factor := rows\<rparr>, n))"

definition stmt_delete_recovery :: "string \<Rightarrow> tables stmt" where
  "stmt_delete_recovery uid T =
     (let (rows, n) = sql_delete (\<lambda>r. rc_UserID r = uid) (two_factor_recovery_codes T)
      in Some (T\<lparr>two_factor_recovery_codes := rows\<rparr>, n))"

definition recovery_row :: "string \<Rightarrow> instant \<Rightarrow> RecoveryCodeInput \<Rightarrow> RecoveryCode" where
  "recovery_row uid now c = \<lparr>rc_ID = rci_ID c, rc_UserID = uid, rc_CodeHash = rci_Hash c,
     rc_UsedAt = None, rc_CreatedAt = now\<rparr>"

definition stmt_insert_recovery :: "string \<Rightarrow> instant \<Rightarrow> RecoveryCodeInput \<Rightarrow> tables stmt" where
  "stmt_insert_recovery uid now c T =
     (if rci_ID c \<in> rc_ID ` set (two_factor_recovery_codes T) \<or>
         (uid, rci_Hash c) \<in> (\<lambda>r. (rc_UserID r, rc_CodeHash r)) ` set (two_factor_recovery_codes T) \<or>
         uid \<notin> u_ID ` set (users T)
      then None
      else Some (T\<lparr>two_factor_recovery_codes := two_factor_recovery_codes T @ [recovery_row uid now c]\<rparr>, 1))"

fun insertRecoveryCodes :: "string \<Rightarrow> RecoveryCodeInput list \<Rightarrow> instant \<Rightarrow> unit store" where
  "insertRecoveryCodes uid [] now = ok ()"
| "insertRecoveryCodes uid (c # cs) now =
     bind (exec (stmt_insert_recovery uid now c)) (\<lambda>_. insertRecoveryCodes uid cs now)"

definition EnableTwoFactor ::
    "string \<Rightarrow> string \<Rightarrow> int \<Rightarrow> RecoveryCodeInput list \<Rightarrow> instant \<Rightarrow> unit store" where
  "EnableTwoFactor uid cfg c codes now =
     transaction
       (bind (requireAffected (exec (stmt_enable uid cfg c now)) ErrConflict) (\<lambda>_.
        bind (exec (stmt_delete_recovery uid)) (\<lambda>_.
        insertRecoveryCodes uid codes now)))"

definition ConsumeTOTPCounter :: "string \<Rightarrow> string \<Rightarrow> int \<Rightarrow> instant \<Rightarrow> unit store" where
  "ConsumeTOTPCounter uid cfg c now =
     requireAffected (exec (stmt_bump_counter c now uid cfg)) ErrConflict"

definition ConsumeRecoveryCode :: "string \<Rightarrow> string \<Rightarrow> instant \<Rightarrow> unit store" where
  "ConsumeRecoveryCode uid h now =
     requireAffected (exec (stmt_use_recovery now uid h)) ErrNotFound"

definition unused_codes :: "string \<Rightarrow> tables \<Rightarrow> RecoveryCode list" where
  "unused_codes uid T =
     filter (\<lambda>r. rc_UserID r = uid \<and> rc_UsedAt r = None) (two_factor_recovery_codes T)"

definition CountRecoveryCodes :: "string \<Rightarrow> nat store" where
  "CountRecoveryCodes uid = query (\<lambda>T. length (unused_codes uid T))"

text \<open>
  The left join of the enabled settings with their unused codes: the number of distinct users in
  it, and the number of its rows with a code.
\<close>

definition status_join :: "string \<Rightarrow> tables \<Rightarrow> (UserTwoFactor \<times> RecoveryCode option) list" where
  "status_join uid T =
     concat (map (\<lambda>s. case filter (\<lambda>c. rc_UserID c = tf_UserID s \<and> rc_UsedAt c = None)
                            (two_factor_recovery_codes T) of
                        [] \<Rightarrow> [(s, None)] | cs \<Rightarrow> map (\<lambda>c. (s, Some c)) cs)
       (filter (\<lambda>s. tf_UserID s = uid \<and> tf_EnabledAt s \<noteq> None) (user_two_factor T)))"

definition GetTwoFactorStatus :: "string \<Rightarrow> (bool \<times> nat) store" where
  "GetTwoFactorStatus uid =
     query (\<lambda>T. (card (set (map (tf_UserID \<circ> fst) (status_join uid T))) \<noteq> 0,
                 length (filter (\<lambda>(s, c). c \<noteq> None) (status_join uid T))))"

definition ReplaceRecoveryCodesAfterTOTP ::
    "string \<Rightarrow> string \<Rightarrow> int \<Rightarrow> RecoveryCodeInput list \<Rightarrow> instant \<Rightarrow> unit store" where
  "ReplaceRecoveryCodesAfterTOTP uid cfg c codes now =
     transaction
       (bind (exec (stmt_bump_counter c now uid cfg)) (\<lambda>affected.
        bind io (\<lambda>_.
        if affected = 0
        then bind (query_row ErrConflict (enabled_row uid)) (\<lambda>r.
               if tf_ConfigurationID r \<noteq> cfg then fail ErrConflict
               else case tf_LastTOTPCounter r of
                      Some l \<Rightarrow> if c \<le> l then fail ErrInvalidSecondFactor else fail ErrConflict
                    | None \<Rightarrow> fail ErrConflict)
        else bind (exec (stmt_delete_recovery uid)) (\<lambda>_.
             insertRecoveryCodes uid codes now))))"

definition stmt_delete_enabled :: "string \<Rightarrow> tables stmt" where
  "stmt_delete_enabled uid T =
     (let (rows, n) = sql_delete (\<lambda>r. tf_UserID r = uid \<and> tf_EnabledAt r \<noteq> None) (user_two_factor T)
      in Some (T\<lparr>user_two_factor := rows\<rparr>, n))"

definition DisableTwoFactor :: "string \<Rightarrow> unit store" where
  "DisableTwoFactor uid =
     transaction
       (bind (exec (stmt_delete_recovery uid)) (\<lambda>_.
        requireAffected (exec (stmt_delete_enabled uid)) ErrNotFound))"

lemmas two_factor_stmts = stmt_purge_expired_def stmt_drop_active_def stmt_insert_challenge_def
  stmt_consume_challenge_def stmt_bump_counter_def stmt_use_recovery_def stmt_upsert_pending_def
  stmt_insert_pending_def stmt_replace_pending_def stmt_enable_def stmt_delete_recovery_def
  stmt_insert_recovery_def stmt_delete_enabled_def sql_update_def sql_delete_def

end
