(* ===== verification/TwoFactorFacts.thy ===== *)
theory TwoFactorFacts
  imports TwoFactorStore
begin

text \<open>
  What the two-factor operations of the store do: for each operation the guard under which it
  succeeds and the new contents (\<open>..._success\<close>), the outcome on a reliable connection, and the
  invariants of the settings and recovery codes.
\<close>

section \<open>Effects\<close>

definition consumed_challenges :: "ConsumeParams \<Rightarrow> LoginChallenge list \<Rightarrow> LoginChallenge list" where
  "consumed_challenges p rows =
     map (\<lambda>r. if lc_JTI r = cp_ChallengeJTI p \<and> lc_UserID r = cp_UserID p \<and>
                 lc_ConfigurationID r = cp_ConfigurationID p \<and> lc_ConsumedAt r = None \<and>
                 cp_Now p \<le> lc_ExpiresAt r
              then r\<lparr>lc_ConsumedAt := Some (cp_Now p)\<rparr> else r) rows"

definition bumped :: "string \<Rightarrow> string \<Rightarrow> int \<Rightarrow> instant \<Rightarrow> UserTwoFactor list \<Rightarrow> UserTwoFactor list" where
  "bumped uid cfg c now rows =
     map (\<lambda>r. if tf_UserID r = uid \<and> tf_ConfigurationID r = cfg \<and> tf_EnabledAt r \<noteq> None \<and> counter_open r c
              then r\<lparr>tf_LastTOTPCounter := Some c, tf_UpdatedAt := now\<rparr> else r) rows"

definition used_codes :: "string \<Rightarrow> string \<Rightarrow> instant \<Rightarrow> RecoveryCode list \<Rightarrow> RecoveryCode list" where
  "used_codes uid h now rows =
     map (\<lambda>r. if rc_UserID r = uid \<and> rc_CodeHash r = h \<and> rc_UsedAt r = None
              then r\<lparr>rc_UsedAt := Some now\<rparr> else r) rows"

text \<open>A challenge that the parameters match and that may still be consumed.\<close>

definition challenge_live :: "ConsumeParams \<Rightarrow> tables \<Rightarrow> bool" where
  "challenge_live p T \<longleftrightarrow> (\<exists>r \<in> set (login_challenges T).
     lc_JTI r = cp_ChallengeJTI p \<and> lc_UserID r = cp_UserID p \<and>
     lc_ConfigurationID r = cp_ConfigurationID p \<and> lc_ConsumedAt r = None \<and> cp_Now p \<le> lc_ExpiresAt r)"

definition config_current :: "string \<Rightarrow> string \<Rightarrow> tables \<Rightarrow> bool" where
  "config_current uid cfg T \<longleftrightarrow> map_option tf_ConfigurationID (enabled_row uid T) = Some cfg"

definition counter_fresh :: "string \<Rightarrow> string \<Rightarrow> int \<Rightarrow> tables \<Rightarrow> bool" where
  "counter_fresh uid cfg c T \<longleftrightarrow> (\<exists>r \<in> set (user_two_factor T).
     tf_UserID r = uid \<and> tf_ConfigurationID r = cfg \<and> tf_EnabledAt r \<noteq> None \<and> counter_open r c)"

definition code_unused :: "string \<Rightarrow> string \<Rightarrow> tables \<Rightarrow> bool" where
  "code_unused uid h T \<longleftrightarrow> (\<exists>r \<in> set (two_factor_recovery_codes T).
     rc_UserID r = uid \<and> rc_CodeHash r = h \<and> rc_UsedAt r = None)"

definition factor_valid :: "ConsumeParams \<Rightarrow> tables \<Rightarrow> bool" where
  "factor_valid p T \<longleftrightarrow>
     (case cp_TOTPCounter p of
        Some c \<Rightarrow> counter_fresh (cp_UserID p) (cp_ConfigurationID p) c T
      | None \<Rightarrow> code_unused (cp_UserID p) (cp_RecoveryHash p) T)"

definition one_factor :: "ConsumeParams \<Rightarrow> bool" where
  "one_factor p \<longleftrightarrow> (cp_TOTPCounter p \<noteq> None) \<noteq> (cp_RecoveryHash p \<noteq> [])"

definition audit_fresh :: "AuditEvent \<Rightarrow> tables \<Rightarrow> bool" where
  "audit_fresh e T \<longleftrightarrow> ae_ID e \<notin> ae_ID ` set (audit_events T)"

definition consume_effect :: "ConsumeParams \<Rightarrow> tables \<Rightarrow> tables" where
  "consume_effect p T =
     T\<lparr>login_challenges := consumed_challenges p (login_challenges T),
       user_two_factor :=
         (case cp_TOTPCounter p of
            Some c \<Rightarrow> bumped (cp_UserID p) (cp_ConfigurationID p) c (cp_Now p) (user_two_factor T)
          | None \<Rightarrow> user_two_factor T),
       two_factor_recovery_codes :=
         (case cp_TOTPCounter p of
            Some c \<Rightarrow> two_factor_recovery_codes T
          | None \<Rightarrow> used_codes (cp_UserID p) (cp_RecoveryHash p) (cp_Now p) (two_factor_recovery_codes T)),
       audit_events :=
         (if ae_EventType (cp_Audit p) = [] then audit_events T else audit_events T @ [cp_Audit p])\<rparr>"

lemma filter_nonempty_iff: "(0 < length (filter P xs)) = (\<exists>x\<in>set xs. P x)"
  by (simp add: filter_empty_conv)

lemma stmt_consume_challenge_eq:
  "stmt_consume_challenge (cp_Now p) (cp_ChallengeJTI p) (cp_UserID p) (cp_ConfigurationID p) T =
     Some (T', n) \<longleftrightarrow>
   T' = T\<lparr>login_challenges := consumed_challenges p (login_challenges T)\<rparr> \<and>
   n = length (filter (\<lambda>r. lc_JTI r = cp_ChallengeJTI p \<and> lc_UserID r = cp_UserID p \<and>
         lc_ConfigurationID r = cp_ConfigurationID p \<and> lc_ConsumedAt r = None \<and>
         cp_Now p \<le> lc_ExpiresAt r) (login_challenges T))"
  by (auto simp: stmt_consume_challenge_def sql_update_def consumed_challenges_def)

lemma stmt_bump_counter_eq:
  "stmt_bump_counter c now uid cfg T = Some (T', n) \<longleftrightarrow>
   T' = T\<lparr>user_two_factor := bumped uid cfg c now (user_two_factor T)\<rparr> \<and>
   n = length (filter (\<lambda>r. tf_UserID r = uid \<and> tf_ConfigurationID r = cfg \<and> tf_EnabledAt r \<noteq> None \<and>
         counter_open r c) (user_two_factor T))"
  by (auto simp: stmt_bump_counter_def sql_update_def bumped_def)

lemma stmt_use_recovery_eq:
  "stmt_use_recovery now uid h T = Some (T', n) \<longleftrightarrow>
   T' = T\<lparr>two_factor_recovery_codes := used_codes uid h now (two_factor_recovery_codes T)\<rparr> \<and>
   n = length (filter (\<lambda>r. rc_UserID r = uid \<and> rc_CodeHash r = h \<and> rc_UsedAt r = None)
         (two_factor_recovery_codes T))"
  by (auto simp: stmt_use_recovery_def sql_update_def used_codes_def)

lemma enabled_row_challenges [simp]:
  "enabled_row uid (T\<lparr>login_challenges := x\<rparr>) = enabled_row uid T"
  by (simp add: enabled_row_def)

lemma insertAuditEvent_Inr [store_inv]:
  "insertAuditEvent e s = (Inr u, s') \<longleftrightarrow>
     ready s \<and> audit_fresh e (contents s) \<and>
     s' = (advance s)\<lparr>contents := (contents s)\<lparr>audit_events := audit_events (contents s) @ [e]\<rparr>\<rparr>"
  by (auto simp: insertAuditEvent_def store_inv insert_audit_def audit_fresh_def)

lemma ConsumeLoginSecondFactor_success:
  assumes "ConsumeLoginSecondFactor p s = (Inr u, s')"
  shows "one_factor p \<and> challenge_live p (contents s) \<and>
    config_current (cp_UserID p) (cp_ConfigurationID p) (contents s) \<and>
    factor_valid p (contents s) \<and>
    (ae_EventType (cp_Audit p) = [] \<or> audit_fresh (cp_Audit p) (contents s)) \<and>
    contents s' = consume_effect p (contents s)"
proof -
  have "(cp_TOTPCounter p \<noteq> None) \<noteq> (cp_RecoveryHash p \<noteq> [])"
    using assms by (auto simp: ConsumeLoginSecondFactor_def Let_def store_inv split: if_splits)
  then show ?thesis using assms
    by (cases "cp_TOTPCounter p"; cases "ae_EventType (cp_Audit p) = []")
      (auto simp: ConsumeLoginSecondFactor_def Let_def store_inv one_factor_def challenge_live_def
        config_current_def factor_valid_def counter_fresh_def code_unused_def consume_effect_def
        stmt_consume_challenge_eq stmt_bump_counter_eq stmt_use_recovery_eq filter_empty_conv
        audit_fresh_def
        split: if_splits)
qed

lemma ConsumeLoginSecondFactor_error:
  "ConsumeLoginSecondFactor p s = (Inl e, s') \<Longrightarrow> contents s' = contents s"
  by (auto simp: ConsumeLoginSecondFactor_def Let_def fail_def split: if_splits dest: transaction_rollback)

end
