(* ===== verification/AgentStore.thy ===== *)
theory AgentStore
  imports Schema
begin

text \<open>
  The rest of \<^verbatim>\<open>server/internal/store/store.go\<close>: registration tokens, devices, terminal
  sessions, output chunks and command snippets.
\<close>

section \<open>Registration tokens\<close>

definition stmt_insert_token :: "AgentToken \<Rightarrow> tables stmt" where
  "stmt_insert_token t T =
     (if tok_ID t \<in> tok_ID ` set (agent_tokens T) \<or> tok_TokenHash t \<in> tok_TokenHash ` set (agent_tokens T)
      then None else Some (T\<lparr>agent_tokens := agent_tokens T @ [t]\<rparr>, 1))"

definition CreateAgentToken :: "instant \<Rightarrow> CreateAgentTokenParams \<Rightarrow> AgentToken store" where
  "CreateAgentToken now p =
     (let t = \<lparr>tok_ID = ctp_ID p, tok_Name = ctp_Name p, tok_TokenHash = ctp_TokenHash p,
               tok_ExpiresAt = ctp_ExpiresAt p, tok_UsedAt = None, tok_RevokedAt = None,
               tok_CreatedAt = now\<rparr>
      in bind (exec (stmt_insert_token t)) (\<lambda>_. ok t))"

definition ListAgentTokens :: "AgentToken list store" where
  "ListAgentTokens = query_rows (\<lambda>T. sort_key tok_CreatedAt (agent_tokens T))"

definition token_by_id :: "string \<Rightarrow> tables \<Rightarrow> AgentToken option" where
  "token_by_id i T = find (\<lambda>t. tok_ID t = i) (agent_tokens T)"

definition stmt_revoke_token :: "string \<Rightarrow> instant \<Rightarrow> tables stmt" where
  "stmt_revoke_token i now T =
     (let (rows, n) = sql_update (\<lambda>t. tok_ID t = i) (\<lambda>t. t\<lparr>tok_RevokedAt := Some now\<rparr>) (agent_tokens T)
      in Some (T\<lparr>agent_tokens := rows\<rparr>, n))"

definition RevokeAgentToken :: "string \<Rightarrow> instant \<Rightarrow> AgentToken store" where
  "RevokeAgentToken i revokedAt =
     transaction
       (bind (query_row ErrNotFound (token_by_id i)) (\<lambda>t.
        if tok_RevokedAt t \<noteq> None then ok t
        else bind (exec (stmt_revoke_token i revokedAt)) (\<lambda>_.
             ok (t\<lparr>tok_RevokedAt := Some revokedAt\<rparr>))))"

definition stmt_delete_token :: "string \<Rightarrow> tables stmt" where
  "stmt_delete_token i T =
     (let (rows, n) = sql_delete (\<lambda>t. tok_ID t = i) (agent_tokens T)
      in Some (T\<lparr>agent_tokens := rows\<rparr>, n))"

definition DeleteRevokedAgentToken :: "string \<Rightarrow> unit store" where
  "DeleteRevokedAgentToken i =
     bind (query_row ErrNotFound (\<lambda>T. map_option tok_RevokedAt (token_by_id i T))) (\<lambda>revokedAt.
       if revokedAt = None then fail ErrConflict
       else requireAffected (exec (stmt_delete_token i)) ErrNotFound)"

text \<open>A token that may still register a device: unused, not revoked, not expired.\<close>

definition token_usable :: "string \<Rightarrow> instant \<Rightarrow> AgentToken \<Rightarrow> bool" where
  "token_usable h now t \<longleftrightarrow>
     tok_TokenHash t = h \<and> tok_UsedAt t = None \<and> tok_RevokedAt t = None \<and> now < tok_ExpiresAt t"

definition stmt_use_token :: "string \<Rightarrow> instant \<Rightarrow> tables stmt" where
  "stmt_use_token i now T =
     (let (rows, n) = sql_update (\<lambda>t. tok_ID t = i) (\<lambda>t. t\<lparr>tok_UsedAt := Some now\<rparr>) (agent_tokens T)
      in Some (T\<lparr>agent_tokens := rows\<rparr>, n))"

definition UseAgentTokenByHash :: "string \<Rightarrow> instant \<Rightarrow> AgentToken store" where
  "UseAgentTokenByHash h usedAt =
     transaction
       (bind (query_row ErrNotFound (\<lambda>T. find (token_usable h usedAt) (agent_tokens T))) (\<lambda>t.
        bind (exec (stmt_use_token (tok_ID t) usedAt)) (\<lambda>_.
        ok (t\<lparr>tok_UsedAt := Some usedAt\<rparr>))))"

section \<open>Devices\<close>

definition stmt_insert_device :: "Device \<Rightarrow> tables stmt" where
  "stmt_insert_device d T =
     (if dev_ID d \<in> dev_ID ` set (devices T) then None
      else Some (T\<lparr>devices := devices T @ [d]\<rparr>, 1))"

definition CreateDevice :: "instant \<Rightarrow> Device \<Rightarrow> Device store" where
  "CreateDevice now d0 =
     (let d1 = (if dev_CreatedAt d0 = zero_time then d0\<lparr>dev_CreatedAt := now\<rparr> else d0);
          d2 = (if dev_UpdatedAt d1 = zero_time then d1\<lparr>dev_UpdatedAt := now\<rparr> else d1)
      in bind (exec (stmt_insert_device d2)) (\<lambda>_. ok d2))"

definition GetDevice :: "string \<Rightarrow> Device store" where
  "GetDevice i = query_row ErrNotFound (\<lambda>T. find (\<lambda>d. dev_ID d = i) (devices T))"

definition ListDevices :: "Device list store" where
  "ListDevices = query_rows (\<lambda>T. sort_key dev_CreatedAt (devices T))"

definition stmt_rename_device :: "string \<Rightarrow> string \<Rightarrow> instant \<Rightarrow> tables stmt" where
  "stmt_rename_device i name now T =
     (let (rows, n) = sql_update (\<lambda>d. dev_ID d = i)
            (\<lambda>d. d\<lparr>dev_Name := name, dev_UpdatedAt := now\<rparr>) (devices T)
      in Some (T\<lparr>devices := rows\<rparr>, n))"

definition UpdateDeviceName :: "instant \<Rightarrow> string \<Rightarrow> string \<Rightarrow> unit store" where
  "UpdateDeviceName now i name = requireAffected (exec (stmt_rename_device i name now)) ErrNotFound"

definition stmt_touch_device :: "string \<Rightarrow> instant \<Rightarrow> instant \<Rightarrow> tables stmt" where
  "stmt_touch_device i seen now T =
     (let (rows, n) = sql_update (\<lambda>d. dev_ID d = i)
            (\<lambda>d. d\<lparr>dev_LastSeenAt := Some seen, dev_UpdatedAt := now\<rparr>) (devices T)
      in Some (T\<lparr>devices := rows\<rparr>, n))"

definition TouchDevice :: "instant \<Rightarrow> string \<Rightarrow> instant \<Rightarrow> unit store" where
  "TouchDevice now i seenAt = requireAffected (exec (stmt_touch_device i seenAt now)) ErrNotFound"

section \<open>Terminal sessions\<close>

definition stmt_insert_session :: "TerminalSession \<Rightarrow> tables stmt" where
  "stmt_insert_session x T =
     (if ts_ID x \<in> ts_ID ` set (terminal_sessions T) \<or> ts_DeviceID x \<notin> dev_ID ` set (devices T) then None
      else Some (T\<lparr>terminal_sessions := terminal_sessions T @ [x]\<rparr>, 1))"

definition CreateTerminalSession :: "instant \<Rightarrow> TerminalSession \<Rightarrow> TerminalSession store" where
  "CreateTerminalSession now x0 =
     (let x1 = (if ts_CreatedAt x0 = zero_time then x0\<lparr>ts_CreatedAt := now\<rparr> else x0);
          x2 = (if ts_UpdatedAt x1 = zero_time then x1\<lparr>ts_UpdatedAt := now\<rparr> else x1)
      in bind (exec (stmt_insert_session x2)) (\<lambda>_. ok x2))"

definition session_by_id :: "string \<Rightarrow> tables \<Rightarrow> TerminalSession option" where
  "session_by_id i T = find (\<lambda>x. ts_ID x = i) (terminal_sessions T)"

definition GetTerminalSession :: "string \<Rightarrow> TerminalSession store" where
  "GetTerminalSession i = query_row ErrNotFound (session_by_id i)"

definition set_status :: "string \<Rightarrow> int \<Rightarrow> int \<Rightarrow> instant \<Rightarrow> TerminalSession \<Rightarrow> TerminalSession" where
  "set_status status pid seq now x =
     x\<lparr>ts_Status := status, ts_AgentPID := pid, ts_LastOutputSeq := seq, ts_UpdatedAt := now\<rparr>"

definition stmt_session_status :: "string \<Rightarrow> string \<Rightarrow> int \<Rightarrow> int \<Rightarrow> instant \<Rightarrow> tables stmt" where
  "stmt_session_status i status pid seq now T =
     (let (rows, n) = sql_update (\<lambda>x. ts_ID x = i) (set_status status pid seq now) (terminal_sessions T)
      in Some (T\<lparr>terminal_sessions := rows\<rparr>, n))"

definition UpdateTerminalSessionStatus :: "instant \<Rightarrow> string \<Rightarrow> string \<Rightarrow> int \<Rightarrow> int \<Rightarrow> unit store" where
  "UpdateTerminalSessionStatus now i status pid seq =
     requireAffected (exec (stmt_session_status i status pid seq now)) ErrNotFound"

definition stmt_session_title :: "string \<Rightarrow> string \<Rightarrow> instant \<Rightarrow> tables stmt" where
  "stmt_session_title i title now T =
     (let (rows, n) = sql_update (\<lambda>x. ts_ID x = i)
            (\<lambda>x. x\<lparr>ts_Title := title, ts_UpdatedAt := now\<rparr>) (terminal_sessions T)
      in Some (T\<lparr>terminal_sessions := rows\<rparr>, n))"

definition UpdateTerminalSessionTitle :: "instant \<Rightarrow> string \<Rightarrow> string \<Rightarrow> unit store" where
  "UpdateTerminalSessionTitle now i title = requireAffected (exec (stmt_session_title i title now)) ErrNotFound"

definition ListTerminalSessionsForDevice :: "string \<Rightarrow> TerminalSession list store" where
  "ListTerminalSessionsForDevice dev = query_rows (\<lambda>T. sort_key ts_CreatedAt
     (filter (\<lambda>x. ts_DeviceID x = dev \<and> ts_Status x \<noteq> SessionClosed) (terminal_sessions T)))"

section \<open>Output chunks\<close>

definition stmt_insert_chunk :: "OutputChunk \<Rightarrow> tables stmt" where
  "stmt_insert_chunk c T =
     (if oc_ID c \<in> oc_ID ` set (terminal_output_chunks T) \<or>
         oc_SessionID c \<notin> ts_ID ` set (terminal_sessions T) then None
      else Some (T\<lparr>terminal_output_chunks := terminal_output_chunks T @ [c]\<rparr>, 1))"

definition CreateOutputChunk :: "instant \<Rightarrow> OutputChunk \<Rightarrow> OutputChunk store" where
  "CreateOutputChunk now c0 =
     (let c = (if oc_CreatedAt c0 = zero_time then c0\<lparr>oc_CreatedAt := now\<rparr> else c0)
      in bind (exec (stmt_insert_chunk c)) (\<lambda>_. ok c))"

definition ListOutputChunks :: "string \<Rightarrow> OutputChunk list store" where
  "ListOutputChunks sid = query_rows (\<lambda>T. sort_key oc_StartSeq
     (filter (\<lambda>c. oc_SessionID c = sid) (terminal_output_chunks T)))"

section \<open>Command snippets\<close>

definition stmt_insert_snippet :: "CommandSnippet \<Rightarrow> tables stmt" where
  "stmt_insert_snippet c T =
     (if cs_ID c \<in> cs_ID ` set (command_snippets T) then None
      else Some (T\<lparr>command_snippets := command_snippets T @ [c]\<rparr>, 1))"

definition CreateCommandSnippet :: "instant \<Rightarrow> CommandSnippet \<Rightarrow> CommandSnippet store" where
  "CreateCommandSnippet now c0 =
     (let c1 = (if cs_CreatedAt c0 = zero_time then c0\<lparr>cs_CreatedAt := now\<rparr> else c0);
          c2 = (if cs_UpdatedAt c1 = zero_time then c1\<lparr>cs_UpdatedAt := now\<rparr> else c1)
      in bind (exec (stmt_insert_snippet c2)) (\<lambda>_. ok c2))"

definition GetCommandSnippet :: "string \<Rightarrow> CommandSnippet store" where
  "GetCommandSnippet i = query_row ErrNotFound (\<lambda>T. find (\<lambda>c. cs_ID c = i) (command_snippets T))"

definition ListCommandSnippets :: "CommandSnippet list store" where
  "ListCommandSnippets = query_rows (\<lambda>T. sort_key (\<lambda>c. (cs_CreatedAt c, cs_ID c)) (command_snippets T))"

definition edit_snippet :: "string \<Rightarrow> string \<Rightarrow> instant \<Rightarrow> CommandSnippet \<Rightarrow> CommandSnippet" where
  "edit_snippet name command now c = c\<lparr>cs_Name := name, cs_Command := command, cs_UpdatedAt := now\<rparr>"

definition stmt_update_snippet :: "string \<Rightarrow> string \<Rightarrow> string \<Rightarrow> instant \<Rightarrow> tables stmt" where
  "stmt_update_snippet i name command now T =
     (let (rows, n) = sql_update (\<lambda>c. cs_ID c = i) (edit_snippet name command now) (command_snippets T)
      in Some (T\<lparr>command_snippets := rows\<rparr>, n))"

definition UpdateCommandSnippet :: "instant \<Rightarrow> string \<Rightarrow> string \<Rightarrow> string \<Rightarrow> CommandSnippet store" where
  "UpdateCommandSnippet now i name command =
     bind (requireAffected (exec (stmt_update_snippet i name command now)) ErrNotFound) (\<lambda>_.
       GetCommandSnippet i)"

definition stmt_delete_snippet :: "string \<Rightarrow> tables stmt" where
  "stmt_delete_snippet i T =
     (let (rows, n) = sql_delete (\<lambda>c. cs_ID c = i) (command_snippets T)
      in Some (T\<lparr>command_snippets := rows\<rparr>, n))"

definition DeleteCommandSnippet :: "string \<Rightarrow> unit store" where
  "DeleteCommandSnippet i = requireAffected (exec (stmt_delete_snippet i)) ErrNotFound"

lemmas agent_stmts = stmt_insert_token_def stmt_revoke_token_def stmt_delete_token_def
  stmt_use_token_def stmt_insert_device_def stmt_rename_device_def stmt_touch_device_def
  stmt_insert_session_def stmt_session_status_def stmt_session_title_def stmt_insert_chunk_def
  stmt_insert_snippet_def stmt_update_snippet_def stmt_delete_snippet_def
  sql_update_def sql_delete_def

end
