(* ===== verification/StoreRuns.thy ===== *)
theory StoreRuns
  imports TwoFactorFacts AgentStore
begin

text \<open>
  Every operation of the store that changes the database, as one datatype, and runs of them: any
  interleaving of the requests of any number of server instances is such a run, because each
  operation is one statement or one transaction (\<^verbatim>\<open>DeleteRevokedAgentToken\<close>, a query followed
  by a statement, is taken as one step here). The invariants and the single-use guarantees hold for all runs.
\<close>

section \<open>Operations and runs\<close>

datatype store_op =
    OpCreateUser instant User
  | OpCreateLoginChallenge instant LoginChallenge
  | OpConsumeLogin ConsumeParams
  | OpSavePending instant UserTwoFactor
  | OpSavePendingIfUnchanged instant UserTwoFactor string
  | OpEnable string string int "RecoveryCodeInput list" instant
  | OpConsumeTOTP string string int instant
  | OpConsumeRecovery string string instant
  | OpReplaceCodes string string int "RecoveryCodeInput list" instant
  | OpDisable string
  | OpCreateToken instant CreateAgentTokenParams
  | OpRevokeToken string instant
  | OpDeleteToken string
  | OpUseToken string instant
  | OpCreateDevice instant Device
  | OpRenameDevice instant string string
  | OpTouchDevice instant string instant
  | OpCreateSession instant TerminalSession
  | OpSessionStatus instant string string int int
  | OpSessionTitle instant string string
  | OpAudit instant AuditEvent
  | OpCreateChunk instant OutputChunk
  | OpCreateSnippet instant CommandSnippet
  | OpUpdateSnippet instant string string string
  | OpDeleteSnippet string

definition void :: "'a store \<Rightarrow> unit store" where
  "void m = bind m (\<lambda>_. ok ())"

primrec apply_op :: "store_op \<Rightarrow> unit store" where
  "apply_op (OpCreateUser now u) = void (CreateUser now u)"
| "apply_op (OpCreateLoginChallenge now c) = CreateLoginChallenge now c"
| "apply_op (OpConsumeLogin p) = ConsumeLoginSecondFactor p"
| "apply_op (OpSavePending now x) = SavePendingTwoFactor now x"
| "apply_op (OpSavePendingIfUnchanged now x prev) = SavePendingTwoFactorIfUnchanged now x prev"
| "apply_op (OpEnable uid cfg c codes now) = EnableTwoFactor uid cfg c codes now"
| "apply_op (OpConsumeTOTP uid cfg c now) = ConsumeTOTPCounter uid cfg c now"
| "apply_op (OpConsumeRecovery uid h now) = ConsumeRecoveryCode uid h now"
| "apply_op (OpReplaceCodes uid cfg c codes now) = ReplaceRecoveryCodesAfterTOTP uid cfg c codes now"
| "apply_op (OpDisable uid) = DisableTwoFactor uid"
| "apply_op (OpCreateToken now p) = void (CreateAgentToken now p)"
| "apply_op (OpRevokeToken i now) = void (RevokeAgentToken i now)"
| "apply_op (OpDeleteToken i) = DeleteRevokedAgentToken i"
| "apply_op (OpUseToken h now) = void (UseAgentTokenByHash h now)"
| "apply_op (OpCreateDevice now d) = void (CreateDevice now d)"
| "apply_op (OpRenameDevice now i n) = UpdateDeviceName now i n"
| "apply_op (OpTouchDevice now i t) = TouchDevice now i t"
| "apply_op (OpCreateSession now x) = void (CreateTerminalSession now x)"
| "apply_op (OpSessionStatus now i st pid sq) = UpdateTerminalSessionStatus now i st pid sq"
| "apply_op (OpSessionTitle now i t) = UpdateTerminalSessionTitle now i t"
| "apply_op (OpAudit now e) = void (CreateAuditEvent now e)"
| "apply_op (OpCreateChunk now c) = void (CreateOutputChunk now c)"
| "apply_op (OpCreateSnippet now c) = void (CreateCommandSnippet now c)"
| "apply_op (OpUpdateSnippet now i n c) = void (UpdateCommandSnippet now i n c)"
| "apply_op (OpDeleteSnippet i) = DeleteCommandSnippet i"

fun run_ops :: "store_op list \<Rightarrow> tables conn \<Rightarrow> tables conn" where
  "run_ops [] s = s"
| "run_ops (x # xs) s = run_ops xs (snd (apply_op x s))"

lemma run_ops_preserves:
  "(\<And>x. x \<in> set xs \<Longrightarrow> preserves P (apply_op x)) \<Longrightarrow> P (contents s) \<Longrightarrow> P (contents (run_ops xs s))"
  by (induction xs arbitrary: s) (auto simp: preserves_def)

lemmas store_op_defs = void_def CreateUser_def CreateLoginChallenge_def ConsumeLoginSecondFactor_def
  SavePendingTwoFactor_def SavePendingTwoFactorIfUnchanged_def EnableTwoFactor_def
  ConsumeTOTPCounter_def ConsumeRecoveryCode_def ReplaceRecoveryCodesAfterTOTP_def
  DisableTwoFactor_def CreateAgentToken_def RevokeAgentToken_def DeleteRevokedAgentToken_def
  UseAgentTokenByHash_def CreateDevice_def UpdateDeviceName_def TouchDevice_def
  CreateTerminalSession_def UpdateTerminalSessionStatus_def UpdateTerminalSessionTitle_def
  CreateAuditEvent_def insertAuditEvent_def CreateOutputChunk_def CreateCommandSnippet_def
  UpdateCommandSnippet_def GetCommandSnippet_def DeleteCommandSnippet_def Let_def

section \<open>Preservation by statements carries over to operations\<close>

text \<open>The statements an operation may execute, with the rows it builds from its arguments.\<close>

definition stamped_challenge :: "instant \<Rightarrow> LoginChallenge \<Rightarrow> LoginChallenge" where
  "stamped_challenge now c = (if lc_CreatedAt c = zero_time then c\<lparr>lc_CreatedAt := now\<rparr> else c)"

lemma stamped_challenge_keys [simp]:
  "lc_JTI (stamped_challenge now c) = lc_JTI c" "lc_UserID (stamped_challenge now c) = lc_UserID c"
  "lc_ConfigurationID (stamped_challenge now c) = lc_ConfigurationID c"
  "lc_ExpiresAt (stamped_challenge now c) = lc_ExpiresAt c"
  by (simp_all add: stamped_challenge_def)

lemma normalizePending_keys [simp]:
  "tf_UserID (normalizePendingTwoFactor now x) = tf_UserID x"
  "tf_ConfigurationID (normalizePendingTwoFactor now x) = tf_ConfigurationID x"
  "tf_SetupExpiresAt (normalizePendingTwoFactor now x) = tf_SetupExpiresAt x"
  "tf_SecretCiphertext (normalizePendingTwoFactor now x) = tf_SecretCiphertext x"
  by (simp_all add: normalizePendingTwoFactor_def Let_def)

primrec op_stmts :: "store_op \<Rightarrow> tables stmt set" where
  "op_stmts (OpCreateUser now u) = range insert_user"
| "op_stmts (OpCreateLoginChallenge now c) =
     (let c' = stamped_challenge now c
      in {stmt_purge_expired (lc_CreatedAt c'), stmt_drop_active (lc_UserID c) (lc_CreatedAt c'),
          stmt_insert_challenge c'})"
| "op_stmts (OpConsumeLogin p) =
     {stmt_consume_challenge (cp_Now p) (cp_ChallengeJTI p) (cp_UserID p) (cp_ConfigurationID p),
      stmt_use_recovery (cp_Now p) (cp_UserID p) (cp_RecoveryHash p), insert_audit (cp_Audit p)} \<union>
     {stmt_bump_counter c (cp_Now p) (cp_UserID p) (cp_ConfigurationID p) | c. cp_TOTPCounter p = Some c}"
| "op_stmts (OpSavePending now x) = {stmt_upsert_pending (normalizePendingTwoFactor now x)}"
| "op_stmts (OpSavePendingIfUnchanged now x prev) =
     {stmt_insert_pending (normalizePendingTwoFactor now x),
      stmt_replace_pending (normalizePendingTwoFactor now x) prev}"
| "op_stmts (OpEnable uid cfg c codes now) =
     {stmt_enable uid cfg c now, stmt_delete_recovery uid} \<union> stmt_insert_recovery uid now ` set codes"
| "op_stmts (OpConsumeTOTP uid cfg c now) = {stmt_bump_counter c now uid cfg}"
| "op_stmts (OpConsumeRecovery uid h now) = {stmt_use_recovery now uid h}"
| "op_stmts (OpReplaceCodes uid cfg c codes now) =
     {stmt_bump_counter c now uid cfg, stmt_delete_recovery uid} \<union> stmt_insert_recovery uid now ` set codes"
| "op_stmts (OpDisable uid) = {stmt_delete_recovery uid, stmt_delete_enabled uid}"
| "op_stmts (OpCreateToken now p) =
     {stmt_insert_token t | t. tok_ID t = ctp_ID p \<and> tok_TokenHash t = ctp_TokenHash p}"
| "op_stmts (OpRevokeToken i now) = {stmt_revoke_token i now}"
| "op_stmts (OpDeleteToken i) = {stmt_delete_token i}"
| "op_stmts (OpUseToken h now) = {stmt_use_token i now | i. True}"
| "op_stmts (OpCreateDevice now d) = range stmt_insert_device"
| "op_stmts (OpRenameDevice now i n) = {stmt_rename_device i n now}"
| "op_stmts (OpTouchDevice now i t) = {stmt_touch_device i t now}"
| "op_stmts (OpCreateSession now x) = {stmt_insert_session y | y. ts_ID y = ts_ID x}"
| "op_stmts (OpSessionStatus now i st pid sq) = {stmt_session_status i st pid sq now}"
| "op_stmts (OpSessionTitle now i t) = {stmt_session_title i t now}"
| "op_stmts (OpAudit now e) = range insert_audit"
| "op_stmts (OpCreateChunk now c) = range stmt_insert_chunk"
| "op_stmts (OpCreateSnippet now c) = range stmt_insert_snippet"
| "op_stmts (OpUpdateSnippet now i n c) = {stmt_update_snippet i n c now}"
| "op_stmts (OpDeleteSnippet i) = {stmt_delete_snippet i}"

lemma insertRecoveryCodes_preserves:
  "(\<And>c. c \<in> set codes \<Longrightarrow> keeps P (stmt_insert_recovery uid now c)) \<Longrightarrow>
     preserves P (insertRecoveryCodes uid codes now)"
  by (induction codes) (auto intro!: keep)

lemma CreateLoginChallenge_stamped:
  "CreateLoginChallenge now c =
     (let c' = stamped_challenge now c
      in transaction
           (bind (exec (stmt_purge_expired (lc_CreatedAt c'))) (\<lambda>_.
            bind (exec (stmt_drop_active (lc_UserID c) (lc_CreatedAt c'))) (\<lambda>_.
            bind (exec (stmt_insert_challenge c')) (\<lambda>_. ok ())))))"
  by (simp add: CreateLoginChallenge_def stamped_challenge_def Let_def)

text \<open>An invariant kept by every statement of an operation is kept by the operation.\<close>

lemma op_preserves:
  assumes "\<And>st. st \<in> op_stmts x \<Longrightarrow> keeps P st"
  shows "preserves P (apply_op x)"
proof -
  have *: "\<forall>st \<in> op_stmts x. keeps P st" using assms by blast
  show ?thesis
  proof (cases x)
    case (OpCreateLoginChallenge now c)
    with * show ?thesis by (simp add: CreateLoginChallenge_stamped Let_def) (intro keep; simp)
  next
    case (OpConsumeLogin p)
    have "preserves P (insertAuditEvent (cp_Audit p))"
      using * OpConsumeLogin unfolding insertAuditEvent_def by (intro keep) simp_all
    with * OpConsumeLogin show ?thesis
      by (cases "cp_TOTPCounter p")
        (simp_all add: ConsumeLoginSecondFactor_def Let_def cong: if_cong, (intro keep conjI impI; simp)+)
  next
    case (OpCreateToken now p)
    then have "keeps P (stmt_insert_token t)" if "tok_ID t = ctp_ID p" "tok_TokenHash t = ctp_TokenHash p" for t
      using * that by auto
    then show ?thesis unfolding OpCreateToken apply_op.simps store_op_defs by (intro keep) auto
  next
    case (OpCreateSession now y)
    then have "keeps P (stmt_insert_session z)" if "ts_ID z = ts_ID y" for z
      using * that by auto
    then show ?thesis unfolding OpCreateSession apply_op.simps store_op_defs by (intro keep) auto
  next
    case (OpUseToken h now)
    then have "keeps P (stmt_use_token i now)" for i using * by auto
    then show ?thesis unfolding OpUseToken apply_op.simps store_op_defs by (intro keep) auto
  next
    case (OpCreateUser now u)
    with * show ?thesis unfolding OpCreateUser apply_op.simps op_stmts.simps store_op_defs
      by (intro keep insertRecoveryCodes_preserves) auto
  next
    case (OpSavePending now y)
    with * show ?thesis unfolding OpSavePending apply_op.simps op_stmts.simps store_op_defs
      by (intro keep insertRecoveryCodes_preserves) auto
  next
    case (OpSavePendingIfUnchanged now y prev)
    with * show ?thesis unfolding OpSavePendingIfUnchanged apply_op.simps op_stmts.simps store_op_defs
      by (intro keep insertRecoveryCodes_preserves) auto
  next
    case (OpEnable uid cfg c codes now)
    with * show ?thesis unfolding OpEnable apply_op.simps op_stmts.simps store_op_defs
      by (intro keep insertRecoveryCodes_preserves) auto
  next
    case (OpConsumeTOTP uid cfg c now)
    with * show ?thesis unfolding OpConsumeTOTP apply_op.simps op_stmts.simps store_op_defs
      by (intro keep insertRecoveryCodes_preserves) auto
  next
    case (OpConsumeRecovery uid h now)
    with * show ?thesis unfolding OpConsumeRecovery apply_op.simps op_stmts.simps store_op_defs
      by (intro keep insertRecoveryCodes_preserves) auto
  next
    case (OpReplaceCodes uid cfg c codes now)
    with * show ?thesis unfolding OpReplaceCodes apply_op.simps op_stmts.simps store_op_defs
      by (intro keep insertRecoveryCodes_preserves) auto
  next
    case (OpDisable uid)
    with * show ?thesis unfolding OpDisable apply_op.simps op_stmts.simps store_op_defs
      by (intro keep insertRecoveryCodes_preserves) auto
  next
    case (OpRevokeToken i now)
    with * show ?thesis unfolding OpRevokeToken apply_op.simps op_stmts.simps store_op_defs
      by (intro keep insertRecoveryCodes_preserves) auto
  next
    case (OpDeleteToken i)
    with * show ?thesis unfolding OpDeleteToken apply_op.simps op_stmts.simps store_op_defs
      by (intro keep insertRecoveryCodes_preserves) auto
  next
    case (OpCreateDevice now d)
    with * show ?thesis unfolding OpCreateDevice apply_op.simps op_stmts.simps store_op_defs
      by (intro keep insertRecoveryCodes_preserves) auto
  next
    case (OpRenameDevice now i n)
    with * show ?thesis unfolding OpRenameDevice apply_op.simps op_stmts.simps store_op_defs
      by (intro keep insertRecoveryCodes_preserves) auto
  next
    case (OpTouchDevice now i t)
    with * show ?thesis unfolding OpTouchDevice apply_op.simps op_stmts.simps store_op_defs
      by (intro keep insertRecoveryCodes_preserves) auto
  next
    case (OpSessionStatus now i st pid sq)
    with * show ?thesis unfolding OpSessionStatus apply_op.simps op_stmts.simps store_op_defs
      by (intro keep insertRecoveryCodes_preserves) auto
  next
    case (OpSessionTitle now i t)
    with * show ?thesis unfolding OpSessionTitle apply_op.simps op_stmts.simps store_op_defs
      by (intro keep insertRecoveryCodes_preserves) auto
  next
    case (OpAudit now e)
    with * show ?thesis unfolding OpAudit apply_op.simps op_stmts.simps store_op_defs
      by (intro keep insertRecoveryCodes_preserves) auto
  next
    case (OpCreateChunk now c)
    with * show ?thesis unfolding OpCreateChunk apply_op.simps op_stmts.simps store_op_defs
      by (intro keep insertRecoveryCodes_preserves) auto
  next
    case (OpCreateSnippet now c)
    with * show ?thesis unfolding OpCreateSnippet apply_op.simps op_stmts.simps store_op_defs
      by (intro keep insertRecoveryCodes_preserves) auto
  next
    case (OpUpdateSnippet now i n c)
    then have "keeps P (stmt_update_snippet i n c now)" using * by simp
    then show ?thesis unfolding OpUpdateSnippet apply_op.simps store_op_defs
      by (intro preserves_bind preserves_requireAffected preserves_exec preserves_query_row preserves_ok)
  next
    case (OpDeleteSnippet i)
    with * show ?thesis unfolding OpDeleteSnippet apply_op.simps op_stmts.simps store_op_defs
      by (intro keep insertRecoveryCodes_preserves) auto
  qed
qed

lemma runs_preserve:
  assumes "\<And>x st. x \<in> set xs \<Longrightarrow> st \<in> op_stmts x \<Longrightarrow> keeps P st" and "P (contents s)"
  shows "P (contents (run_ops xs s))"
proof (rule run_ops_preserves)
  show "preserves P (apply_op x)" if "x \<in> set xs" for x
    using assms(1) that by (intro op_preserves)
qed (rule assms(2))

section \<open>What a statement leaves alone\<close>

definition untouched :: "(tables \<Rightarrow> 'x) \<Rightarrow> tables stmt \<Rightarrow> bool" where
  "untouched f st \<longleftrightarrow> (\<forall>T T' n. st T = Some (T', n) \<longrightarrow> f T' = f T)"

lemma untouchedI: "(\<And>T T' n. st T = Some (T', n) \<Longrightarrow> f T' = f T) \<Longrightarrow> untouched f st"
  by (auto simp: untouched_def)

lemma untouched_keeps: "untouched f st \<Longrightarrow> (\<And>T T'. f T' = f T \<Longrightarrow> P T \<Longrightarrow> P T') \<Longrightarrow> keeps P st"
  by (auto simp: untouched_def keeps_def)

lemmas stmt_frame_defs = two_factor_stmts agent_stmts insert_user_def insert_audit_def Let_def

lemma untouched_login_challenges [simp]:
  "untouched login_challenges (insert_user u)"
  "untouched login_challenges (stmt_bump_counter c now uid cfg)"
  "untouched login_challenges (stmt_use_recovery now uid h)"
  "untouched login_challenges (stmt_upsert_pending x)"
  "untouched login_challenges (stmt_insert_pending x)"
  "untouched login_challenges (stmt_replace_pending x prev)"
  "untouched login_challenges (stmt_enable uid cfg c now)"
  "untouched login_challenges (stmt_delete_recovery uid)"
  "untouched login_challenges (stmt_insert_recovery uid now code)"
  "untouched login_challenges (stmt_delete_enabled uid)"
  "untouched login_challenges (stmt_insert_token t)"
  "untouched login_challenges (stmt_revoke_token i now)"
  "untouched login_challenges (stmt_delete_token i)"
  "untouched login_challenges (stmt_use_token i now)"
  "untouched login_challenges (stmt_insert_device d)"
  "untouched login_challenges (stmt_rename_device i name now)"
  "untouched login_challenges (stmt_touch_device i seen now)"
  "untouched login_challenges (stmt_insert_session ses)"
  "untouched login_challenges (stmt_session_status i st pid sq now)"
  "untouched login_challenges (stmt_session_title i title now)"
  "untouched login_challenges (insert_audit e)"
  "untouched login_challenges (stmt_insert_chunk oc)"
  "untouched login_challenges (stmt_insert_snippet sn)"
  "untouched login_challenges (stmt_update_snippet i name cmd now)"
  "untouched login_challenges (stmt_delete_snippet i)"
  by (rule untouchedI, auto simp: stmt_frame_defs split: if_splits)+

lemma untouched_user_two_factor [simp]:
  "untouched user_two_factor (insert_user u)"
  "untouched user_two_factor (stmt_purge_expired now)"
  "untouched user_two_factor (stmt_drop_active uid now)"
  "untouched user_two_factor (stmt_insert_challenge ch)"
  "untouched user_two_factor (stmt_consume_challenge now jti uid cfg)"
  "untouched user_two_factor (stmt_use_recovery now uid h)"
  "untouched user_two_factor (stmt_delete_recovery uid)"
  "untouched user_two_factor (stmt_insert_recovery uid now code)"
  "untouched user_two_factor (stmt_insert_token t)"
  "untouched user_two_factor (stmt_revoke_token i now)"
  "untouched user_two_factor (stmt_delete_token i)"
  "untouched user_two_factor (stmt_use_token i now)"
  "untouched user_two_factor (stmt_insert_device d)"
  "untouched user_two_factor (stmt_rename_device i name now)"
  "untouched user_two_factor (stmt_touch_device i seen now)"
  "untouched user_two_factor (stmt_insert_session ses)"
  "untouched user_two_factor (stmt_session_status i st pid sq now)"
  "untouched user_two_factor (stmt_session_title i title now)"
  "untouched user_two_factor (insert_audit e)"
  "untouched user_two_factor (stmt_insert_chunk oc)"
  "untouched user_two_factor (stmt_insert_snippet sn)"
  "untouched user_two_factor (stmt_update_snippet i name cmd now)"
  "untouched user_two_factor (stmt_delete_snippet i)"
  by (rule untouchedI, auto simp: stmt_frame_defs split: if_splits)+

lemma untouched_two_factor_recovery_codes [simp]:
  "untouched two_factor_recovery_codes (insert_user u)"
  "untouched two_factor_recovery_codes (stmt_purge_expired now)"
  "untouched two_factor_recovery_codes (stmt_drop_active uid now)"
  "untouched two_factor_recovery_codes (stmt_insert_challenge ch)"
  "untouched two_factor_recovery_codes (stmt_consume_challenge now jti uid cfg)"
  "untouched two_factor_recovery_codes (stmt_bump_counter c now uid cfg)"
  "untouched two_factor_recovery_codes (stmt_upsert_pending x)"
  "untouched two_factor_recovery_codes (stmt_insert_pending x)"
  "untouched two_factor_recovery_codes (stmt_replace_pending x prev)"
  "untouched two_factor_recovery_codes (stmt_enable uid cfg c now)"
  "untouched two_factor_recovery_codes (stmt_delete_enabled uid)"
  "untouched two_factor_recovery_codes (stmt_insert_token t)"
  "untouched two_factor_recovery_codes (stmt_revoke_token i now)"
  "untouched two_factor_recovery_codes (stmt_delete_token i)"
  "untouched two_factor_recovery_codes (stmt_use_token i now)"
  "untouched two_factor_recovery_codes (stmt_insert_device d)"
  "untouched two_factor_recovery_codes (stmt_rename_device i name now)"
  "untouched two_factor_recovery_codes (stmt_touch_device i seen now)"
  "untouched two_factor_recovery_codes (stmt_insert_session ses)"
  "untouched two_factor_recovery_codes (stmt_session_status i st pid sq now)"
  "untouched two_factor_recovery_codes (stmt_session_title i title now)"
  "untouched two_factor_recovery_codes (insert_audit e)"
  "untouched two_factor_recovery_codes (stmt_insert_chunk oc)"
  "untouched two_factor_recovery_codes (stmt_insert_snippet sn)"
  "untouched two_factor_recovery_codes (stmt_update_snippet i name cmd now)"
  "untouched two_factor_recovery_codes (stmt_delete_snippet i)"
  by (rule untouchedI, auto simp: stmt_frame_defs split: if_splits)+

lemma untouched_agent_tokens [simp]:
  "untouched agent_tokens (insert_user u)"
  "untouched agent_tokens (stmt_purge_expired now)"
  "untouched agent_tokens (stmt_drop_active uid now)"
  "untouched agent_tokens (stmt_insert_challenge ch)"
  "untouched agent_tokens (stmt_consume_challenge now jti uid cfg)"
  "untouched agent_tokens (stmt_bump_counter c now uid cfg)"
  "untouched agent_tokens (stmt_use_recovery now uid h)"
  "untouched agent_tokens (stmt_upsert_pending x)"
  "untouched agent_tokens (stmt_insert_pending x)"
  "untouched agent_tokens (stmt_replace_pending x prev)"
  "untouched agent_tokens (stmt_enable uid cfg c now)"
  "untouched agent_tokens (stmt_delete_recovery uid)"
  "untouched agent_tokens (stmt_insert_recovery uid now code)"
  "untouched agent_tokens (stmt_delete_enabled uid)"
  "untouched agent_tokens (stmt_insert_device d)"
  "untouched agent_tokens (stmt_rename_device i name now)"
  "untouched agent_tokens (stmt_touch_device i seen now)"
  "untouched agent_tokens (stmt_insert_session ses)"
  "untouched agent_tokens (stmt_session_status i st pid sq now)"
  "untouched agent_tokens (stmt_session_title i title now)"
  "untouched agent_tokens (insert_audit e)"
  "untouched agent_tokens (stmt_insert_chunk oc)"
  "untouched agent_tokens (stmt_insert_snippet sn)"
  "untouched agent_tokens (stmt_update_snippet i name cmd now)"
  "untouched agent_tokens (stmt_delete_snippet i)"
  by (rule untouchedI, auto simp: stmt_frame_defs split: if_splits)+

lemma untouched_users [simp]:
  "untouched users (stmt_purge_expired now)"
  "untouched users (stmt_drop_active uid now)"
  "untouched users (stmt_insert_challenge ch)"
  "untouched users (stmt_consume_challenge now jti uid cfg)"
  "untouched users (stmt_bump_counter c now uid cfg)"
  "untouched users (stmt_use_recovery now uid h)"
  "untouched users (stmt_upsert_pending x)"
  "untouched users (stmt_insert_pending x)"
  "untouched users (stmt_replace_pending x prev)"
  "untouched users (stmt_enable uid cfg c now)"
  "untouched users (stmt_delete_recovery uid)"
  "untouched users (stmt_insert_recovery uid now code)"
  "untouched users (stmt_delete_enabled uid)"
  "untouched users (stmt_insert_token t)"
  "untouched users (stmt_revoke_token i now)"
  "untouched users (stmt_delete_token i)"
  "untouched users (stmt_use_token i now)"
  "untouched users (stmt_insert_device d)"
  "untouched users (stmt_rename_device i name now)"
  "untouched users (stmt_touch_device i seen now)"
  "untouched users (stmt_insert_session ses)"
  "untouched users (stmt_session_status i st pid sq now)"
  "untouched users (stmt_session_title i title now)"
  "untouched users (insert_audit e)"
  "untouched users (stmt_insert_chunk oc)"
  "untouched users (stmt_insert_snippet sn)"
  "untouched users (stmt_update_snippet i name cmd now)"
  "untouched users (stmt_delete_snippet i)"
  by (rule untouchedI, auto simp: stmt_frame_defs split: if_splits)+

end
