(* ===== verification/StoreSafety.thy ===== *)
theory StoreSafety
  imports StoreRuns
begin

text \<open>
  Invariants of the database that hold in every run of the store's operations, whatever fails:
  the declared constraints, and the shape of two-factor settings.
\<close>

section \<open>Declared constraints\<close>

text \<open>The constraints only speak of the key columns, and no update writes one.\<close>

definition key_columns where
  "key_columns T =
     ((map u_ID (users T), map u_Username (users T), map tf_UserID (user_two_factor T)),
      map (\<lambda>r. (rc_ID r, rc_UserID r, rc_CodeHash r)) (two_factor_recovery_codes T),
      map (\<lambda>r. (lc_JTI r, lc_UserID r)) (login_challenges T),
      map (\<lambda>r. (tok_ID r, tok_TokenHash r)) (agent_tokens T), map dev_ID (devices T),
      map (\<lambda>r. (ts_ID r, ts_DeviceID r)) (terminal_sessions T), map ae_ID (audit_events T),
      map (\<lambda>r. (oc_ID r, oc_SessionID r)) (terminal_output_chunks T), map cs_ID (command_snippets T))"

text \<open>\<open>wf_tables\<close> as a predicate of the key columns.\<close>

definition wf_columns where
  "wf_columns C =
     (case C of ((us, names, tfs), rcs, lcs, toks, devs, tss, aes, ocs, css) \<Rightarrow>
        distinct us \<and> distinct names \<and> distinct tfs \<and> (\<forall>u \<in> set tfs. u \<in> set us) \<and>
        distinct (map fst rcs) \<and> distinct (map snd rcs) \<and> (\<forall>r \<in> set rcs. fst (snd r) \<in> set us) \<and>
        distinct (map fst lcs) \<and> (\<forall>r \<in> set lcs. snd r \<in> set us) \<and>
        distinct (map fst toks) \<and> distinct (map snd toks) \<and> distinct devs \<and>
        distinct (map fst tss) \<and> (\<forall>r \<in> set tss. snd r \<in> set devs) \<and> distinct aes \<and>
        distinct (map fst ocs) \<and> (\<forall>r \<in> set ocs. snd r \<in> fst ` set tss) \<and> distinct css)"

lemma wf_tables_columns: "wf_tables T \<longleftrightarrow> wf_columns (key_columns T)"
  by (simp add: wf_tables_def wf_columns_def key_columns_def o_def image_image)

lemma wf_keepsI: "(\<And>T T' n. st T = Some (T', n) \<Longrightarrow> key_columns T' = key_columns T) \<Longrightarrow> keeps wf_tables st"
  by (auto simp: keeps_def wf_tables_columns)

lemma wf_keeps_updates:
  "keeps wf_tables (stmt_consume_challenge now jti uid cfg)"
  "keeps wf_tables (stmt_bump_counter c now uid cfg)"
  "keeps wf_tables (stmt_use_recovery now uid h)"
  "keeps wf_tables (stmt_replace_pending x prev)"
  "keeps wf_tables (stmt_enable uid cfg c now)"
  "keeps wf_tables (stmt_revoke_token i now)"
  "keeps wf_tables (stmt_use_token i now)"
  "keeps wf_tables (stmt_rename_device i name now)"
  "keeps wf_tables (stmt_touch_device i seen now)"
  "keeps wf_tables (stmt_session_status i st pid sq now)"
  "keeps wf_tables (stmt_session_title i title now)"
  "keeps wf_tables (stmt_update_snippet i name cmd now)"
  by (rule wf_keepsI, auto simp: two_factor_stmts agent_stmts key_columns_def replace_pending_def
      set_status_def edit_snippet_def)+

lemma wf_keeps_deletes:
  "keeps wf_tables (stmt_purge_expired now)"
  "keeps wf_tables (stmt_drop_active uid now)"
  "keeps wf_tables (stmt_delete_recovery uid)"
  "keeps wf_tables (stmt_delete_enabled uid)"
  "keeps wf_tables (stmt_delete_token i)"
  "keeps wf_tables (stmt_delete_snippet i)"
  by (auto simp: keeps_def Let_def two_factor_stmts agent_stmts wf_tables_def distinct_map_filter')

lemma wf_keeps_inserts:
  "keeps wf_tables (insert_user u)"
  "keeps wf_tables (stmt_insert_challenge ch)"
  "keeps wf_tables (stmt_insert_pending x)"
  "keeps wf_tables (stmt_insert_recovery uid now code)"
  "keeps wf_tables (stmt_insert_token t)"
  "keeps wf_tables (stmt_insert_device d)"
  "keeps wf_tables (stmt_insert_session ses)"
  "keeps wf_tables (insert_audit e)"
  "keeps wf_tables (stmt_insert_chunk oc)"
  "keeps wf_tables (stmt_insert_snippet sn)"
  by (auto simp: keeps_def insert_user_def insert_audit_def two_factor_stmts agent_stmts wf_tables_def
      pending_row_def recovery_row_def split: if_splits)

lemma wf_keeps_upsert: "keeps wf_tables (stmt_upsert_pending x)"
proof (rule keepsI)
  fix T T' n
  assume wf: "wf_tables T" and st: "stmt_upsert_pending x T = Some (T', n)"
  show "wf_tables T'"
  proof (cases "tf_UserID x \<in> tf_UserID ` set (user_two_factor T)")
    case True
    with st have "key_columns T' = key_columns T"
      by (auto simp: stmt_upsert_pending_def sql_update_def key_columns_def replace_pending_def)
    then show ?thesis using wf by (simp add: wf_tables_columns)
  next
    case False
    with wf st show ?thesis
      by (auto simp: stmt_upsert_pending_def wf_tables_def pending_row_def split: if_splits)
  qed
qed

lemma wf_keeps_stmts: "st \<in> op_stmts x \<Longrightarrow> keeps wf_tables st"
  by (cases x) (auto simp: Let_def wf_keeps_updates wf_keeps_deletes wf_keeps_inserts wf_keeps_upsert)

lemma distinct_key: "distinct (map f xs) \<Longrightarrow> a \<in> set xs \<Longrightarrow> b \<in> set xs \<Longrightarrow> f a = f b \<Longrightarrow> a = b"
  by (auto simp: distinct_map dest: inj_onD)

lemma wf_unique:
  assumes "wf_tables T"
  shows "r \<in> set (login_challenges T) \<Longrightarrow> q \<in> set (login_challenges T) \<Longrightarrow> lc_JTI q = lc_JTI r \<Longrightarrow> q = r"
    and "x \<in> set (user_two_factor T) \<Longrightarrow> y \<in> set (user_two_factor T) \<Longrightarrow> tf_UserID y = tf_UserID x \<Longrightarrow> y = x"
    and "t \<in> set (agent_tokens T) \<Longrightarrow> u \<in> set (agent_tokens T) \<Longrightarrow> tok_ID u = tok_ID t \<Longrightarrow> u = t"
    and "t \<in> set (agent_tokens T) \<Longrightarrow> u \<in> set (agent_tokens T) \<Longrightarrow> tok_TokenHash u = tok_TokenHash t \<Longrightarrow> u = t"
proof -
  have d: "distinct (map lc_JTI (login_challenges T))" "distinct (map tf_UserID (user_two_factor T))"
    "distinct (map tok_ID (agent_tokens T))" "distinct (map tok_TokenHash (agent_tokens T))"
    using assms unfolding wf_tables_def by blast+
  show "r \<in> set (login_challenges T) \<Longrightarrow> q \<in> set (login_challenges T) \<Longrightarrow> lc_JTI q = lc_JTI r \<Longrightarrow> q = r"
    by (rule distinct_key [OF d(1)])
  show "x \<in> set (user_two_factor T) \<Longrightarrow> y \<in> set (user_two_factor T) \<Longrightarrow> tf_UserID y = tf_UserID x \<Longrightarrow> y = x"
    by (rule distinct_key [OF d(2)])
  show "t \<in> set (agent_tokens T) \<Longrightarrow> u \<in> set (agent_tokens T) \<Longrightarrow> tok_ID u = tok_ID t \<Longrightarrow> u = t"
    by (rule distinct_key [OF d(3)])
  show "t \<in> set (agent_tokens T) \<Longrightarrow> u \<in> set (agent_tokens T) \<Longrightarrow> tok_TokenHash u = tok_TokenHash t \<Longrightarrow> u = t"
    by (rule distinct_key [OF d(4)])
qed

end
