(* ===== verification/SingleUse.thy ===== *)
theory SingleUse
  imports StoreSafety
begin

text \<open>
  Credentials that work once: TOTP counters, login challenges, recovery codes and registration
  tokens. Each is the same argument, made once in the locale \<open>single_use\<close>: the first use leaves the
  credential spent, no operation but a renewal makes it unspent, and a spent credential is refused,
  whatever operations of whatever requests come in between and whatever fails.
\<close>

section \<open>The contract\<close>

locale single_use =
  fixes first later renews :: "store_op \<Rightarrow> bool"
    and spent :: "tables \<Rightarrow> bool"
  assumes spends: "first x \<Longrightarrow> wf_tables (contents s) \<Longrightarrow> apply_op x s = (Inr (), s') \<Longrightarrow> spent (contents s')"
    and stays_spent: "\<not> renews x \<Longrightarrow> st \<in> op_stmts x \<Longrightarrow> keeps spent st"
    and refuses: "later x \<Longrightarrow> spent (contents s) \<Longrightarrow> \<exists>e. fst (apply_op x s) = Inl e"
begin

lemma spent_after_run:
  assumes "spent (contents s)" and "\<forall>y \<in> set ys. \<not> renews y"
  shows "spent (contents (run_ops ys s))"
proof (rule runs_preserve)
  show "keeps spent st" if "y \<in> set ys" "st \<in> op_stmts y" for y st
    using stays_spent assms(2) that by blast
qed (rule assms(1))

lemma no_second_use:
  assumes "wf_tables (contents s)" and "first x" and "fst (apply_op x s) = Inr ()"
    and "\<forall>y \<in> set ys. \<not> renews y" and "later z"
  shows "\<exists>e. fst (apply_op z (run_ops ys (snd (apply_op x s)))) = Inl e"
proof -
  have "apply_op x s = (Inr (), snd (apply_op x s))" using assms(3) by (simp add: prod_eq_iff)
  then have "spent (contents (snd (apply_op x s)))" using spends assms(1,2) by blast
  then show ?thesis using refuses spent_after_run assms(4,5) by blast
qed

end

lemma not_Inr_Inl: "(\<And>s'. m s \<noteq> (Inr (), s')) \<Longrightarrow> \<exists>e. fst (m s) = Inl e"
  by (cases "m s"; cases "fst (m s)") auto

section \<open>Login challenges\<close>

definition consumes_challenge :: "string \<Rightarrow> store_op \<Rightarrow> bool" where
  "consumes_challenge jti x \<longleftrightarrow> (\<exists>p. x = OpConsumeLogin p \<and> cp_ChallengeJTI p = jti)"

definition creates_challenge :: "string \<Rightarrow> store_op \<Rightarrow> bool" where
  "creates_challenge jti x \<longleftrightarrow> (\<exists>now c. x = OpCreateLoginChallenge now c \<and> lc_JTI c = jti)"

definition challenge_spent :: "string \<Rightarrow> tables \<Rightarrow> bool" where
  "challenge_spent jti T \<longleftrightarrow> (\<forall>r \<in> set (login_challenges T). lc_JTI r = jti \<longrightarrow> lc_ConsumedAt r \<noteq> None)"

lemma challenge_spent_frame: "untouched login_challenges st \<Longrightarrow> keeps (challenge_spent jti) st"
  by (erule untouched_keeps) (simp add: challenge_spent_def)

lemma challenge_spent_stmts:
  "keeps (challenge_spent jti) (stmt_purge_expired now)"
  "keeps (challenge_spent jti) (stmt_drop_active uid now)"
  "keeps (challenge_spent jti) (stmt_consume_challenge now j uid cfg)"
  "lc_JTI c \<noteq> jti \<Longrightarrow> keeps (challenge_spent jti) (stmt_insert_challenge c)"
  by (rule keepsI, auto simp: challenge_spent_def two_factor_stmts Let_def split: if_splits)+

lemma challenge_spent_stable:
  "\<not> creates_challenge jti x \<Longrightarrow> st \<in> op_stmts x \<Longrightarrow> keeps (challenge_spent jti) st"
  by (cases x) (auto simp: creates_challenge_def Let_def challenge_spent_stmts challenge_spent_frame)

lemma consume_spends:
  assumes "\<forall>q \<in> set (login_challenges T). lc_JTI q = cp_ChallengeJTI p \<longrightarrow>
    lc_UserID q = cp_UserID p \<and> lc_ConfigurationID q = cp_ConfigurationID p \<and> cp_Now p \<le> lc_ExpiresAt q"
  shows "challenge_spent (cp_ChallengeJTI p) (consume_effect p T)"
proof -
  have "login_challenges (consume_effect p T) = consumed_challenges p (login_challenges T)"
    by (simp add: consume_effect_def)
  then show ?thesis using assms by (auto simp: challenge_spent_def consumed_challenges_def)
qed

interpretation challenge: single_use "consumes_challenge jti" "consumes_challenge jti"
  "creates_challenge jti" "challenge_spent jti" for jti
proof unfold_locales
  fix x and s s' :: "tables conn"
  assume x: "consumes_challenge jti x" and wf: "wf_tables (contents s)" and su: "apply_op x s = (Inr (), s')"
  then obtain p where p: "x = OpConsumeLogin p" "cp_ChallengeJTI p = jti" by (auto simp: consumes_challenge_def)
  with su have "ConsumeLoginSecondFactor p s = (Inr (), s')" by simp
  then have live: "challenge_live p (contents s)" and eff: "contents s' = consume_effect p (contents s)"
    using ConsumeLoginSecondFactor_success by blast+
  from live obtain r where r: "r \<in> set (login_challenges (contents s))" "lc_JTI r = jti"
    "lc_UserID r = cp_UserID p" "lc_ConfigurationID r = cp_ConfigurationID p" "cp_Now p \<le> lc_ExpiresAt r"
    by (auto simp: challenge_live_def p)
  have "lc_UserID q = cp_UserID p \<and> lc_ConfigurationID q = cp_ConfigurationID p \<and> cp_Now p \<le> lc_ExpiresAt q"
    if "q \<in> set (login_challenges (contents s))" "lc_JTI q = jti" for q
    using wf_unique(1) [OF wf r(1) that(1)] r that(2) by simp
  then have "challenge_spent jti (consume_effect p (contents s))"
    unfolding p(2) [symmetric] by (intro consume_spends) blast
  then show "challenge_spent jti (contents s')" by (simp only: eff)
next
  show "\<not> creates_challenge jti x \<Longrightarrow> st \<in> op_stmts x \<Longrightarrow> keeps (challenge_spent jti) st" for x st
    by (rule challenge_spent_stable)
next
  fix x and s :: "tables conn"
  assume "consumes_challenge jti x" and sp: "challenge_spent jti (contents s)"
  then obtain p where p: "x = OpConsumeLogin p" "cp_ChallengeJTI p = jti" by (auto simp: consumes_challenge_def)
  have "\<not> challenge_live p (contents s)" using sp p by (auto simp: challenge_live_def challenge_spent_def)
  then have "ConsumeLoginSecondFactor p s \<noteq> (Inr (), s')" for s' using ConsumeLoginSecondFactor_success by blast
  then show "\<exists>e. fst (apply_op x s) = Inl e" using p by (intro not_Inr_Inl) simp
qed

section \<open>TOTP counters\<close>

text \<open>
  \<open>accepts_counter uid cfg c x\<close>: the operation spends the TOTP counter \<open>c\<close> of the user's configuration,
  to confirm a setup, to log in, or to manage the setting.
\<close>

definition accepts_counter :: "string \<Rightarrow> string \<Rightarrow> int \<Rightarrow> store_op \<Rightarrow> bool" where
  "accepts_counter uid cfg c x \<longleftrightarrow>
     (\<exists>now. x = OpConsumeTOTP uid cfg c now) \<or>
     (\<exists>p. x = OpConsumeLogin p \<and> cp_UserID p = uid \<and> cp_ConfigurationID p = cfg \<and> cp_TOTPCounter p = Some c) \<or>
     (\<exists>codes now. x = OpReplaceCodes uid cfg c codes now) \<or> (\<exists>codes now. x = OpEnable uid cfg c codes now)"

definition accepts_upto :: "string \<Rightarrow> string \<Rightarrow> int \<Rightarrow> store_op \<Rightarrow> bool" where
  "accepts_upto uid cfg c x \<longleftrightarrow> (\<exists>d \<le> c. accepts_counter uid cfg d x)"

definition saves_config :: "string \<Rightarrow> string \<Rightarrow> store_op \<Rightarrow> bool" where
  "saves_config uid cfg x \<longleftrightarrow>
     (\<exists>now y. (x = OpSavePending now y \<or> (\<exists>prev. x = OpSavePendingIfUnchanged now y prev)) \<and>
            tf_UserID y = uid \<and> tf_ConfigurationID y = cfg)"

definition counter_spent :: "string \<Rightarrow> string \<Rightarrow> int \<Rightarrow> tables \<Rightarrow> bool" where
  "counter_spent uid cfg c T \<longleftrightarrow>
     (\<forall>r \<in> set (user_two_factor T). tf_UserID r = uid \<longrightarrow> tf_ConfigurationID r = cfg \<longrightarrow>
        tf_EnabledAt r \<noteq> None \<and> \<not> counter_open r c)"

lemma counter_open_mono: "counter_open r d \<Longrightarrow> d \<le> c \<Longrightarrow> counter_open r c"
  by (auto simp: counter_open_def split: option.splits)

lemma counter_spent_frame: "untouched user_two_factor st \<Longrightarrow> keeps (counter_spent uid cfg c) st"
  by (erule untouched_keeps) (simp add: counter_spent_def)

lemma counter_spent_stmts:
  "keeps (counter_spent uid cfg c) (stmt_bump_counter d now u g)"
  "keeps (counter_spent uid cfg c) (stmt_enable u g d now)"
  "keeps (counter_spent uid cfg c) (stmt_delete_enabled u)"
  by (rule keepsI, fastforce simp: counter_spent_def counter_open_def two_factor_stmts split: option.splits if_splits)+

lemma counter_spent_pending:
  assumes "\<not> (tf_UserID y = uid \<and> tf_ConfigurationID y = cfg)"
  shows "keeps (counter_spent uid cfg c) (stmt_upsert_pending y)"
    and "keeps (counter_spent uid cfg c) (stmt_insert_pending y)"
    and "keeps (counter_spent uid cfg c) (stmt_replace_pending y prev)"
  using assms
  by (auto simp: keeps_def counter_spent_def stmt_upsert_pending_def stmt_insert_pending_def
      stmt_replace_pending_def sql_update_def replace_pending_def pending_row_def counter_open_def
      split: if_splits)

lemma counter_spent_stable:
  "\<not> saves_config uid cfg x \<Longrightarrow> st \<in> op_stmts x \<Longrightarrow> keeps (counter_spent uid cfg c) st"
  by (cases x) (auto simp: saves_config_def Let_def counter_spent_stmts counter_spent_frame
      intro!: counter_spent_pending)

lemma counter_fresh_not_spent: "counter_fresh uid cfg d T \<Longrightarrow> d \<le> c \<Longrightarrow> \<not> counter_spent uid cfg c T"
  by (auto simp: counter_fresh_def counter_spent_def dest: counter_open_mono)

lemma counter_open_set [simp]:
  "counter_open (r\<lparr>tf_LastTOTPCounter := Some c, tf_UpdatedAt := now\<rparr>) d \<longleftrightarrow> c < d"
  by (simp add: counter_open_def)

lemma bumped_spends:
  assumes wf: "wf_tables T" and fresh: "counter_fresh uid cfg c T"
  shows "counter_spent uid cfg c (T'\<lparr>user_two_factor := bumped uid cfg c now (user_two_factor T)\<rparr>)"
proof -
  obtain r where r: "r \<in> set (user_two_factor T)" "tf_UserID r = uid" "tf_EnabledAt r \<noteq> None"
    using fresh by (auto simp: counter_fresh_def)
  have "\<forall>q \<in> set (user_two_factor T). tf_UserID q = uid \<longrightarrow> tf_EnabledAt q \<noteq> None"
    using wf_unique(2) [OF wf r(1)] r(2,3) by metis
  note en = this
  let ?P = "\<lambda>q. tf_UserID q = uid \<and> tf_ConfigurationID q = cfg \<and> tf_EnabledAt q \<noteq> None \<and> counter_open q c"
  show ?thesis unfolding counter_spent_def
  proof (intro ballI impI)
    fix r assume "r \<in> set (user_two_factor (T'\<lparr>user_two_factor := bumped uid cfg c now (user_two_factor T)\<rparr>))"
      and k: "tf_UserID r = uid" "tf_ConfigurationID r = cfg"
    then have "r \<in> set (bumped uid cfg c now (user_two_factor T))" by simp
    then obtain q where q: "q \<in> set (user_two_factor T)"
      "r = (if ?P q then q\<lparr>tf_LastTOTPCounter := Some c, tf_UpdatedAt := now\<rparr> else q)"
      unfolding bumped_def set_map by (rule imageE)
    show "tf_EnabledAt r \<noteq> None \<and> \<not> counter_open r c"
    proof (cases "?P q")
      case True
      then show ?thesis using q(2) by simp
    next
      case False
      then have "r = q" unfolding q(2) by (rule if_not_P)
      then show ?thesis using False k en q(1) by blast
    qed
  qed
qed

text \<open>What an operation that accepts a counter found when it succeeded.\<close>

lemma insertRecoveryCodes_tf:
  "insertRecoveryCodes uid codes now s = (Inr (), s') \<Longrightarrow>
     user_two_factor (contents s') = user_two_factor (contents s)"
  by (induction codes arbitrary: s) (force simp: store_inv stmt_insert_recovery_def split: if_splits)+

lemma ConsumeTOTPCounter_success:
  "ConsumeTOTPCounter uid cfg c now s = (Inr (), s') \<Longrightarrow> counter_fresh uid cfg c (contents s) \<and>
     contents s' = (contents s)\<lparr>user_two_factor := bumped uid cfg c now (user_two_factor (contents s))\<rparr>"
  by (auto simp: ConsumeTOTPCounter_def store_inv stmt_bump_counter_eq counter_fresh_def filter_empty_conv)

lemma ReplaceRecoveryCodes_success:
  "ReplaceRecoveryCodesAfterTOTP uid cfg c codes now s = (Inr (), s') \<Longrightarrow>
     counter_fresh uid cfg c (contents s) \<and>
     user_two_factor (contents s') = bumped uid cfg c now (user_two_factor (contents s))"
  by (auto simp: ReplaceRecoveryCodesAfterTOTP_def store_inv stmt_bump_counter_eq counter_fresh_def
      filter_empty_conv stmt_delete_recovery_def Let_def sql_delete_def
      dest!: insertRecoveryCodes_tf split: if_splits option.splits)

definition setup_open :: "string \<Rightarrow> string \<Rightarrow> instant \<Rightarrow> UserTwoFactor \<Rightarrow> bool" where
  "setup_open uid cfg now r \<longleftrightarrow> tf_UserID r = uid \<and> tf_ConfigurationID r = cfg \<and> tf_EnabledAt r = None \<and>
     (case tf_SetupExpiresAt r of None \<Rightarrow> False | Some x \<Rightarrow> now < x)"

definition enabled_with :: "string \<Rightarrow> string \<Rightarrow> int \<Rightarrow> instant \<Rightarrow> UserTwoFactor list \<Rightarrow> UserTwoFactor list" where
  "enabled_with uid cfg c now rows =
     map (\<lambda>r. if setup_open uid cfg now r
              then r\<lparr>tf_EnabledAt := Some now, tf_SetupExpiresAt := None,
                     tf_LastTOTPCounter := Some c, tf_UpdatedAt := now\<rparr> else r) rows"

lemma stmt_enable_eq:
  "stmt_enable uid cfg c now T = Some (T', n) \<longleftrightarrow>
     T' = T\<lparr>user_two_factor := enabled_with uid cfg c now (user_two_factor T)\<rparr> \<and>
     n = length (filter (setup_open uid cfg now) (user_two_factor T))"
  by (auto simp: stmt_enable_def sql_update_def enabled_with_def setup_open_def [abs_def])

lemma EnableTwoFactor_success:
  "EnableTwoFactor uid cfg c codes now s = (Inr (), s') \<Longrightarrow>
     (\<exists>r \<in> set (user_two_factor (contents s)). setup_open uid cfg now r) \<and>
     user_two_factor (contents s') = enabled_with uid cfg c now (user_two_factor (contents s))"
  by (auto simp: EnableTwoFactor_def store_inv stmt_enable_eq filter_empty_conv
      stmt_delete_recovery_def Let_def sql_delete_def dest!: insertRecoveryCodes_tf)

lemma enabled_with_spends:
  assumes wf: "wf_tables T" and r: "r \<in> set (user_two_factor T)" "setup_open uid cfg now r"
  shows "counter_spent uid cfg c (T'\<lparr>user_two_factor := enabled_with uid cfg c now (user_two_factor T)\<rparr>)"
proof -
  have u: "tf_UserID r = uid" using r(2) by (simp add: setup_open_def)
  have "\<forall>q \<in> set (user_two_factor T). tf_UserID q = uid \<longrightarrow> setup_open uid cfg now q"
    using wf_unique(2) [OF wf r(1)] r(2) u by metis
  then show ?thesis by (auto simp: counter_spent_def enabled_with_def counter_open_def)
qed

interpretation totp: single_use "accepts_counter uid cfg c" "accepts_upto uid cfg c"
  "saves_config uid cfg" "counter_spent uid cfg c" for uid cfg c
proof unfold_locales
  fix x and s s' :: "tables conn"
  assume x: "accepts_counter uid cfg c x" and wf: "wf_tables (contents s)" and su: "apply_op x s = (Inr (), s')"
  let ?T = "contents s"
  have "(counter_fresh uid cfg c ?T \<and> (\<exists>now. user_two_factor (contents s') = bumped uid cfg c now (user_two_factor ?T))) \<or>
     (\<exists>now. (\<exists>r \<in> set (user_two_factor ?T). setup_open uid cfg now r) \<and>
        user_two_factor (contents s') = enabled_with uid cfg c now (user_two_factor ?T))"
    using x unfolding accepts_counter_def
  proof (elim disjE exE conjE)
    fix now assume "x = OpConsumeTOTP uid cfg c now"
    with su show ?thesis using ConsumeTOTPCounter_success [of uid cfg c now s s'] by auto
  next
    fix p assume p: "x = OpConsumeLogin p" "cp_UserID p = uid" "cp_ConfigurationID p = cfg" "cp_TOTPCounter p = Some c"
    with su have "factor_valid p ?T" and "contents s' = consume_effect p ?T"
      using ConsumeLoginSecondFactor_success [of p s "()" s'] by simp_all
    with p show ?thesis by (auto simp: factor_valid_def consume_effect_def)
  next
    fix codes now assume "x = OpReplaceCodes uid cfg c codes now"
    with su show ?thesis using ReplaceRecoveryCodes_success [of uid cfg c codes now s s'] by auto
  next
    fix codes now assume "x = OpEnable uid cfg c codes now"
    with su show ?thesis using EnableTwoFactor_success [of uid cfg c codes now s s'] by auto
  qed
  then show "counter_spent uid cfg c (contents s')"
    using bumped_spends [OF wf, of uid cfg c] enabled_with_spends [OF wf, of _ uid cfg _ c]
    by (auto simp: counter_spent_def)
next
  show "\<not> saves_config uid cfg x \<Longrightarrow> st \<in> op_stmts x \<Longrightarrow> keeps (counter_spent uid cfg c) st" for x st
    by (rule counter_spent_stable)
next
  fix x and s :: "tables conn"
  assume "accepts_upto uid cfg c x" and sp: "counter_spent uid cfg c (contents s)"
  then obtain d where d: "d \<le> c" and x: "accepts_counter uid cfg d x" by (auto simp: accepts_upto_def)
  have stale: "\<not> counter_fresh uid cfg d (contents s)" using counter_fresh_not_spent d sp by blast
  have closed: "\<not> setup_open uid cfg now r" if "r \<in> set (user_two_factor (contents s))" for now r
    using sp that by (auto simp: counter_spent_def setup_open_def)
  show "\<exists>e. fst (apply_op x s) = Inl e"
  proof (rule not_Inr_Inl, rule notI)
    fix s' assume su: "apply_op x s = (Inr (), s')"
    from x show False unfolding accepts_counter_def
    proof (elim disjE exE conjE)
      fix now assume "x = OpConsumeTOTP uid cfg d now"
      with su stale show False using ConsumeTOTPCounter_success [of uid cfg d now s s'] by auto
    next
      fix p assume p: "x = OpConsumeLogin p" "cp_UserID p = uid" "cp_ConfigurationID p = cfg" "cp_TOTPCounter p = Some d"
      with su have "factor_valid p (contents s)"
        using ConsumeLoginSecondFactor_success [of p s "()" s'] by simp
      with p stale show False by (simp add: factor_valid_def)
    next
      fix codes now assume "x = OpReplaceCodes uid cfg d codes now"
      with su stale show False using ReplaceRecoveryCodes_success [of uid cfg d codes now s s'] by auto
    next
      fix codes now assume "x = OpEnable uid cfg d codes now"
      with su closed show False using EnableTwoFactor_success [of uid cfg d codes now s s'] by auto
    qed
  qed
qed

section \<open>Recovery codes\<close>

definition accepts_code :: "string \<Rightarrow> string \<Rightarrow> store_op \<Rightarrow> bool" where
  "accepts_code uid h x \<longleftrightarrow>
     (\<exists>now. x = OpConsumeRecovery uid h now) \<or>
     (\<exists>p. x = OpConsumeLogin p \<and> cp_UserID p = uid \<and> cp_TOTPCounter p = None \<and> cp_RecoveryHash p = h)"

definition inserts_code :: "string \<Rightarrow> string \<Rightarrow> store_op \<Rightarrow> bool" where
  "inserts_code uid h x \<longleftrightarrow>
     (\<exists>cfg c codes now. (x = OpEnable uid cfg c codes now \<or> x = OpReplaceCodes uid cfg c codes now) \<and>
        h \<in> rci_Hash ` set codes)"

definition code_spent :: "string \<Rightarrow> string \<Rightarrow> tables \<Rightarrow> bool" where
  "code_spent uid h T \<longleftrightarrow> (\<forall>r \<in> set (two_factor_recovery_codes T).
     rc_UserID r = uid \<longrightarrow> rc_CodeHash r = h \<longrightarrow> rc_UsedAt r \<noteq> None)"

lemma code_spent_frame: "untouched two_factor_recovery_codes st \<Longrightarrow> keeps (code_spent uid h) st"
  by (erule untouched_keeps) (simp add: code_spent_def)

lemma code_spent_stmts:
  "keeps (code_spent uid h) (stmt_use_recovery now u g)"
  "keeps (code_spent uid h) (stmt_delete_recovery u)"
  "\<not> (u = uid \<and> rci_Hash c = h) \<Longrightarrow> keeps (code_spent uid h) (stmt_insert_recovery u now c)"
  by (rule keepsI, auto simp: code_spent_def two_factor_stmts recovery_row_def 
      simp del: set_map elim!: in_map_ifE split: if_splits)+

lemma code_spent_stable:
  "\<not> inserts_code uid h x \<Longrightarrow> st \<in> op_stmts x \<Longrightarrow> keeps (code_spent uid h) st"
  by (cases x) (auto simp: inserts_code_def Let_def code_spent_stmts(1,2) code_spent_frame
      intro!: code_spent_stmts(3))

lemma code_unused_not_spent: "code_unused uid h T \<Longrightarrow> \<not> code_spent uid h T"
  by (auto simp: code_unused_def code_spent_def)

lemma used_codes_spends:
  assumes "two_factor_recovery_codes T = used_codes uid h now rows"
  shows "code_spent uid h T"
  unfolding code_spent_def assms used_codes_def
proof (intro ballI impI)
  fix r
  assume r: "r \<in> set (map (\<lambda>r. if rc_UserID r = uid \<and> rc_CodeHash r = h \<and> rc_UsedAt r = None
      then r\<lparr>rc_UsedAt := Some now\<rparr> else r) rows)"
    and k: "rc_UserID r = uid" "rc_CodeHash r = h"
  from r show "rc_UsedAt r \<noteq> None"
  proof (rule in_map_ifE)
    fix q assume "r = q\<lparr>rc_UsedAt := Some now\<rparr>"
    then show ?thesis by simp
  next
    assume "\<not> (rc_UserID r = uid \<and> rc_CodeHash r = h \<and> rc_UsedAt r = None)"
    with k show ?thesis by simp
  qed
qed

lemma accepts_code_success:
  assumes x: "accepts_code uid h x" and su: "apply_op x s = (Inr (), s')"
  shows "code_unused uid h (contents s) \<and>
    (\<exists>now. two_factor_recovery_codes (contents s') = used_codes uid h now (two_factor_recovery_codes (contents s)))"
  using x unfolding accepts_code_def
proof (elim disjE exE conjE)
  fix now assume "x = OpConsumeRecovery uid h now"
  with su show ?thesis
    by (auto simp: ConsumeRecoveryCode_def store_inv stmt_use_recovery_eq code_unused_def filter_empty_conv)
next
  fix p assume p: "x = OpConsumeLogin p" "cp_UserID p = uid" "cp_TOTPCounter p = None" "cp_RecoveryHash p = h"
  with su have "factor_valid p (contents s)" and "contents s' = consume_effect p (contents s)"
    using ConsumeLoginSecondFactor_success [of p s "()" s'] by simp_all
  with p show ?thesis by (auto simp: factor_valid_def consume_effect_def)
qed

interpretation recovery: single_use "accepts_code uid h" "accepts_code uid h" "inserts_code uid h"
  "code_spent uid h" for uid h
proof unfold_locales
  fix x and s s' :: "tables conn"
  assume "accepts_code uid h x" and "apply_op x s = (Inr (), s')"
  then obtain now where "two_factor_recovery_codes (contents s') =
      used_codes uid h now (two_factor_recovery_codes (contents s))"
    using accepts_code_success by blast
  then show "code_spent uid h (contents s')"
    by (rule used_codes_spends)
next
  show "\<not> inserts_code uid h x \<Longrightarrow> st \<in> op_stmts x \<Longrightarrow> keeps (code_spent uid h) st" for x st
    by (rule code_spent_stable)
next
  fix x and s :: "tables conn"
  assume "accepts_code uid h x" and "code_spent uid h (contents s)"
  then show "\<exists>e. fst (apply_op x s) = Inl e"
    using accepts_code_success code_unused_not_spent by (intro not_Inr_Inl) blast
qed

section \<open>Registration tokens\<close>

definition uses_token :: "string \<Rightarrow> store_op \<Rightarrow> bool" where
  "uses_token h x \<longleftrightarrow> (\<exists>now. x = OpUseToken h now)"

definition creates_token :: "string \<Rightarrow> store_op \<Rightarrow> bool" where
  "creates_token h x \<longleftrightarrow> (\<exists>now p. x = OpCreateToken now p \<and> ctp_TokenHash p = h)"

definition token_spent :: "string \<Rightarrow> tables \<Rightarrow> bool" where
  "token_spent h T \<longleftrightarrow> (\<forall>t \<in> set (agent_tokens T).
     tok_TokenHash t = h \<longrightarrow> tok_UsedAt t \<noteq> None \<or> tok_RevokedAt t \<noteq> None)"

lemma token_spent_frame: "untouched agent_tokens st \<Longrightarrow> keeps (token_spent h) st"
  by (erule untouched_keeps) (simp add: token_spent_def)

lemma token_spent_stmts:
  "keeps (token_spent h) (stmt_revoke_token i now)"
  "keeps (token_spent h) (stmt_delete_token i)"
  "keeps (token_spent h) (stmt_use_token i now)"
  "tok_TokenHash t \<noteq> h \<Longrightarrow> keeps (token_spent h) (stmt_insert_token t)"
  by (rule keepsI, fastforce simp: token_spent_def agent_stmts simp del: set_map elim!: in_map_ifE split: if_splits)+

lemma token_spent_stable:
  "\<not> creates_token h x \<Longrightarrow> st \<in> op_stmts x \<Longrightarrow> keeps (token_spent h) st"
  by (cases x) (auto simp: creates_token_def Let_def token_spent_stmts token_spent_frame)

lemma UseAgentTokenByHash_success:
  assumes "UseAgentTokenByHash h now s = (Inr t, s')"
  shows "\<exists>r \<in> set (agent_tokens (contents s)). token_usable h now r \<and> t = r\<lparr>tok_UsedAt := Some now\<rparr> \<and>
    contents s' = (contents s)\<lparr>agent_tokens := map (\<lambda>q. if tok_ID q = tok_ID r
      then q\<lparr>tok_UsedAt := Some now\<rparr> else q) (agent_tokens (contents s))\<rparr>"
proof -
  obtain r where f: "find (token_usable h now) (agent_tokens (contents s)) = Some r"
    and t: "t = r\<lparr>tok_UsedAt := Some now\<rparr>"
    and c: "contents s' = (contents s)\<lparr>agent_tokens := map (\<lambda>q. if tok_ID q = tok_ID r
      then q\<lparr>tok_UsedAt := Some now\<rparr> else q) (agent_tokens (contents s))\<rparr>"
    using assms by (auto simp: UseAgentTokenByHash_def store_inv stmt_use_token_def sql_update_def)
  from f have "r \<in> set (agent_tokens (contents s))" "token_usable h now r"
    by (auto simp: find_Some_iff)
  with t c show ?thesis by blast
qed

interpretation token: single_use "uses_token h" "uses_token h" "creates_token h" "token_spent h" for h
proof unfold_locales
  fix x and s s' :: "tables conn"
  assume x: "uses_token h x" and wf: "wf_tables (contents s)" and su: "apply_op x s = (Inr (), s')"
  then obtain now t where "UseAgentTokenByHash h now s = (Inr t, s')"
    by (auto simp: uses_token_def void_def store_inv)
  then obtain r where r: "r \<in> set (agent_tokens (contents s))" "token_usable h now r"
    and c: "contents s' = (contents s)\<lparr>agent_tokens := map (\<lambda>q. if tok_ID q = tok_ID r
      then q\<lparr>tok_UsedAt := Some now\<rparr> else q) (agent_tokens (contents s))\<rparr>"
    using UseAgentTokenByHash_success by blast
  have "tok_TokenHash r = h" using r(2) by (simp add: token_usable_def)
  then have "\<forall>q \<in> set (agent_tokens (contents s)). tok_TokenHash q = h \<longrightarrow> tok_ID q = tok_ID r"
    using wf_unique(4) [OF wf r(1)] by metis
  then show "token_spent h (contents s')" by (auto simp: token_spent_def c simp del: set_map elim!: in_map_ifE)
next
  show "\<not> creates_token h x \<Longrightarrow> st \<in> op_stmts x \<Longrightarrow> keeps (token_spent h) st" for x st
    by (rule token_spent_stable)
next
  fix x and s :: "tables conn"
  assume "uses_token h x" and sp: "token_spent h (contents s)"
  then obtain now where x: "x = OpUseToken h now" by (auto simp: uses_token_def)
  have "UseAgentTokenByHash h now s \<noteq> (Inr t, s')" for t s'
    using sp UseAgentTokenByHash_success by (fastforce simp: token_spent_def token_usable_def)
  then show "\<exists>e. fst (apply_op x s) = Inl e"
    by (intro not_Inr_Inl) (auto simp: x void_def store_inv)
qed

end
