(* ===== verification/TwoFactorSpec.thy ===== *)
theory TwoFactorSpec
  imports SingleUse
begin

text \<open>
  The contract of the two-factor settings: a state machine per user (off, pending setup, on) that
  every operation of the store implements, the outcome of the login's second step on a reliable
  connection, and the recovery codes that go with a setting.
\<close>

section \<open>The state of one user\<close>

datatype tf_state =
    TfOff
  | TfPending string "instant option" \<comment> \<open>configuration, end of the setup\<close>
  | TfOn string "int option" \<comment> \<open>configuration, last accepted counter\<close>

definition tf_row :: "string \<Rightarrow> tables \<Rightarrow> UserTwoFactor option" where
  "tf_row uid T = find (\<lambda>r. tf_UserID r = uid) (user_two_factor T)"

definition row_state :: "UserTwoFactor \<Rightarrow> tf_state" where
  "row_state r = (if tf_EnabledAt r = None then TfPending (tf_ConfigurationID r) (tf_SetupExpiresAt r)
     else TfOn (tf_ConfigurationID r) (tf_LastTOTPCounter r))"

definition tf_state :: "string \<Rightarrow> tables \<Rightarrow> tf_state" where
  "tf_state uid T = (case tf_row uid T of None \<Rightarrow> TfOff | Some r \<Rightarrow> row_state r)"

definition tf_pending :: "UserTwoFactor \<Rightarrow> tf_state" where
  "tf_pending y = TfPending (tf_ConfigurationID y) (tf_SetupExpiresAt y)"

text \<open>A counter accepted while the setting is on.\<close>

definition tf_count :: "string \<Rightarrow> int \<Rightarrow> tf_state \<Rightarrow> tf_state option" where
  "tf_count cfg c st =
     (case st of
        TfOn g l \<Rightarrow>
          if g = cfg \<and> (case l of None \<Rightarrow> True | Some n \<Rightarrow> n < c) then Some (TfOn g (Some c)) else None
      | _ \<Rightarrow> None)"

text \<open>The step of user \<open>uid\<close>'s state that an operation makes; None where the operation must fail.\<close>

fun tf_step :: "string \<Rightarrow> store_op \<Rightarrow> tf_state \<Rightarrow> tf_state option" where
  "tf_step uid (OpSavePending now y) st =
     (if tf_UserID y \<noteq> uid then Some st
      else case st of TfOn _ _ \<Rightarrow> None | _ \<Rightarrow> Some (tf_pending y))"
| "tf_step uid (OpSavePendingIfUnchanged now y prev) st =
     (if tf_UserID y \<noteq> uid then Some st
      else case st of
             TfOff \<Rightarrow> if prev = [] then Some (tf_pending y) else None
           | TfPending g _ \<Rightarrow> if prev \<noteq> [] \<and> g = prev then Some (tf_pending y) else None
           | TfOn _ _ \<Rightarrow> None)"
| "tf_step uid (OpEnable u cfg c codes now) st =
     (if u \<noteq> uid then Some st
      else case st of
             TfPending g (Some x) \<Rightarrow> if g = cfg \<and> now < x then Some (TfOn g (Some c)) else None
           | _ \<Rightarrow> None)"
| "tf_step uid (OpConsumeTOTP u cfg c now) st = (if u \<noteq> uid then Some st else tf_count cfg c st)"
| "tf_step uid (OpReplaceCodes u cfg c codes now) st = (if u \<noteq> uid then Some st else tf_count cfg c st)"
| "tf_step uid (OpConsumeLogin p) st =
     (if cp_UserID p \<noteq> uid then Some st
      else case cp_TOTPCounter p of
             Some c \<Rightarrow> tf_count (cp_ConfigurationID p) c st
           | None \<Rightarrow> (case st of TfOn g _ \<Rightarrow> if g = cp_ConfigurationID p then Some st else None | _ \<Rightarrow> None))"
| "tf_step uid (OpDisable u) st =
     (if u \<noteq> uid then Some st else case st of TfOn _ _ \<Rightarrow> Some TfOff | _ \<Rightarrow> None)"
| "tf_step uid x st = Some st"

section \<open>Rows and states\<close>

lemma find_map_if:
  "(\<And>r. k (g r) = k r) \<Longrightarrow> find (\<lambda>r. k r = uid) (map (\<lambda>r. if p r then g r else r) rows) =
     map_option (\<lambda>r. if p r then g r else r) (find (\<lambda>r. k r = uid) rows)"
  by (induction rows) auto

lemma tf_row_in: "tf_row uid T = Some r \<Longrightarrow> r \<in> set (user_two_factor T) \<and> tf_UserID r = uid"
  by (auto simp: tf_row_def find_Some_iff)

lemma tf_row_None: "tf_row uid T = None \<longleftrightarrow> (\<forall>r \<in> set (user_two_factor T). tf_UserID r \<noteq> uid)"
  by (auto simp: tf_row_def find_None_iff)

lemma tf_row_unique:
  assumes wf: "wf_tables T" and r: "r \<in> set (user_two_factor T)" "tf_UserID r = uid"
  shows "tf_row uid T = Some r"
proof (cases "tf_row uid T")
  case None
  with r show ?thesis by (auto simp: tf_row_None)
next
  case (Some q)
  then have "q = r" using wf_unique(2) [OF wf r(1)] tf_row_in r(2) by blast
  with Some show ?thesis by simp
qed

lemma tf_row_bumped:
  "user_two_factor T' = bumped u cfg c now (user_two_factor T) \<Longrightarrow>
     tf_row uid T' = map_option (\<lambda>r. if tf_UserID r = u \<and> tf_ConfigurationID r = cfg \<and> tf_EnabledAt r \<noteq> None
        \<and> counter_open r c then r\<lparr>tf_LastTOTPCounter := Some c, tf_UpdatedAt := now\<rparr> else r) (tf_row uid T)"
  unfolding tf_row_def bumped_def by (simp add: find_map_if)

lemma tf_row_enabled:
  "user_two_factor T' = enabled_with u cfg c now (user_two_factor T) \<Longrightarrow>
     tf_row uid T' = map_option (\<lambda>r. if setup_open u cfg now r
        then r\<lparr>tf_EnabledAt := Some now, tf_SetupExpiresAt := None, tf_LastTOTPCounter := Some c,
               tf_UpdatedAt := now\<rparr> else r) (tf_row uid T)"
  unfolding tf_row_def enabled_with_def by (simp add: find_map_if)

lemma tf_count_step:
  assumes wf: "wf_tables T" and fresh: "counter_fresh u cfg c T"
    and T': "user_two_factor T' = bumped u cfg c now (user_two_factor T)"
  shows "(if u \<noteq> uid then Some (tf_state uid T) else tf_count cfg c (tf_state uid T)) = Some (tf_state uid T')"
proof -
  obtain r where r: "r \<in> set (user_two_factor T)" "tf_UserID r = u" "tf_ConfigurationID r = cfg"
    "tf_EnabledAt r \<noteq> None" "counter_open r c" using fresh by (auto simp: counter_fresh_def)
  show ?thesis
  proof (cases "u = uid")
    case True
    have "tf_row uid T = Some r" using tf_row_unique [OF wf r(1)] r(2) True by simp
    then show ?thesis using r True tf_row_bumped [OF T', of uid]
      by (auto simp: tf_state_def row_state_def tf_count_def counter_open_def split: option.splits)
  next
    case False
    then show ?thesis using tf_row_bumped [OF T', of uid] tf_row_in [of uid T]
      by (cases "tf_row uid T") (auto simp: tf_state_def)
  qed
qed

lemma tf_enable_step:
  assumes wf: "wf_tables T" and r: "r \<in> set (user_two_factor T)" "setup_open u cfg now r"
    and T': "user_two_factor T' = enabled_with u cfg c now (user_two_factor T)"
  shows "tf_step uid (OpEnable u cfg c codes now) (tf_state uid T) = Some (tf_state uid T')"
proof (cases "u = uid")
  case True
  have "tf_row uid T = Some r" using tf_row_unique [OF wf r(1)] r(2) True by (simp add: setup_open_def)
  then show ?thesis using r True tf_row_enabled [OF T', of uid]
    by (auto simp: tf_state_def row_state_def setup_open_def split: option.splits)
next
  case False
  then show ?thesis using tf_row_enabled [OF T', of uid] tf_row_in [of uid T]
    by (cases "tf_row uid T") (auto simp: tf_state_def setup_open_def)
qed

section \<open>Setting up\<close>

lemma tf_state_eqI: "user_two_factor T' = user_two_factor T \<Longrightarrow> tf_state uid T' = tf_state uid T"
  by (simp add: tf_state_def tf_row_def)

lemma tf_filter_empty:
  assumes wf: "wf_tables T"
  shows "filter (\<lambda>r. tf_UserID r = u \<and> q r) (user_two_factor T) = [] \<longleftrightarrow>
    (case tf_row u T of None \<Rightarrow> True | Some r \<Rightarrow> \<not> q r)"
proof (cases "tf_row u T")
  case None
  moreover from None have "\<forall>r \<in> set (user_two_factor T). tf_UserID r \<noteq> u" by (simp add: tf_row_None)
  ultimately show ?thesis by (simp add: filter_empty_conv)
next
  case (Some r)
  then have r: "r \<in> set (user_two_factor T)" "tf_UserID r = u" using tf_row_in by blast+
  have "\<forall>x \<in> set (user_two_factor T). tf_UserID x = u \<longrightarrow> x = r"
    using wf_unique(2) [OF wf r(1)] r(2) by metis
  then have "(\<forall>x \<in> set (user_two_factor T). \<not> (tf_UserID x = u \<and> q x)) \<longleftrightarrow> \<not> q r"
    using r by metis
  with Some show ?thesis by (simp add: filter_empty_conv)
qed

lemma tf_row_insert:
  "user_two_factor T' = user_two_factor T @ [r] \<Longrightarrow>
     tf_row uid T' = (case tf_row uid T of None \<Rightarrow> if tf_UserID r = uid then Some r else None | Some q \<Rightarrow> Some q)"
  by (simp add: tf_row_def find_snoc)

lemma replace_pending_state: "row_state (replace_pending y r) = tf_pending y"
  by (simp add: row_state_def replace_pending_def tf_pending_def)

lemma replace_pending_user: "tf_UserID (replace_pending y r) = tf_UserID r"
  by (simp add: replace_pending_def)

lemma tf_state_replace:
  assumes "user_two_factor T' = map (\<lambda>r. if tf_UserID r = tf_UserID y \<and> p r then replace_pending y r else r)
    (user_two_factor T)"
  shows "tf_state uid T' =
    (case tf_row uid T of None \<Rightarrow> TfOff
     | Some r \<Rightarrow> if tf_UserID y = uid \<and> p r then tf_pending y else row_state r)"
proof -
  have "tf_row uid T' = map_option (\<lambda>r. if tf_UserID r = tf_UserID y \<and> p r then replace_pending y r else r)
      (tf_row uid T)"
    unfolding tf_row_def assms by (rule find_map_if) (rule replace_pending_user)
  then show ?thesis using tf_row_in [of uid T]
    by (cases "tf_row uid T") (auto simp: tf_state_def replace_pending_state)
qed

text \<open>A statement that affects no row leaves the state; one that affects a row makes the step.\<close>

lemma tf_upsert_step:
  assumes wf: "wf_tables T" and st: "stmt_upsert_pending y T = Some (T', n)"
  shows "if n = 0 then tf_state uid T' = tf_state uid T
    else tf_step uid (OpSavePending now y) (tf_state uid T) = Some (tf_state uid T')"
proof (cases "tf_row (tf_UserID y) T")
  case None
  then have new: "user_two_factor T' = user_two_factor T @ [pending_row y]" "n = 1"
    using st by (auto simp: stmt_upsert_pending_def tf_row_None split: if_splits)
  show ?thesis using None new(2)
    by (cases "tf_UserID y = uid"; cases "tf_row uid T")
      (auto simp: tf_state_def tf_row_insert [OF new(1)] row_state_def pending_row_def tf_pending_def)
next
  case (Some r)
  then have r: "r \<in> set (user_two_factor T)" "tf_UserID r = tf_UserID y" using tf_row_in by blast+
  then have old: "user_two_factor T' = map (\<lambda>r. if tf_UserID r = tf_UserID y \<and> tf_EnabledAt r = None
        then replace_pending y r else r) (user_two_factor T)"
    and n: "n = length (filter (\<lambda>r. tf_UserID r = tf_UserID y \<and> tf_EnabledAt r = None) (user_two_factor T))"
    using st by (auto simp: stmt_upsert_pending_def sql_update_def rev_image_eqI)
  have "n = 0 \<longleftrightarrow> tf_EnabledAt r \<noteq> None"
    unfolding n length_0_conv tf_filter_empty [OF wf] using Some by simp
  moreover have "tf_UserID y = uid \<Longrightarrow> tf_row uid T = Some r" using Some by simp
  ultimately show ?thesis
    by (cases "tf_row uid T"; cases "tf_UserID y = uid"; cases "tf_EnabledAt r")
      (simp_all add: tf_state_replace [OF old, of uid] tf_state_def [of uid T] row_state_def)
qed

lemma tf_insert_step:
  assumes st: "stmt_insert_pending y T = Some (T', n)"
  shows "if n = 0 then tf_state uid T' = tf_state uid T
    else tf_step uid (OpSavePendingIfUnchanged now y []) (tf_state uid T) = Some (tf_state uid T')"
proof (cases "tf_row (tf_UserID y) T")
  case None
  then have new: "user_two_factor T' = user_two_factor T @ [pending_row y]" "n = 1"
    using st by (auto simp: stmt_insert_pending_def tf_row_None split: if_splits)
  show ?thesis using None new(2)
    by (cases "tf_UserID y = uid"; cases "tf_row uid T")
      (auto simp: tf_state_def tf_row_insert [OF new(1)] row_state_def pending_row_def tf_pending_def)
next
  case (Some r)
  then have "tf_UserID y \<in> tf_UserID ` set (user_two_factor T)" using tf_row_in by (metis imageI)
  then have "T' = T \<and> n = 0" using st by (simp add: stmt_insert_pending_def)
  then show ?thesis by simp
qed

lemma tf_replace_step:
  assumes wf: "wf_tables T" and st: "stmt_replace_pending y prev T = Some (T', n)" and prev: "prev \<noteq> []"
  shows "if n = 0 then tf_state uid T' = tf_state uid T
    else tf_step uid (OpSavePendingIfUnchanged now y prev) (tf_state uid T) = Some (tf_state uid T')"
proof -
  let ?p = "\<lambda>r. tf_ConfigurationID r = prev \<and> tf_EnabledAt r = None"
  have old: "user_two_factor T' = map (\<lambda>r. if tf_UserID r = tf_UserID y \<and> ?p r
        then replace_pending y r else r) (user_two_factor T)"
    and n: "n = length (filter (\<lambda>r. tf_UserID r = tf_UserID y \<and> ?p r) (user_two_factor T))"
    using st by (auto simp: stmt_replace_pending_def sql_update_def)
  have zero: "n = 0 \<longleftrightarrow> (case tf_row (tf_UserID y) T of None \<Rightarrow> True | Some r \<Rightarrow> \<not> ?p r)"
    unfolding n length_0_conv tf_filter_empty [OF wf] by (rule refl)
  show ?thesis
  proof (cases "tf_UserID y = uid")
    case True
    then show ?thesis using zero prev
      by (cases "tf_row uid T") (auto simp: tf_state_replace [OF old, of uid] tf_state_def [of uid T] row_state_def)
  next
    case False
    then show ?thesis
      by (cases "tf_row uid T") (simp_all add: tf_state_replace [OF old, of uid] tf_state_def [of uid T])
  qed
qed

section \<open>Refinement\<close>

definition tf_refined :: "string \<Rightarrow> store_op \<Rightarrow> tables \<Rightarrow> store_error + unit \<Rightarrow> tables \<Rightarrow> bool" where
  "tf_refined uid x T r T' \<longleftrightarrow>
     tf_step uid x (tf_state uid T) = Some (tf_state uid T') \<or>
     r \<noteq> Inr () \<and> tf_state uid T' = tf_state uid T"

lemma tf_refined_same: "tf_state uid T' = tf_state uid T \<Longrightarrow> (\<exists>e. r = Inl e) \<Longrightarrow> tf_refined uid x T r T'"
  by (auto simp: tf_refined_def)

lemma tf_refined_affected:
  assumes run: "requireAffected (exec st) e s = (r, s')"
    and step: "\<And>n. st (contents s) = Some (contents s', n) \<Longrightarrow>
      if n = 0 then tf_state uid (contents s') = tf_state uid (contents s)
      else tf_step uid x (tf_state uid (contents s)) = Some (tf_state uid (contents s'))"
  shows "tf_refined uid x (contents s) r (contents s')"
  using requireAffected_exec [OF run]
proof (elim disjE conjE exE)
  fix n assume n: "st (contents s) = Some (contents s', n)" "r = Inr () \<longrightarrow> 0 < n"
  show ?thesis using step [OF n(1)] n(2) by (cases "n = 0") (auto simp: tf_refined_def)
qed (auto simp: tf_refined_def)

lemma tf_untouched_ops:
  assumes "\<And>st. st \<in> op_stmts x \<Longrightarrow> untouched user_two_factor st"
    and "apply_op x s = (r, s')"
  shows "tf_state uid (contents s') = tf_state uid (contents s)"
proof -
  have "preserves (\<lambda>T. user_two_factor T = user_two_factor (contents s)) (apply_op x)"
    by (rule op_preserves) (rule untouched_keeps [OF assms(1)], auto)
  then have "user_two_factor (contents s') = user_two_factor (contents s)"
    using assms(2) preservesD [where P = "\<lambda>T. user_two_factor T = user_two_factor (contents s)"] by blast
  then show ?thesis by (rule tf_state_eqI)
qed

lemma enabled_row_state:
  assumes wf: "wf_tables T"
  shows "config_current uid cfg T \<longleftrightarrow> (\<exists>l. tf_state uid T = TfOn cfg l)"
proof -
  have row: "enabled_row uid T = Some r \<longleftrightarrow> tf_row uid T = Some r \<and> tf_EnabledAt r \<noteq> None" for r
  proof
    assume "enabled_row uid T = Some r"
    then have "r \<in> set (user_two_factor T)" "tf_UserID r = uid" "tf_EnabledAt r \<noteq> None"
      unfolding enabled_row_def find_Some_iff by auto
    then show "tf_row uid T = Some r \<and> tf_EnabledAt r \<noteq> None" using tf_row_unique [OF wf] by blast
  next
    assume r: "tf_row uid T = Some r \<and> tf_EnabledAt r \<noteq> None"
    then have "r \<in> set (user_two_factor T)" "tf_UserID r = uid" using tf_row_in by blast+
    then obtain q where q: "enabled_row uid T = Some q"
      using r unfolding enabled_row_def by (metis (mono_tags, lifting) find_None_iff option.exhaust)
    then have "q \<in> set (user_two_factor T)" "tf_UserID q = uid"
      unfolding enabled_row_def find_Some_iff by auto
    then have "q = r" using tf_row_unique [OF wf] r by fastforce
    with q show "enabled_row uid T = Some r" by simp
  qed
  show ?thesis
  proof
    assume "config_current uid cfg T"
    then obtain r where "enabled_row uid T = Some r" "tf_ConfigurationID r = cfg"
      by (auto simp: config_current_def)
    with row [of r] show "\<exists>l. tf_state uid T = TfOn cfg l" by (auto simp: tf_state_def row_state_def)
  next
    assume "\<exists>l. tf_state uid T = TfOn cfg l"
    then obtain r where "tf_row uid T = Some r" "tf_EnabledAt r \<noteq> None" "tf_ConfigurationID r = cfg"
      by (auto simp: tf_state_def row_state_def split: option.splits if_splits)
    with row [of r] show "config_current uid cfg T" by (simp add: config_current_def)
  qed
qed

lemma tf_login_step:
  assumes wf: "wf_tables (contents s)" and run: "ConsumeLoginSecondFactor p s = (Inr (), s')"
  shows "tf_step uid (OpConsumeLogin p) (tf_state uid (contents s)) = Some (tf_state uid (contents s'))"
proof (cases "cp_TOTPCounter p")
  case (Some c)
  from ConsumeLoginSecondFactor_success [OF run]
  have "counter_fresh (cp_UserID p) (cp_ConfigurationID p) c (contents s)"
    and "user_two_factor (contents s') =
      bumped (cp_UserID p) (cp_ConfigurationID p) c (cp_Now p) (user_two_factor (contents s))"
    using Some by (auto simp: factor_valid_def consume_effect_def)
  from tf_count_step [OF wf this, of uid] show ?thesis using Some by (auto split: if_splits)
next
  case None
  from ConsumeLoginSecondFactor_success [OF run]
  have cur: "config_current (cp_UserID p) (cp_ConfigurationID p) (contents s)"
    and "user_two_factor (contents s') = user_two_factor (contents s)"
    using None by (auto simp: consume_effect_def)
  then have "tf_state uid (contents s') = tf_state uid (contents s)" by (intro tf_state_eqI)
  then show ?thesis using None cur by (auto simp: enabled_row_state [OF wf])
qed

lemma disable_step:
  assumes wf: "wf_tables (contents s)" and run: "DisableTwoFactor u s = (Inr (), s')"
  shows "tf_step uid (OpDisable u) (tf_state uid (contents s)) = Some (tf_state uid (contents s'))"
proof -
  let ?T = "contents s"
  have rows: "user_two_factor (contents s') =
      filter (\<lambda>r. \<not> (tf_UserID r = u \<and> tf_EnabledAt r \<noteq> None)) (user_two_factor ?T)"
    and some: "filter (\<lambda>r. tf_UserID r = u \<and> tf_EnabledAt r \<noteq> None) (user_two_factor ?T) \<noteq> []"
    using run by (auto simp: DisableTwoFactor_def store_inv stmt_delete_recovery_def stmt_delete_enabled_def
        sql_delete_def)
  then obtain r where r: "tf_row u ?T = Some r" "tf_EnabledAt r \<noteq> None"
    unfolding tf_filter_empty [OF wf] by (auto split: option.splits)
  show ?thesis
  proof (cases "u = uid")
    case True
    have "tf_row u (contents s') = None" unfolding tf_row_None rows
      using tf_row_unique [OF wf, of _ u] r by fastforce
    then show ?thesis using True r by (auto simp: tf_state_def row_state_def)
  next
    case False
    have "find (\<lambda>r. tf_UserID r = uid) (filter (\<lambda>r. \<not> (tf_UserID r = u \<and> tf_EnabledAt r \<noteq> None)) rows) =
        find (\<lambda>r. tf_UserID r = uid) rows" for rows :: "UserTwoFactor list"
      using False by (induction rows) auto
    then show ?thesis using False by (simp add: tf_state_def tf_row_def rows)
  qed
qed

lemma tf_step_normalized:
  "tf_step uid (OpSavePending now (normalizePendingTwoFactor t y)) st = tf_step uid (OpSavePending now y) st"
  "tf_step uid (OpSavePendingIfUnchanged now (normalizePendingTwoFactor t y) prev) st =
     tf_step uid (OpSavePendingIfUnchanged now y prev) st"
  by (cases st; simp add: tf_pending_def)+

lemma save_refined:
  assumes wf: "wf_tables (contents s)" and run: "SavePendingTwoFactor now y s = (r, s')"
  shows "tf_refined uid (OpSavePending now y) (contents s) r (contents s')"
  using run unfolding SavePendingTwoFactor_def Let_def
  by (rule tf_refined_affected)
    (drule tf_upsert_step [OF wf, of _ _ _ uid now], simp only: tf_step_normalized)

lemma save_unchanged_refined:
  assumes wf: "wf_tables (contents s)" and run: "SavePendingTwoFactorIfUnchanged now y prev s = (r, s')"
  shows "tf_refined uid (OpSavePendingIfUnchanged now y prev) (contents s) r (contents s')"
proof (cases "prev = []")
  case True
  with run have "requireAffected (exec (stmt_insert_pending (normalizePendingTwoFactor now y))) ErrConflict s = (r, s')"
    by (simp add: SavePendingTwoFactorIfUnchanged_def Let_def)
  then show ?thesis unfolding True
    by (rule tf_refined_affected) (drule tf_insert_step [of _ _ _ _ uid now], simp only: tf_step_normalized)
next
  case False
  with run have "requireAffected (exec (stmt_replace_pending (normalizePendingTwoFactor now y) prev)) ErrConflict s = (r, s')"
    by (simp add: SavePendingTwoFactorIfUnchanged_def Let_def)
  then show ?thesis
    by (rule tf_refined_affected)
      (drule tf_replace_step [OF wf _ False, of _ _ _ uid now], simp only: tf_step_normalized)
qed

lemma consume_counter_refined:
  assumes wf: "wf_tables (contents s)" and run: "ConsumeTOTPCounter u cfg c now s = (r, s')"
  shows "tf_refined uid (OpConsumeTOTP u cfg c now) (contents s) r (contents s')"
proof (rule tf_refined_affected)
  show "requireAffected (exec (stmt_bump_counter c now u cfg)) ErrConflict s = (r, s')"
    using run by (simp add: ConsumeTOTPCounter_def)
next
  let ?T = "contents s"
  fix n assume "stmt_bump_counter c now u cfg ?T = Some (contents s', n)"
  then have T': "user_two_factor (contents s') = bumped u cfg c now (user_two_factor ?T)"
    and n: "n = length (filter (\<lambda>r. tf_UserID r = u \<and> tf_ConfigurationID r = cfg \<and> tf_EnabledAt r \<noteq> None \<and>
         counter_open r c) (user_two_factor ?T))"
    unfolding stmt_bump_counter_eq by auto
  show "if n = 0 then tf_state uid (contents s') = tf_state uid ?T
    else tf_step uid (OpConsumeTOTP u cfg c now) (tf_state uid ?T) = Some (tf_state uid (contents s'))"
  proof (cases "n = 0")
    case True
    then have "bumped u cfg c now (user_two_factor ?T) = user_two_factor ?T"
      unfolding n bumped_def by (intro map_idI) (auto simp: filter_empty_conv)
    then have "tf_state uid (contents s') = tf_state uid ?T" using T' by (intro tf_state_eqI) simp
    then show ?thesis using True by simp
  next
    case False
    then have "counter_fresh u cfg c ?T" unfolding n by (auto simp: counter_fresh_def filter_empty_conv)
    from tf_count_step [OF wf this T', of uid] False show ?thesis by simp
  qed
qed

lemma transaction_errors:
  "EnableTwoFactor u cfg c codes now s = (Inl e, s') \<Longrightarrow> contents s' = contents s"
  "ReplaceRecoveryCodesAfterTOTP u cfg c codes now s = (Inl e, s') \<Longrightarrow> contents s' = contents s"
  "DisableTwoFactor u s = (Inl e, s') \<Longrightarrow> contents s' = contents s"
  by (simp_all add: EnableTwoFactor_def ReplaceRecoveryCodesAfterTOTP_def DisableTwoFactor_def transaction_rollback)

lemma tf_refinedI:
  assumes "\<And>e. r = Inl e \<Longrightarrow> contents s' = contents s"
    and "r = Inr () \<Longrightarrow> tf_step uid x (tf_state uid (contents s)) = Some (tf_state uid (contents s'))"
  shows "tf_refined uid x (contents s) r (contents s')"
  using assms by (cases r) (auto simp: tf_refined_def)

lemma tf_refines:
  assumes wf: "wf_tables (contents s)" and run: "apply_op x s = (r, s')"
  shows "tf_refined uid x (contents s) r (contents s')"
proof (cases "(\<forall>st \<in> op_stmts x. untouched user_two_factor st) \<and> (\<forall>st. tf_step uid x st = Some st)")
  case True
  then have "tf_state uid (contents s') = tf_state uid (contents s)"
    using tf_untouched_ops run by blast
  with True show ?thesis by (simp add: tf_refined_def)
next
  case False
  show ?thesis
  proof (cases x)
    case (OpSavePending now y)
    with run show ?thesis by (simp add: save_refined [OF wf])
  next
    case (OpSavePendingIfUnchanged now y prev)
    with run show ?thesis by (simp add: save_unchanged_refined [OF wf])
  next
    case (OpConsumeTOTP u cfg c now)
    with run show ?thesis by (simp add: consume_counter_refined [OF wf])
  next
    case (OpConsumeLogin p)
    with run show ?thesis
      using ConsumeLoginSecondFactor_error tf_login_step [OF wf] by (intro tf_refinedI) auto
  next
    case (OpDisable u)
    with run show ?thesis using transaction_errors disable_step [OF wf] by (intro tf_refinedI) auto
  next
    case (OpReplaceCodes u cfg c codes now)
    then have "ReplaceRecoveryCodesAfterTOTP u cfg c codes now s = (r, s')" using run by simp
    then show ?thesis unfolding OpReplaceCodes
      using transaction_errors(2) ReplaceRecoveryCodes_success tf_count_step [OF wf, of u cfg c "contents s'" now uid]
      by (intro tf_refinedI) fastforce+
  next
    case (OpEnable u cfg c codes now)
    then have en: "EnableTwoFactor u cfg c codes now s = (r, s')" using run by simp
    show ?thesis unfolding OpEnable
    proof (rule tf_refinedI)
      show "contents s' = contents s" if "r = Inl e" for e using en that transaction_errors(1) by blast
      assume "r = Inr ()"
      with en have su: "EnableTwoFactor u cfg c codes now s = (Inr (), s')" by simp
      then obtain q where "q \<in> set (user_two_factor (contents s))" "setup_open u cfg now q"
        using EnableTwoFactor_success by blast
      then show "tf_step uid (OpEnable u cfg c codes now) (tf_state uid (contents s)) = Some (tf_state uid (contents s'))"
        using EnableTwoFactor_success [OF su] by (intro tf_enable_step [OF wf]) auto
    qed
  qed (use False in \<open>auto simp: Let_def\<close>)
qed

section \<open>The second step of a login, on a calm connection\<close>

text \<open>The outcome as a decision list over the contents, in the order the checks are made.\<close>

definition login_verdict :: "ConsumeParams \<Rightarrow> tables \<Rightarrow> store_error option" where
  "login_verdict p T =
     (if \<not> one_factor p then Some ErrExactlyOneFactor
      else if \<not> challenge_live p T then Some ErrLoginRestartRequired
      else if \<not> config_current (cp_UserID p) (cp_ConfigurationID p) T then Some ErrLoginRestartRequired
      else if \<not> factor_valid p T then Some ErrInvalidSecondFactor
      else if ae_EventType (cp_Audit p) \<noteq> [] \<and> \<not> audit_fresh (cp_Audit p) T then Some ErrDriver
      else None)"

definition factor_effect :: "ConsumeParams \<Rightarrow> tables \<Rightarrow> tables" where
  "factor_effect p T = (case cp_TOTPCounter p of
     Some c \<Rightarrow> T\<lparr>user_two_factor := bumped (cp_UserID p) (cp_ConfigurationID p) c (cp_Now p) (user_two_factor T)\<rparr>
   | None \<Rightarrow> T\<lparr>two_factor_recovery_codes :=
       used_codes (cp_UserID p) (cp_RecoveryHash p) (cp_Now p) (two_factor_recovery_codes T)\<rparr>)"

lemma consume_challenge_calm:
  "requireAffected (exec (stmt_consume_challenge (cp_Now p) (cp_ChallengeJTI p) (cp_UserID p)
       (cp_ConfigurationID p))) e (calm T) =
     (if challenge_live p T then Inr () else Inl e,
      calm (T\<lparr>login_challenges := consumed_challenges p (login_challenges T)\<rparr>))"
  using stmt_consume_challenge_eq [of p T]
  by (simp add: challenge_live_def filter_empty_conv split: option.splits)
    (auto simp: stmt_consume_challenge_def sql_update_def)

lemma factor_calm:
  "(case cp_TOTPCounter p of
      Some c \<Rightarrow> requireAffected (exec (stmt_bump_counter c (cp_Now p) (cp_UserID p)
                  (cp_ConfigurationID p))) e
    | None \<Rightarrow> requireAffected (exec (stmt_use_recovery (cp_Now p) (cp_UserID p)
                  (cp_RecoveryHash p))) e) (calm T) =
     (if factor_valid p T then Inr () else Inl e, calm (factor_effect p T))"
  by (auto simp: factor_valid_def factor_effect_def counter_fresh_def code_unused_def
      stmt_bump_counter_def stmt_use_recovery_def sql_update_def bumped_def used_codes_def
      filter_empty_conv split: option.splits)

lemma factor_valid_challenges [simp]:
  "factor_valid p (T\<lparr>login_challenges := x\<rparr>) = factor_valid p T"
  by (simp add: factor_valid_def counter_fresh_def code_unused_def split: option.splits)

lemma audit_factor_effect [simp]:
  "audit_fresh e (factor_effect p T) = audit_fresh e T"
  "audit_fresh e (T\<lparr>login_challenges := x\<rparr>) = audit_fresh e T"
  by (simp_all add: audit_fresh_def factor_effect_def split: option.splits)

lemma audit_calm:
  "insertAuditEvent e (calm T) =
     (if audit_fresh e T then (Inr (), calm (T\<lparr>audit_events := audit_events T @ [e]\<rparr>))
      else (Inl ErrDriver, calm T))"
  by (simp add: insertAuditEvent_def insert_audit_def audit_fresh_def calm_simps)

lemma login_body_calm:
  assumes T1: "T1 = T\<lparr>login_challenges := consumed_challenges p (login_challenges T)\<rparr>"
    and T2: "T2 = factor_effect p T1"
  shows "bind (requireAffected (exec (stmt_consume_challenge (cp_Now p) (cp_ChallengeJTI p) (cp_UserID p)
             (cp_ConfigurationID p))) ErrLoginRestartRequired) (\<lambda>_.
         bind (query_row ErrLoginRestartRequired
             (\<lambda>T. map_option tf_ConfigurationID (enabled_row (cp_UserID p) T))) (\<lambda>current.
         if current \<noteq> cp_ConfigurationID p then fail ErrLoginRestartRequired
         else
           bind (case cp_TOTPCounter p of
                   Some c \<Rightarrow> requireAffected (exec (stmt_bump_counter c (cp_Now p) (cp_UserID p)
                               (cp_ConfigurationID p))) ErrInvalidSecondFactor
                 | None \<Rightarrow> requireAffected (exec (stmt_use_recovery (cp_Now p) (cp_UserID p)
                               (cp_RecoveryHash p))) ErrInvalidSecondFactor) (\<lambda>_.
           if ae_EventType (cp_Audit p) \<noteq> [] then insertAuditEvent (cp_Audit p) else ok ()))) (calm T) =
     (if \<not> challenge_live p T \<or> \<not> config_current (cp_UserID p) (cp_ConfigurationID p) T
      then (Inl ErrLoginRestartRequired, calm T1)
      else if \<not> factor_valid p T then (Inl ErrInvalidSecondFactor, calm T2)
      else (if ae_EventType (cp_Audit p) = [] \<or> audit_fresh (cp_Audit p) T then Inr () else Inl ErrDriver,
            calm (if ae_EventType (cp_Audit p) \<noteq> [] \<and> audit_fresh (cp_Audit p) T
                  then T2\<lparr>audit_events := audit_events T2 @ [cp_Audit p]\<rparr> else T2)))"
  (is "bind ?ch (\<lambda>_. bind ?cfg (\<lambda>cur. if cur \<noteq> _ then _ else bind ?fac ?au)) _ = _")
proof -
  have ch: "?ch (calm T) = (if challenge_live p T then Inr () else Inl ErrLoginRestartRequired, calm T1)"
    unfolding T1 by (rule consume_challenge_calm)
  have fac: "?fac (calm T1) = (if factor_valid p T then Inr () else Inl ErrInvalidSecondFactor, calm T2)"
    unfolding T2 factor_calm by (simp add: T1)
  have au: "?au u (calm T2) = (if ae_EventType (cp_Audit p) = [] then (Inr (), calm T2)
      else if audit_fresh (cp_Audit p) T then (Inr (), calm (T2\<lparr>audit_events := audit_events T2 @ [cp_Audit p]\<rparr>))
      else (Inl ErrDriver, calm T2))" for u
    by (simp add: audit_calm ok_def T2 T1)
  have tail: "bind ?fac ?au (calm T1) = (if \<not> factor_valid p T then (Inl ErrInvalidSecondFactor, calm T2)
      else (if ae_EventType (cp_Audit p) = [] \<or> audit_fresh (cp_Audit p) T then Inr () else Inl ErrDriver,
            calm (if ae_EventType (cp_Audit p) \<noteq> [] \<and> audit_fresh (cp_Audit p) T
                  then T2\<lparr>audit_events := audit_events T2 @ [cp_Audit p]\<rparr> else T2)))"
    unfolding bind_def fac by (simp add: au [unfolded bind_def])
  have er: "enabled_row (cp_UserID p) T1 = enabled_row (cp_UserID p) T" by (simp add: T1)
  show ?thesis
  proof (cases "challenge_live p T")
    case False
    with ch show ?thesis by (simp add: bind_Inl_result)
  next
    case True
    then have "?ch (calm T) = (Inr (), calm T1)" using ch by simp
    then show ?thesis using True tail er
      by (cases "enabled_row (cp_UserID p) T")
        (simp_all add: bind_Inr_result bind_Inl_result config_current_def fail_def)
  qed
qed

lemma ConsumeLoginSecondFactor_calm:
  "ConsumeLoginSecondFactor p (calm T) =
     (case login_verdict p T of
        Some e \<Rightarrow> (Inl e, calm T) | None \<Rightarrow> (Inr (), calm (consume_effect p T)))"
proof (cases "one_factor p")
  case False
  then show ?thesis
    by (auto simp: ConsumeLoginSecondFactor_def login_verdict_def one_factor_def Let_def fail_def)
next
  case True
  define T1 where "T1 = T\<lparr>login_challenges := consumed_challenges p (login_challenges T)\<rparr>"
  define T2 where "T2 = factor_effect p T1"
  have one: "\<not> (cp_TOTPCounter p \<noteq> None) = (cp_RecoveryHash p \<noteq> [])" using True by (simp add: one_factor_def)
  have eff: "consume_effect p T = (if ae_EventType (cp_Audit p) = [] then T2
      else T2\<lparr>audit_events := audit_events T2 @ [cp_Audit p]\<rparr>)"
    by (simp add: consume_effect_def factor_effect_def T2_def T1_def split: option.splits)
  have "\<not> ((cp_TOTPCounter p \<noteq> None) = (cp_RecoveryHash p \<noteq> []))" using one by blast
  then have "ConsumeLoginSecondFactor p (calm T) =
     (if \<not> challenge_live p T \<or> \<not> config_current (cp_UserID p) (cp_ConfigurationID p) T
      then (Inl ErrLoginRestartRequired, calm T)
      else if \<not> factor_valid p T then (Inl ErrInvalidSecondFactor, calm T)
      else (if ae_EventType (cp_Audit p) = [] \<or> audit_fresh (cp_Audit p) T then Inr () else Inl ErrDriver,
            calm (case if ae_EventType (cp_Audit p) = [] \<or> audit_fresh (cp_Audit p) T then Inr () else Inl ErrDriver
                  of Inl _ \<Rightarrow> T
                   | Inr _ \<Rightarrow> if ae_EventType (cp_Audit p) \<noteq> [] \<and> audit_fresh (cp_Audit p) T
                       then T2\<lparr>audit_events := audit_events T2 @ [cp_Audit p]\<rparr> else T2)))"
    unfolding ConsumeLoginSecondFactor_def Let_def
    by (simp only: if_False) (rule transaction_calm_eq, rule login_body_calm [OF T1_def T2_def])
  then show ?thesis using True by (simp add: login_verdict_def eff)
qed

end
