(* ===== verification/RecoveryCodes.thy ===== *)
theory RecoveryCodes
  imports TwoFactorSpec
begin

text \<open>
  Recovery codes: enabling two-factor authentication and regenerating the codes leave exactly the
  new codes, and a user without an enabled setting has none.
\<close>

section \<open>Effects\<close>

lemma insertRecoveryCodes_success:
  "insertRecoveryCodes uid codes now s = (Inr (), s') \<Longrightarrow>
     contents s' = (contents s)\<lparr>two_factor_recovery_codes :=
       two_factor_recovery_codes (contents s) @ map (recovery_row uid now) codes\<rparr>"
proof (induction codes arbitrary: s)
  case Nil
  then show ?case by (simp add: ok_def)
next
  case (Cons c cs)
  then obtain t where t: "insertRecoveryCodes uid cs now t = (Inr (), s')"
    and c: "contents t = (contents s)\<lparr>two_factor_recovery_codes :=
      two_factor_recovery_codes (contents s) @ [recovery_row uid now c]\<rparr>"
    by (auto simp: store_inv stmt_insert_recovery_def split: if_splits)
  from Cons.IH [OF t] c show ?case by simp
qed

definition renewed_codes :: "string \<Rightarrow> instant \<Rightarrow> RecoveryCodeInput list \<Rightarrow> tables \<Rightarrow> RecoveryCode list" where
  "renewed_codes uid now codes T =
     filter (\<lambda>r. rc_UserID r \<noteq> uid) (two_factor_recovery_codes T) @ map (recovery_row uid now) codes"

lemma EnableTwoFactor_codes:
  "EnableTwoFactor uid cfg c codes now s = (Inr (), s') \<Longrightarrow>
     contents s' = (contents s)\<lparr>
       user_two_factor := enabled_with uid cfg c now (user_two_factor (contents s)),
       two_factor_recovery_codes := renewed_codes uid now codes (contents s)\<rparr>"
  by (auto simp: EnableTwoFactor_def store_inv stmt_enable_eq stmt_delete_recovery_def sql_delete_def
      renewed_codes_def dest!: insertRecoveryCodes_success)

lemma ReplaceRecoveryCodes_codes:
  "ReplaceRecoveryCodesAfterTOTP uid cfg c codes now s = (Inr (), s') \<Longrightarrow>
     contents s' = (contents s)\<lparr>
       user_two_factor := bumped uid cfg c now (user_two_factor (contents s)),
       two_factor_recovery_codes := renewed_codes uid now codes (contents s)\<rparr>"
  by (auto simp: ReplaceRecoveryCodesAfterTOTP_def store_inv stmt_bump_counter_eq stmt_delete_recovery_def
      sql_delete_def renewed_codes_def dest!: insertRecoveryCodes_success split: if_splits option.splits)

lemma DisableTwoFactor_effect:
  "DisableTwoFactor uid s = (Inr (), s') \<Longrightarrow>
     contents s' = (contents s)\<lparr>
       two_factor_recovery_codes := filter (\<lambda>r. rc_UserID r \<noteq> uid) (two_factor_recovery_codes (contents s)),
       user_two_factor := filter (\<lambda>r. \<not> (tf_UserID r = uid \<and> tf_EnabledAt r \<noteq> None))
         (user_two_factor (contents s))\<rparr>"
  by (auto simp: DisableTwoFactor_def store_inv stmt_delete_recovery_def stmt_delete_enabled_def sql_delete_def)

section \<open>No codes without an enabled setting\<close>

definition codes_guarded :: "tables \<Rightarrow> bool" where
  "codes_guarded T \<longleftrightarrow> (\<forall>c \<in> set (two_factor_recovery_codes T).
     \<exists>r \<in> set (user_two_factor T). tf_UserID r = rc_UserID c \<and> tf_EnabledAt r \<noteq> None)"

text \<open>An update that keeps enabled rows enabled keeps the users who have one.\<close>

lemma enabled_kept:
  assumes "\<exists>r \<in> set rows. tf_UserID r = u \<and> tf_EnabledAt r \<noteq> None"
    and "\<And>r. p r \<Longrightarrow> tf_UserID (g r) = tf_UserID r \<and> (tf_EnabledAt r \<noteq> None \<longrightarrow> tf_EnabledAt (g r) \<noteq> None)"
  shows "\<exists>r \<in> set (map (\<lambda>r. if p r then g r else r) rows). tf_UserID r = u \<and> tf_EnabledAt r \<noteq> None"
proof -
  obtain r where r: "r \<in> set rows" "tf_UserID r = u" "tf_EnabledAt r \<noteq> None" using assms(1) by blast
  let ?q = "if p r then g r else r"
  have "?q \<in> set (map (\<lambda>r. if p r then g r else r) rows)" using r(1) by auto
  moreover have "tf_UserID ?q = u \<and> tf_EnabledAt ?q \<noteq> None"
    using r assms(2) [of r] by (cases "p r") auto
  ultimately show ?thesis by blast
qed

lemma guarded_update:
  assumes "codes_guarded T"
    and "rc_UserID ` set (two_factor_recovery_codes T') \<subseteq> rc_UserID ` set (two_factor_recovery_codes T)"
    and "user_two_factor T' = map (\<lambda>r. if p r then g r else r) (user_two_factor T)"
    and "\<And>r. p r \<Longrightarrow> tf_UserID (g r) = tf_UserID r \<and> (tf_EnabledAt r \<noteq> None \<longrightarrow> tf_EnabledAt (g r) \<noteq> None)"
  shows "codes_guarded T'"
  unfolding codes_guarded_def
proof
  fix c assume "c \<in> set (two_factor_recovery_codes T')"
  then obtain d where "d \<in> set (two_factor_recovery_codes T)" "rc_UserID d = rc_UserID c" using assms(2) by force
  then have "\<exists>r \<in> set (user_two_factor T). tf_UserID r = rc_UserID c \<and> tf_EnabledAt r \<noteq> None"
    using assms(1) unfolding codes_guarded_def by metis
  from enabled_kept [OF this assms(4)]
  show "\<exists>r \<in> set (user_two_factor T'). tf_UserID r = rc_UserID c \<and> tf_EnabledAt r \<noteq> None"
    unfolding assms(3) by blast
qed

lemma guarded_frame:
  "untouched user_two_factor st \<Longrightarrow> untouched two_factor_recovery_codes st \<Longrightarrow> keeps codes_guarded st"
  by (auto simp: untouched_def keeps_def codes_guarded_def)

lemma guarded_updateI:
  assumes "\<And>T T' n. st T = Some (T', n) \<Longrightarrow>
      two_factor_recovery_codes T' = two_factor_recovery_codes T \<and>
      user_two_factor T' = map (\<lambda>r. if p r then g r else r) (user_two_factor T)"
    and "\<And>r. p r \<Longrightarrow> tf_UserID (g r) = tf_UserID r \<and> (tf_EnabledAt r \<noteq> None \<longrightarrow> tf_EnabledAt (g r) \<noteq> None)"
  shows "keeps codes_guarded st"
proof (rule keepsI)
  fix T T' n assume g: "codes_guarded T" and st: "st T = Some (T', n)"
  show "codes_guarded T'"
    by (rule guarded_update [OF g _ _ assms(2)]) (use assms(1) [OF st] in auto)
qed

lemma guarded_bump: "keeps codes_guarded (stmt_bump_counter c now u cfg)"
  by (rule guarded_updateI [where p = "\<lambda>r. tf_UserID r = u \<and> tf_ConfigurationID r = cfg \<and>
      tf_EnabledAt r \<noteq> None \<and> counter_open r c" and
      g = "\<lambda>r. r\<lparr>tf_LastTOTPCounter := Some c, tf_UpdatedAt := now\<rparr>"])
    (auto simp: stmt_bump_counter_eq bumped_def)

lemma guarded_replace: "keeps codes_guarded (stmt_replace_pending y prev)"
  unfolding stmt_replace_pending_def sql_update_def
  by (rule guarded_updateI [where g = "replace_pending y" and p = "\<lambda>r. tf_UserID r = tf_UserID y \<and>
      tf_ConfigurationID r = prev \<and> tf_EnabledAt r = None"]) (auto simp: replace_pending_def)

lemma guarded_enable: "keeps codes_guarded (stmt_enable u cfg c now)"
  by (rule guarded_updateI [where p = "setup_open u cfg now" and
      g = "\<lambda>r. r\<lparr>tf_EnabledAt := Some now, tf_SetupExpiresAt := None, tf_LastTOTPCounter := Some c,
        tf_UpdatedAt := now\<rparr>"]) (auto simp: stmt_enable_eq enabled_with_def)

lemma guarded_insert_pending: "keeps codes_guarded (stmt_insert_pending y)"
  by (rule keepsI) (fastforce simp: codes_guarded_def stmt_insert_pending_def split: if_splits)

lemma guarded_upsert: "keeps codes_guarded (stmt_upsert_pending y)"
proof (rule keepsI)
  fix T T' n assume g: "codes_guarded T" and st: "stmt_upsert_pending y T = Some (T', n)"
  show "codes_guarded T'"
  proof (cases "tf_UserID y \<in> tf_UserID ` set (user_two_factor T)")
    case True
    with st have "two_factor_recovery_codes T' = two_factor_recovery_codes T"
      and "user_two_factor T' = map (\<lambda>r. if tf_UserID r = tf_UserID y \<and> tf_EnabledAt r = None
        then replace_pending y r else r) (user_two_factor T)"
      by (auto simp: stmt_upsert_pending_def sql_update_def)
    then show ?thesis
      by (intro guarded_update [OF g, where g = "replace_pending y" and
          p = "\<lambda>r. tf_UserID r = tf_UserID y \<and> tf_EnabledAt r = None"]) (auto simp: replace_pending_def)
  next
    case False
    with st g show ?thesis
      by (fastforce simp: codes_guarded_def stmt_upsert_pending_def split: if_splits)
  qed
qed

lemma guarded_use: "keeps codes_guarded (stmt_use_recovery now u h)"
proof (rule keepsI)
  fix T T' n assume g: "codes_guarded T" and st: "stmt_use_recovery now u h T = Some (T', n)"
  then have rc: "two_factor_recovery_codes T' = map (\<lambda>r. if rc_UserID r = u \<and> rc_CodeHash r = h \<and>
        rc_UsedAt r = None then r\<lparr>rc_UsedAt := Some now\<rparr> else r) (two_factor_recovery_codes T)"
    and tf: "user_two_factor T' = user_two_factor T"
    by (auto simp: stmt_use_recovery_def sql_update_def)
  have "map rc_UserID (two_factor_recovery_codes T') = map rc_UserID (two_factor_recovery_codes T)"
    unfolding rc by simp
  then have "rc_UserID ` set (two_factor_recovery_codes T') = rc_UserID ` set (two_factor_recovery_codes T)"
    by (metis list.set_map)
  then show "codes_guarded T'" using guarded_update [OF g, of T' "\<lambda>_. False" "\<lambda>r. r"] tf by simp
qed

lemma guarded_delete: "keeps codes_guarded (stmt_delete_recovery u)"
  by (rule keepsI) (auto simp: codes_guarded_def stmt_delete_recovery_def sql_delete_def)

lemma guarded_renewed:
  assumes g: "codes_guarded T" and u: "\<exists>r \<in> set rows. tf_UserID r = uid \<and> tf_EnabledAt r \<noteq> None"
    and rows: "rows = map (\<lambda>r. if p r then h r else r) (user_two_factor T)"
    and keep: "\<And>r. p r \<Longrightarrow> tf_UserID (h r) = tf_UserID r \<and> (tf_EnabledAt r \<noteq> None \<longrightarrow> tf_EnabledAt (h r) \<noteq> None)"
  shows "codes_guarded (T\<lparr>user_two_factor := rows, two_factor_recovery_codes := renewed_codes uid now codes T\<rparr>)"
proof -
  have "codes_guarded (T\<lparr>user_two_factor := rows\<rparr>)"
    by (rule guarded_update [OF g _ _ keep]) (auto simp: rows)
  with u show ?thesis by (auto simp: codes_guarded_def renewed_codes_def recovery_row_def)
qed

text \<open>The operations that touch both tables are transactions, and take both together.\<close>

lemma guarded_transactions:
  "preserves codes_guarded (EnableTwoFactor uid cfg c codes now)"
  "preserves codes_guarded (ReplaceRecoveryCodesAfterTOTP uid cfg c codes now)"
  "preserves codes_guarded (DisableTwoFactor uid)"
proof -
  have split: "preserves codes_guarded m"
    if "\<And>s e s'. m s = (Inl e, s') \<Longrightarrow> contents s' = contents s"
      and "\<And>s s'. m s = (Inr (), s') \<Longrightarrow> codes_guarded (contents s) \<Longrightarrow> codes_guarded (contents s')"
    for m :: "unit store"
    unfolding preserves_def
  proof (intro allI impI)
    fix s :: "tables conn" assume g: "codes_guarded (contents s)"
    obtain r s' where m: "m s = (r, s')" by (cases "m s")
    then show "codes_guarded (contents (snd (m s)))" using that g by (cases r) auto
  qed
  show "preserves codes_guarded (EnableTwoFactor uid cfg c codes now)"
  proof (rule split)
    fix s s' assume su: "EnableTwoFactor uid cfg c codes now s = (Inr (), s')" and g: "codes_guarded (contents s)"
    let ?rows = "enabled_with uid cfg c now (user_two_factor (contents s))"
    obtain r where r: "r \<in> set (user_two_factor (contents s))" "setup_open uid cfg now r"
      using EnableTwoFactor_success [OF su] by blast
    let ?q = "r\<lparr>tf_EnabledAt := Some now, tf_SetupExpiresAt := None, tf_LastTOTPCounter := Some c,
      tf_UpdatedAt := now\<rparr>"
    have "?q \<in> set ?rows" unfolding enabled_with_def set_map using r by (intro image_eqI [of _ _ r]) simp_all
    moreover have "tf_UserID ?q = uid \<and> tf_EnabledAt ?q \<noteq> None" using r(2) by (simp add: setup_open_def)
    ultimately have "\<exists>q \<in> set ?rows. tf_UserID q = uid \<and> tf_EnabledAt q \<noteq> None" by blast
    then show "codes_guarded (contents s')" unfolding EnableTwoFactor_codes [OF su]
      by (rule guarded_renewed [OF g _ enabled_with_def]) simp
  qed (rule transaction_errors)
  show "preserves codes_guarded (ReplaceRecoveryCodesAfterTOTP uid cfg c codes now)"
  proof (rule split)
    fix s s' assume su: "ReplaceRecoveryCodesAfterTOTP uid cfg c codes now s = (Inr (), s')"
      and g: "codes_guarded (contents s)"
    let ?rows = "bumped uid cfg c now (user_two_factor (contents s))"
    obtain r where r: "r \<in> set (user_two_factor (contents s))" "tf_UserID r = uid" "tf_EnabledAt r \<noteq> None"
      using ReplaceRecoveryCodes_success [OF su] by (auto simp: counter_fresh_def)
    then have "\<exists>q \<in> set ?rows. tf_UserID q = uid \<and> tf_EnabledAt q \<noteq> None"
      unfolding bumped_def by (intro enabled_kept) auto
    then show "codes_guarded (contents s')" unfolding ReplaceRecoveryCodes_codes [OF su]
      by (rule guarded_renewed [OF g _ bumped_def]) simp
  qed (rule transaction_errors)
  show "preserves codes_guarded (DisableTwoFactor uid)"
  proof (rule split)
    fix s s' assume su: "DisableTwoFactor uid s = (Inr (), s')" and g: "codes_guarded (contents s)"
    show "codes_guarded (contents s')" unfolding DisableTwoFactor_effect [OF su]
      using g by (fastforce simp: codes_guarded_def)
  qed (rule transaction_errors)
qed

definition touches_codes_and_settings :: "store_op \<Rightarrow> bool" where
  "touches_codes_and_settings x \<longleftrightarrow>
     (case x of OpEnable _ _ _ _ _ \<Rightarrow> True | OpReplaceCodes _ _ _ _ _ \<Rightarrow> True | OpDisable _ \<Rightarrow> True | _ \<Rightarrow> False)"

lemma guarded_op_stmts: "\<not> touches_codes_and_settings x \<Longrightarrow> st \<in> op_stmts x \<Longrightarrow> keeps codes_guarded st"
  by (cases x) (auto simp: touches_codes_and_settings_def Let_def guarded_frame guarded_bump guarded_replace
      guarded_insert_pending guarded_upsert guarded_use)

lemma guarded_ops: "preserves codes_guarded (apply_op x)"
proof (cases "touches_codes_and_settings x")
  case True
  then show ?thesis
    by (cases x) (simp_all add: touches_codes_and_settings_def guarded_transactions)
next
  case False
  then show ?thesis by (intro op_preserves) (rule guarded_op_stmts)
qed

end
