(* ===== verification/StoreClaims.thy ===== *)
theory StoreClaims
  imports RecoveryCodes
begin

text \<open>
  The properties of \<^verbatim>\<open>server/internal/store/store.go\<close>. A run starts from the database \<^verbatim>\<open>Migrate\<close>
  creates and is any sequence of operations; the script of failures is arbitrary.
\<close>

definition started :: "bool list \<Rightarrow> tables conn" where
  "started f = \<lparr>contents = empty_tables, faults = f\<rparr>"

lemma runs_wf: "wf_tables (contents (run_ops xs (started f)))"
  by (rule runs_preserve) (simp_all add: wf_keeps_stmts started_def wf_empty)

section \<open>A sample run, for the witnesses\<close>

definition sample_user :: User where
  "sample_user = \<lparr>u_ID = ''u1'', u_Username = ''admin'', u_PasswordHash = ''h'', u_CreatedAt = 1, u_UpdatedAt = 1\<rparr>"

definition sample_setting :: UserTwoFactor where
  "sample_setting = \<lparr>tf_UserID = ''u1'', tf_ConfigurationID = ''cfg'', tf_SecretCiphertext = ''x'',
     tf_SetupExpiresAt = Some 100, tf_EnabledAt = None, tf_LastTOTPCounter = None, tf_CreatedAt = 1, tf_UpdatedAt = 1\<rparr>"

definition sample_code :: RecoveryCodeInput where
  "sample_code = \<lparr>rci_ID = ''r1'', rci_Hash = ''rh''\<rparr>"

definition sample_challenge :: LoginChallenge where
  "sample_challenge = \<lparr>lc_JTI = ''j'', lc_UserID = ''u1'', lc_ConfigurationID = ''cfg'', lc_ExpiresAt = 300,
     lc_ConsumedAt = None, lc_CreatedAt = 60\<rparr>"

definition no_audit :: AuditEvent where
  "no_audit = \<lparr>ae_ID = [], ae_UserID = [], ae_DeviceID = [], ae_SessionID = [], ae_EventType = [],
     ae_Summary = [], ae_MetadataJSON = [], ae_CreatedAt = 0\<rparr>"

definition sample_login :: "int option \<Rightarrow> string \<Rightarrow> ConsumeParams" where
  "sample_login c h = \<lparr>cp_ChallengeJTI = ''j'', cp_UserID = ''u1'', cp_ConfigurationID = ''cfg'',
     cp_TOTPCounter = c, cp_RecoveryHash = h, cp_Now = 70, cp_Audit = no_audit\<rparr>"

definition sample_token :: CreateAgentTokenParams where
  "sample_token = \<lparr>ctp_ID = ''t1'', ctp_Name = ''laptop'', ctp_TokenHash = ''th'', ctp_ExpiresAt = 500\<rparr>"

definition sample_ops :: "store_op list" where
  "sample_ops =
     [OpCreateUser 1 sample_user, OpSavePending 1 sample_setting,
      OpEnable ''u1'' ''cfg'' 7 [sample_code] 50, OpCreateLoginChallenge 60 sample_challenge,
      OpCreateToken 60 sample_token]"

lemmas sample_defs = sample_user_def sample_setting_def sample_code_def sample_challenge_def no_audit_def
  sample_login_def sample_token_def sample_ops_def

section \<open>Properties\<close>

text \<open>C1: A TOTP counter that an operation accepted for a user's configuration is never accepted
  again, nor is any smaller one, whatever operations follow and whatever fails, unless the same
  configuration is set up anew.\<close>

theorem totp_counter_once:
  assumes "accepts_counter uid cfg c x" and "fst (apply_op x (run_ops ws (started f))) = Inr ()"
    and "\<forall>y \<in> set ys. \<not> saves_config uid cfg y" and "accepts_counter uid cfg d z" and "d \<le> c"
  shows "\<exists>e. fst (apply_op z (run_ops ys (snd (apply_op x (run_ops ws (started f)))))) = Inl e"
proof (rule totp.no_second_use [OF runs_wf assms(1-3)])
  show "accepts_upto uid cfg c z" using assms(4,5) by (auto simp: accepts_upto_def)
qed

theorem totp_counter_once_witness:
  "\<exists>e. fst (apply_op (OpConsumeLogin (sample_login (Some 8) [])) (run_ops [OpCreateLoginChallenge 65 sample_challenge]
     (snd (apply_op (OpConsumeTOTP ''u1'' ''cfg'' 8 60) (run_ops sample_ops (started [])))))) = Inl e"
proof (rule totp_counter_once)
  show "accepts_counter ''u1'' ''cfg'' 8 (OpConsumeTOTP ''u1'' ''cfg'' 8 60)" by (simp add: accepts_counter_def)
  show "fst (apply_op (OpConsumeTOTP ''u1'' ''cfg'' 8 60) (run_ops sample_ops (started []))) = Inr ()" by code_simp
  show "\<forall>y \<in> set [OpCreateLoginChallenge 65 sample_challenge]. \<not> saves_config ''u1'' ''cfg'' y"
    by (simp add: saves_config_def)
  show "accepts_counter ''u1'' ''cfg'' 8 (OpConsumeLogin (sample_login (Some 8) []))"
    by (simp add: accepts_counter_def sample_login_def)
qed simp

text \<open>C2: A login challenge that completed a login never completes another one, whatever operations
  follow and whatever fails, unless a challenge with the same identifier is created.\<close>

theorem challenge_once:
  assumes "consumes_challenge jti x" and "fst (apply_op x (run_ops ws (started f))) = Inr ()"
    and "\<forall>y \<in> set ys. \<not> creates_challenge jti y" and "consumes_challenge jti z"
  shows "\<exists>e. fst (apply_op z (run_ops ys (snd (apply_op x (run_ops ws (started f)))))) = Inl e"
  by (rule challenge.no_second_use [OF runs_wf assms])

theorem challenge_once_witness:
  "\<exists>e. fst (apply_op (OpConsumeLogin (sample_login (Some 9) [])) (run_ops [OpSessionTitle 61 ''s'' ''t'']
     (snd (apply_op (OpConsumeLogin (sample_login (Some 8) [])) (run_ops sample_ops (started [])))))) = Inl e"
proof (rule challenge_once)
  show "consumes_challenge ''j'' (OpConsumeLogin (sample_login (Some 8) []))"
    by (simp add: consumes_challenge_def sample_login_def)
  show "fst (apply_op (OpConsumeLogin (sample_login (Some 8) [])) (run_ops sample_ops (started []))) = Inr ()"
    by code_simp
  show "\<forall>y \<in> set [OpSessionTitle 61 ''s'' ''t'']. \<not> creates_challenge ''j'' y"
    by (simp add: creates_challenge_def)
  show "consumes_challenge ''j'' (OpConsumeLogin (sample_login (Some 9) []))"
    by (simp add: consumes_challenge_def sample_login_def)
qed

text \<open>C3: A recovery code works once: after it was accepted, to log in or otherwise, it is refused
  whatever operations follow and whatever fails, unless the same code is issued anew.\<close>

theorem recovery_code_once:
  assumes "accepts_code uid h x" and "fst (apply_op x (run_ops ws (started f))) = Inr ()"
    and "\<forall>y \<in> set ys. \<not> inserts_code uid h y" and "accepts_code uid h z"
  shows "\<exists>e. fst (apply_op z (run_ops ys (snd (apply_op x (run_ops ws (started f)))))) = Inl e"
  by (rule recovery.no_second_use [OF runs_wf assms])

theorem recovery_code_once_witness:
  "\<exists>e. fst (apply_op (OpConsumeRecovery ''u1'' ''rh'' 80) (run_ops [OpCreateLoginChallenge 65 sample_challenge]
     (snd (apply_op (OpConsumeLogin (sample_login None ''rh'')) (run_ops sample_ops (started [])))))) = Inl e"
proof (rule recovery_code_once)
  show "accepts_code ''u1'' ''rh'' (OpConsumeLogin (sample_login None ''rh''))"
    by (simp add: accepts_code_def sample_login_def)
  show "fst (apply_op (OpConsumeLogin (sample_login None ''rh'')) (run_ops sample_ops (started []))) = Inr ()"
    by code_simp
  show "\<forall>y \<in> set [OpCreateLoginChallenge 65 sample_challenge]. \<not> inserts_code ''u1'' ''rh'' y"
    by (simp add: inserts_code_def)
  show "accepts_code ''u1'' ''rh'' (OpConsumeRecovery ''u1'' ''rh'' 80)" by (simp add: accepts_code_def)
qed

text \<open>C4: A registration token registers one device: once used it is refused, whatever operations
  follow and whatever fails, unless a token with the same hash is created.\<close>

theorem registration_token_once:
  assumes "uses_token h x" and "fst (apply_op x (run_ops ws (started f))) = Inr ()"
    and "\<forall>y \<in> set ys. \<not> creates_token h y" and "uses_token h z"
  shows "\<exists>e. fst (apply_op z (run_ops ys (snd (apply_op x (run_ops ws (started f)))))) = Inl e"
  by (rule token.no_second_use [OF runs_wf assms])

theorem registration_token_once_witness:
  "\<exists>e. fst (apply_op (OpUseToken ''th'' 80) (run_ops [OpRevokeToken ''t1'' 75]
     (snd (apply_op (OpUseToken ''th'' 70) (run_ops sample_ops (started [])))))) = Inl e"
proof (rule registration_token_once)
  show "uses_token ''th'' (OpUseToken ''th'' 70)" "uses_token ''th'' (OpUseToken ''th'' 80)"
    by (simp_all add: uses_token_def)
  show "fst (apply_op (OpUseToken ''th'' 70) (run_ops sample_ops (started []))) = Inr ()" by code_simp
  show "\<forall>y \<in> set [OpRevokeToken ''t1'' 75]. \<not> creates_token ''th'' y" by (simp add: creates_token_def)
qed

text \<open>C5: The second step of a login on a connection with no failure ahead: the first failing check
  decides the error and nothing is changed; when all checks pass, the challenge is consumed, the
  factor is spent and the audit event is stored, together.\<close>

theorem second_factor_outcome:
  "ConsumeLoginSecondFactor p (calm T) =
     (case login_verdict p T of
        Some e \<Rightarrow> (Inl e, calm T) | None \<Rightarrow> (Inr (), calm (consume_effect p T)))"
  by (rule ConsumeLoginSecondFactor_calm)

text \<open>C6: The second step of a login is atomic whatever driver calls fail: an error leaves the
  database as it was, and a success means that every check passed and the whole effect was made.\<close>

theorem second_factor_atomic:
  "case ConsumeLoginSecondFactor p s of
     (Inl e, s') \<Rightarrow> contents s' = contents s
   | (Inr _, s') \<Rightarrow> login_verdict p (contents s) = None \<and> contents s' = consume_effect p (contents s)"
proof (rule outcomeI)
  show "contents s' = contents s" if "ConsumeLoginSecondFactor p s = (Inl e, s')" for e s'
    using that by (rule ConsumeLoginSecondFactor_error)
  show "login_verdict p (contents s) = None \<and> contents s' = consume_effect p (contents s)"
    if "ConsumeLoginSecondFactor p s = (Inr u, s')" for u s'
    using ConsumeLoginSecondFactor_success [OF that] by (simp add: login_verdict_def)
qed

text \<open>C7: Every operation of the store implements the state machine of two-factor settings (off,
  pending setup, on with a configuration and the last accepted counter): when it succeeds, each
  user's state makes the machine's step; when it fails, the state makes that step or stays.\<close>

theorem two_factor_machine:
  "tf_refined uid x (contents (run_ops ws (started f))) (fst (apply_op x (run_ops ws (started f))))
     (contents (snd (apply_op x (run_ops ws (started f)))))"
  by (rule tf_refines [OF runs_wf]) simp

text \<open>In every run, whatever fails, a recovery code belongs to a user whose two-factor
  setting is enabled: disabling leaves no code behind and a pending setup has none.\<close>

theorem codes_only_with_enabled_setting:
  "codes_guarded (contents (run_ops ws (started f)))"
proof (rule run_ops_preserves)
  show "codes_guarded (contents (started f))" by (simp add: started_def codes_guarded_def empty_tables_def)
qed (rule guarded_ops)

text \<open>Confirming a setup is atomic: an error changes nothing; a success found an open setup of
  that configuration, switched it on with the confirmed counter, and made the given codes, all
  unused, the user's only recovery codes.\<close>

theorem enable_two_factor_effect:
  "case EnableTwoFactor uid cfg c codes now s of
     (Inl e, s') \<Rightarrow> contents s' = contents s
   | (Inr _, s') \<Rightarrow>
       (\<exists>r \<in> set (user_two_factor (contents s)). setup_open uid cfg now r) \<and>
       contents s' = (contents s)\<lparr>
         user_two_factor := enabled_with uid cfg c now (user_two_factor (contents s)),
         two_factor_recovery_codes := renewed_codes uid now codes (contents s)\<rparr>"
proof (rule outcomeI, goal_cases)
  case (1 e s')
  then show ?case by (rule transaction_errors)
next
  case (2 u s')
  then have "EnableTwoFactor uid cfg c codes now s = (Inr (), s')" by simp
  then show ?case using EnableTwoFactor_success EnableTwoFactor_codes by blast
qed

text \<open>Regenerating recovery codes is atomic: an error changes nothing; a success spent a fresh
  TOTP counter of the enabled configuration and made the new codes the user's only ones.\<close>

theorem regenerate_codes_effect:
  "case ReplaceRecoveryCodesAfterTOTP uid cfg c codes now s of
     (Inl e, s') \<Rightarrow> contents s' = contents s
   | (Inr _, s') \<Rightarrow>
       counter_fresh uid cfg c (contents s) \<and>
       contents s' = (contents s)\<lparr>
         user_two_factor := bumped uid cfg c now (user_two_factor (contents s)),
         two_factor_recovery_codes := renewed_codes uid now codes (contents s)\<rparr>"
proof (rule outcomeI, goal_cases)
  case (1 e s')
  then show ?case by (rule transaction_errors)
next
  case (2 u s')
  then have "ReplaceRecoveryCodesAfterTOTP uid cfg c codes now s = (Inr (), s')" by simp
  then show ?case using ReplaceRecoveryCodes_success ReplaceRecoveryCodes_codes by blast
qed

text \<open>The constraints \<^verbatim>\<open>Migrate\<close> declares (primary keys, unique columns, foreign keys) hold
  after every run of the store's operations, whatever fails.\<close>

theorem constraints_hold:
  "wf_tables (contents (run_ops ws (started f)))"
  by (rule runs_wf)

end
