(* ===== verification/Limiter.thy ===== *)
theory Limiter
  imports GoStrings "HOL-Library.Multiset"
begin

text \<open>
  \<^verbatim>\<open>server/internal/auth/limiter.go\<close>: the limiter of failed logins, with the key loops of
  \<^verbatim>\<open>httpapi/router.go\<close> that consult it for several keys. The abstract specification is a
  fixed-window counter per key (\<open>view\<close>, \<open>spec_fail\<close>, \<open>spec_allow\<close>), which forgets the last
  access times and the entries that no longer matter.
\<close>

section \<open>Iteration over a Go map\<close>

text \<open>
  The runtime chooses the order in which \<^verbatim>\<open>range\<close> visits a map. \<open>visit \<sigma> xs\<close> is the order that
  the choices \<open>\<sigma>\<close> give; every permutation is one of them.
\<close>

type_synonym choice = "nat list"

fun visit :: "choice \<Rightarrow> 'a list \<Rightarrow> 'a list" where
  "visit _ [] = []"
| "visit [] (x # xs) = x # xs"
| "visit (i # is) (x # xs) =
     (let ys = x # xs; j = i mod length ys in ys ! j # visit is (take j ys @ drop (Suc j) ys))"

lemma mset_visit [simp]: "mset (visit is xs) = mset xs"
proof (induction "is" xs rule: visit.induct)
  case (3 i "is" x xs)
  define ys where "ys = x # xs"
  define j where "j = i mod length ys"
  have j: "j < length ys" by (simp add: j_def ys_def)
  have "mset (ys ! j # (take j ys @ drop (Suc j) ys)) = mset (take j ys @ ys ! j # drop (Suc j) ys)"
    by simp
  also have "take j ys @ ys ! j # drop (Suc j) ys = ys" using j by (rule id_take_nth_drop [symmetric])
  finally show ?case using "3.IH" [OF ys_def j_def] by (simp add: ys_def j_def Let_def)
qed simp_all

lemma set_visit [simp]: "set (visit is xs) = set xs"
  by (metis mset_visit set_mset_mset)

lemma length_visit [simp]: "length (visit is xs) = length xs"
  by (metis mset_visit size_mset)

lemma distinct_visit [simp]: "distinct (visit is xs) = distinct xs"
  by (metis mset_visit mset_eq_imp_distinct_iff)

lemma visit_Nil_iff [simp]: "visit is xs = [] \<longleftrightarrow> xs = []"
  by (metis length_0_conv length_visit)

lemma visit_surj: "mset ys = mset xs \<Longrightarrow> \<exists>is. visit is xs = ys"
proof (induction ys arbitrary: xs)
  case Nil
  then show ?case by simp
next
  case (Cons y ys)
  then have "y \<in> set xs" by (metis list.set_intros(1) set_mset_mset)
  then obtain j where j: "j < length xs" "xs ! j = y" by (auto simp: in_set_conv_nth)
  let ?r = "take j xs @ drop (Suc j) xs"
  have "mset xs = mset (take j xs @ xs ! j # drop (Suc j) xs)"
    using id_take_nth_drop [OF j(1)] by (rule arg_cong)
  with Cons.prems j(2) have "mset ys = mset ?r" by simp
  then obtain "is" where "visit is ?r = ys" using Cons.IH by blast
  moreover obtain z zs where "xs = z # zs" using j by (cases xs) auto
  ultimately have "visit (j # is) xs = y # ys" using j by (simp add: Let_def)
  then show ?case by blast
qed

section \<open>The limiter\<close>

record failureEntry =
  Failures :: int
  WindowStart :: instant
  BlockedUntil :: instant
  LastSeen :: instant

record FailureLimiter =
  entries :: "(string \<times> failureEntry) list"
  maxFailures :: int
  window :: duration
  blockFor :: duration
  maxEntries :: int

definition zero_entry :: failureEntry where
  "zero_entry = \<lparr>Failures = 0, WindowStart = zero_time, BlockedUntil = zero_time, LastSeen = zero_time\<rparr>"

datatype limiter_panic = MaxFailuresNotPositive | WindowNotPositive | BlockForNotPositive

definition NewFailureLimiter ::
    "int \<Rightarrow> duration \<Rightarrow> duration \<Rightarrow> int \<Rightarrow> limiter_panic + FailureLimiter" where
  "NewFailureLimiter maxFail win blk maxEnt =
     (if maxFail \<le> 0 then Inl MaxFailuresNotPositive
      else if win \<le> 0 then Inl WindowNotPositive
      else if blk \<le> 0 then Inl BlockForNotPositive
      else Inr \<lparr>entries = [], maxFailures = maxFail, window = win, blockFor = blk,
                maxEntries = (if maxEnt < 1 then 1 else maxEnt)\<rparr>)"

text \<open>
  What the environment gives one call: the reading of the clock, and the runtime's choices for
  the \<open>n\<close>-th round of the eviction loop.
\<close>

record call =
  at_time :: instant
  rounds :: "nat \<Rightarrow> choice"

definition Allow :: "instant \<Rightarrow> string \<Rightarrow> FailureLimiter \<Rightarrow> (bool \<times> duration) \<times> FailureLimiter" where
  "Allow now key l =
     (case map_of (entries l) key of
        None \<Rightarrow> ((True, 0), l)
      | Some e \<Rightarrow>
          if now < BlockedUntil e
          then ((False, time_sub (BlockedUntil e) now),
                l\<lparr>entries := AList.update key (e\<lparr>LastSeen := now\<rparr>) (entries l)\<rparr>)
          else if \<not> now < time_add (WindowStart e) (window l)
          then ((True, 0), l\<lparr>entries := AList.delete key (entries l)\<rparr>)
          else ((True, 0), l\<lparr>entries := AList.update key (e\<lparr>LastSeen := now\<rparr>) (entries l)\<rparr>))"

text \<open>The inner loop of \<^verbatim>\<open>evict\<close>: the first entry, in the visited order, with the least last access.\<close>

fun oldest :: "(string \<times> failureEntry) list \<Rightarrow> (string \<times> instant) option \<Rightarrow> (string \<times> instant) option" where
  "oldest [] acc = acc"
| "oldest ((k, e) # es) acc =
     oldest es (case acc of
                  None \<Rightarrow> Some (k, LastSeen e)
                | Some (_, seen) \<Rightarrow> if LastSeen e < seen then Some (k, LastSeen e) else acc)"

definition stale_entry :: "instant \<Rightarrow> duration \<Rightarrow> failureEntry \<Rightarrow> bool" where
  "stale_entry now win e \<longleftrightarrow> \<not> now < BlockedUntil e \<and> win \<le> time_sub now (LastSeen e)"

lemma oldest_in:
  "oldest es acc = Some (k, t) \<Longrightarrow> acc = Some (k, t) \<or> (\<exists>e. (k, e) \<in> set es \<and> t = LastSeen e)"
  by (induction es acc rule: oldest.induct) (auto split: option.splits if_splits)

lemma oldest_None_iff: "oldest es acc = None \<longleftrightarrow> es = [] \<and> acc = None"
  by (induction es acc rule: oldest.induct) (auto split: option.splits if_splits)

function evict_loop ::
    "(nat \<Rightarrow> choice) \<Rightarrow> nat \<Rightarrow> int \<Rightarrow> (string \<times> failureEntry) list \<Rightarrow> (string \<times> failureEntry) list" where
  "evict_loop ch n cap es =
     (if cap \<le> int (length es)
      then case oldest (visit (ch n) es) None of
             None \<Rightarrow> es
           | Some (k, _) \<Rightarrow> evict_loop ch (Suc n) cap (AList.delete k es)
      else es)"
  by pat_completeness auto
termination
proof (relation "measure (\<lambda>(ch, n, cap, es). length es)", goal_cases)
  case (2 ch n cap es p k t)
  then have "oldest (visit (ch n) es) None = Some (k, t)" by simp
  then have "k \<in> fst ` set es" by (force dest: oldest_in)
  then show ?case by (simp add: length_delete_less)
qed simp

declare evict_loop.simps [simp del]

definition evict :: "call \<Rightarrow> FailureLimiter \<Rightarrow> FailureLimiter" where
  "evict c l =
     (let es = filter (\<lambda>(k, e). \<not> stale_entry (at_time c) (window l) e) (entries l)
      in if maxEntries l < 1 then l\<lparr>entries := es\<rparr>
         else l\<lparr>entries := evict_loop (rounds c) 0 (maxEntries l) es\<rparr>)"

text \<open>The entry \<^verbatim>\<open>RecordFailure\<close> stores, from the entry found (or the zero entry when there is none).\<close>

definition count_failure :: "instant \<Rightarrow> failureEntry option \<Rightarrow> FailureLimiter \<Rightarrow> failureEntry" where
  "count_failure now found l =
     (let e0 = (case found of
                  None \<Rightarrow> zero_entry\<lparr>WindowStart := now\<rparr>
                | Some e \<Rightarrow>
                    if \<not> now < time_add (WindowStart e) (window l)
                    then (if now < BlockedUntil e
                          then zero_entry\<lparr>WindowStart := now, BlockedUntil := BlockedUntil e\<rparr>
                          else zero_entry\<lparr>WindowStart := now\<rparr>)
                    else e);
          e1 = e0\<lparr>Failures := Failures e0 + 1, LastSeen := now\<rparr>
      in if maxFailures l \<le> Failures e1
         then e1\<lparr>BlockedUntil := time_add now (blockFor l)\<rparr> else e1)"

definition RecordFailure :: "call \<Rightarrow> string \<Rightarrow> FailureLimiter \<Rightarrow> (bool \<times> duration) \<times> FailureLimiter" where
  "RecordFailure c key l =
     (let now = at_time c;
          found = map_of (entries l) key;
          l1 = (if found \<noteq> None then l\<lparr>entries := AList.delete key (entries l)\<rparr> else l);
          l2 = evict c l1;
          e = count_failure now found l2;
          l3 = l2\<lparr>entries := AList.update key e (entries l2)\<rparr>
      in if now < BlockedUntil e then ((True, time_sub (BlockedUntil e) now), l3)
         else ((False, 0), l3))"

definition Success :: "string \<Rightarrow> FailureLimiter \<Rightarrow> FailureLimiter" where
  "Success key l = l\<lparr>entries := AList.delete key (entries l)\<rparr>"

section \<open>The eviction loop\<close>

lemma evict_loop_sub: "set (evict_loop ch n cap es) \<subseteq> set es"
proof (induction ch n cap es rule: evict_loop.induct)
  case (1 ch n cap es)
  show ?case
  proof (cases "oldest (visit (ch n) es) None")
    case None
    then show ?thesis by (subst evict_loop.simps) simp
  next
    case (Some p)
    have "set (AList.delete k es) \<subseteq> set es" for k by (auto simp: AList.delete_eq)
    with "1.IH" Some show ?thesis
      by (subst evict_loop.simps) (cases p; cases "cap \<le> int (length es)"; simp; blast)
  qed
qed

lemma evict_loop_goMap: "goMap es \<Longrightarrow> goMap (evict_loop ch n cap es)"
proof (induction ch n cap es rule: evict_loop.induct)
  case (1 ch n cap es)
  then show ?case by (subst evict_loop.simps) (auto split: option.splits)
qed

lemma evict_loop_room: "0 < cap \<Longrightarrow> int (length (evict_loop ch n cap es)) < cap"
proof (induction ch n cap es rule: evict_loop.induct)
  case (1 ch n cap es)
  show ?case
  proof (cases "cap \<le> int (length es)")
    case False
    then show ?thesis by (subst evict_loop.simps) simp
  next
    case True
    with "1.prems" have "es \<noteq> []" by auto
    then obtain k t where o: "oldest (visit (ch n) es) None = Some (k, t)"
      by (metis oldest_None_iff option.exhaust surj_pair visit_Nil_iff)
    from True "1.IH" [OF True o _ "1.prems"] o show ?thesis
      by (subst evict_loop.simps) simp
  qed
qed

lemma evict_loop_id: "int (length es) < cap \<Longrightarrow> evict_loop ch n cap es = es"
  by (subst evict_loop.simps) simp

text \<open>What the inner loop finds is a least last access, whatever the order.\<close>

lemma oldest_least:
  "oldest es acc = Some (k, t) \<Longrightarrow>
     (\<forall>(j, e) \<in> set es. t \<le> LastSeen e) \<and> (\<forall>j s. acc = Some (j, s) \<longrightarrow> t \<le> s)"
  by (induction es acc rule: oldest.induct) (fastforce split: option.splits if_splits)+

section \<open>Invariant\<close>

definition lim_config :: "FailureLimiter \<Rightarrow> bool" where
  "lim_config l \<longleftrightarrow> 0 < maxFailures l \<and> 0 < window l \<and> 0 < blockFor l \<and> 1 \<le> maxEntries l"

text \<open>
  \<open>lim_inv t l\<close>: the configuration is positive, the map has distinct keys and at most
  \<open>maxEntries\<close> entries, and each entry was last seen between its window's start and \<open>t\<close>.
\<close>

definition lim_inv :: "instant \<Rightarrow> FailureLimiter \<Rightarrow> bool" where
  "lim_inv t l \<longleftrightarrow> lim_config l \<and> goMap (entries l) \<and> int (length (entries l)) \<le> maxEntries l \<and>
     (\<forall>k e. (k, e) \<in> set (entries l) \<longrightarrow>
        1 \<le> Failures e \<and> WindowStart e \<le> LastSeen e \<and> LastSeen e \<le> t)"

lemma NewFailureLimiter_inv: "NewFailureLimiter mf w b me = Inr l \<Longrightarrow> lim_inv t l \<and> entries l = []"
  by (auto simp: NewFailureLimiter_def lim_inv_def lim_config_def split: if_splits)

lemma lim_inv_mono: "lim_inv t l \<Longrightarrow> t \<le> t' \<Longrightarrow> lim_inv t' l"
  by (fastforce simp: lim_inv_def)

lemma lim_inv_entry: "lim_inv t l \<Longrightarrow> map_of (entries l) k = Some e \<Longrightarrow>
    1 \<le> Failures e \<and> WindowStart e \<le> LastSeen e \<and> LastSeen e \<le> t"
  by (auto simp: lim_inv_def dest: map_of_SomeD)

lemma set_update_sub: "set (AList.update k v m) \<subseteq> insert (k, v) (set m)"
  by (induction m) auto

lemma set_delete_sub: "set (AList.delete k m) \<subseteq> set m"
  by (auto simp: AList.delete_eq)

lemma lim_inv_update:
  assumes "lim_inv t l" and "map_of (entries l) k \<noteq> None \<or> int (length (entries l)) < maxEntries l"
    and "1 \<le> Failures e \<and> WindowStart e \<le> LastSeen e \<and> LastSeen e \<le> t"
  shows "lim_inv t (l\<lparr>entries := AList.update k e (entries l)\<rparr>)"
proof -
  have "int (length (AList.update k e (entries l))) \<le> maxEntries l"
  proof (cases "k \<in> fst ` set (entries l)")
    case True
    with assms(1) show ?thesis by (simp add: length_update_old lim_inv_def)
  next
    case False
    then have "map_of (entries l) k = None" by (simp add: map_of_eq_None_iff)
    with assms(2) False show ?thesis by (simp add: length_update_new)
  qed
  with assms show ?thesis
    using set_update_sub [of k e "entries l"] by (fastforce simp: lim_inv_def lim_config_def)
qed

lemma lim_inv_delete: "lim_inv t l \<Longrightarrow> lim_inv t (l\<lparr>entries := AList.delete k (entries l)\<rparr>)"
  using set_delete_sub [of k "entries l"] length_delete_le [of k "entries l"]
  by (fastforce simp: lim_inv_def lim_config_def)

lemma evict_inv:
  assumes "lim_inv t l"
  shows "lim_inv t (evict c l)" and "int (length (entries (evict c l))) < maxEntries l"
proof -
  let ?es = "filter (\<lambda>(k, e). \<not> stale_entry (at_time c) (window l) e) (entries l)"
  let ?r = "evict_loop (rounds c) 0 (maxEntries l) ?es"
  from assms have m: "1 \<le> maxEntries l" and g: "goMap (entries l)"
    by (auto simp: lim_inv_def lim_config_def)
  have ev: "evict c l = l\<lparr>entries := ?r\<rparr>" using m by (simp add: evict_def Let_def)
  have r: "int (length ?r) < maxEntries l" using m by (intro evict_loop_room) simp
  have "set ?r \<subseteq> set (entries l)" using evict_loop_sub [of "rounds c" 0 "maxEntries l" ?es] by auto
  moreover have "goMap ?r" using g by (intro evict_loop_goMap goMap_filter)
  ultimately show "lim_inv t (evict c l)" using assms r ev
    by (fastforce simp: lim_inv_def lim_config_def)
  show "int (length (entries (evict c l))) < maxEntries l" using r ev by simp
qed

lemma evict_config [simp]:
  "maxFailures (evict c l) = maxFailures l" "window (evict c l) = window l"
  "blockFor (evict c l) = blockFor l" "maxEntries (evict c l) = maxEntries l"
  by (simp_all add: evict_def Let_def)

lemma Allow_config [simp]:
  "maxFailures (snd (Allow t k l)) = maxFailures l" "window (snd (Allow t k l)) = window l"
  "blockFor (snd (Allow t k l)) = blockFor l" "maxEntries (snd (Allow t k l)) = maxEntries l"
  by (simp_all add: Allow_def split: option.splits)

lemma RecordFailure_config [simp]:
  "maxFailures (snd (RecordFailure c k l)) = maxFailures l"
  "window (snd (RecordFailure c k l)) = window l"
  "blockFor (snd (RecordFailure c k l)) = blockFor l"
  "maxEntries (snd (RecordFailure c k l)) = maxEntries l"
  by (simp_all add: RecordFailure_def Let_def)

lemma Success_config [simp]:
  "maxFailures (Success k l) = maxFailures l" "window (Success k l) = window l"
  "blockFor (Success k l) = blockFor l" "maxEntries (Success k l) = maxEntries l"
  by (simp_all add: Success_def)

lemma count_failure_wf:
  assumes "found = None \<or> (\<exists>e. found = Some e \<and> 1 \<le> Failures e \<and> WindowStart e \<le> now)"
  shows "1 \<le> Failures (count_failure now found l) \<and>
    WindowStart (count_failure now found l) \<le> now \<and> LastSeen (count_failure now found l) = now"
  using assms by (auto simp: count_failure_def Let_def zero_entry_def split: option.splits)

lemma Allow_inv: "lim_inv t l \<Longrightarrow> t \<le> now \<Longrightarrow> lim_inv now (snd (Allow now key l))"
proof -
  assume i: "lim_inv t l" "t \<le> now"
  then have i': "lim_inv now l" by (rule lim_inv_mono)
  show ?thesis
  proof (cases "map_of (entries l) key")
    case None
    with i' show ?thesis by (simp add: Allow_def)
  next
    case (Some e)
    with i have "lim_inv now (l\<lparr>entries := AList.update key (e\<lparr>LastSeen := now\<rparr>) (entries l)\<rparr>)"
      using lim_inv_entry [OF i(1) Some] by (intro lim_inv_update i') auto
    with Some i' show ?thesis by (simp add: Allow_def lim_inv_delete)
  qed
qed

lemma RecordFailure_inv:
  assumes "lim_inv t l" and "t \<le> at_time c"
  shows "lim_inv (at_time c) (snd (RecordFailure c key l))"
proof -
  let ?now = "at_time c"
  from assms have i: "lim_inv ?now l" by (rule lim_inv_mono)
  define l1 where "l1 = (if map_of (entries l) key \<noteq> None then l\<lparr>entries := AList.delete key (entries l)\<rparr> else l)"
  have i1: "lim_inv ?now l1" using i by (simp add: l1_def lim_inv_delete)
  let ?e = "count_failure ?now (map_of (entries l) key) (evict c l1)"
  have "1 \<le> Failures ?e \<and> WindowStart ?e \<le> ?now \<and> LastSeen ?e = ?now"
    using lim_inv_entry [OF assms(1)] assms(2)
    by (intro count_failure_wf) (cases "map_of (entries l) key"; force)
  with i1 have "lim_inv ?now ((evict c l1)\<lparr>entries := AList.update key ?e (entries (evict c l1))\<rparr>)"
    by (intro lim_inv_update evict_inv(1)) (simp_all add: evict_inv(2))
  then show ?thesis by (simp add: RecordFailure_def Let_def l1_def)
qed

lemma Success_inv: "lim_inv t l \<Longrightarrow> lim_inv t (Success key l)"
  by (simp add: Success_def lim_inv_delete)

end
