(* ===== verification/LimiterSpec.thy ===== *)
theory LimiterSpec
  imports Limiter
begin

text \<open>
  The contract of the limiter. \<open>view t l k\<close> is what the limiter knows about key \<open>k\<close> at time
  \<open>t\<close>: the failures counted in the current window with the window's start, and the end of the
  current block. The operations implement \<open>spec_fail\<close> and \<open>spec_allow\<close> on views as long as the
  map has room. The loops of \<^verbatim>\<open>httpapi/router.go\<close> over several keys are clients of the
  interface \<open>key_limiter\<close>.
\<close>

section \<open>Abstract windows and blocks\<close>

type_synonym kview = "(int \<times> instant) option \<times> instant option"

definition entry_view :: "instant \<Rightarrow> duration \<Rightarrow> failureEntry \<Rightarrow> kview" where
  "entry_view t w e =
     (if t < WindowStart e + w then Some (Failures e, WindowStart e) else None,
      if t < BlockedUntil e then Some (BlockedUntil e) else None)"

definition view :: "instant \<Rightarrow> FailureLimiter \<Rightarrow> string \<Rightarrow> kview" where
  "view t l k =
     (case map_of (entries l) k of None \<Rightarrow> (None, None) | Some e \<Rightarrow> entry_view t (window l) e)"

definition age :: "instant \<Rightarrow> duration \<Rightarrow> kview \<Rightarrow> kview" where
  "age t w v =
     ((case fst v of Some (n, s) \<Rightarrow> if t < s + w then Some (n, s) else None | None \<Rightarrow> None),
      (case snd v of Some u \<Rightarrow> if t < u then Some u else None | None \<Rightarrow> None))"

definition spec_fail :: "instant \<Rightarrow> int \<Rightarrow> duration \<Rightarrow> kview \<Rightarrow> kview" where
  "spec_fail t mx blk v =
     (let (n, s) = (case fst v of None \<Rightarrow> (1, t) | Some (n, s) \<Rightarrow> (n + 1, s))
      in (Some (n, s), if mx \<le> n then Some (t + blk) else snd v))"

definition spec_allow :: "instant \<Rightarrow> kview \<Rightarrow> bool \<times> duration" where
  "spec_allow t v = (case snd v of None \<Rightarrow> (True, 0) | Some u \<Rightarrow> (False, time_sub u t))"

lemma view_age: "t \<le> t' \<Longrightarrow> view t' l k = age t' (window l) (view t l k)"
  by (auto simp: view_def age_def entry_view_def split: option.splits)

lemma view_fresh: "map_of (entries l) k = None \<Longrightarrow> view t l k = (None, None)"
  by (simp add: view_def)

section \<open>Refinement\<close>

lemma Allow_result: "fst (Allow t k l) = spec_allow t (view t l k)"
  by (auto simp: Allow_def spec_allow_def view_def entry_view_def split: option.splits)

lemma Allow_view: "t \<le> t' \<Longrightarrow> view t' (snd (Allow t key l)) k = view t' l k"
  by (auto simp: Allow_def view_def entry_view_def time_add_def split: option.splits)

lemma Success_view: "view t (Success key l) k = (if k = key then (None, None) else view t l k)"
  by (simp add: Success_def view_def split: option.splits)

lemma stale_view:
  assumes "lim_inv now l" and "(k, e) \<in> set (entries l)" and "stale_entry now (window l) e"
    and "now \<le> t"
  shows "entry_view t (window l) e = (None, None)"
proof -
  from assms have w: "0 < window l" and ws: "WindowStart e \<le> LastSeen e"
    by (auto simp: lim_inv_def lim_config_def)
  from assms(3) have "window l \<le> max min_int64 (now - LastSeen e)"
    using time_sub_le [of now "LastSeen e"] by (simp add: stale_entry_def)
  with w have "window l \<le> now - LastSeen e" by (simp add: min_int64_def max_def split: if_splits)
  with ws assms show ?thesis by (simp add: entry_view_def stale_entry_def)
qed

lemma evict_view:
  assumes inv: "lim_inv (at_time c) l" and room: "int (length (entries l)) < maxEntries l"
    and t: "at_time c \<le> t"
  shows "view t (evict c l) k = view t l k"
proof -
  let ?P = "\<lambda>(k, e). \<not> stale_entry (at_time c) (window l) e"
  have "length (filter ?P (entries l)) \<le> length (entries l)" by simp
  with room have "int (length (filter ?P (entries l))) < maxEntries l" by linarith
  then have "entries (evict c l) = filter ?P (entries l)"
    by (simp add: evict_def Let_def evict_loop_id)
  then have "map_of (entries (evict c l)) k =
      (case map_of (entries l) k of None \<Rightarrow> None | Some e \<Rightarrow> if ?P (k, e) then Some e else None)"
    using inv by (simp add: map_of_filter_goMap lim_inv_def)
  then show ?thesis
    using stale_view [OF inv _ _ t] by (auto simp: view_def split: option.splits dest: map_of_SomeD)
qed

lemma count_failure_view:
  assumes "lim_config l" and "zero_time \<le> now" and "now \<le> t"
  shows "entry_view t (window l) (count_failure now found l) =
    age t (window l) (spec_fail now (maxFailures l) (blockFor l)
      (case found of None \<Rightarrow> (None, None) | Some e \<Rightarrow> entry_view now (window l) e))"
  using assms
  by (auto simp: count_failure_def entry_view_def age_def spec_fail_def Let_def zero_entry_def
      time_add_def lim_config_def zero_time_def split: option.splits)

text \<open>The map has room for \<open>key\<close>: it is already present or the map is not full.\<close>

definition has_room :: "string \<Rightarrow> FailureLimiter \<Rightarrow> bool" where
  "has_room key l \<longleftrightarrow>
     map_of (entries l) key \<noteq> None \<or> int (length (entries l)) < maxEntries l"

lemma RecordFailure_split:
  defines "dropped l key \<equiv>
    if map_of (entries l) key \<noteq> None then l\<lparr>entries := AList.delete key (entries l)\<rparr> else l"
  shows "entries (snd (RecordFailure c key l)) =
      AList.update key
        (count_failure (at_time c) (map_of (entries l) key) (evict c (dropped l key)))
        (entries (evict c (dropped l key)))"
    and "fst (RecordFailure c key l) =
      (let e = count_failure (at_time c) (map_of (entries l) key) (evict c (dropped l key))
       in if at_time c < BlockedUntil e then (True, time_sub (BlockedUntil e) (at_time c)) else (False, 0))"
  by (simp_all add: RecordFailure_def Let_def dropped_def)

lemma count_failure_config:
  "maxFailures l' = maxFailures l \<Longrightarrow> window l' = window l \<Longrightarrow> blockFor l' = blockFor l \<Longrightarrow>
     count_failure t found l' = count_failure t found l"
  by (simp add: count_failure_def Let_def split: option.splits)

lemma RecordFailure_own_view:
  assumes "lim_inv t0 l" and "t0 \<le> at_time c" and "zero_time \<le> at_time c" and "at_time c \<le> t"
  shows "view t (snd (RecordFailure c key l)) key =
    age t (window l) (spec_fail (at_time c) (maxFailures l) (blockFor l) (view (at_time c) l key))"
proof -
  let ?l1 = "if map_of (entries l) key \<noteq> None then l\<lparr>entries := AList.delete key (entries l)\<rparr> else l"
  have c: "lim_config l" using assms(1) by (simp add: lim_inv_def)
  have "count_failure (at_time c) (map_of (entries l) key) (evict c ?l1)
      = count_failure (at_time c) (map_of (entries l) key) l"
    by (rule count_failure_config) simp_all
  then have "map_of (entries (snd (RecordFailure c key l))) key =
      Some (count_failure (at_time c) (map_of (entries l) key) l)"
    by (simp only: RecordFailure_split(1)) simp
  then show ?thesis
    using count_failure_view [OF c assms(3,4), of "map_of (entries l) key"]
    by (simp add: view_def)
qed

lemma RecordFailure_other_view:
  assumes inv: "lim_inv t0 l" and "t0 \<le> at_time c" and t: "at_time c \<le> t"
    and room: "has_room key l" and k: "k \<noteq> key"
  shows "view t (snd (RecordFailure c key l)) k = view t l k"
proof -
  define l1 where "l1 = (if map_of (entries l) key \<noteq> None then l\<lparr>entries := AList.delete key (entries l)\<rparr> else l)"
  have i: "lim_inv (at_time c) l" using inv assms(2) by (rule lim_inv_mono)
  then have i1: "lim_inv (at_time c) l1" by (simp add: l1_def lim_inv_delete)
  have room1: "int (length (entries l1)) < maxEntries l1"
  proof (cases "map_of (entries l) key = None")
    case True
    with room show ?thesis by (simp add: l1_def has_room_def)
  next
    case False
    then have "key \<in> fst ` set (entries l)" by (simp add: map_of_eq_None_iff)
    then have "length (AList.delete key (entries l)) < length (entries l)"
      by (rule length_delete_less)
    with i False show ?thesis by (simp add: l1_def lim_inv_def)
  qed
  have "map_of (entries (snd (RecordFailure c key l))) k = map_of (entries (evict c l1)) k"
    using k by (simp add: RecordFailure_split(1) l1_def)
  moreover have "window l1 = window l" by (simp add: l1_def)
  ultimately have "view t (snd (RecordFailure c key l)) k = view t (evict c l1) k"
    by (simp add: view_def split: option.split)
  also have "\<dots> = view t l1 k" using i1 room1 t by (rule evict_view)
  also have "\<dots> = view t l k" using k by (simp add: l1_def view_def split: option.splits)
  finally show ?thesis .
qed

lemma RecordFailure_result:
  assumes "lim_inv t0 l" and "t0 \<le> at_time c" and "zero_time \<le> at_time c"
  shows "fst (RecordFailure c key l) =
    (case snd (view (at_time c) (snd (RecordFailure c key l)) key) of
       None \<Rightarrow> (False, 0) | Some u \<Rightarrow> (True, time_sub u (at_time c)))"
proof -
  let ?l1 = "if map_of (entries l) key \<noteq> None then l\<lparr>entries := AList.delete key (entries l)\<rparr> else l"
  let ?e = "count_failure (at_time c) (map_of (entries l) key) (evict c ?l1)"
  have "map_of (entries (snd (RecordFailure c key l))) key = Some ?e"
    by (simp only: RecordFailure_split(1)) simp
  then show ?thesis
    by (simp only: RecordFailure_split(2)) (simp add: view_def entry_view_def Let_def)
qed

section \<open>The interface the login handlers rely on\<close>

text \<open>
  \<^verbatim>\<open>allowLoginAttempt\<close>, \<^verbatim>\<open>recordLoginFailure\<close> and \<^verbatim>\<open>clearLoginFailures\<close>, as loops over the
  operation they call. Each call reads the clock (and the runtime's choices) anew: the \<open>i\<close>-th call
  of a request gets \<open>env i\<close>.
\<close>

fun allow_loop :: "(instant \<Rightarrow> 'k \<Rightarrow> 'l \<Rightarrow> (bool \<times> duration) \<times> 'l) \<Rightarrow> (nat \<Rightarrow> instant) \<Rightarrow> nat \<Rightarrow>
    'k list \<Rightarrow> 'l \<Rightarrow> bool \<Rightarrow> duration \<Rightarrow> (bool \<times> duration) \<times> 'l" where
  "allow_loop al clk i [] l allowed longest = ((allowed, longest), l)"
| "allow_loop al clk i (key # keys) l allowed longest =
     (case al (clk i) key l of
        ((keyAllowed, retryAfter), l') \<Rightarrow>
          if \<not> keyAllowed
          then allow_loop al clk (Suc i) keys l' False
                 (if longest < retryAfter then retryAfter else longest)
          else allow_loop al clk (Suc i) keys l' allowed longest)"

definition allowLoginAttempt ::
    "(nat \<Rightarrow> instant) \<Rightarrow> FailureLimiter \<Rightarrow> string list \<Rightarrow> (bool \<times> duration) \<times> FailureLimiter" where
  "allowLoginAttempt clk l keys = allow_loop Allow clk 0 keys l True 0"

fun fail_loop :: "('c \<Rightarrow> 'k \<Rightarrow> 'l \<Rightarrow> (bool \<times> duration) \<times> 'l) \<Rightarrow> (nat \<Rightarrow> 'c) \<Rightarrow> nat \<Rightarrow>
    'k list \<Rightarrow> 'l \<Rightarrow> bool \<Rightarrow> duration \<Rightarrow> (bool \<times> duration) \<times> 'l" where
  "fail_loop rf env i [] l blocked longest = ((blocked, longest), l)"
| "fail_loop rf env i (key # keys) l blocked longest =
     (case rf (env i) key l of
        ((keyBlocked, retryAfter), l') \<Rightarrow>
          if keyBlocked
          then fail_loop rf env (Suc i) keys l' True
                 (if longest < retryAfter then retryAfter else longest)
          else fail_loop rf env (Suc i) keys l' blocked longest)"

definition recordLoginFailure ::
    "(nat \<Rightarrow> call) \<Rightarrow> FailureLimiter \<Rightarrow> string list \<Rightarrow> (bool \<times> duration) \<times> FailureLimiter" where
  "recordLoginFailure env l keys = fail_loop RecordFailure env 0 keys l False 0"

fun clearLoginFailures :: "FailureLimiter \<Rightarrow> string list \<Rightarrow> FailureLimiter" where
  "clearLoginFailures l [] = l"
| "clearLoginFailures l (key # keys) = clearLoginFailures (Success key l) keys"

text \<open>The times the blocked ones among the keys still have to wait, each at its own clock reading.\<close>

fun waits :: "('t \<Rightarrow> 'l \<Rightarrow> 'k \<Rightarrow> duration option) \<Rightarrow> (nat \<Rightarrow> 't) \<Rightarrow> nat \<Rightarrow> 'k list \<Rightarrow> 'l \<Rightarrow> duration list" where
  "waits retry clk i [] l = []"
| "waits retry clk i (k # ks) l =
     (case retry (clk i) l k of
        None \<Rightarrow> waits retry clk (Suc i) ks l
      | Some d \<Rightarrow> d # waits retry clk (Suc i) ks l)"

text \<open>
  The interface: what a key's block is worth to a client. \<open>retry t l k\<close> is the time a blocked key
  still has to wait, None for a key that is not blocked.
\<close>

locale key_limiter =
  fixes allow :: "instant \<Rightarrow> 'k \<Rightarrow> 'l \<Rightarrow> (bool \<times> duration) \<times> 'l"
    and clear :: "'k \<Rightarrow> 'l \<Rightarrow> 'l"
    and retry :: "instant \<Rightarrow> 'l \<Rightarrow> 'k \<Rightarrow> duration option"
  assumes allow_reports: "fst (allow t k l) = (case retry t l k of None \<Rightarrow> (True, 0) | Some d \<Rightarrow> (False, d))"
    and allow_keeps: "t \<le> t' \<Longrightarrow> retry t' (snd (allow t k l)) j = retry t' l j"
    and retry_pos: "retry t l k = Some d \<Longrightarrow> 0 < d"
    and clear_unblocks: "retry t (clear k l) j = (if j = k then None else retry t l j)"
begin

lemma allow_step:
  "allow t k l = ((b, d), l') \<Longrightarrow> (b \<longleftrightarrow> retry t l k = None) \<and> d = (case retry t l k of None \<Rightarrow> 0 | Some d \<Rightarrow> d)
     \<and> (\<forall>t'\<ge>t. \<forall>j. retry t' l' j = retry t' l j)"
  using allow_reports [of t k l] allow_keeps [of t _ k l] by (auto split: option.splits)

lemma allow_loop_keeps:
  assumes "mono clk" and "clk (i + length ks) \<le> t"
  shows "retry t (snd (allow_loop allow clk i ks l a d)) j = retry t l j"
  using assms(2)
proof (induction ks arbitrary: i l a d)
  case Nil
  then show ?case by simp
next
  case (Cons k ks)
  obtain b r l' where al: "allow (clk i) k l = ((b, r), l')" by (metis surj_pair)
  have "clk i \<le> t" using Cons.prems monoD [OF assms(1), of i "i + length (k # ks)"] by simp
  then have "retry t l' j = retry t l j" using allow_step [OF al] by simp
  with Cons al show ?case by simp
qed

lemma waits_keeps:
  assumes "mono clk" and "\<forall>t\<ge>clk i. \<forall>j. retry t l' j = retry t l j"
  shows "waits retry clk i ks l' = waits retry clk i ks l"
  using assms(2)
proof (induction ks arbitrary: i)
  case Nil
  then show ?case by simp
next
  case (Cons k ks)
  have "clk i \<le> clk (Suc i)" using assms(1) by (simp add: monoD)
  then have "waits retry clk (Suc i) ks l' = waits retry clk (Suc i) ks l"
    using Cons.prems by (intro Cons.IH) (meson order_trans)
  with Cons.prems show ?case by (simp split: option.splits)
qed

lemma allow_loop_exact:
  assumes "mono clk"
  shows "fst (allow_loop allow clk i ks l a d) =
    (a \<and> waits retry clk i ks l = [], fold max (waits retry clk i ks l) d)"
proof (induction ks arbitrary: i l a d)
  case Nil
  then show ?case by simp
next
  case (Cons k ks)
  obtain b r l' where al: "allow (clk i) k l = ((b, r), l')" by (metis surj_pair)
  have "clk i \<le> clk (Suc i)" using assms by (simp add: monoD)
  then have w: "waits retry clk (Suc i) ks l' = waits retry clk (Suc i) ks l"
    using allow_step [OF al] by (intro waits_keeps assms) (meson order_trans)
  show ?case
  proof (cases "retry (clk i) l k")
    case None
    with al allow_step [OF al] show ?thesis by (simp add: Cons.IH w)
  next
    case (Some x)
    have m: "(if d < x then x else d) = max x d" by (simp add: max_def)
    from Some al allow_step [OF al] show ?thesis by (simp add: Cons.IH w m)
  qed
qed

end

text \<open>The limiter provides the interface.\<close>

definition retry_after :: "instant \<Rightarrow> FailureLimiter \<Rightarrow> string \<Rightarrow> duration option" where
  "retry_after t l k = map_option (\<lambda>u. time_sub u t) (snd (view t l k))"

interpretation lim: key_limiter Allow Success retry_after
proof unfold_locales
  show "fst (Allow t k l) = (case retry_after t l k of None \<Rightarrow> (True, 0) | Some d \<Rightarrow> (False, d))" for t k l
    by (simp add: Allow_result spec_allow_def retry_after_def split: option.splits)
  show "t \<le> t' \<Longrightarrow> retry_after t' (snd (Allow t k l)) j = retry_after t' l j" for t t' k l j
    by (simp add: retry_after_def Allow_view)
  show "retry_after t l k = Some d \<Longrightarrow> 0 < d" for t l k d
    by (auto simp: retry_after_def view_def entry_view_def time_sub_pos split: option.splits if_splits)
  show "retry_after t (Success k l) j = (if j = k then None else retry_after t l j)" for t k l j
    by (simp add: retry_after_def Success_view)
qed

lemma clear_all_view:
  "view t (clearLoginFailures l ks) k = (if k \<in> set ks then (None, None) else view t l k)"
  by (induction ks arbitrary: l) (auto simp: Success_view)

section \<open>Runs of the limiter\<close>

datatype lim_op = LAllow instant string | LFail call string | LSuccess string

primrec lim_step :: "lim_op \<Rightarrow> FailureLimiter \<Rightarrow> FailureLimiter" where
  "lim_step (LAllow t k) l = snd (Allow t k l)"
| "lim_step (LFail c k) l = snd (RecordFailure c k l)"
| "lim_step (LSuccess k) l = Success k l"

text \<open>A run in which the clock never goes back; its last reading is the second argument.\<close>

inductive lim_run :: "instant \<Rightarrow> FailureLimiter \<Rightarrow> lim_op list \<Rightarrow> instant \<Rightarrow> FailureLimiter \<Rightarrow> bool" where
  lim_nil: "lim_run t l [] t l"
| lim_allow: "lim_run t l ops t' l' \<Longrightarrow> t' \<le> u \<Longrightarrow>
    lim_run t l (ops @ [LAllow u k]) u (lim_step (LAllow u k) l')"
| lim_fail: "lim_run t l ops t' l' \<Longrightarrow> t' \<le> at_time c \<Longrightarrow>
    lim_run t l (ops @ [LFail c k]) (at_time c) (lim_step (LFail c k) l')"
| lim_success: "lim_run t l ops t' l' \<Longrightarrow> lim_run t l (ops @ [LSuccess k]) t' (lim_step (LSuccess k) l')"

fun failures_of :: "string \<Rightarrow> lim_op list \<Rightarrow> int" where
  "failures_of k [] = 0"
| "failures_of k (LFail c j # ops) = (if j = k then 1 else 0) + failures_of k ops"
| "failures_of k (_ # ops) = failures_of k ops"

lemma failures_of_append [simp]: "failures_of k (xs @ ys) = failures_of k xs + failures_of k ys"
  by (induction k xs rule: failures_of.induct) auto

lemma failures_of_nonneg: "0 \<le> failures_of k ops"
  by (induction k ops rule: failures_of.induct) auto

lemma lim_run_inv: "lim_run t l ops t' l' \<Longrightarrow> lim_inv t l \<Longrightarrow> lim_inv t' l' \<and> t \<le> t'"
  by (induction rule: lim_run.induct) (auto intro: Allow_inv RecordFailure_inv Success_inv)

lemma lim_run_config:
  "lim_run t l ops t' l' \<Longrightarrow> maxFailures l' = maxFailures l \<and> window l' = window l \<and>
     blockFor l' = blockFor l \<and> maxEntries l' = maxEntries l"
  by (induction rule: lim_run.induct) auto

lemma length_Allow: "length (entries (snd (Allow t k l))) \<le> length (entries l)"
proof (cases "map_of (entries l) k")
  case None
  then show ?thesis by (simp add: Allow_def)
next
  case (Some e)
  then have "k \<in> fst ` set (entries l)" by (force dest: map_of_SomeD)
  then show ?thesis by (simp add: Allow_def Some length_update_old length_delete_le)
qed

lemma evict_loop_length: "length (evict_loop ch n cap es) \<le> length es"
proof (induction ch n cap es rule: evict_loop.induct)
  case (1 ch n cap es)
  show ?case
  proof (cases "oldest (visit (ch n) es) None")
    case None
    then show ?thesis by (subst evict_loop.simps) simp
  next
    case (Some p)
    obtain k t where p: "p = (k, t)" by (cases p)
    have "length (evict_loop ch (Suc n) cap (AList.delete k es)) \<le> length es"
      if "cap \<le> int (length es)"
      using "1.IH" [OF that] Some p length_delete_le [of k es] by (force intro: order_trans)
    with Some p show ?thesis by (subst evict_loop.simps) simp
  qed
qed

lemma length_evict: "length (entries (evict c l)) \<le> length (entries l)"
  using order_trans [OF evict_loop_length length_filter_le]
  by (simp add: evict_def Let_def)

lemma length_RecordFailure: "length (entries (snd (RecordFailure c k l))) \<le> Suc (length (entries l))"
proof -
  let ?l1 = "if map_of (entries l) k \<noteq> None then l\<lparr>entries := AList.delete k (entries l)\<rparr> else l"
  have "length (entries (evict c ?l1)) \<le> length (entries ?l1)" by (rule length_evict)
  also have "\<dots> \<le> length (entries l)" by (simp add: length_delete_le)
  finally have "length (entries (evict c ?l1)) \<le> length (entries l)" .
  then show ?thesis
    by (simp only: RecordFailure_split(1)) (meson Suc_le_mono length_update_le order_trans)
qed

lemma lim_run_length: "lim_run t l ops t' l' \<Longrightarrow> length (entries l') \<le> length (entries l) + length ops"
proof (induction rule: lim_run.induct)
  case (lim_allow t l ops t' l' u k)
  then show ?case using length_Allow [of u k l'] by simp
next
  case (lim_fail t l ops t' l' c k)
  then show ?case using length_RecordFailure [of c k l'] by simp
next
  case (lim_success t l ops t' l' k)
  then show ?case using length_delete_le [of k "entries l'"] by (simp add: Success_def)
qed simp

text \<open>
  What a run that starts with nothing known about \<open>key\<close> and stays inside one window knows after
  \<open>n\<close> failures: all of them, in a window that started in the run, and the block if the threshold
  is reached.
\<close>

definition window_state :: "instant \<Rightarrow> int \<Rightarrow> FailureLimiter \<Rightarrow> kview \<Rightarrow> bool" where
  "window_state t0 n l v \<longleftrightarrow>
     (if n = 0 then v = (None, None)
      else \<exists>s b. v = (Some (n, s), b) \<and> t0 \<le> s \<and>
        (maxFailures l \<le> n \<longrightarrow> (\<exists>u. b = Some u \<and> t0 + blockFor l \<le> u)))"

lemma window_state_age:
  assumes "window_state t0 n l v" and "t < t0 + window l" and "window l \<le> blockFor l"
  shows "window_state t0 n l (age t (window l) v)"
  using assms by (fastforce simp: window_state_def age_def split: if_splits)

lemma window_state_config:
  "maxFailures l' = maxFailures l \<Longrightarrow> blockFor l' = blockFor l \<Longrightarrow>
     window_state t0 n l' v = window_state t0 n l v"
  by (simp add: window_state_def)

lemma window_state_fail:
  assumes "window_state t0 n l v" and "0 \<le> n" and "t0 \<le> t"
  shows "window_state t0 (n + 1) l (spec_fail t (maxFailures l) (blockFor l) v)"
  using assms by (auto simp: window_state_def spec_fail_def split: if_splits)

lemma lim_run_window:
  assumes "lim_run t0 l ops t l'" and "lim_inv t0 l" and "zero_time \<le> t0"
    and "view t0 l key = (None, None)" and "LSuccess key \<notin> set ops"
    and "int (length (entries l) + length ops) \<le> maxEntries l"
    and "t < t0 + window l" and "window l \<le> blockFor l"
  shows "window_state t0 (failures_of key ops) l (view t l' key)"
  using assms
proof (induction rule: lim_run.induct)
  case (lim_nil t l)
  then show ?case by (simp add: window_state_def)
next
  case (lim_allow t0 l ops t' l' u k)
  have cfg: "window l' = window l" using lim_run_config [OF lim_allow.hyps(1)] by simp
  from lim_allow have "window_state t0 (failures_of key ops) l (view t' l' key)" by simp
  then have "window_state t0 (failures_of key ops) l (view u l' key)"
    using lim_allow.hyps(2) lim_allow.prems cfg
    by (simp add: view_age [of t' u l'] window_state_age)
  then show ?case by (simp add: Allow_view)
next
  case (lim_fail t0 l ops t' l' c k)
  have inv: "lim_inv t' l'" and tt: "t0 \<le> t'"
    using lim_run_inv [OF lim_fail.hyps(1)] lim_fail.prems by auto
  note cfg = lim_run_config [OF lim_fail.hyps(1)]
  from lim_fail have "window_state t0 (failures_of key ops) l (view t' l' key)" by simp
  then have now: "window_state t0 (failures_of key ops) l (view (at_time c) l' key)"
    using lim_fail.hyps(2) lim_fail.prems cfg
    by (simp add: view_age [of t' "at_time c" l'] window_state_age)
  have len: "int (length (entries l')) < maxEntries l'"
    using lim_run_length [OF lim_fail.hyps(1)] lim_fail.prems cfg by simp
  show ?case
  proof (cases "k = key")
    case True
    have "zero_time \<le> at_time c" using lim_fail tt by simp
    then have "view (at_time c) (snd (RecordFailure c key l')) key =
        age (at_time c) (window l) (spec_fail (at_time c) (maxFailures l) (blockFor l) (view (at_time c) l' key))"
      using RecordFailure_own_view [OF inv lim_fail.hyps(2)] cfg by simp
    then show ?thesis
      using window_state_fail [OF now failures_of_nonneg] lim_fail tt True
      by (simp add: window_state_age add.commute)
  next
    case False
    then show ?thesis
      using RecordFailure_other_view [OF inv lim_fail.hyps(2) order_refl, of k key] len now
      by (simp add: has_room_def)
  qed
next
  case (lim_success t0 l ops t' l' k)
  then show ?case by (simp add: Success_view)
qed

end
