(* ===== verification/LimiterClaims.thy ===== *)
theory LimiterClaims
  imports LimiterSpec
begin

text \<open>
  The properties of \<^verbatim>\<open>server/internal/auth/limiter.go\<close> and of the loops of
  \<^verbatim>\<open>httpapi/router.go\<close> that consult it.
\<close>

section \<open>A sample run, for the witnesses\<close>

definition sample_call :: "instant \<Rightarrow> call" where
  "sample_call t = \<lparr>at_time = t, rounds = (\<lambda>_. [])\<rparr>"

definition sample_limiter :: FailureLimiter where
  "sample_limiter = \<lparr>entries = [], maxFailures = 2, window = 600, blockFor = 900, maxEntries = 5000\<rparr>"

definition sample_fails :: "lim_op list" where
  "sample_fails = [LFail (sample_call 10) ''k'', LFail (sample_call 20) ''k'']"

definition after_fails :: FailureLimiter where
  "after_fails = sample_limiter\<lparr>entries :=
     [(''k'', \<lparr>Failures = 2, WindowStart = 10, BlockedUntil = 920, LastSeen = 20\<rparr>)]\<rparr>"

lemma sample_new: "NewFailureLimiter 2 600 900 5000 = Inr sample_limiter"
  by (simp add: NewFailureLimiter_def sample_limiter_def)

lemma sample_run: "lim_run 5 sample_limiter sample_fails 20 after_fails"
proof -
  let ?f = "\<lambda>t. LFail (sample_call t) ''k''"
  have t: "at_time (sample_call t) = t" for t by (simp add: sample_call_def)
  have "lim_run 5 sample_limiter ([] @ [?f 10]) (at_time (sample_call 10)) (lim_step (?f 10) sample_limiter)"
    by (rule lim_fail [OF lim_nil]) (simp add: t)
  then have one: "lim_run 5 sample_limiter [?f 10] 10 (lim_step (?f 10) sample_limiter)" by (simp add: t)
  have "lim_run 5 sample_limiter ([?f 10] @ [?f 20]) (at_time (sample_call 20))
      (lim_step (?f 20) (lim_step (?f 10) sample_limiter))"
    by (rule lim_fail [OF one]) (simp add: t)
  moreover have "lim_step (?f 20) (lim_step (?f 10) sample_limiter) = after_fails"
    by (simp add: RecordFailure_def sample_limiter_def sample_call_def evict_def Let_def
        count_failure_def evict_loop_id zero_entry_def zero_time_def time_add_def after_fails_def)
  ultimately show ?thesis by (simp add: t sample_fails_def)
qed

section \<open>Properties\<close>



text \<open>C9: The limiter never holds more entries than its capacity, in any run of its operations and
  for any order in which the runtime visits the map; its keys stay distinct.\<close>

theorem limiter_capacity:
  assumes "NewFailureLimiter mf w b me = Inr l0" and "lim_run t0 l0 ops t l"
  shows "int (length (entries l)) \<le> max 1 me \<and> goMap (entries l)"
proof -
  have "lim_inv t l" using lim_run_inv [OF assms(2)] NewFailureLimiter_inv [OF assms(1)] by blast
  moreover have "maxEntries l = max 1 me"
    using lim_run_config [OF assms(2)] assms(1) by (auto simp: NewFailureLimiter_def split: if_splits)
  ultimately show ?thesis by (simp add: lim_inv_def)
qed

theorem limiter_capacity_witness: "int (length (entries after_fails)) \<le> max 1 5000 \<and> goMap (entries after_fails)"
  by (rule limiter_capacity [OF sample_new sample_run])

text \<open>A login attempt is allowed exactly when none of its keys is blocked, and the retry time
  it reports is the longest of the blocked keys', zero when there are none.\<close>

theorem attempt_allowed_iff:
  assumes "mono clk"
  shows "fst (allowLoginAttempt clk l keys) =
    (waits retry_after clk 0 keys l = [], fold max (waits retry_after clk 0 keys l) 0)"
  unfolding allowLoginAttempt_def using lim.allow_loop_exact [OF assms, of 0 keys l True 0] by simp

theorem attempt_allowed_iff_witness:
  "fst (allowLoginAttempt (\<lambda>_. 20) after_fails [''a'', ''k'']) =
     (waits retry_after (\<lambda>_. 20) 0 [''a'', ''k''] after_fails = [],
      fold max (waits retry_after (\<lambda>_. 20) 0 [''a'', ''k''] after_fails) 0)"
  by (rule attempt_allowed_iff) (simp add: mono_def)

text \<open>Recording a failure implements the abstract counter: the key's window counts one failure
  more (or starts anew), reaching the limit sets the end of the block, the result reports the
  block, and no other key changes; the map has room for the key.\<close>

theorem record_failure_refines:
  assumes "lim_inv t0 l" and "t0 \<le> at_time c" and "zero_time \<le> at_time c" and "at_time c \<le> t"
    and "has_room key l"
  shows "view t (snd (RecordFailure c key l)) =
      (view t l)(key := age t (window l)
         (spec_fail (at_time c) (maxFailures l) (blockFor l) (view (at_time c) l key))) \<and>
    fst (RecordFailure c key l) =
      (case snd (view (at_time c) (snd (RecordFailure c key l)) key) of
         None \<Rightarrow> (False, 0) | Some u \<Rightarrow> (True, time_sub u (at_time c)))"
  using RecordFailure_own_view [OF assms(1-4)] RecordFailure_result [OF assms(1-3)]
    RecordFailure_other_view [OF assms(1,2,4,5)] by (auto simp: fun_eq_iff)

theorem record_failure_refines_witness:
  "view 30 (snd (RecordFailure (sample_call 30) ''k'' after_fails)) =
      (view 30 after_fails)(''k'' := age 30 (window after_fails)
        (spec_fail (at_time (sample_call 30)) (maxFailures after_fails)
        (blockFor after_fails) (view (at_time (sample_call 30)) after_fails ''k''))) \<and>
    fst (RecordFailure (sample_call 30) ''k'' after_fails) =
      (case snd (view (at_time (sample_call 30)) (snd (RecordFailure (sample_call 30) ''k'' after_fails)) ''k'') of
         None \<Rightarrow> (False, 0) | Some u \<Rightarrow> (True, time_sub u (at_time (sample_call 30))))"
proof (rule record_failure_refines)
  show "lim_inv 20 after_fails" using lim_run_inv [OF sample_run] NewFailureLimiter_inv [OF sample_new] by blast
  show "has_room ''k'' after_fails" by (simp add: has_room_def after_fails_def sample_limiter_def)
qed (simp_all add: sample_call_def zero_time_def)

end
