(* ===== verification/Codec.thy ===== *)
theory Codec
  imports GoStrings
begin

text \<open>
  The text encodings of Go's standard library that the server uses: \<^verbatim>\<open>base64.RawURLEncoding\<close>
  (as it is, and \<^verbatim>\<open>Strict()\<close>) and \<^verbatim>\<open>base32.StdEncoding\<close> without padding, hexadecimal bytes in
  big-endian order. Both encodings read the bytes as one string of bits, most significant first,
  and cut it into groups of six or five.
\<close>

section \<open>Bits\<close>

definition bits_of :: "nat \<Rightarrow> nat \<Rightarrow> bool list" where
  "bits_of w n = map (\<lambda>i. odd (n div 2 ^ i)) (rev [0..<w])"

definition nat_of_bits :: "bool list \<Rightarrow> nat" where
  "nat_of_bits bs = foldl (\<lambda>n b. 2 * n + of_bool b) 0 bs"

function chunk :: "nat \<Rightarrow> 'a list \<Rightarrow> 'a list list" where
  "chunk k xs = (if k = 0 \<or> xs = [] then [] else take k xs # chunk k (drop k xs))"
  by pat_completeness auto
termination
  by (relation "measure (\<lambda>(k, xs). length xs)") auto

declare chunk.simps [simp del]

lemma length_bits_of [simp]: "length (bits_of w n) = w"
  by (simp add: bits_of_def)

lemma nat_of_bits_Nil [simp]: "nat_of_bits [] = 0"
  by (simp add: nat_of_bits_def)

lemma nat_of_bits_snoc: "nat_of_bits (bs @ [b]) = 2 * nat_of_bits bs + of_bool b"
  by (simp add: nat_of_bits_def)

lemma bits_of_Suc: "bits_of (Suc w) n = bits_of w (n div 2) @ [odd n]"
proof -
  have "rev [0..<Suc w] = map Suc (rev [0..<w]) @ [0]"
    by (simp add: rev_map [symmetric] map_Suc_upt upt_conv_Cons)
  then show ?thesis by (simp add: bits_of_def div_mult2_eq [symmetric])
qed

lemma nat_of_bits_of [simp]: "nat_of_bits (bits_of w n) = n mod 2 ^ w"
proof (induction w arbitrary: n)
  case 0
  then show ?case by (simp add: bits_of_def)
next
  case (Suc w)
  have "n mod 2 ^ Suc w = 2 * (n div 2 mod 2 ^ w) + n mod 2" by (simp add: mod_mult2_eq)
  then show ?case by (simp add: bits_of_Suc nat_of_bits_snoc Suc odd_iff_mod_2_eq_one of_bool_def)
qed

lemma nat_of_bits_less: "nat_of_bits bs < 2 ^ length bs"
  by (induction bs rule: rev_induct) (auto simp: nat_of_bits_snoc)

lemma bits_of_nat_of_bits [simp]: "bits_of (length bs) (nat_of_bits bs) = bs"
proof (induction bs rule: rev_induct)
  case Nil
  then show ?case by (simp add: bits_of_def)
next
  case (snoc b bs)
  have "odd (2 * nat_of_bits bs + of_bool b) = b" and "(2 * nat_of_bits bs + of_bool b) div 2 = nat_of_bits bs"
    by (cases b; simp)+
  with snoc show ?case by (simp add: bits_of_Suc nat_of_bits_snoc)
qed

lemma chunk_Nil [simp]: "chunk k [] = []"
  by (simp add: chunk.simps)

lemma chunk_step: "0 < k \<Longrightarrow> xs \<noteq> [] \<Longrightarrow> chunk k xs = take k xs # chunk k (drop k xs)"
  by (subst chunk.simps) simp

lemma concat_chunk: "0 < k \<Longrightarrow> concat (chunk k xs) = xs"
  by (induction k xs rule: chunk.induct) (subst chunk.simps, simp)

lemma chunk_append:
  "0 < k \<Longrightarrow> length x = k \<Longrightarrow> chunk k (x @ xs) = x # chunk k xs"
  by (subst chunk.simps) auto

lemma chunk_concat:
  "0 < k \<Longrightarrow> \<forall>x \<in> set xss. length x = k \<Longrightarrow> chunk k (concat xss) = xss"
  by (induction xss) (auto simp: chunk_append)

section \<open>Encoding\<close>

definition byte_bits :: "string \<Rightarrow> bool list" where
  "byte_bits s = concat (map (\<lambda>c. bits_of 8 (of_char c)) s)"

definition bytes_of_bits :: "bool list \<Rightarrow> string" where
  "bytes_of_bits bs = map (\<lambda>g. char_of (nat_of_bits g)) (chunk 8 bs)"

definition pad_bits :: "nat \<Rightarrow> bool list \<Rightarrow> bool list" where
  "pad_bits k g = g @ replicate (k - length g) False"

definition encode_with :: "nat \<Rightarrow> string \<Rightarrow> string \<Rightarrow> string" where
  "encode_with k alphabet s =
     map (\<lambda>g. alphabet ! nat_of_bits (pad_bits k g)) (chunk k (byte_bits s))"

definition digit_value :: "string \<Rightarrow> char \<Rightarrow> nat option" where
  "digit_value alphabet c =
     (case filter (\<lambda>i. alphabet ! i = c) [0..<length alphabet] of [] \<Rightarrow> None | i # _ \<Rightarrow> Some i)"

fun digit_values :: "string \<Rightarrow> string \<Rightarrow> nat list option" where
  "digit_values alphabet [] = Some []"
| "digit_values alphabet (c # cs) =
     (case digit_value alphabet c of
        None \<Rightarrow> None
      | Some v \<Rightarrow> (case digit_values alphabet cs of None \<Rightarrow> None | Some vs \<Rightarrow> Some (v # vs)))"

definition decoded_bits :: "nat \<Rightarrow> nat list \<Rightarrow> bool list" where
  "decoded_bits k vs = concat (map (bits_of k) vs)"

text \<open>The decoders skip line breaks.\<close>

definition strip_newlines :: "string \<Rightarrow> string" where
  "strip_newlines s = filter (\<lambda>c. c \<noteq> byte 10 \<and> c \<noteq> byte 13) s"

definition whole_bytes :: "bool list \<Rightarrow> string" where
  "whole_bytes bs = bytes_of_bits (take (8 * (length bs div 8)) bs)"

definition left_over :: "bool list \<Rightarrow> bool list" where
  "left_over bs = drop (8 * (length bs div 8)) bs"

definition base64url_alphabet :: string where
  "base64url_alphabet = ''ABCDEFGHIJKLMNOPQRSTUVWXYZabcdefghijklmnopqrstuvwxyz0123456789-_''"

definition base32_alphabet :: string where
  "base32_alphabet = ''ABCDEFGHIJKLMNOPQRSTUVWXYZ234567''"

definition b64_encode :: "string \<Rightarrow> string" where
  "b64_encode = encode_with 6 base64url_alphabet"

text \<open>A last group of one digit is an error; bits beyond the last byte are an error when strict.\<close>

definition b64_decode :: "bool \<Rightarrow> string \<Rightarrow> string option" where
  "b64_decode strict s =
     (let t = strip_newlines s
      in case digit_values base64url_alphabet t of
           None \<Rightarrow> None
         | Some vs \<Rightarrow>
             let bs = decoded_bits 6 vs
             in if length t mod 4 = 1 \<or> strict \<and> True \<in> set (left_over bs) then None
                else Some (whole_bytes bs))"

definition b32_encode :: "string \<Rightarrow> string" where
  "b32_encode = encode_with 5 base32_alphabet"

text \<open>A last group of one, three or six digits decodes to nothing.\<close>

definition b32_decode :: "string \<Rightarrow> string option" where
  "b32_decode s =
     (let t = strip_newlines s; tail = length t mod 8
      in case digit_values base32_alphabet t of
           None \<Rightarrow> None
         | Some vs \<Rightarrow>
             Some (whole_bytes (decoded_bits 5
               (if tail \<in> {1, 3, 6} then take (length vs - tail) vs else vs))))"

section \<open>Round trips\<close>

lemma length_byte_bits: "length (byte_bits s) = 8 * length s"
  by (induction s) (simp_all add: byte_bits_def)

lemma bytes_of_byte_bits [simp]: "bytes_of_bits (byte_bits s) = s"
proof -
  have "chunk 8 (byte_bits s) = map (\<lambda>c. bits_of 8 (of_char c)) s"
    unfolding byte_bits_def by (rule chunk_concat) auto
  then show ?thesis by (simp add: bytes_of_bits_def o_def)
qed

lemma concat_padded:
  assumes "0 < k"
  shows "\<exists>p<k. concat (map (pad_bits k) (chunk k bs)) = bs @ replicate p False"
  using assms
proof (induction k bs rule: chunk.induct)
  case (1 k bs)
  show ?case
  proof (cases "bs = []")
    case True
    with 1 show ?thesis by auto
  next
    case False
    then obtain p where p: "p < k" "concat (map (pad_bits k) (chunk k (drop k bs))) = drop k bs @ replicate p False"
      using 1 by blast
    show ?thesis
    proof (cases "k \<le> length bs")
      case True
      then have "concat (map (pad_bits k) (chunk k bs)) = take k bs @ drop k bs @ replicate p False"
        using False 1 p by (simp add: chunk_step pad_bits_def)
      with p(1) show ?thesis by (metis append.assoc append_take_drop_id)
    next
      case short: False
      then have "concat (map (pad_bits k) (chunk k bs)) = bs @ replicate (k - length bs) False"
        using False 1 by (simp add: chunk_step pad_bits_def)
      moreover have "k - length bs < k" using False 1 by simp
      ultimately show ?thesis by blast
    qed
  qed
qed

lemma length_pad_groups: "0 < k \<Longrightarrow> g \<in> set (chunk k bs) \<Longrightarrow> length (pad_bits k g) = k"
proof (induction k bs rule: chunk.induct)
  case (1 k bs)
  then have "g = take k bs \<or> g \<in> set (chunk k (drop k bs))"
    by (cases "bs = []") (auto simp: chunk_step)
  with 1 show ?case by (cases "bs = []") (auto simp: pad_bits_def)
qed

text \<open>An alphabet without repetitions of \<open>2 ^ k\<close> characters.\<close>

lemma digit_value_nth:
  assumes "distinct alphabet" and "i < length alphabet"
  shows "digit_value alphabet (alphabet ! i) = Some i"
proof -
  have "filter (\<lambda>j. alphabet ! j = alphabet ! i) [0..<length alphabet] =
      filter (\<lambda>j. j = i) [0..<length alphabet]"
    using assms by (intro filter_cong) (auto simp: nth_eq_iff_index_eq)
  also have "\<dots> = [i]" using assms(2) filter_eq_singleton_distinct [of "\<lambda>x. x" "[0..<length alphabet]" i] by simp
  finally show ?thesis by (simp add: digit_value_def)
qed

lemma digit_values_encode:
  assumes "distinct alphabet" and "\<forall>v \<in> set vs. v < length alphabet"
  shows "digit_values alphabet (map (\<lambda>v. alphabet ! v) vs) = Some vs"
  using assms(2) by (induction vs) (simp_all add: digit_value_nth assms(1))

lemma decoded_encode:
  assumes "0 < k" and "length alphabet = 2 ^ k" and "distinct alphabet"
  obtains vs p where "digit_values alphabet (encode_with k alphabet s) = Some vs" and "p < k"
    and "decoded_bits k vs = byte_bits s @ replicate p False"
    and "k * length (encode_with k alphabet s) = 8 * length s + p"
proof -
  let ?gs = "map (pad_bits k) (chunk k (byte_bits s))"
  let ?vs = "map nat_of_bits ?gs"
  obtain p where p: "p < k" "concat ?gs = byte_bits s @ replicate p False"
    using concat_padded [OF assms(1)] by blast
  have len: "\<forall>g \<in> set ?gs. length g = k" using length_pad_groups [OF assms(1)] by auto
  have "nat_of_bits g < length alphabet" if "g \<in> set ?gs" for g
    using nat_of_bits_less [of g] bspec [OF len that] assms(2) by simp
  then have "\<forall>v \<in> set ?vs. v < length alphabet" by simp
  then have "digit_values alphabet (map (\<lambda>v. alphabet ! v) ?vs) = Some ?vs"
    using digit_values_encode [OF assms(3), of ?vs] by blast
  then have "digit_values alphabet (encode_with k alphabet s) = Some ?vs"
    by (simp add: encode_with_def o_def)
  moreover have "map (bits_of k) (map nat_of_bits gs) = gs" if "\<forall>g \<in> set gs. length g = k" for gs
    using that by (induction gs) auto
  then have "decoded_bits k ?vs = byte_bits s @ replicate p False" using p len by (simp only: decoded_bits_def)
  moreover have "length (concat gs) = k * length gs" if "\<forall>g \<in> set gs. length g = k" for gs :: "bool list list"
    using that by (induction gs) auto
  then have "length (concat ?gs) = k * length ?gs" using len by blast
  then have "k * length (encode_with k alphabet s) = 8 * length s + p"
    using p(2) by (simp add: encode_with_def length_byte_bits)
  ultimately show ?thesis using that p(1) by blast
qed

lemma whole_bytes_padded:
  assumes "p < 8"
  shows "whole_bytes (byte_bits s @ replicate p False) = s"
    and "left_over (byte_bits s @ replicate p False) = replicate p False"
proof -
  have "(8 * length s + p) div 8 = length s" using assms by simp
  then show "whole_bytes (byte_bits s @ replicate p False) = s"
    and "left_over (byte_bits s @ replicate p False) = replicate p False"
    by (simp_all add: whole_bytes_def left_over_def length_byte_bits)
qed

lemma set_encode_with:
  assumes "0 < k" and "length alphabet = 2 ^ k"
  shows "set (encode_with k alphabet s) \<subseteq> set alphabet"
proof
  fix c assume "c \<in> set (encode_with k alphabet s)"
  then obtain g where g: "g \<in> set (chunk k (byte_bits s))" "c = alphabet ! nat_of_bits (pad_bits k g)"
    by (auto simp: encode_with_def)
  have "nat_of_bits (pad_bits k g) < length alphabet"
    using nat_of_bits_less [of "pad_bits k g"] length_pad_groups [OF assms(1) g(1)] assms(2) by simp
  then show "c \<in> set alphabet" using g(2) by simp
qed

lemma alphabets:
  "length base64url_alphabet = 2 ^ 6" "distinct base64url_alphabet"
  "length base32_alphabet = 2 ^ 5" "distinct base32_alphabet"
  by (simp_all add: base64url_alphabet_def base32_alphabet_def)

lemma no_newlines:
  "c \<in> set base64url_alphabet \<Longrightarrow> c \<noteq> byte 10 \<and> c \<noteq> byte 13 \<and> c \<noteq> CHR ''.'' \<and> c \<noteq> CHR ''|''"
  "c \<in> set base32_alphabet \<Longrightarrow> c \<noteq> byte 10 \<and> c \<noteq> byte 13"
proof -
  have "list_all (\<lambda>c. c \<noteq> byte 10 \<and> c \<noteq> byte 13 \<and> c \<noteq> CHR ''.'' \<and> c \<noteq> CHR ''|'') base64url_alphabet"
    and "list_all (\<lambda>c. c \<noteq> byte 10 \<and> c \<noteq> byte 13) base32_alphabet"
    by code_simp+
  then show "c \<in> set base64url_alphabet \<Longrightarrow> c \<noteq> byte 10 \<and> c \<noteq> byte 13 \<and> c \<noteq> CHR ''.'' \<and> c \<noteq> CHR ''|''"
    and "c \<in> set base32_alphabet \<Longrightarrow> c \<noteq> byte 10 \<and> c \<noteq> byte 13"
    by (auto simp: list_all_iff)
qed

lemma strip_encoded:
  "strip_newlines (b64_encode s) = b64_encode s" "strip_newlines (b32_encode s) = b32_encode s"
proof -
  have "set (b64_encode s) \<subseteq> set base64url_alphabet" "set (b32_encode s) \<subseteq> set base32_alphabet"
    unfolding b64_encode_def b32_encode_def by (rule set_encode_with; simp add: alphabets)+
  then show "strip_newlines (b64_encode s) = b64_encode s" "strip_newlines (b32_encode s) = b32_encode s"
    unfolding strip_newlines_def using no_newlines by (intro filter_True; blast)+
qed

lemma b64_encode_chars: "c \<in> set (b64_encode s) \<Longrightarrow> c \<noteq> CHR ''.'' \<and> c \<noteq> CHR ''|''"
  using set_encode_with [of 6 base64url_alphabet s] no_newlines(1) alphabets
  unfolding b64_encode_def by (metis subsetD zero_less_numeral)

lemma b64_round_trip: "b64_decode strict (b64_encode s) = Some s"
proof -
  obtain vs p where vs: "digit_values base64url_alphabet (b64_encode s) = Some vs" and p: "p < 6"
    and bits: "decoded_bits 6 vs = byte_bits s @ replicate p False"
    and len: "6 * length (b64_encode s) = 8 * length s + p"
    unfolding b64_encode_def
    by (rule decoded_encode [OF _ alphabets(1,2)]) (simp, blast)
  have "length (b64_encode s) mod 4 \<noteq> 1"
  proof
    assume "length (b64_encode s) mod 4 = 1"
    then obtain q where "length (b64_encode s) = 4 * q + 1" by (metis mult_div_mod_eq)
    then have "24 * q + 6 = 8 * length s + p" using len by simp
    moreover have "(6 + (3 * q) * 8) mod 8 = (6 :: nat)" by (simp only: mod_mult_self1) simp
    then have "(24 * q + 6) mod 8 = 6" by (simp add: algebra_simps)
    moreover have "(8 * length s + p) mod 8 = p" using p by simp
    ultimately show False using p by simp
  qed
  moreover have "True \<notin> set (left_over (decoded_bits 6 vs))" "whole_bytes (decoded_bits 6 vs) = s"
    unfolding bits using whole_bytes_padded [of p s] p by simp_all
  ultimately show ?thesis by (simp add: b64_decode_def strip_encoded vs Let_def)
qed

lemma b32_round_trip: "b32_decode (b32_encode s) = Some s"
proof -
  obtain vs p where vs: "digit_values base32_alphabet (b32_encode s) = Some vs" and p: "p < 5"
    and bits: "decoded_bits 5 vs = byte_bits s @ replicate p False"
    and len: "5 * length (b32_encode s) = 8 * length s + p"
    unfolding b32_encode_def
    by (rule decoded_encode [OF _ alphabets(3,4)]) (simp, blast)
  have "(5 * (length (b32_encode s) mod 8)) mod 8 = (8 * length s + p) mod 8"
    unfolding len [symmetric] by (rule mod_mult_right_eq)
  then have "(5 * (length (b32_encode s) mod 8)) mod 8 = p" using p by simp
  then have "length (b32_encode s) mod 8 \<notin> {1, 3, 6}" using p by auto
  moreover have "whole_bytes (decoded_bits 5 vs) = s"
    unfolding bits using whole_bytes_padded [of p s] p by simp
  ultimately show ?thesis by (simp add: b32_decode_def strip_encoded vs Let_def)
qed

text \<open>Every code of \<open>b32_encode\<close> has one digit for each five bits.\<close>

lemma length_b32_encode:
  "5 * length (b32_encode s) < 8 * length s + 5 \<and> 8 * length s \<le> 5 * length (b32_encode s)"
proof -
  obtain p where "p < 5" "5 * length (b32_encode s) = 8 * length s + p"
    unfolding b32_encode_def by (rule decoded_encode [OF _ alphabets(3,4)]) (simp, blast)
  then show ?thesis by simp
qed

end
