(* ===== verification/Crypto.thy ===== *)
theory Crypto
  imports Codec
begin

unbundle bit_operations_syntax

text \<open>
  The hash functions of Go's standard library that the server calls, \<^verbatim>\<open>crypto/sha1\<close>,
  \<^verbatim>\<open>crypto/sha256\<close> and \<^verbatim>\<open>crypto/hmac\<close> over them, as FIPS 180-4 and RFC 2104 define them. A byte
  is a character and a block is cut into 32-bit words in big-endian order.
\<close>

section \<open>Words and blocks\<close>

definition be_word :: "string \<Rightarrow> 32 word" where
  "be_word s = foldl (\<lambda>w c. push_bit 8 w OR word_of_int (of_char c)) 0 s"

definition byte_of :: "nat \<Rightarrow> 32 word \<Rightarrow> char" where
  "byte_of i w = char_of (uint (drop_bit (8 * i) w) mod 256)"

definition word_bytes :: "32 word \<Rightarrow> string" where
  "word_bytes w = map (\<lambda>i. byte_of i w) [3, 2, 1, 0]"

text \<open>The \<open>w\<close> lowest bytes of a number, most significant first: \<^verbatim>\<open>binary.BigEndian.PutUint64\<close>.\<close>

definition be_bytes :: "nat \<Rightarrow> int \<Rightarrow> string" where
  "be_bytes w n = map (\<lambda>i. char_of (n div 256 ^ i mod 256)) (rev [0..<w])"

definition padded_message :: "string \<Rightarrow> string" where
  "padded_message s =
     s @ [byte 128] @ replicate ((119 - length s mod 64) mod 64) (byte 0) @ be_bytes 8 (8 * int (length s))"

definition blocks :: "string \<Rightarrow> 32 word list list" where
  "blocks s = map (\<lambda>b. map be_word (chunk 4 b)) (chunk 64 (padded_message s))"

lemma length_word_bytes [simp]: "length (word_bytes w) = 4"
  by (simp add: word_bytes_def)

lemma length_be_bytes [simp]: "length (be_bytes w n) = w"
  by (simp add: be_bytes_def)

section \<open>SHA-1\<close>

text \<open>The message schedule, newest word first.\<close>

fun schedule1 :: "nat \<Rightarrow> 32 word list \<Rightarrow> 32 word list" where
  "schedule1 0 ws = ws"
| "schedule1 (Suc n) ws =
     schedule1 n (word_rotl 1 (ws ! 2 XOR ws ! 7 XOR ws ! 13 XOR ws ! 15) # ws)"

type_synonym state5 = "32 word \<times> 32 word \<times> 32 word \<times> 32 word \<times> 32 word"

definition round1 :: "nat \<Rightarrow> 32 word \<Rightarrow> state5 \<Rightarrow> state5" where
  "round1 t w s =
     (case s of (a, b, c, d, e) \<Rightarrow>
        let (f, k) =
              (if t < 20 then ((b AND c) OR (NOT b AND d), 0x5A827999)
               else if t < 40 then (b XOR c XOR d, 0x6ED9EBA1)
               else if t < 60 then ((b AND c) OR (b AND d) OR (c AND d), 0x8F1BBCDC)
               else (b XOR c XOR d, 0xCA62C1D6))
        in (word_rotl 5 a + f + e + k + w, a, word_rotl 30 b, c, d))"

fun rounds1 :: "nat \<Rightarrow> 32 word list \<Rightarrow> state5 \<Rightarrow> state5" where
  "rounds1 t [] s = s"
| "rounds1 t (w # ws) s = rounds1 (Suc t) ws (round1 t w s)"

definition block1 :: "state5 \<Rightarrow> 32 word list \<Rightarrow> state5" where
  "block1 s ws =
     (case (s, rounds1 0 (rev (schedule1 64 (rev ws))) s) of
        ((a, b, c, d, e), (a', b', c', d', e')) \<Rightarrow> (a + a', b + b', c + c', d + d', e + e'))"

definition sha1 :: "string \<Rightarrow> string" where
  "sha1 m =
     (case foldl block1 (0x67452301, 0xEFCDAB89, 0x98BADCFE, 0x10325476, 0xC3D2E1F0) (blocks m) of
        (a, b, c, d, e) \<Rightarrow> concat (map word_bytes [a, b, c, d, e]))"

lemma length_sha1 [simp]: "length (sha1 m) = 20"
  by (simp add: sha1_def split: prod.splits)

section \<open>SHA-256\<close>

definition k256 :: "32 word list" where
  "k256 =
     [1116352408, 1899447441, 3049323471, 3921009573, 961987163, 1508970993, 2453635748, 2870763221,
      3624381080, 310598401, 607225278, 1426881987, 1925078388, 2162078206, 2614888103, 3248222580,
      3835390401, 4022224774, 264347078, 604807628, 770255983, 1249150122, 1555081692, 1996064986,
      2554220882, 2821834349, 2952996808, 3210313671, 3336571891, 3584528711, 113926993, 338241895,
      666307205, 773529912, 1294757372, 1396182291, 1695183700, 1986661051, 2177026350, 2456956037,
      2730485921, 2820302411, 3259730800, 3345764771, 3516065817, 3600352804, 4094571909, 275423344,
      430227734, 506948616, 659060556, 883997877, 958139571, 1322822218, 1537002063, 1747873779,
      1955562222, 2024104815, 2227730452, 2361852424, 2428436474, 2756734187, 3204031479, 3329325298]"

fun schedule256 :: "nat \<Rightarrow> 32 word list \<Rightarrow> 32 word list" where
  "schedule256 0 ws = ws"
| "schedule256 (Suc n) ws =
     (let s0 = word_rotr 7 (ws ! 14) XOR word_rotr 18 (ws ! 14) XOR drop_bit 3 (ws ! 14);
          s1 = word_rotr 17 (ws ! 1) XOR word_rotr 19 (ws ! 1) XOR drop_bit 10 (ws ! 1)
      in schedule256 n ((ws ! 15 + s0 + ws ! 6 + s1) # ws))"

type_synonym state8 =
  "32 word \<times> 32 word \<times> 32 word \<times> 32 word \<times> 32 word \<times> 32 word \<times> 32 word \<times> 32 word"

definition round256 :: "32 word \<Rightarrow> 32 word \<Rightarrow> state8 \<Rightarrow> state8" where
  "round256 k w s =
     (case s of (a, b, c, d, e, f, g, h) \<Rightarrow>
        let s1 = word_rotr 6 e XOR word_rotr 11 e XOR word_rotr 25 e;
            ch = (e AND f) XOR (NOT e AND g);
            t1 = h + s1 + ch + k + w;
            s0 = word_rotr 2 a XOR word_rotr 13 a XOR word_rotr 22 a;
            maj = (a AND b) XOR (a AND c) XOR (b AND c)
        in (t1 + (s0 + maj), a, b, c, d + t1, e, f, g))"

fun rounds256 :: "(32 word \<times> 32 word) list \<Rightarrow> state8 \<Rightarrow> state8" where
  "rounds256 [] s = s"
| "rounds256 ((k, w) # kws) s = rounds256 kws (round256 k w s)"

definition block256 :: "state8 \<Rightarrow> 32 word list \<Rightarrow> state8" where
  "block256 s ws =
     (case (s, rounds256 (zip k256 (rev (schedule256 48 (rev ws)))) s) of
        ((a, b, c, d, e, f, g, h), (a', b', c', d', e', f', g', h')) \<Rightarrow>
          (a + a', b + b', c + c', d + d', e + e', f + f', g + g', h + h'))"

definition sha256 :: "string \<Rightarrow> string" where
  "sha256 m =
     (case foldl block256 (0x6a09e667, 0xbb67ae85, 0x3c6ef372, 0xa54ff53a, 0x510e527f, 0x9b05688c,
             0x1f83d9ab, 0x5be0cd19) (blocks m) of
        (a, b, c, d, e, f, g, h) \<Rightarrow> concat (map word_bytes [a, b, c, d, e, f, g, h]))"

lemma length_sha256 [simp]: "length (sha256 m) = 32"
  by (simp add: sha256_def split: prod.splits)

section \<open>HMAC\<close>

definition xor_byte :: "int \<Rightarrow> char \<Rightarrow> char" where
  "xor_byte n c = char_of (of_char c XOR n)"

definition hmac :: "(string \<Rightarrow> string) \<Rightarrow> string \<Rightarrow> string \<Rightarrow> string" where
  "hmac h key m =
     (let k0 = (if 64 < length key then h key else key);
          k = k0 @ replicate (64 - length k0) (byte 0)
      in h (map (xor_byte 0x5c) k @ h (map (xor_byte 0x36) k @ m)))"

lemma length_hmac_sha1 [simp]: "length (hmac sha1 key m) = 20"
  by (simp add: hmac_def Let_def)

lemma length_hmac_sha256 [simp]: "length (hmac sha256 key m) = 32"
  by (simp add: hmac_def Let_def)

end
