(* ===== verification/Totp.thy ===== *)
theory Totp
  imports Crypto
begin

text \<open>
  \<^verbatim>\<open>server/internal/auth/totp.go\<close>: secrets, provisioning URIs and the check of a code against the
  three time steps around now. The random key is an argument; \<open>uni\<close> is what \<^verbatim>\<open>strings.ToUpper\<close>
  does to strings with bytes outside ASCII.
\<close>

section \<open>Secrets and provisioning URIs\<close>

definition TOTPPeriodSeconds :: int where "TOTPPeriodSeconds = 30"

definition GenerateTOTPSecret :: "string \<Rightarrow> string" where
  "GenerateTOTPSecret key = b32_encode key"

definition hex_digit :: "nat \<Rightarrow> char" where
  "hex_digit n = ''0123456789ABCDEF'' ! n"

definition unreserved :: "char \<Rightarrow> bool" where
  "unreserved c \<longleftrightarrow> c \<in> set ''ABCDEFGHIJKLMNOPQRSTUVWXYZabcdefghijklmnopqrstuvwxyz0123456789-_.~''"

text \<open>\<^verbatim>\<open>url.QueryEscape\<close>, byte by byte.\<close>

fun QueryEscape :: "string \<Rightarrow> string" where
  "QueryEscape [] = []"
| "QueryEscape (c # cs) =
     (if unreserved c then [c]
      else if c = CHR '' '' then ''+''
      else [CHR ''%'', hex_digit (of_char c div 16), hex_digit (of_char c mod 16)]) @ QueryEscape cs"

text \<open>\<^verbatim>\<open>url.Values.Encode\<close> sorts the keys; each of them has one value here.\<close>

fun encode_values :: "(string \<times> string) list \<Rightarrow> string" where
  "encode_values [] = []"
| "encode_values [(k, v)] = QueryEscape k @ ''='' @ QueryEscape v"
| "encode_values ((k, v) # kvs) = QueryEscape k @ ''='' @ QueryEscape v @ ''&'' @ encode_values kvs"

definition escapeLabelPart :: "string \<Rightarrow> string" where
  "escapeLabelPart v = replaceAll ''+'' ''%20'' (QueryEscape v)"

definition TOTPProvisioningURI :: "string \<Rightarrow> string \<Rightarrow> string \<Rightarrow> string" where
  "TOTPProvisioningURI issuer account secret =
     (let label = escapeLabelPart issuer @ '':'' @ escapeLabelPart account
      in ''otpauth://totp/'' @ label @ ''?'' @ encode_values (sort_key fst
           [(''secret'', secret), (''issuer'', issuer), (''algorithm'', ''SHA1''), (''digits'', ''6''),
            (''period'', formatInt TOTPPeriodSeconds)]))"

section \<open>Codes\<close>

definition hotpCode :: "string \<Rightarrow> int \<Rightarrow> string" where
  "hotpCode key counter =
     (let digest = hmac sha1 key (be_bytes 8 counter);
          offset = unat (of_int (of_char (digest ! (length digest - 1))) AND (0x0f :: 8 word));
          v = be_word (take 4 (drop offset digest)) AND 0x7fffffff
      in padded 6 (uint v mod 1000000))"

text \<open>The codes tried, in order; the first that matches decides.\<close>

definition totp_counters :: "instant \<Rightarrow> int list" where
  "totp_counters now =
     (let current = quot (unix_seconds now) TOTPPeriodSeconds in [current - 1, current, current + 1])"

fun try_counters :: "string \<Rightarrow> string \<Rightarrow> int list \<Rightarrow> int \<times> bool" where
  "try_counters key code [] = (0, False)"
| "try_counters key code (counter # rest) =
     (if counter < 0 then try_counters key code rest
      else if hotpCode key counter = code then (counter, True)
      else try_counters key code rest)"

datatype totp_error = SecretNotBase32

definition MatchTOTP ::
    "(string \<Rightarrow> string) \<Rightarrow> string \<Rightarrow> string \<Rightarrow> instant \<Rightarrow> totp_error + int \<times> bool" where
  "MatchTOTP uni secret code now =
     (if length code \<noteq> 6 then Inr (0, False)
      else if \<not> list_all is_digit code then Inr (0, False)
      else case b32_decode (toUpper uni (trimSpace secret)) of
             None \<Rightarrow> Inl SecretNotBase32
           | Some key \<Rightarrow> Inr (try_counters key code (totp_counters now)))"

section \<open>Codes are six digits\<close>

lemma hotpCode_length: "length (hotpCode key c) = 6"
  unfolding hotpCode_def Let_def by (rule padded_length) simp_all

lemma hotpCode_digits: "list_all is_digit (hotpCode key c)"
  unfolding hotpCode_def Let_def list_all_iff by (intro ballI, erule padded_digits [rotated]) simp

text \<open>The four bytes read lie inside the digest.\<close>

lemma hotp_offset:
  "unat (of_int (of_char (d :: char)) AND (0x0f :: 8 word)) + 4 \<le> length (hmac sha1 key m)"
proof -
  have "(of_int (of_char d) AND (0x0f :: 8 word)) \<le> 0x0f" by (rule word_and_le1)
  then have "unat (of_int (of_char d) AND (0x0f :: 8 word)) \<le> unat (0x0f :: 8 word)"
    by (simp only: word_le_nat_alt)
  then show ?thesis by simp
qed

section \<open>The counters tried\<close>

lemma try_counters_accept:
  "try_counters key code cs = (c, True) \<Longrightarrow> c \<in> set cs \<and> 0 \<le> c \<and> hotpCode key c = code"
  by (induction cs) (auto split: if_splits)

lemma try_counters_complete:
  "c \<in> set cs \<Longrightarrow> 0 \<le> c \<Longrightarrow> snd (try_counters key (hotpCode key c) cs)"
  by (induction cs) auto

lemma totp_window:
  assumes "0 \<le> unix_seconds now"
  shows "set (totp_counters now) =
    {unix_seconds now div 30 - 1, unix_seconds now div 30, unix_seconds now div 30 + 1}"
  using assms by (simp add: totp_counters_def TOTPPeriodSeconds_def quot_nonneg Let_def)

section \<open>Secrets decode\<close>

lemma trimLeft_id:
  assumes "\<forall>p \<in> set ps. p \<noteq> [] \<longrightarrow> \<not> hasPrefix s p"
  shows "trimLeft ps s = s"
proof -
  have "find (\<lambda>p. p \<noteq> [] \<and> hasPrefix s p) ps = None" using assms by (auto simp: find_None_iff)
  then show ?thesis by (simp add: trimLeft.simps)
qed

lemma trimSpace_id:
  assumes "\<forall>c \<in> set s. \<forall>p \<in> set space_runes. c \<noteq> hd p \<and> c \<noteq> last p"
  shows "trimSpace s = s"
proof -
  have ne: "p \<in> set space_runes \<Longrightarrow> p \<noteq> []" for p by (auto simp: space_runes_def)
  have a: "trimLeft space_runes s = s"
    using assms ne by (intro trimLeft_id) (fastforce simp: hasPrefix_iff neq_Nil_conv)
  have "\<not> hasPrefix (rev s) (rev p)" if "p \<in> set space_runes" for p
  proof
    assume "hasPrefix (rev s) (rev p)"
    then have "last p \<in> set s" using ne [OF that]
      by (metis Un_iff hasPrefix_iff last_in_set set_append set_rev)
    with assms that show False by blast
  qed
  then have "trimLeft (map rev space_runes) (rev s) = rev s" by (intro trimLeft_id) auto
  with a show ?thesis by (simp add: trimSpace_def)
qed

definition edge_byte :: "char \<Rightarrow> bool" where
  "edge_byte c \<longleftrightarrow> of_char c \<le> (32 :: nat) \<or> (128 :: nat) \<le> of_char c"

lemma space_runes_edges: "p \<in> set space_runes \<Longrightarrow> edge_byte (hd p) \<and> edge_byte (last p)"
  by (auto simp: space_runes_def byte_def edge_byte_def)

lemma base32_bytes: "c \<in> set base32_alphabet \<Longrightarrow> upper_byte c = c \<and> \<not> edge_byte c"
  by (auto simp: base32_alphabet_def upper_byte_def edge_byte_def)

lemma base32_upper: "c \<in> set base32_alphabet \<Longrightarrow> upper_byte c = c \<and> of_char c < (128 :: nat) \<and>
    (\<forall>p \<in> set space_runes. c \<noteq> hd p \<and> c \<noteq> last p)"
  using base32_bytes [of c] space_runes_edges by (auto simp: edge_byte_def)

lemma secret_decodes: "b32_decode (toUpper uni (trimSpace (GenerateTOTPSecret key))) = Some key"
proof -
  have sub: "set (b32_encode key) \<subseteq> set base32_alphabet"
    unfolding b32_encode_def by (rule set_encode_with) (simp_all add: alphabets)
  then have "trimSpace (b32_encode key) = b32_encode key"
    using base32_upper by (intro trimSpace_id) blast
  moreover have "ascii (b32_encode key)" using sub base32_upper by (auto simp: ascii_def list_all_iff)
  moreover have "map upper_byte (b32_encode key) = b32_encode key"
    using sub base32_upper by (intro map_idI) blast
  ultimately show ?thesis by (simp add: GenerateTOTPSecret_def toUpper_def b32_round_trip)
qed

section \<open>Properties\<close>

lemma counters_close:
  "c \<in> set (totp_counters now) \<Longrightarrow> \<bar>unix_seconds now - 30 * c\<bar> \<le> 59"
proof -
  let ?u = "unix_seconds now"
  assume c: "c \<in> set (totp_counters now)"
  have "?u = 30 * quot ?u 30 + (?u - 30 * quot ?u 30)" by simp
  moreover have "\<bar>?u - 30 * quot ?u 30\<bar> \<le> 29"
  proof (cases "0 \<le> ?u")
    case True
    then have "?u - 30 * quot ?u 30 = ?u mod 30" by (simp add: quot_nonneg minus_mult_div_eq_mod)
    then show ?thesis using pos_mod_bound [of 30 ?u] pos_mod_sign [of 30 ?u] by linarith
  next
    case False
    then have "?u - 30 * quot ?u 30 = - ((- ?u) mod 30)"
      unfolding quot_def using mult_div_mod_eq [of 30 "- ?u"] False by (simp, linarith)
    then show ?thesis using pos_mod_bound [of 30 "- ?u"] pos_mod_sign [of 30 "- ?u"] by linarith
  qed
  ultimately show ?thesis using c by (auto simp: totp_counters_def TOTPPeriodSeconds_def Let_def)
qed



text \<open>An accepted code is the code of the reported counter for the stored secret, the counter is
  not negative, and its time step begins less than a minute from now; a refused code reports
  counter zero.\<close>

theorem totp_accepts_near_now:
  "case MatchTOTP uni secret code now of
     Inl e \<Rightarrow> b32_decode (toUpper uni (trimSpace secret)) = None
   | Inr (c, matched) \<Rightarrow>
       if matched
       then 0 \<le> c \<and> \<bar>unix_seconds now - 30 * c\<bar> \<le> 59 \<and>
            (\<exists>key. b32_decode (toUpper uni (trimSpace secret)) = Some key \<and> hotpCode key c = code)
       else c = 0"
proof -
  have no: "try_counters key code cs = (c, False) \<Longrightarrow> c = 0" for key cs c
    by (induction cs) (auto split: if_splits)
  show ?thesis
    using try_counters_accept counters_close
    by (auto simp: MatchTOTP_def split: option.splits dest: no)
qed

text \<open>Every code the server computes has exactly six characters, all of them decimal digits,
  and the four bytes of the digest it is made from lie inside the digest.\<close>

theorem hotp_code_shape:
  "length (hotpCode key c) = 6 \<and> list_all is_digit (hotpCode key c) \<and>
   unat (of_int (of_char (hmac sha1 key m ! 19)) AND (0x0f :: 8 word)) + 4 \<le> length (hmac sha1 key m)"
  using hotpCode_length hotpCode_digits hotp_offset by blast

end
