(* ===== verification/TwoFactorCrypto.thy ===== *)
theory TwoFactorCrypto
  imports Totp
begin

text \<open>
  \<^verbatim>\<open>server/internal/auth/two_factor_crypto.go\<close>: encrypted secrets, recovery codes and their
  hashes. AES-GCM is a pair of functions (\<open>seal\<close> and \<open>opn\<close>, which may refuse), the key of
  HKDF, code outside the repository, is an argument; random bytes are arguments.
\<close>

section \<open>Encrypted secrets\<close>

definition encryptedSecretVersion :: string where "encryptedSecretVersion = ''v1.''"

text \<open>The nonce size of Go's \<^verbatim>\<open>cipher.NewGCM\<close>.\<close>

definition gcmNonceSize :: nat where "gcmNonceSize = 12"

datatype cipher_error = UnsupportedVersion | CiphertextNotBase64 | ShorterThanNonce | NotAuthentic

definition Encrypt :: "(string \<Rightarrow> string \<Rightarrow> string) \<Rightarrow> string \<Rightarrow> string \<Rightarrow> string" where
  "Encrypt seal nonce secret = encryptedSecretVersion @ b64_encode (nonce @ seal nonce secret)"

definition Decrypt :: "(string \<Rightarrow> string \<Rightarrow> string option) \<Rightarrow> string \<Rightarrow> cipher_error + string" where
  "Decrypt opn value =
     (if \<not> hasPrefix value encryptedSecretVersion then Inl UnsupportedVersion
      else case b64_decode False (trimPrefix value encryptedSecretVersion) of
             None \<Rightarrow> Inl CiphertextNotBase64
           | Some payload \<Rightarrow>
               if length payload < gcmNonceSize then Inl ShorterThanNonce
               else case opn (take gcmNonceSize payload) (drop gcmNonceSize payload) of
                      None \<Rightarrow> Inl NotAuthentic
                    | Some plaintext \<Rightarrow> Inr plaintext)"

section \<open>Recovery codes\<close>

text \<open>One code from its ten random bytes.\<close>

definition recovery_code :: "string \<Rightarrow> string" where
  "recovery_code raw =
     (let e = b32_encode raw
      in take 4 e @ ''-'' @ take 4 (drop 4 e) @ ''-'' @ take 4 (drop 8 e) @ ''-'' @ take 4 (drop 12 e))"

datatype count_error = NegativeCount

definition generateRecoveryCodes :: "int \<Rightarrow> (nat \<Rightarrow> string) \<Rightarrow> count_error + string list" where
  "generateRecoveryCodes count raws =
     (if count < 0 then Inl NegativeCount
      else Inr (map (\<lambda>i. recovery_code (raws i)) [0..<nat count]))"

definition normalizeRecoveryCode :: "(string \<Rightarrow> string) \<Rightarrow> string \<Rightarrow> string" where
  "normalizeRecoveryCode uni code =
     replaceAll '' '' [] (replaceAll ''-'' [] (toUpper uni code))"

definition recoveryCodeHash :: "(string \<Rightarrow> string) \<Rightarrow> string \<Rightarrow> string \<Rightarrow> string \<Rightarrow> string" where
  "recoveryCodeHash uni key userID code =
     b64_encode (hmac sha256 key (userID @ [byte 0] @ normalizeRecoveryCode uni code))"

text \<open>\<^verbatim>\<open>TwoFactorManager.GenerateRecoveryCodes\<close> of \<^verbatim>\<open>challenge.go\<close>: ten codes with their hashes.\<close>

definition GenerateRecoveryCodes ::
    "(string \<Rightarrow> string) \<Rightarrow> string \<Rightarrow> (nat \<Rightarrow> string) \<Rightarrow> string \<Rightarrow> count_error + string list \<times> string list" where
  "GenerateRecoveryCodes uni recoveryKey raws userID =
     (case generateRecoveryCodes 10 raws of
        Inl e \<Rightarrow> Inl e
      | Inr rawCodes \<Rightarrow> Inr (rawCodes, map (recoveryCodeHash uni recoveryKey userID) rawCodes))"

section \<open>Encryption\<close>

lemma Decrypt_Encrypt:
  "length nonce = gcmNonceSize \<Longrightarrow> opn nonce (seal nonce secret) = Some secret \<Longrightarrow>
     Decrypt opn (Encrypt seal nonce secret) = Inr secret"
  by (simp add: Decrypt_def Encrypt_def b64_round_trip)

section \<open>Normal forms\<close>

lemma length_encoded10: "length raw = 10 \<Longrightarrow> length (b32_encode raw) = 16"
  using length_b32_encode [of raw] by simp

lemma replaceAll_empty: "replaceAll [d] [] s = filter (\<lambda>c. c \<noteq> d) s"
  by (induction s) (auto simp: replaceAll_char)

lemma normalize_filter:
  "normalizeRecoveryCode uni code = filter (\<lambda>c. c \<noteq> CHR ''-'' \<and> c \<noteq> CHR '' '') (toUpper uni code)"
proof -
  have "normalizeRecoveryCode uni code =
      filter (\<lambda>c. c \<noteq> CHR '' '') (filter (\<lambda>c. c \<noteq> CHR ''-'') (toUpper uni code))"
    unfolding normalizeRecoveryCode_def by (simp only: replaceAll_empty)
  also have "\<dots> = filter (\<lambda>c. c \<noteq> CHR ''-'' \<and> c \<noteq> CHR '' '') (toUpper uni code)"
    by (simp add: conj_commute)
  finally show ?thesis .
qed

lemma base32_plain: "c \<in> set base32_alphabet \<Longrightarrow> c \<noteq> CHR ''-'' \<and> c \<noteq> CHR '' ''"
  by (auto simp: base32_alphabet_def)

lemma set_b32: "set (b32_encode s) \<subseteq> set base32_alphabet"
  unfolding b32_encode_def by (rule set_encode_with) (simp_all add: alphabets)

text \<open>Spellings of one code: the letters' case, hyphens and spaces do not matter.\<close>

lemma normalize_spelling:
  assumes "ascii s" and "ascii t"
    and "map upper_byte (filter (\<lambda>c. c \<noteq> CHR ''-'' \<and> c \<noteq> CHR '' '') s) =
      map upper_byte (filter (\<lambda>c. c \<noteq> CHR ''-'' \<and> c \<noteq> CHR '' '') t)"
  shows "normalizeRecoveryCode uni s = normalizeRecoveryCode uni t"
proof -
  have up: "upper_byte c \<noteq> CHR ''-'' \<and> upper_byte c \<noteq> CHR '' '' \<longleftrightarrow> c \<noteq> CHR ''-'' \<and> c \<noteq> CHR '' ''" for c
    by (cases c rule: char.exhaust) (auto simp: upper_byte_def Let_def char_of_eq_iff)
  have "filter (\<lambda>c. c \<noteq> CHR ''-'' \<and> c \<noteq> CHR '' '') (map upper_byte s) =
      map upper_byte (filter (\<lambda>c. c \<noteq> CHR ''-'' \<and> c \<noteq> CHR '' '') s)" for s
    by (simp add: filter_map o_def up)
  with assms show ?thesis by (simp add: normalize_filter toUpper_def)
qed

lemma upper_b32: "map upper_byte (b32_encode s) = b32_encode s"
  using set_b32 base32_upper by (intro map_idI) blast

lemma four_parts:
  assumes "length e = 16"
  shows "e = take 4 e @ take 4 (drop 4 e) @ take 4 (drop 8 e) @ take 4 (drop 12 e)"
proof -
  have "take 4 (drop 12 e) = drop 12 e" using assms by simp
  moreover have "drop 8 e = take 4 (drop 8 e) @ drop 12 e"
    using append_take_drop_id [of 4 "drop 8 e"] by simp
  moreover have "drop 4 e = take 4 (drop 4 e) @ drop 8 e"
    using append_take_drop_id [of 4 "drop 4 e"] by simp
  moreover have "e = take 4 e @ drop 4 e" by simp
  ultimately show ?thesis by presburger
qed

lemma normalize_recovery_code:
  assumes "length raw = 10"
  shows "normalizeRecoveryCode uni (recovery_code raw) = b32_encode raw"
proof -
  let ?e = "b32_encode raw"
  have len: "length ?e = 16" by (rule length_encoded10 [OF assms])
  have parts: "?e = take 4 ?e @ take 4 (drop 4 ?e) @ take 4 (drop 8 ?e) @ take 4 (drop 12 ?e)"
    using len by (rule four_parts)
  have cs: "\<forall>c \<in> set ?e. of_char c < (128 :: nat) \<and> c \<noteq> CHR ''-'' \<and> c \<noteq> CHR '' ''"
    using set_b32 base32_upper base32_plain by blast
  have "ascii (recovery_code raw)"
    using cs by (auto simp: ascii_def list_all_iff recovery_code_def Let_def dest: in_set_takeD in_set_dropD)
  then have "normalizeRecoveryCode uni (recovery_code raw) =
      filter (\<lambda>c. c \<noteq> CHR ''-'' \<and> c \<noteq> CHR '' '') (map upper_byte (recovery_code raw))"
    by (simp add: normalize_filter toUpper_def)
  also have "map upper_byte (recovery_code raw) = recovery_code raw"
  proof (intro map_idI)
    fix c assume "c \<in> set (recovery_code raw)"
    then have "c = CHR ''-'' \<or> c \<in> set ?e"
      by (auto simp: recovery_code_def Let_def dest: in_set_takeD in_set_dropD)
    then show "upper_byte c = c" using set_b32 base32_upper by (auto simp: upper_byte_def)
  qed
  also have "filter (\<lambda>c. c \<noteq> CHR ''-'' \<and> c \<noteq> CHR '' '') (recovery_code raw) =
      take 4 ?e @ take 4 (drop 4 ?e) @ take 4 (drop 8 ?e) @ take 4 (drop 12 ?e)"
  proof -
    have "filter (\<lambda>c. c \<noteq> CHR ''-'' \<and> c \<noteq> CHR '' '') (take 4 (drop n ?e)) = take 4 (drop n ?e)" for n
      using cs by (intro filter_True) (meson in_set_dropD in_set_takeD)
    from this [of 0] this show ?thesis by (simp add: recovery_code_def Let_def)
  qed
  finally show ?thesis using parts by simp
qed

section \<open>Properties\<close>

text \<open>A secret the server encrypted decrypts to itself, given that authenticated decryption
  inverts encryption under the same nonce and the nonce has the standard size.\<close>

theorem encrypted_secret_round_trip:
  assumes "length nonce = gcmNonceSize" and "opn nonce (seal nonce secret) = Some secret"
  shows "Decrypt opn (Encrypt seal nonce secret) = Inr secret"
  using assms by (rule Decrypt_Encrypt)

theorem encrypted_secret_round_trip_witness:
  "Decrypt (\<lambda>n c. Some (drop 1 c)) (Encrypt (\<lambda>n p. hd n # p) ''0123456789ab'' ''secret'') = Inr ''secret''"
  by (rule encrypted_secret_round_trip) (simp_all add: gcmNonceSize_def)

text \<open>C14: However a user types an issued recovery code (small letters, other hyphens or spaces), its
  hash is the stored hash of that user's code.\<close>

theorem recovery_code_spellings:
  assumes "length raw = 10" and "ascii typed"
    and "map upper_byte (filter (\<lambda>c. c \<noteq> CHR ''-'' \<and> c \<noteq> CHR '' '') typed) = b32_encode raw"
  shows "recoveryCodeHash uni key userID typed = recoveryCodeHash uni key userID (recovery_code raw)"
proof -
  have "map upper_byte (filter (\<lambda>c. c \<noteq> CHR ''-'' \<and> c \<noteq> CHR '' '') (b32_encode raw)) = b32_encode raw"
    using set_b32 [of raw] base32_plain upper_b32 [of raw] by (subst filter_True) auto
  moreover have "ascii (b32_encode raw)" using set_b32 base32_upper by (auto simp: ascii_def list_all_iff)
  ultimately have "normalizeRecoveryCode uni typed = normalizeRecoveryCode uni (b32_encode raw)"
    using assms(2,3) by (intro normalize_spelling) simp_all
  also have "\<dots> = b32_encode raw"
    using set_b32 [of raw] base32_plain upper_b32 [of raw] \<open>ascii (b32_encode raw)\<close>
    by (simp add: normalize_filter toUpper_def) (intro filter_True, blast)
  also have "\<dots> = normalizeRecoveryCode uni (recovery_code raw)"
    by (rule normalize_recovery_code [OF assms(1), symmetric])
  finally show ?thesis by (simp add: recoveryCodeHash_def)
qed

theorem recovery_code_spellings_witness:
  "recoveryCodeHash (\<lambda>s. s) ''k'' ''u1'' ''aaaa aaaaaaaa-AAAA'' =
     recoveryCodeHash (\<lambda>s. s) ''k'' ''u1'' (recovery_code (replicate 10 (CHR 0x00)))"
  by (rule recovery_code_spellings) (simp, code_simp, code_simp)

end
