(* ===== verification/Challenge.thy ===== *)
theory Challenge
  imports Crypto
begin

text \<open>
  \<^verbatim>\<open>server/internal/auth/challenge.go\<close> (login challenges) and \<^verbatim>\<open>server/internal/auth/auth.go\<close>
  (session cookies): tokens signed with HMAC-SHA256. \<^verbatim>\<open>encoding/json\<close> on the payload and the
  RFC 3339 form of a time are pairs of functions; what is relied on is that reading inverts
  writing. The clock and the random bytes are arguments.
\<close>

section \<open>Login challenges\<close>

definition loginChallengeVersion :: int where "loginChallengeVersion = 2"

text \<open>The challenge of package \<^verbatim>\<open>auth\<close>; the row of the same name is in theory Schema.\<close>

record VerifiedChallenge =
  vc_JTI :: string
  vc_UserID :: string
  vc_ConfigurationID :: string
  vc_IssuedAt :: instant
  vc_ExpiresAt :: instant

record challengePayload =
  pl_Version :: int
  pl_JTI :: string
  pl_UserID :: string
  pl_ConfigurationID :: string
  pl_IssuedAt :: int
  pl_ExpiresAt :: int

datatype challenge_error =
    IdentifiersRequired
  | NotTwoParts
  | SignatureNotBase64
  | SignatureInvalid
  | PayloadNotBase64
  | PayloadNotJson
  | VersionInvalid
  | IdentifierMissing
  | ChallengeExpired
  | IssuedInFuture

definition loginChallengeSignature :: "string \<Rightarrow> string \<Rightarrow> string" where
  "loginChallengeSignature challengeKey encodedPayload = hmac sha256 challengeKey encodedPayload"

definition issued_payload :: "instant \<Rightarrow> string \<Rightarrow> string \<Rightarrow> string \<Rightarrow> challengePayload" where
  "issued_payload now jtiBytes userID configurationID =
     \<lparr>pl_Version = loginChallengeVersion, pl_JTI = b64_encode jtiBytes, pl_UserID = userID,
      pl_ConfigurationID = configurationID, pl_IssuedAt = unix_seconds now,
      pl_ExpiresAt = unix_seconds (time_add now (5 * minute))\<rparr>"

definition IssueLoginChallenge ::
    "(challengePayload \<Rightarrow> string) \<Rightarrow> string \<Rightarrow> instant \<Rightarrow> string \<Rightarrow> string \<Rightarrow> string \<Rightarrow> challenge_error + string" where
  "IssueLoginChallenge marshal key now jtiBytes userID configurationID =
     (if userID = [] \<or> configurationID = [] then Inl IdentifiersRequired
      else
        let payload = issued_payload now jtiBytes userID configurationID;
            encodedPayload = b64_encode (marshal payload);
            signature = b64_encode (loginChallengeSignature key encodedPayload)
        in Inr (encodedPayload @ ''.'' @ signature))"

definition VerifyLoginChallengeAt ::
    "(string \<Rightarrow> challengePayload option) \<Rightarrow> string \<Rightarrow> string \<Rightarrow> instant \<Rightarrow> challenge_error + VerifiedChallenge" where
  "VerifyLoginChallengeAt unmarshal key token now =
     (case splitOn (CHR ''.'') token of
        [p0, p1] \<Rightarrow>
          (case b64_decode True p1 of
             None \<Rightarrow> Inl SignatureNotBase64
           | Some signature \<Rightarrow>
               if signature \<noteq> loginChallengeSignature key p0 then Inl SignatureInvalid
               else case b64_decode True p0 of
                      None \<Rightarrow> Inl PayloadNotBase64
                    | Some payloadJSON \<Rightarrow>
                        (case unmarshal payloadJSON of
                           None \<Rightarrow> Inl PayloadNotJson
                         | Some payload \<Rightarrow>
                             if pl_Version payload \<noteq> loginChallengeVersion then Inl VersionInvalid
                             else if pl_JTI payload = [] \<or> pl_UserID payload = [] \<or> pl_ConfigurationID payload = []
                             then Inl IdentifierMissing
                             else
                               let issuedAt = from_unix (pl_IssuedAt payload);
                                   expiresAt = from_unix (pl_ExpiresAt payload)
                               in if expiresAt < now then Inl ChallengeExpired
                                  else if time_add now minute < issuedAt then Inl IssuedInFuture
                                  else Inr \<lparr>vc_JTI = pl_JTI payload, vc_UserID = pl_UserID payload,
                                         vc_ConfigurationID = pl_ConfigurationID payload,
                                         vc_IssuedAt = issuedAt, vc_ExpiresAt = expiresAt\<rparr>))
      | _ \<Rightarrow> Inl NotTwoParts)"

section \<open>Session cookies\<close>

definition sign :: "string \<Rightarrow> string \<Rightarrow> string" where
  "sign secret v = b64_encode (hmac sha256 secret v)"

text \<open>The cookie's value and its expiry; \<open>fmt\<close> is \<^verbatim>\<open>Format(time.RFC3339Nano)\<close>.\<close>

definition Set :: "(instant \<Rightarrow> string) \<Rightarrow> string \<Rightarrow> duration \<Rightarrow> instant \<Rightarrow> string \<Rightarrow> string \<times> instant" where
  "Set fmt secret ttl now userID =
     (let expires = time_add now ttl;
          v = userID @ ''|'' @ fmt expires;
          sig = sign secret v
      in (b64_encode (v @ ''|'' @ sig), expires))"

datatype session_error = ErrNoSession | ErrInvalidSession

text \<open>\<open>parse\<close> is \<^verbatim>\<open>time.Parse(time.RFC3339Nano, ...)\<close>; the request has the cookie or not.\<close>

definition Get ::
    "(string \<Rightarrow> instant option) \<Rightarrow> string \<Rightarrow> instant \<Rightarrow> string option \<Rightarrow> session_error + string" where
  "Get parse secret now cookie =
     (case cookie of
        None \<Rightarrow> Inl ErrNoSession
      | Some cv \<Rightarrow>
          (case b64_decode False cv of
             None \<Rightarrow> Inl ErrInvalidSession
           | Some raw \<Rightarrow>
               (case splitOn (CHR ''|'') raw of
                  [p0, p1, p2] \<Rightarrow>
                    (let v = p0 @ ''|'' @ p1
                     in if p2 \<noteq> sign secret v then Inl ErrInvalidSession
                        else case parse p1 of
                               None \<Rightarrow> Inl ErrInvalidSession
                             | Some expires \<Rightarrow> if expires < now then Inl ErrInvalidSession else Inr p0)
                | _ \<Rightarrow> Inl ErrInvalidSession)))"

section \<open>Issued challenges verify\<close>

lemma five_minutes: "t \<le> now + 5 * minute - second \<Longrightarrow> \<not> from_unix (unix_seconds (now + 5 * minute)) < t"
  using from_unix_gt [of "now + 5 * minute"] by linarith

lemma no_dot_b64: "CHR ''.'' \<notin> set (b64_encode s)" "CHR ''|'' \<notin> set (b64_encode s)"
  using b64_encode_chars by blast+

lemma splitOn_dot: "splitOn (CHR ''.'') (b64_encode a @ ''.'' @ b64_encode b) = [b64_encode a, b64_encode b]"
  using splitOn_append [of "CHR ''.''" "b64_encode a" "b64_encode b"] splitOn_none [of "CHR ''.''" "b64_encode b"]
    no_dot_b64 by simp

lemma b64_nonempty: "s \<noteq> [] \<Longrightarrow> b64_encode s \<noteq> []"
  using b64_round_trip [of True s] by (auto simp: b64_decode_def strip_newlines_def decoded_bits_def
      whole_bytes_def bytes_of_bits_def left_over_def)

lemma verify_issued:
  assumes "userID \<noteq> []" "configurationID \<noteq> []" "jtiBytes \<noteq> []"
    and json: "unmarshal (marshal (issued_payload t0 jtiBytes userID configurationID)) =
      Some (issued_payload t0 jtiBytes userID configurationID)"
    and issue: "IssueLoginChallenge marshal key t0 jtiBytes userID configurationID = Inr token"
    and time: "t0 \<le> now" "now \<le> t0 + 5 * minute - second"
  shows "VerifyLoginChallengeAt unmarshal key token now =
    Inr \<lparr>vc_JTI = b64_encode jtiBytes, vc_UserID = userID, vc_ConfigurationID = configurationID,
         vc_IssuedAt = from_unix (unix_seconds t0),
         vc_ExpiresAt = from_unix (unix_seconds (t0 + 5 * minute))\<rparr>"
proof -
  let ?p = "issued_payload t0 jtiBytes userID configurationID"
  let ?e = "b64_encode (marshal ?p)"
  have token: "token = ?e @ ''.'' @ b64_encode (loginChallengeSignature key ?e)"
    using issue assms(1,2) by (simp add: IssueLoginChallenge_def Let_def)
  have "\<not> from_unix (unix_seconds (t0 + 5 * minute)) < now" using time(2) by (rule five_minutes)
  moreover have "\<not> now + minute < from_unix (unix_seconds t0)"
    using from_unix_le [of t0] time(1) by (simp add: minute_def second_def)
  moreover have "b64_encode jtiBytes \<noteq> []" using assms(3) by (rule b64_nonempty)
  ultimately show ?thesis
    using assms(1,2) json
    by (simp add: VerifyLoginChallengeAt_def token splitOn_dot b64_round_trip Let_def issued_payload_def
        time_add_def del: append.simps)
qed

lemma splitOn_bar:
  "CHR ''|'' \<notin> set a \<Longrightarrow> CHR ''|'' \<notin> set b \<Longrightarrow> CHR ''|'' \<notin> set c \<Longrightarrow>
     splitOn (CHR ''|'') (a @ ''|'' @ b @ ''|'' @ c) = [a, b, c]"
  using splitOn_append [of "CHR ''|''" a "b @ ''|'' @ c"] splitOn_append [of "CHR ''|''" b c]
    splitOn_none [of "CHR ''|''" c] by simp

section \<open>Properties\<close>

text \<open>C10: A challenge the server issued verifies with the same key from the instant of issue for five
  minutes less one second, and gives back the user, the configuration and the identifier; the JSON
  reader is relied on to invert the writer on this payload.\<close>

theorem challenge_round_trip:
  assumes "userID \<noteq> []" and "configurationID \<noteq> []" and "jtiBytes \<noteq> []"
    and "unmarshal (marshal (issued_payload t0 jtiBytes userID configurationID)) =
      Some (issued_payload t0 jtiBytes userID configurationID)"
    and "IssueLoginChallenge marshal key t0 jtiBytes userID configurationID = Inr token"
    and "t0 \<le> now" and "now \<le> t0 + 5 * minute - second"
  shows "VerifyLoginChallengeAt unmarshal key token now =
    Inr \<lparr>vc_JTI = b64_encode jtiBytes, vc_UserID = userID, vc_ConfigurationID = configurationID,
         vc_IssuedAt = from_unix (unix_seconds t0),
         vc_ExpiresAt = from_unix (unix_seconds (t0 + 5 * minute))\<rparr>"
  using assms by (rule verify_issued)

theorem challenge_round_trip_witness:
  "VerifyLoginChallengeAt
     (\<lambda>j. Some ((issued_payload 7 ''0123456789abcdef'' (tl j) ''cfg''))) ''key''
     (projr (IssueLoginChallenge (\<lambda>p. CHR ''u'' # pl_UserID p) ''key'' 7 ''0123456789abcdef'' ''u1'' ''cfg'')) 60000000000 =
    Inr \<lparr>vc_JTI = b64_encode ''0123456789abcdef'', vc_UserID = ''u1'', vc_ConfigurationID = ''cfg'',
         vc_IssuedAt = from_unix (unix_seconds 7),
         vc_ExpiresAt = from_unix (unix_seconds (7 + 5 * minute))\<rparr>"
  by (rule challenge_round_trip [where marshal = "\<lambda>p. CHR ''u'' # pl_UserID p"])
    (simp_all add: issued_payload_def IssueLoginChallenge_def Let_def minute_def second_def)

text \<open>Whatever token is presented, acceptance means that it has two parts, that the second decodes
  to the HMAC of the first under the server's key, that the first holds a version-2 payload with
  identifiers, that the challenge has not expired and was not issued more than a minute ahead.\<close>

theorem challenge_authentic:
  "case VerifyLoginChallengeAt unmarshal key token now of
     Inl _ \<Rightarrow> True
   | Inr c \<Rightarrow>
       now \<le> vc_ExpiresAt c \<and> vc_IssuedAt c \<le> now + minute \<and>
       vc_JTI c \<noteq> [] \<and> vc_UserID c \<noteq> [] \<and> vc_ConfigurationID c \<noteq> [] \<and>
       (\<exists>p0 p1 json p. token = p0 @ ''.'' @ p1 \<and>
          b64_decode True p1 = Some (hmac sha256 key p0) \<and>
          b64_decode True p0 = Some json \<and> unmarshal json = Some p \<and>
          pl_Version p = 2 \<and> pl_UserID p = vc_UserID c \<and> pl_ConfigurationID p = vc_ConfigurationID c)"
proof (cases "VerifyLoginChallengeAt unmarshal key token now")
  case (Inr c)
  then obtain p0 p1 where sp: "splitOn (CHR ''.'') token = [p0, p1]"
    by (auto simp: VerifyLoginChallengeAt_def split: list.splits)
  then have token: "token = p0 @ ''.'' @ p1" using splitOn_two [of "CHR ''.''" token p0 p1] by simp
  from Inr sp obtain json p where p: "b64_decode True p1 = Some (hmac sha256 key p0)"
    "b64_decode True p0 = Some json" "unmarshal json = Some p" "pl_Version p = 2"
    "pl_JTI p \<noteq> []" "pl_UserID p \<noteq> []" "pl_ConfigurationID p \<noteq> []"
    and c: "c = \<lparr>vc_JTI = pl_JTI p, vc_UserID = pl_UserID p, vc_ConfigurationID = pl_ConfigurationID p,
      vc_IssuedAt = from_unix (pl_IssuedAt p), vc_ExpiresAt = from_unix (pl_ExpiresAt p)\<rparr>"
    and t: "now \<le> from_unix (pl_ExpiresAt p)" "from_unix (pl_IssuedAt p) \<le> now + minute"
    by (auto simp: VerifyLoginChallengeAt_def loginChallengeSignature_def loginChallengeVersion_def Let_def
        time_add_def split: option.splits if_splits)
  have "\<exists>p0 p1 json p. token = p0 @ ''.'' @ p1 \<and> b64_decode True p1 = Some (hmac sha256 key p0) \<and>
      b64_decode True p0 = Some json \<and> unmarshal json = Some p \<and>
      pl_Version p = 2 \<and> pl_UserID p = vc_UserID c \<and> pl_ConfigurationID p = vc_ConfigurationID c"
    by (rule exI [of _ p0], rule exI [of _ p1], rule exI [of _ json], rule exI [of _ p]) (simp add: token p c)
  then show ?thesis unfolding Inr using c t p by simp
qed simp

text \<open>C11: A session cookie the server set gives back its user until it expires, given that the time
  reader inverts the writer and neither the user's identifier nor the written time has a bar.\<close>

theorem session_round_trip:
  assumes "CHR ''|'' \<notin> set userID" and "CHR ''|'' \<notin> set (fmt (t0 + ttl))"
    and "parse (fmt (t0 + ttl)) = Some (t0 + ttl)" and "now \<le> t0 + ttl"
  shows "Get parse secret now (Some (fst (Set fmt secret ttl t0 userID))) = Inr userID"
proof -
  let ?v = "userID @ ''|'' @ fmt (t0 + ttl)"
  have "CHR ''|'' \<notin> set (sign secret ?v)" by (simp add: sign_def no_dot_b64)
  then have "splitOn (CHR ''|'') (userID @ ''|'' @ fmt (t0 + ttl) @ ''|'' @ sign secret ?v) =
      [userID, fmt (t0 + ttl), sign secret ?v]"
    using assms(1,2) by (intro splitOn_bar)
  then show ?thesis using assms(3,4)
    by (simp add: Get_def Set_def Let_def time_add_def b64_round_trip)
qed

theorem session_round_trip_witness:
  "Get (\<lambda>s. if s = ''1970-01-01T00:00:10Z'' then Some 10000000000 else None) ''key'' 5
     (Some (fst (Set (\<lambda>t. ''1970-01-01T00:00:10Z'') ''key'' 9999999999 1 ''u1''))) = Inr ''u1''"
  by (rule session_round_trip) simp_all

text \<open>Whatever cookie is presented, a session for a user means that the cookie holds the user, a
  time that is not past, and the HMAC of both under the server's secret.\<close>

theorem session_authentic:
  "case Get parse secret now cookie of
     Inl _ \<Rightarrow> True
   | Inr userID \<Rightarrow>
       (\<exists>v t e. cookie = Some v \<and>
          b64_decode False v = Some (userID @ ''|'' @ t @ ''|'' @ b64_encode (hmac sha256 secret (userID @ ''|'' @ t))) \<and>
          parse t = Some e \<and> now \<le> e)"
proof (cases "Get parse secret now cookie")
  case (Inr userID)
  then obtain cv raw where v: "cookie = Some cv" "b64_decode False cv = Some raw"
    by (auto simp: Get_def split: option.splits)
  with Inr obtain a t g where sp: "splitOn (CHR ''|'') raw = [a, t, g]"
    by (auto simp: Get_def split: list.splits)
  with Inr v obtain e where "a = userID" "g = sign secret (userID @ ''|'' @ t)" "parse t = Some e" "now \<le> e"
    by (auto simp: Get_def Let_def split: option.splits if_splits)
  moreover have "raw = a @ ''|'' @ t @ ''|'' @ g" using splitOn_three [OF sp] by simp
  ultimately show ?thesis using Inr v by (auto simp: sign_def)
qed simp

end
