(* ===== verification/Json.thy ===== *)
theory Json
  imports GoStrings
begin

text \<open>
  The JSON part of \<^verbatim>\<open>server/internal/httpapi/router.go\<close>: the scan that refuses duplicate
  fields (\<^verbatim>\<open>validateNoDuplicateJSONFields\<close>, \<^verbatim>\<open>scanJSONValue\<close>) and the decoding of a body into a
  struct. A body is the list of tokens that \<^verbatim>\<open>json.Decoder.Token\<close> yields (delimiters, strings,
  numbers, literals; the decoder checks and drops commas and colons, and closes every bracket with
  its own kind) and whether the end of the input follows the last of them, or a syntax error.
\<close>

section \<open>Values and tokens\<close>

datatype json =
    JNull
  | JBool bool
  | JNumber string
  | JString string
  | JArray "json list"
  | JObject "(string \<times> json) list"

datatype token = TDelim char | TString string | TNumber string | TBool bool | TNull

text \<open>The tokens of a value.\<close>

fun tokens_of :: "json \<Rightarrow> token list" where
  "tokens_of JNull = [TNull]"
| "tokens_of (JBool b) = [TBool b]"
| "tokens_of (JNumber n) = [TNumber n]"
| "tokens_of (JString s) = [TString s]"
| "tokens_of (JArray vs) = TDelim (CHR ''['') # concat (map tokens_of vs) @ [TDelim (CHR '']'')]"
| "tokens_of (JObject kvs) =
     TDelim (CHR ''{'') # concat (map (\<lambda>(k, v). TString k # tokens_of v) kvs) @ [TDelim (CHR ''}'')]"

text \<open>No object of the value, at any depth, names a field twice.\<close>

fun no_duplicates :: "json \<Rightarrow> bool" where
  "no_duplicates (JArray vs) = list_all no_duplicates vs"
| "no_duplicates (JObject kvs) =
     (distinct (map fst kvs) \<and> list_all (\<lambda>(k, v). no_duplicates v) kvs)"
| "no_duplicates v = True"

section \<open>The scan for duplicate fields\<close>

datatype scan_error =
    TokenError \<comment> \<open>\<^verbatim>\<open>decoder.Token()\<close> returned an error, the end of the input included\<close>
  | FieldNameInvalid
  | DuplicateField
  | DelimiterInvalid
  | SecondValue
  | OutOfFuel

text \<open>\<^verbatim>\<open>decoder.More()\<close>: another token follows in the current array or object.\<close>

definition more :: "token list \<Rightarrow> bool" where
  "more ts \<longleftrightarrow> (case ts of [] \<Rightarrow> False | t # _ \<Rightarrow> t \<noteq> TDelim (CHR '']'') \<and> t \<noteq> TDelim (CHR ''}''))"

definition drop_token :: "token list \<Rightarrow> scan_error + token list" where
  "drop_token ts = (case ts of [] \<Rightarrow> Inl TokenError | _ # rest \<Rightarrow> Inr rest)"

text \<open>
  \<^verbatim>\<open>scanJSONValue\<close>, whose two loops are \<open>scan_fields\<close> and \<open>scan_items\<close>. The first argument bounds
  the depth of calls; \<open>scan_fuel\<close> is enough (\<open>scan_enough_fuel\<close>).
\<close>

fun scanJSONValue :: "nat \<Rightarrow> token list \<Rightarrow> scan_error + token list"
  and scan_fields :: "nat \<Rightarrow> string list \<Rightarrow> token list \<Rightarrow> scan_error + token list"
  and scan_items :: "nat \<Rightarrow> token list \<Rightarrow> scan_error + token list" where
  "scanJSONValue 0 ts = Inl OutOfFuel"
| "scanJSONValue (Suc n) ts =
     (case ts of
        [] \<Rightarrow> Inl TokenError
      | TDelim d # rest \<Rightarrow>
          if d = CHR ''{'' then scan_fields n [] rest
          else if d = CHR ''['' then scan_items n rest
          else Inl DelimiterInvalid
      | _ # rest \<Rightarrow> Inr rest)"
| "scan_fields 0 seen ts = Inl OutOfFuel"
| "scan_fields (Suc n) seen ts =
     (if more ts
      then case ts of
             [] \<Rightarrow> Inl TokenError
           | TString key # rest \<Rightarrow>
               if key \<in> set seen then Inl DuplicateField
               else (case scanJSONValue n rest of
                       Inl e \<Rightarrow> Inl e
                     | Inr rest' \<Rightarrow> scan_fields n (key # seen) rest')
           | _ # _ \<Rightarrow> Inl FieldNameInvalid
      else drop_token ts)"
| "scan_items 0 ts = Inl OutOfFuel"
| "scan_items (Suc n) ts =
     (if more ts
      then case scanJSONValue n ts of Inl e \<Rightarrow> Inl e | Inr rest \<Rightarrow> scan_items n rest
      else drop_token ts)"

definition scan_fuel :: "token list \<Rightarrow> nat" where
  "scan_fuel ts = 2 * length ts + 2"

text \<open>\<open>clean\<close>: the input ends after the last token; None means that the body is accepted.\<close>

definition validateNoDuplicateJSONFields :: "token list \<times> bool \<Rightarrow> scan_error option" where
  "validateNoDuplicateJSONFields body =
     (case body of (ts, clean) \<Rightarrow>
        case scanJSONValue (scan_fuel ts) ts of
          Inl e \<Rightarrow> Some e
        | Inr [] \<Rightarrow> if clean then None else Some TokenError
        | Inr (_ # _) \<Rightarrow> Some SecondValue)"

section \<open>The fuel is enough\<close>

lemma drop_token_rest: "drop_token ts = Inr r \<Longrightarrow> length r < length ts"
  by (auto simp: drop_token_def split: list.splits)

lemma drop_token_error: "drop_token ts = Inl e \<Longrightarrow> e = TokenError"
  by (auto simp: drop_token_def split: list.splits)

lemma scan_rest:
  "scanJSONValue n ts = Inr r \<Longrightarrow> length r < length ts"
  "scan_fields n seen ts = Inr r \<Longrightarrow> length r < length ts"
  "scan_items n ts = Inr r \<Longrightarrow> length r < length ts"
proof (induction n ts and n seen ts and n ts arbitrary: r and r and r
    rule: scanJSONValue_scan_fields_scan_items.induct)
  case (2 n ts)
  then show ?case by (fastforce split: list.splits token.splits if_splits)
next
  case (4 n seen ts)
  then show ?case
    by (auto split: list.splits token.splits if_splits sum.splits dest!: drop_token_rest) fastforce
next
  case (6 n ts)
  then show ?case by (fastforce split: if_splits sum.splits dest: drop_token_rest)
qed simp_all

lemma scan_enough_fuel:
  "2 * length ts + 1 \<le> n \<Longrightarrow> scanJSONValue n ts \<noteq> Inl OutOfFuel"
  "2 * length ts + 2 \<le> n \<Longrightarrow> scan_fields n seen ts \<noteq> Inl OutOfFuel"
  "2 * length ts + 2 \<le> n \<Longrightarrow> scan_items n ts \<noteq> Inl OutOfFuel"
proof (induction n ts and n seen ts and n ts rule: scanJSONValue_scan_fields_scan_items.induct)
  case (2 n ts)
  then show ?case by (auto split: list.splits token.splits)
next
  case (4 n seen ts)
  show ?case
  proof (cases "more ts")
    case False
    then show ?thesis using drop_token_error by force
  next
    case True
    show ?thesis
    proof (cases "\<exists>key rest. ts = TString key # rest \<and> key \<notin> set seen")
      case False
      with True show ?thesis by (auto split: list.splits token.splits)
    next
      case key: True
      then obtain key rest where ts: "ts = TString key # rest" "key \<notin> set seen" by blast
      have v: "scanJSONValue n rest \<noteq> Inl OutOfFuel"
        using "4.IH"(1) [OF True ts(1) refl ts(2)] "4.prems" ts by simp
      show ?thesis
      proof (cases "scanJSONValue n rest")
        case (Inl e)
        with v True ts show ?thesis by simp
      next
        case (Inr r)
        have "length r < length rest" using Inr by (rule scan_rest(1))
        then have "scan_fields n (key # seen) r \<noteq> Inl OutOfFuel"
          using "4.IH"(2) [OF True ts(1) refl ts(2) Inr] "4.prems" ts by simp
        with Inr True ts show ?thesis by simp
      qed
    qed
  qed
next
  case (6 n ts)
  show ?case
  proof (cases "more ts")
    case False
    then show ?thesis using drop_token_error by force
  next
    case True
    have v: "scanJSONValue n ts \<noteq> Inl OutOfFuel" using "6.IH"(1) [OF True] "6.prems" by simp
    show ?thesis
    proof (cases "scanJSONValue n ts")
      case (Inl e)
      with v True show ?thesis by simp
    next
      case (Inr r)
      have "length r < length ts" using Inr by (rule scan_rest(1))
      then have "scan_items n r \<noteq> Inl OutOfFuel" using "6.IH"(2) [OF True Inr] "6.prems" by simp
      with Inr True show ?thesis by simp
    qed
  qed
qed simp_all

section \<open>The scan is the reference\<close>

lemma more_tokens: "more (tokens_of v @ r)"
  by (cases v) (simp_all add: more_def)

lemma tokens_nonempty: "tokens_of v \<noteq> []"
  by (cases v) simp_all

text \<open>
  With enough fuel the scan of a value's tokens leaves what follows it, or finds the duplicate.
\<close>

definition scan_result :: "bool \<Rightarrow> token list \<Rightarrow> scan_error + token list" where
  "scan_result good r = (if good then Inr r else Inl DuplicateField)"

definition fields_good :: "string list \<Rightarrow> (string \<times> json) list \<Rightarrow> bool" where
  "fields_good seen kvs \<longleftrightarrow> distinct (map fst kvs) \<and> set (map fst kvs) \<inter> set seen = {} \<and>
     list_all (\<lambda>(k, v). no_duplicates v) kvs"

lemma fields_good_Cons:
  "fields_good seen ((k, v) # kvs) \<longleftrightarrow> k \<notin> set seen \<and> no_duplicates v \<and> fields_good (k # seen) kvs"
  by (auto simp: fields_good_def)

lemma scan_fields_good:
  assumes "\<And>k v n r. (k, v) \<in> set kvs \<Longrightarrow> 2 * length (tokens_of v @ r) + 1 \<le> n \<Longrightarrow>
      scanJSONValue n (tokens_of v @ r) = scan_result (no_duplicates v) r"
    and "2 * length (concat (map (\<lambda>(k, v). TString k # tokens_of v) kvs) @ TDelim (CHR ''}'') # r) + 2 \<le> n"
  shows "scan_fields n seen (concat (map (\<lambda>(k, v). TString k # tokens_of v) kvs) @ TDelim (CHR ''}'') # r) =
    scan_result (fields_good seen kvs) r"
  using assms
proof (induction kvs arbitrary: n seen)
  case Nil
  then obtain m where "n = Suc m" by (cases n) auto
  then show ?case by (simp add: more_def drop_token_def scan_result_def fields_good_def)
next
  case (Cons kv kvs)
  obtain k v where kv: "kv = (k, v)" by force
  obtain m where n: "n = Suc m" using Cons.prems(2) by (cases n) auto
  let ?rest = "concat (map (\<lambda>(k, v). TString k # tokens_of v) kvs) @ TDelim (CHR ''}'') # r"
  have v: "scanJSONValue m (tokens_of v @ ?rest) = scan_result (no_duplicates v) ?rest"
    using Cons.prems(2) n kv by (intro Cons.prems(1) [of k]) simp_all
  have "scan_fields m (k # seen) ?rest = scan_result (fields_good (k # seen) kvs) r"
  proof (rule Cons.IH)
    fix k' v' n' r'
    assume "(k', v') \<in> set kvs" and "2 * length (tokens_of v' @ r') + 1 \<le> n'"
    then show "scanJSONValue n' (tokens_of v' @ r') = scan_result (no_duplicates v') r'"
      by (intro Cons.prems(1) [of k']) simp_all
  qed (use Cons.prems(2) n kv in simp)
  with v n kv show ?case by (simp add: more_def scan_result_def fields_good_Cons)
qed

lemma scan_items_good:
  assumes "\<And>v n r. v \<in> set vs \<Longrightarrow> 2 * length (tokens_of v @ r) + 1 \<le> n \<Longrightarrow>
      scanJSONValue n (tokens_of v @ r) = scan_result (no_duplicates v) r"
    and "2 * length (concat (map tokens_of vs) @ TDelim (CHR '']'') # r) + 2 \<le> n"
  shows "scan_items n (concat (map tokens_of vs) @ TDelim (CHR '']'') # r) =
    scan_result (list_all no_duplicates vs) r"
  using assms
proof (induction vs arbitrary: n)
  case Nil
  then obtain m where "n = Suc m" by (cases n) auto
  then show ?case by (simp add: more_def drop_token_def scan_result_def)
next
  case (Cons v vs)
  obtain m where n: "n = Suc m" using Cons.prems(2) by (cases n) auto
  let ?rest = "concat (map tokens_of vs) @ TDelim (CHR '']'') # r"
  have v: "scanJSONValue m (tokens_of v @ ?rest) = scan_result (no_duplicates v) ?rest"
    using Cons.prems(2) n by (intro Cons.prems(1)) auto
  have "1 \<le> length (tokens_of v)" using tokens_nonempty [of v] by (cases "tokens_of v") simp_all
  with Cons.prems(2) n have "2 * length ?rest + 2 \<le> m" by simp
  then have "scan_items m ?rest = scan_result (list_all no_duplicates vs) r"
    by (intro Cons.IH Cons.prems(1)) simp_all
  with v n show ?case using more_tokens [of v ?rest] by (simp add: scan_result_def)
qed

lemma scan_tokens:
  "2 * length (tokens_of v @ r) + 1 \<le> n \<Longrightarrow>
     scanJSONValue n (tokens_of v @ r) = scan_result (no_duplicates v) r"
proof (induction v arbitrary: n r)
  case (JArray vs)
  then obtain m where n: "n = Suc m" by (cases n) auto
  have "scan_items m (concat (map tokens_of vs) @ TDelim (CHR '']'') # r) =
      scan_result (list_all no_duplicates vs) r"
    using JArray n by (intro scan_items_good) auto
  with n show ?case by simp
next
  case (JObject kvs)
  then obtain m where n: "n = Suc m" by (cases n) auto
  have "scan_fields m [] (concat (map (\<lambda>(k, v). TString k # tokens_of v) kvs) @ TDelim (CHR ''}'') # r) =
      scan_result (fields_good [] kvs) r"
    using JObject.prems n JObject.IH by (intro scan_fields_good) (auto simp: snds.simps)
  with n show ?case by (simp add: fields_good_def)
qed (auto simp: scan_result_def Suc_le_D dest!: Suc_le_D)

lemma validate_tokens:
  "validateNoDuplicateJSONFields (tokens_of v @ r, clean) =
     (if \<not> no_duplicates v then Some DuplicateField
      else if r \<noteq> [] then Some SecondValue
      else if clean then None else Some TokenError)"
proof -
  have "scanJSONValue (scan_fuel (tokens_of v @ r)) (tokens_of v @ r) = scan_result (no_duplicates v) r"
    by (rule scan_tokens) (simp add: scan_fuel_def)
  then show ?thesis
    by (simp add: validateNoDuplicateJSONFields_def scan_result_def split: list.splits)
qed

section \<open>Reading a value\<close>

text \<open>
  What \<^verbatim>\<open>decoder.Decode\<close> reads: the first value of the body, or nothing when the tokens do not
  make one up.
\<close>

fun parse_value :: "nat \<Rightarrow> token list \<Rightarrow> (json \<times> token list) option"
  and parse_fields :: "nat \<Rightarrow> token list \<Rightarrow> ((string \<times> json) list \<times> token list) option"
  and parse_items :: "nat \<Rightarrow> token list \<Rightarrow> (json list \<times> token list) option" where
  "parse_value 0 ts = None"
| "parse_value (Suc n) ts =
     (case ts of
        [] \<Rightarrow> None
      | TNull # rest \<Rightarrow> Some (JNull, rest)
      | TBool b # rest \<Rightarrow> Some (JBool b, rest)
      | TNumber s # rest \<Rightarrow> Some (JNumber s, rest)
      | TString s # rest \<Rightarrow> Some (JString s, rest)
      | TDelim d # rest \<Rightarrow>
          if d = CHR ''{'' then map_option (\<lambda>(kvs, r). (JObject kvs, r)) (parse_fields n rest)
          else if d = CHR ''['' then map_option (\<lambda>(vs, r). (JArray vs, r)) (parse_items n rest)
          else None)"
| "parse_fields 0 ts = None"
| "parse_fields (Suc n) ts =
     (case ts of
        TDelim d # rest \<Rightarrow> if d = CHR ''}'' then Some ([], rest) else None
      | TString k # rest \<Rightarrow>
          (case parse_value n rest of
             None \<Rightarrow> None
           | Some (v, rest') \<Rightarrow>
               map_option (\<lambda>(kvs, r). ((k, v) # kvs, r)) (parse_fields n rest'))
      | _ \<Rightarrow> None)"
| "parse_items 0 ts = None"
| "parse_items (Suc n) ts =
     (if take 1 ts = [TDelim (CHR '']'')] then Some ([], drop 1 ts)
      else case parse_value n ts of
             None \<Rightarrow> None
           | Some (v, rest) \<Rightarrow> map_option (\<lambda>(vs, r). (v # vs, r)) (parse_items n rest))"

lemma parse_fields_tokens:
  assumes "\<And>k v n r. (k, v) \<in> set kvs \<Longrightarrow> 2 * length (tokens_of v @ r) + 1 \<le> n \<Longrightarrow>
      parse_value n (tokens_of v @ r) = Some (v, r)"
    and "2 * length (concat (map (\<lambda>(k, v). TString k # tokens_of v) kvs) @ TDelim (CHR ''}'') # r) + 2 \<le> n"
  shows "parse_fields n (concat (map (\<lambda>(k, v). TString k # tokens_of v) kvs) @ TDelim (CHR ''}'') # r) =
    Some (kvs, r)"
  using assms
proof (induction kvs arbitrary: n)
  case Nil
  then obtain m where "n = Suc m" by (cases n) auto
  then show ?case by simp
next
  case (Cons kv kvs)
  obtain k v where kv: "kv = (k, v)" by force
  obtain m where n: "n = Suc m" using Cons.prems(2) by (cases n) auto
  let ?rest = "concat (map (\<lambda>(k, v). TString k # tokens_of v) kvs) @ TDelim (CHR ''}'') # r"
  have v: "parse_value m (tokens_of v @ ?rest) = Some (v, ?rest)"
    using Cons.prems(2) n kv by (intro Cons.prems(1) [of k]) simp_all
  have "parse_fields m ?rest = Some (kvs, r)"
  proof (rule Cons.IH)
    fix k' v' n' r'
    assume "(k', v') \<in> set kvs" and "2 * length (tokens_of v' @ r') + 1 \<le> n'"
    then show "parse_value n' (tokens_of v' @ r') = Some (v', r')"
      by (intro Cons.prems(1) [of k']) simp_all
  qed (use Cons.prems(2) n kv in simp)
  with v n kv show ?case by simp
qed

lemma parse_items_tokens:
  assumes "\<And>v n r. v \<in> set vs \<Longrightarrow> 2 * length (tokens_of v @ r) + 1 \<le> n \<Longrightarrow>
      parse_value n (tokens_of v @ r) = Some (v, r)"
    and "2 * length (concat (map tokens_of vs) @ TDelim (CHR '']'') # r) + 2 \<le> n"
  shows "parse_items n (concat (map tokens_of vs) @ TDelim (CHR '']'') # r) = Some (vs, r)"
  using assms
proof (induction vs arbitrary: n)
  case Nil
  then obtain m where "n = Suc m" by (cases n) auto
  then show ?case by simp
next
  case (Cons v vs)
  obtain m where n: "n = Suc m" using Cons.prems(2) by (cases n) auto
  let ?rest = "concat (map tokens_of vs) @ TDelim (CHR '']'') # r"
  have v: "parse_value m (tokens_of v @ ?rest) = Some (v, ?rest)"
    using Cons.prems(2) n by (intro Cons.prems(1)) simp_all
  have "1 \<le> length (tokens_of v)" using tokens_nonempty [of v] by (cases "tokens_of v") simp_all
  with Cons.prems(2) n have "2 * length ?rest + 2 \<le> m" by simp
  then have items: "parse_items m ?rest = Some (vs, r)"
    by (intro Cons.IH Cons.prems(1)) simp_all
  have "take 1 (tokens_of v @ ?rest) \<noteq> [TDelim (CHR '']'')]" by (cases v) simp_all
  with v items n show ?case by simp
qed

lemma parse_tokens:
  "2 * length (tokens_of v @ r) + 1 \<le> n \<Longrightarrow> parse_value n (tokens_of v @ r) = Some (v, r)"
proof (induction v arbitrary: n r)
  case (JArray vs)
  then obtain m where n: "n = Suc m" by (cases n) auto
  have "parse_items m (concat (map tokens_of vs) @ TDelim (CHR '']'') # r) = Some (vs, r)"
    using JArray n by (intro parse_items_tokens) auto
  with n show ?case by simp
next
  case (JObject kvs)
  then obtain m where n: "n = Suc m" by (cases n) auto
  have "parse_fields m (concat (map (\<lambda>(k, v). TString k # tokens_of v) kvs) @ TDelim (CHR ''}'') # r) =
      Some (kvs, r)"
    using JObject.prems n JObject.IH by (intro parse_fields_tokens) (auto simp: snds.simps)
  with n show ?case by simp
qed (auto dest!: Suc_le_D)

definition first_value :: "token list \<Rightarrow> (json \<times> token list) option" where
  "first_value ts = parse_value (scan_fuel ts) ts"

lemma first_value_tokens [simp]: "first_value (tokens_of v @ r) = Some (v, r)"
  unfolding first_value_def by (rule parse_tokens) (simp add: scan_fuel_def)

section \<open>Decoding into a struct\<close>

text \<open>
  The destination is a struct, its fields in order of declaration: strings, 64-bit integers, booleans
  and, as \<^verbatim>\<open>json.RawMessage\<close> does, values to be decoded later. A member of the object goes to the field with its exact name, else to the first field whose name is equal
  under Unicode case folding (of the letters of the names, only K and S have spellings outside
  ASCII: the Kelvin sign and the long s). A null leaves the field as it is, except a raw one.
\<close>

datatype field = FString string | FInt int | FBool bool | FRaw "json option"

type_synonym struct = "(string \<times> field) list"

definition fold_name :: "string \<Rightarrow> string" where
  "fold_name k = map upper_byte (replaceAll [byte 0xC5, byte 0xBF] ''S''
     (replaceAll [byte 0xE2, byte 0x84, byte 0xAA] ''K'' k))"

definition target_field :: "struct \<Rightarrow> string \<Rightarrow> string option" where
  "target_field st k =
     (if k \<in> fst ` set st then Some k
      else find (\<lambda>f. fold_name f = fold_name k) (map fst st))"

text \<open>\<^verbatim>\<open>strconv.ParseInt(s, 10, 64)\<close> on a JSON number.\<close>

definition parse_int64 :: "string \<Rightarrow> int option" where
  "parse_int64 s =
     (let neg = hasPrefix s ''-''; ds = (if neg then drop 1 s else s);
          v = (if neg then - int (nat_of_digits ds) else int (nat_of_digits ds))
      in if ds \<noteq> [] \<and> list_all is_digit ds \<and> min_int64 \<le> v \<and> v \<le> max_int64 then Some v else None)"

definition assign_field :: "json \<Rightarrow> field \<Rightarrow> field option" where
  "assign_field v f =
     (case (v, f) of
        (_, FRaw _) \<Rightarrow> Some (FRaw (Some v))
      | (JNull, _) \<Rightarrow> Some f
      | (JBool b, FBool _) \<Rightarrow> Some (FBool b)
      | (JString s, FString _) \<Rightarrow> Some (FString s)
      | (JNumber s, FInt _) \<Rightarrow> map_option FInt (parse_int64 s)
      | _ \<Rightarrow> None)"

text \<open>\<open>strict\<close> is \<^verbatim>\<open>DisallowUnknownFields\<close>; None is any error of \<^verbatim>\<open>Decode\<close>.\<close>

fun decode_members :: "bool \<Rightarrow> (string \<times> json) list \<Rightarrow> struct \<Rightarrow> struct option" where
  "decode_members strict [] st = Some st"
| "decode_members strict ((k, v) # kvs) st =
     (case target_field st k of
        None \<Rightarrow> if strict then None else decode_members strict kvs st
      | Some f \<Rightarrow>
          (case assign_field v (the (map_of st f)) of
             None \<Rightarrow> None
           | Some x \<Rightarrow> decode_members strict kvs (AList.update f x st)))"

definition decode_struct :: "bool \<Rightarrow> json \<Rightarrow> struct \<Rightarrow> struct option" where
  "decode_struct strict v st =
     (case v of JObject kvs \<Rightarrow> decode_members strict kvs st | JNull \<Rightarrow> Some st | _ \<Rightarrow> None)"

definition str_field :: "struct \<Rightarrow> string \<Rightarrow> string" where
  "str_field st f = (case map_of st f of Some (FString s) \<Rightarrow> s | _ \<Rightarrow> [])"

definition int_field :: "struct \<Rightarrow> string \<Rightarrow> int" where
  "int_field st f = (case map_of st f of Some (FInt i) \<Rightarrow> i | _ \<Rightarrow> 0)"

definition bool_field :: "struct \<Rightarrow> string \<Rightarrow> bool" where
  "bool_field st f = (case map_of st f of Some (FBool b) \<Rightarrow> b | _ \<Rightarrow> False)"

definition raw_field :: "struct \<Rightarrow> string \<Rightarrow> json option" where
  "raw_field st f = (case map_of st f of Some (FRaw v) \<Rightarrow> v | _ \<Rightarrow> None)"

section \<open>Types of decoded structs\<close>

text \<open>Decoding never changes which fields there are, nor the type of a field.\<close>

datatype kind = KString | KInt | KBool | KRaw

definition field_kind :: "field \<Rightarrow> kind" where
  "field_kind f = (case f of FString _ \<Rightarrow> KString | FInt _ \<Rightarrow> KInt | FBool _ \<Rightarrow> KBool | FRaw _ \<Rightarrow> KRaw)"

definition struct_type :: "struct \<Rightarrow> (string \<times> kind) list" where
  "struct_type st = map (\<lambda>(k, f). (k, field_kind f)) st"

lemma assign_kind: "assign_field v f = Some g \<Longrightarrow> field_kind g = field_kind f"
  by (auto simp: assign_field_def field_kind_def split: json.splits field.splits option.splits)

lemma struct_type_update:
  "map_of st f = Some g \<Longrightarrow> field_kind h = field_kind g \<Longrightarrow> struct_type (AList.update f h st) = struct_type st"
  by (induction st) (auto simp: struct_type_def split: if_splits)

lemma target_field_in: "target_field st k = Some f \<Longrightarrow> f \<in> fst ` set st"
  by (auto simp: target_field_def find_Some_iff split: if_splits)

lemma decode_members_type: "decode_members strict kvs st = Some st' \<Longrightarrow> struct_type st' = struct_type st"
proof (induction strict kvs st rule: decode_members.induct)
  case (1 strict st)
  then show ?case by simp
next
  case (2 strict k v kvs st)
  show ?case
  proof (cases "target_field st k")
    case None
    with 2 show ?thesis by (simp split: if_splits)
  next
    case (Some f)
    obtain g where g: "map_of st f = Some g"
      using target_field_in [OF Some] by (metis map_of_eq_None_iff not_Some_eq)
    with 2 Some obtain x where x: "assign_field v g = Some x" by (auto split: option.splits)
    with 2 Some g have "struct_type st' = struct_type (AList.update f x st)" by simp
    also have "\<dots> = struct_type st" using g assign_kind [OF x] by (rule struct_type_update)
    finally show ?thesis .
  qed
qed

lemma decode_struct_type: "decode_struct strict v st = Some st' \<Longrightarrow> struct_type st' = struct_type st"
  by (auto simp: decode_struct_def decode_members_type split: json.splits)

end
