(* ===== verification/Http.thy ===== *)
theory Http
  imports Json Challenge TwoFactorCrypto LimiterSpec TwoFactorStore AgentStore
begin

text \<open>
  What the handlers of \<^verbatim>\<open>server/internal/httpapi\<close> share: requests, responses and how they are
  written, the reading of JSON bodies, the keys of the limiters, the server's state and the
  session check \<^verbatim>\<open>requireUser\<close>.
\<close>

section \<open>The world around a request\<close>

text \<open>
  Code outside the repository, and the parts of the standard library whose result the handlers
  only pass on: the JSON tokenizer, \<^verbatim>\<open>mime.ParseMediaType\<close> (None is an error), letter case outside
  ASCII, bcrypt, and the text forms of times, JSON values and challenge payloads.
\<close>

record libs =
  lib_lex :: "string \<Rightarrow> token list \<times> bool"
  lib_mediaType :: "string \<Rightarrow> string option"
  lib_lower :: "string \<Rightarrow> string"
  lib_upper :: "string \<Rightarrow> string"
  lib_checkPassword :: "string \<Rightarrow> string \<Rightarrow> bool"
  lib_formatNano :: "instant \<Rightarrow> string"
  lib_parseNano :: "string \<Rightarrow> instant option"
  lib_formatTime :: "instant \<Rightarrow> string"
  lib_marshal :: "json \<Rightarrow> string"
  lib_marshalChallenge :: "challengePayload \<Rightarrow> string"
  lib_unmarshalChallenge :: "string \<Rightarrow> challengePayload option"

text \<open>
  What a request meets: the readings of the clock (with the order in which a limiter's map would be
  visited then), the UUIDs and the random bytes, numbered in the order of their use.
\<close>

record env =
  tick :: "nat \<Rightarrow> call"
  uuid :: "nat \<Rightarrow> string"
  random :: "nat \<Rightarrow> string"

definition clock :: "env \<Rightarrow> nat \<Rightarrow> instant" where
  "clock e n = at_time (tick e n)"

text \<open>A request: the parsed query, the bytes of the body and whether reading it ends in an error.\<close>

record request =
  rq_method :: string
  rq_path :: string
  rq_query :: "(string \<times> string) list"
  rq_remoteAddr :: string
  rq_contentType :: string
  rq_contentLength :: int
  rq_cookie :: "string option"
  rq_body :: string
  rq_broken :: bool

datatype cookie = SessionCookie string instant | ClearedCookie

text \<open>\<open>rs_file\<close>: declared size, file name and bytes of a download.\<close>

record response =
  rs_status :: int
  rs_retryAfter :: "string option"
  rs_cookie :: "cookie option"
  rs_body :: "json option"
  rs_file :: "(int \<times> string \<times> string) option"

text \<open>\<^verbatim>\<open>auth.TwoFactorManager\<close>: its AEAD, its keys.\<close>

record TwoFactorManager =
  tm_seal :: "string \<Rightarrow> string \<Rightarrow> string"
  tm_open :: "string \<Rightarrow> string \<Rightarrow> string option"
  tm_recoveryKey :: string
  tm_challengeKey :: string

text \<open>
  The derivation of the keys: \<open>hkdf root info\<close> is HKDF-SHA256 without salt, thirty-two bytes long,
  \<open>gcm key\<close> is AES-GCM under a key; either may refuse.
\<close>

definition derivePurposeKey :: "(string \<Rightarrow> string \<Rightarrow> string option) \<Rightarrow> string \<Rightarrow> string \<Rightarrow> string option" where
  "derivePurposeKey hkdf root purpose = hkdf root (''vibe-terminal/'' @ purpose @ ''/v1'')"

definition NewTwoFactorManager ::
    "(string \<Rightarrow> string \<Rightarrow> string option) \<Rightarrow>
     (string \<Rightarrow> ((string \<Rightarrow> string \<Rightarrow> string) \<times> (string \<Rightarrow> string \<Rightarrow> string option)) option) \<Rightarrow>
     string \<Rightarrow> TwoFactorManager option" where
  "NewTwoFactorManager hkdf gcm root =
     (case derivePurposeKey hkdf root ''totp-encryption'' of
        None \<Rightarrow> None
      | Some encryptionKey \<Rightarrow>
          (case derivePurposeKey hkdf root ''recovery-codes'' of
             None \<Rightarrow> None
           | Some recoveryKey \<Rightarrow>
               (case derivePurposeKey hkdf root ''login-challenge'' of
                  None \<Rightarrow> None
                | Some challengeKey \<Rightarrow>
                    (case gcm encryptionKey of
                       None \<Rightarrow> None
                     | Some (seal, opn) \<Rightarrow>
                         Some \<lparr>tm_seal = seal, tm_open = opn, tm_recoveryKey = recoveryKey,
                               tm_challengeKey = challengeKey\<rparr>))))"

text \<open>Its methods; the secret's bytes and the nonce are the random bytes of \<^verbatim>\<open>GenerateSetup\<close>.\<close>

definition GenerateSetup ::
    "TwoFactorManager \<Rightarrow> string \<Rightarrow> string \<Rightarrow> string \<Rightarrow> string \<Rightarrow> string \<times> string \<times> string" where
  "GenerateSetup m key nonce issuer account =
     (let secret = GenerateTOTPSecret key
      in (secret, TOTPProvisioningURI issuer account secret, Encrypt (tm_seal m) nonce secret))"

definition DecryptSecret :: "TwoFactorManager \<Rightarrow> string \<Rightarrow> cipher_error + string" where
  "DecryptSecret m v = Decrypt (tm_open m) v"

definition RecoveryCodeHash :: "libs \<Rightarrow> TwoFactorManager \<Rightarrow> string \<Rightarrow> string \<Rightarrow> string" where
  "RecoveryCodeHash L m userID code = recoveryCodeHash (lib_upper L) (tm_recoveryKey m) userID code"

definition VerifyLoginChallenge ::
    "libs \<Rightarrow> TwoFactorManager \<Rightarrow> instant \<Rightarrow> string \<Rightarrow> challenge_error + VerifiedChallenge" where
  "VerifyLoginChallenge L m now token =
     VerifyLoginChallengeAt (lib_unmarshalChallenge L) (tm_challengeKey m) token now"

text \<open>The part of \<^verbatim>\<open>router\<close> that never changes, and the part that does.\<close>

record router =
  rt_twoFactor :: "TwoFactorManager option"
  rt_secret :: string
  rt_ttl :: duration
  rt_fsMaxUpload :: int

record server =
  db :: "tables conn"
  passwordLimiter :: FailureLimiter
  twoFactorLimiter :: FailureLimiter
  managementLimiter :: FailureLimiter

section \<open>Responses\<close>

text \<open>\<^verbatim>\<open>encoding/json\<close> writes the members of a map in the order of their names.\<close>

definition json_map :: "(string \<times> json) list \<Rightarrow> json" where
  "json_map kvs = JObject (sort_key fst kvs)"

definition json_strings :: "(string \<times> string) list \<Rightarrow> json" where
  "json_strings kvs = json_map (map (\<lambda>(k, v). (k, JString v)) kvs)"

definition json_int :: "int \<Rightarrow> json" where
  "json_int i = JNumber (formatInt i)"

definition writeHeader :: "int \<Rightarrow> response" where
  "writeHeader status =
     \<lparr>rs_status = status, rs_retryAfter = None, rs_cookie = None, rs_body = None, rs_file = None\<rparr>"

definition writeJSON :: "int \<Rightarrow> json \<Rightarrow> response" where
  "writeJSON status v = (writeHeader status)\<lparr>rs_body := Some v\<rparr>"

definition writeError :: "int \<Rightarrow> string \<Rightarrow> string \<Rightarrow> response" where
  "writeError status code message = writeJSON status (json_strings [(''code'', code), (''message'', message)])"

definition writeStoreError :: "store_error \<Rightarrow> string \<Rightarrow> response" where
  "writeStoreError e resource =
     (if e = ErrNotFound then writeError 404 (resource @ ''_not_found'') (resource @ '' not found'')
      else writeError 500 (resource @ ''_error'') (''failed to access '' @ resource))"

text \<open>Whole seconds, rounded up, at least one; the sum wraps like the code's 64-bit durations.\<close>

definition retry_seconds :: "duration \<Rightarrow> int" where
  "retry_seconds retryAfter =
     (let seconds = quot (int64 (retryAfter + second - 1)) second in if seconds < 1 then 1 else seconds)"

definition writeRateLimit :: "duration \<Rightarrow> response" where
  "writeRateLimit retryAfter =
     (writeError 429 ''too_many_attempts'' ''too many login attempts'')
       \<lparr>rs_retryAfter := Some (formatInt (retry_seconds retryAfter))\<rparr>"

lemma writeError_simps [simp]:
  "rs_status (writeError st c m) = st" "rs_cookie (writeError st c m) = None"
  "rs_status (writeJSON st v) = st" "rs_cookie (writeJSON st v) = None"
  "rs_status (writeRateLimit d) = 429" "rs_cookie (writeRateLimit d) = None"
  "rs_status (writeHeader st) = st" "rs_cookie (writeHeader st) = None"
  "rs_cookie (writeStoreError e x) = None"
  by (simp_all add: writeError_def writeJSON_def writeRateLimit_def writeHeader_def writeStoreError_def)

lemma retry_seconds_bounds:
  assumes "0 \<le> d" and "d \<le> max_int64 - second"
  shows "d \<le> retry_seconds d * second" and "retry_seconds d * second < max d 1 + second"
proof -
  have "min_int64 \<le> d + second - 1 \<and> d + second - 1 \<le> max_int64"
    using assms by (simp add: second_def min_int64_def max_int64_def)
  then have "int64 (d + second - 1) = d + second - 1" using int64_id by blast
  then have q: "quot (int64 (d + second - 1)) second = (d + second - 1) div second"
    using assms(1) by (simp add: quot_nonneg second_def)
  have dm: "d + second - 1 = second * ((d + second - 1) div second) + (d + second - 1) mod second"
    by simp
  have m: "0 \<le> (d + second - 1) mod second" "(d + second - 1) mod second < second"
    by (simp_all add: second_def)
  show "d \<le> retry_seconds d * second"
    using dm m assms(1) unfolding retry_seconds_def q Let_def by (auto simp: algebra_simps second_def)
  show "retry_seconds d * second < max d 1 + second"
    using dm m assms(1) unfolding retry_seconds_def q Let_def by (auto simp: algebra_simps second_def)
qed

section \<open>Bodies\<close>

text \<open>\<^verbatim>\<open>readJSON\<close>: the first value of the body, into the struct.\<close>

definition readJSON :: "libs \<Rightarrow> request \<Rightarrow> struct \<Rightarrow> response + struct" where
  "readJSON L req dest =
     (case Option.bind (first_value (fst (lib_lex L (rq_body req)))) (\<lambda>(v, _). decode_struct False v dest) of
        None \<Rightarrow> Inl (writeError 400 ''invalid_json'' ''request body must be valid JSON'')
      | Some st \<Rightarrow> Inr st)"

definition maxLoginJSONBytes :: nat where "maxLoginJSONBytes = 16384"

definition readLoginJSON :: "libs \<Rightarrow> request \<Rightarrow> struct \<Rightarrow> response + struct" where
  "readLoginJSON L req dest =
     (if lib_mediaType L (rq_contentType req) \<noteq> Some ''application/json''
      then Inl (writeError 415 ''unsupported_media_type'' ''content type must be application/json'')
      else if maxLoginJSONBytes < length (rq_body req)
      then Inl (writeError 413 ''request_too_large'' ''request body exceeds the login size limit'')
      else if rq_broken req \<or> validateNoDuplicateJSONFields (lib_lex L (rq_body req)) \<noteq> None
      then Inl (writeError 400 ''invalid_json'' ''request body must be valid JSON without duplicate fields'')
      else case first_value (fst (lib_lex L (rq_body req))) of
             None \<Rightarrow> Inl (writeError 400 ''invalid_json'' ''request body must be valid JSON'')
           | Some (v, rest) \<Rightarrow>
               (case decode_struct True v dest of
                  None \<Rightarrow> Inl (writeError 400 ''invalid_json'' ''request body must be valid JSON'')
                | Some st \<Rightarrow>
                    if rest = [] \<and> snd (lib_lex L (rq_body req)) then Inr st
                    else Inl (writeError 400 ''invalid_json'' ''request body must contain exactly one JSON value'')))"

lemma readLoginJSON_Inl: "readLoginJSON L req dest = Inl r \<Longrightarrow> rs_cookie r = None"
  by (auto simp: readLoginJSON_def split: if_splits option.splits)

lemma readJSON_Inl: "readJSON L req dest = Inl r \<Longrightarrow> rs_cookie r = None"
  by (auto simp: readJSON_def split: option.splits)

section \<open>The client's address\<close>

text \<open>\<^verbatim>\<open>net.SplitHostPort\<close>; None is an error.\<close>

definition index_of :: "char \<Rightarrow> string \<Rightarrow> nat option" where
  "index_of c s = (if c \<in> set s then Some (length (takeWhile (\<lambda>x. x \<noteq> c) s)) else None)"

definition last_index_of :: "char \<Rightarrow> string \<Rightarrow> nat option" where
  "last_index_of c s = map_option (\<lambda>i. length s - 1 - i) (index_of c (rev s))"

definition split_host :: "string \<Rightarrow> nat \<Rightarrow> string \<Rightarrow> nat \<Rightarrow> nat \<Rightarrow> (string \<times> string) option" where
  "split_host s i host j k =
     (if CHR ''['' \<in> set (drop j s) \<or> CHR '']'' \<in> set (drop k s) then None
      else Some (host, drop (Suc i) s))"

definition SplitHostPort :: "string \<Rightarrow> (string \<times> string) option" where
  "SplitHostPort s =
     (case last_index_of (CHR '':'') s of
        None \<Rightarrow> None
      | Some i \<Rightarrow>
          if take 1 s = ''[''
          then (case index_of (CHR '']'') s of
                  None \<Rightarrow> None
                | Some e \<Rightarrow>
                    if Suc e = i then split_host s i (drop 1 (take e s)) 1 (Suc e) else None)
          else if CHR '':'' \<in> set (take i s) then None
          else split_host s i (take i s) 0 0)"

definition requestIP :: "request \<Rightarrow> string" where
  "requestIP req =
     (case SplitHostPort (rq_remoteAddr req) of None \<Rightarrow> rq_remoteAddr req | Some (host, _) \<Rightarrow> host)"

section \<open>Keys of the limiters\<close>

definition passwordLoginLimitKeys :: "libs \<Rightarrow> string \<Rightarrow> string \<Rightarrow> string list" where
  "passwordLoginLimitKeys L username sourceIP =
     (let account = toLower (lib_lower L) (trimSpace username)
      in [''account|'' @ account, ''source|'' @ sourceIP, ''account_source|'' @ account @ ''|'' @ sourceIP])"

definition secondFactorLimitKeys :: "string \<Rightarrow> string \<Rightarrow> string list" where
  "secondFactorLimitKeys userID sourceIP =
     [''user|'' @ userID, ''source|'' @ sourceIP, ''user_source|'' @ userID @ ''|'' @ sourceIP]"

definition managementLimitKeys :: "string \<Rightarrow> string \<Rightarrow> string list" where
  "managementLimitKeys userID sourceIP =
     [''user|'' @ userID, ''source|'' @ sourceIP, ''user_source|'' @ userID @ ''|'' @ sourceIP]"

section \<open>Operations of the store on the server's state\<close>

definition run_db :: "'a store \<Rightarrow> server \<Rightarrow> (store_error + 'a) \<times> server" where
  "run_db m s = (case m (db s) of (r, c) \<Rightarrow> (r, s\<lparr>db := c\<rparr>))"

text \<open>A best-effort audit: \<^verbatim>\<open>_ = r.audit.Log(...)\<close>.\<close>

definition try_audit :: "string \<Rightarrow> instant \<Rightarrow> AuditEvent \<Rightarrow> server \<Rightarrow> server" where
  "try_audit i now ev s = snd (run_db (audit_log i now ev) s)"

definition zero_event :: AuditEvent where
  "zero_event = \<lparr>ae_ID = [], ae_UserID = [], ae_DeviceID = [], ae_SessionID = [], ae_EventType = [],
     ae_Summary = [], ae_MetadataJSON = [], ae_CreatedAt = zero_time\<rparr>"

definition userResponse :: "User \<Rightarrow> json" where
  "userResponse u = json_strings [(''id'', u_ID u), (''username'', u_Username u)]"

text \<open>The session check at the start of the handlers; the response is the refusal.\<close>

definition requireUser :: "libs \<Rightarrow> router \<Rightarrow> instant \<Rightarrow> request \<Rightarrow> server \<Rightarrow> (response + User) \<times> server" where
  "requireUser L R now req s =
     (case Get (lib_parseNano L) (rt_secret R) now (rq_cookie req) of
        Inl _ \<Rightarrow> (Inl (writeError 401 ''unauthorized'' ''login required''), s)
      | Inr userID \<Rightarrow>
          (case run_db (GetUserByID userID) s of
             (Inl e, s1) \<Rightarrow>
               if e = ErrNotFound then (Inl (writeError 401 ''unauthorized'' ''login required''), s1)
               else (Inl (writeError 500 ''authentication_unavailable'' ''authentication is unavailable''), s1)
           | (Inr user, s1) \<Rightarrow> (Inr user, s1)))"

lemma run_db_limiters [simp]:
  "passwordLimiter (snd (run_db m s)) = passwordLimiter s"
  "twoFactorLimiter (snd (run_db m s)) = twoFactorLimiter s"
  "managementLimiter (snd (run_db m s)) = managementLimiter s"
  by (simp_all add: run_db_def split: prod.splits)

lemma db_run_db [simp]: "db (snd (run_db m s)) = snd (m (db s))"
  by (simp add: run_db_def split: prod.splits)

lemma run_db_result [simp]: "fst (run_db m s) = fst (m (db s))"
  by (simp add: run_db_def split: prod.splits)

lemma run_db_eq: "run_db m s = (r, s') \<longleftrightarrow> (\<exists>c. m (db s) = (r, c) \<and> s' = s\<lparr>db := c\<rparr>)"
  by (auto simp: run_db_def split: prod.splits)

end
