(* ===== verification/LoginApi.thy ===== *)
theory LoginApi
  imports Http TwoFactorSpec
begin

text \<open>
  The login handlers: \<^verbatim>\<open>handleLogin\<close>, \<^verbatim>\<open>completeLogin\<close>, \<^verbatim>\<open>finishLogin\<close>, \<^verbatim>\<open>handleLogout\<close>,
  \<^verbatim>\<open>handleMe\<close> of \<^verbatim>\<open>httpapi/router.go\<close> and \<^verbatim>\<open>handleLoginTwoFactor\<close>, \<^verbatim>\<open>verifyLoginCode\<close> of
  \<^verbatim>\<open>httpapi/router_2fa.go\<close>. A handler maps the server's state to a response and the new state. Its
  readings of the clock, UUIDs and random bytes are numbered in the order of their use on the
  longest path.
\<close>

section \<open>Audit events\<close>

definition loginAuditEvent :: "libs \<Rightarrow> string \<Rightarrow> string \<Rightarrow> string \<Rightarrow> instant \<Rightarrow> AuditEvent" where
  "loginAuditEvent L i userID meth now =
     zero_event\<lparr>ae_ID := i, ae_UserID := userID, ae_EventType := ''login'',
       ae_Summary := ''administrator logged in'',
       ae_MetadataJSON := lib_marshal L (json_strings [(''method'', meth)]), ae_CreatedAt := now\<rparr>"

definition auditLoginRateLimit ::
    "libs \<Rightarrow> string \<Rightarrow> instant \<Rightarrow> string \<Rightarrow> string \<Rightarrow> string \<Rightarrow> server \<Rightarrow> server" where
  "auditLoginRateLimit L i now userID stage sourceIP =
     try_audit i now (zero_event\<lparr>ae_UserID := userID, ae_EventType := ''login_rate_limited'',
       ae_Summary := ''login attempts rate limited'',
       ae_MetadataJSON := lib_marshal L (json_strings [(''stage'', stage), (''source_ip'', sourceIP)])\<rparr>)"

section \<open>The end of a login\<close>

definition finishLogin :: "libs \<Rightarrow> router \<Rightarrow> instant \<Rightarrow> User \<Rightarrow> response" where
  "finishLogin L R now user =
     (case Set (lib_formatNano L) (rt_secret R) (rt_ttl R) now (u_ID user) of
        (v, expires) \<Rightarrow> (writeJSON 200 (userResponse user))\<lparr>rs_cookie := Some (SessionCookie v expires)\<rparr>)"

definition completeLogin ::
    "libs \<Rightarrow> router \<Rightarrow> env \<Rightarrow> User \<Rightarrow> string \<Rightarrow> server \<Rightarrow> response \<times> server" where
  "completeLogin L R e user meth s =
     (let event = loginAuditEvent L (uuid e 0) (u_ID user) meth (clock e 6)
      in case run_db (audit_log (uuid e 1) (clock e 7) event) s of
           (Inl _, s1) \<Rightarrow> (writeError 500 ''audit_unavailable'' ''failed to record login audit'', s1)
         | (Inr _, s1) \<Rightarrow> (finishLogin L R (clock e 8) user, s1))"

section \<open>The first step\<close>

definition two_factor_unavailable :: response where
  "two_factor_unavailable =
     writeError 500 ''two_factor_unavailable'' ''two factor authentication is unavailable''"

text \<open>What follows a correct password: the end of the login, or a challenge for the second factor.\<close>

definition login_challenge ::
    "libs \<Rightarrow> env \<Rightarrow> TwoFactorManager \<Rightarrow> User \<Rightarrow> UserTwoFactor \<Rightarrow> server \<Rightarrow> response \<times> server" where
  "login_challenge L e m user setting s =
     (case IssueLoginChallenge (lib_marshalChallenge L) (tm_challengeKey m) (clock e 6) (random e 0)
             (u_ID user) (tf_ConfigurationID setting) of
        Inl _ \<Rightarrow> (two_factor_unavailable, s)
      | Inr challenge \<Rightarrow>
          (case VerifyLoginChallenge L m (clock e 7) challenge of
             Inl _ \<Rightarrow> (two_factor_unavailable, s)
           | Inr issued \<Rightarrow>
               (case run_db (CreateLoginChallenge (clock e 8)
                   \<lparr>lc_JTI = vc_JTI issued, lc_UserID = vc_UserID issued,
                    lc_ConfigurationID = vc_ConfigurationID issued, lc_ExpiresAt = vc_ExpiresAt issued,
                    lc_ConsumedAt = None, lc_CreatedAt = vc_IssuedAt issued\<rparr>) s of
                  (Inl _, s1) \<Rightarrow> (two_factor_unavailable, s1)
                | (Inr _, s1) \<Rightarrow>
                    (writeJSON 202 (json_map [(''two_factor_required'', JBool True),
                       (''challenge_token'', JString challenge), (''expires_in'', json_int 300)]), s1))))"

definition password_accepted ::
    "libs \<Rightarrow> router \<Rightarrow> env \<Rightarrow> User \<Rightarrow> server \<Rightarrow> response \<times> server" where
  "password_accepted L R e user s =
     (case run_db (GetEnabledTwoFactor (u_ID user)) s of
        (Inl err, s1) \<Rightarrow>
          if err = ErrNotFound then completeLogin L R e user ''password'' s1
          else (two_factor_unavailable, s1)
      | (Inr setting, s1) \<Rightarrow>
          (case rt_twoFactor R of
             None \<Rightarrow> (two_factor_unavailable, s1)
           | Some m \<Rightarrow> login_challenge L e m user setting s1))"

definition password_refused ::
    "libs \<Rightarrow> env \<Rightarrow> string list \<Rightarrow> string \<Rightarrow> string \<Rightarrow> server \<Rightarrow> response \<times> server" where
  "password_refused L e limitKeys userID ip s =
     (case recordLoginFailure (\<lambda>i. tick e (3 + i)) (passwordLimiter s) limitKeys of
        ((blocked, retryAfter), l) \<Rightarrow>
          (let s1 = s\<lparr>passwordLimiter := l\<rparr>
           in if blocked
              then (writeRateLimit retryAfter,
                    auditLoginRateLimit L (uuid e 0) (clock e 6) userID ''password'' ip s1)
              else (writeError 401 ''invalid_credentials'' ''invalid username or password'', s1)))"

definition login_fields :: struct where
  "login_fields = [(''username'', FString []), (''password'', FString [])]"

definition handleLogin :: "libs \<Rightarrow> router \<Rightarrow> env \<Rightarrow> request \<Rightarrow> server \<Rightarrow> response \<times> server" where
  "handleLogin L R e req s =
     (case readLoginJSON L req login_fields of
        Inl resp \<Rightarrow> (resp, s)
      | Inr body \<Rightarrow>
          (let username = str_field body ''username''; password = str_field body ''password'';
               ip = requestIP req; limitKeys = passwordLoginLimitKeys L username ip
           in case allowLoginAttempt (clock e) (passwordLimiter s) limitKeys of
                ((allowed, retryAfter), l) \<Rightarrow>
                  (let s1 = s\<lparr>passwordLimiter := l\<rparr>
                   in if \<not> allowed then (writeRateLimit retryAfter, s1)
                      else case run_db (GetUserByUsername username) s1 of
                             (Inl err, s2) \<Rightarrow>
                               if err \<noteq> ErrNotFound
                               then (writeError 500 ''authentication_unavailable'' ''authentication is unavailable'', s2)
                               else password_refused L e limitKeys [] ip s2
                           | (Inr user, s2) \<Rightarrow>
                               if \<not> lib_checkPassword L (u_PasswordHash user) password
                               then password_refused L e limitKeys (u_ID user) ip s2
                               else password_accepted L R e user
                                      (s2\<lparr>passwordLimiter := clearLoginFailures (passwordLimiter s2) limitKeys\<rparr>))))"

section \<open>The second step\<close>

datatype code_error = InvalidSecondFactor | CodeUnavailable

record verifiedLoginCode =
  vl_method :: string
  vl_totpCounter :: "int option"
  vl_recoveryHash :: string

definition verifyLoginCode ::
    "libs \<Rightarrow> TwoFactorManager \<Rightarrow> UserTwoFactor \<Rightarrow> string \<Rightarrow> instant \<Rightarrow> code_error + verifiedLoginCode" where
  "verifyLoginCode L m setting code now =
     (let trimmedCode = trimSpace code
      in if length trimmedCode = 6
         then (case DecryptSecret m (tf_SecretCiphertext setting) of
                 Inl _ \<Rightarrow> Inl CodeUnavailable
               | Inr secret \<Rightarrow>
                   (case MatchTOTP (lib_upper L) secret trimmedCode now of
                      Inl _ \<Rightarrow> Inl CodeUnavailable
                    | Inr (counter, matched) \<Rightarrow>
                        if \<not> matched then Inl InvalidSecondFactor
                        else Inr \<lparr>vl_method = ''totp'', vl_totpCounter = Some counter, vl_recoveryHash = []\<rparr>))
         else Inr \<lparr>vl_method = ''recovery_code'', vl_totpCounter = None,
                vl_recoveryHash = RecoveryCodeHash L m (tf_UserID setting) code\<rparr>)"

definition writeInvalidSecondFactor ::
    "libs \<Rightarrow> env \<Rightarrow> string \<Rightarrow> string \<Rightarrow> string list \<Rightarrow> server \<Rightarrow> response \<times> server" where
  "writeInvalidSecondFactor L e userID sourceIP limitKeys s =
     (case recordLoginFailure (\<lambda>i. tick e (4 + i)) (twoFactorLimiter s) limitKeys of
        ((blocked, retryAfter), l) \<Rightarrow>
          (let s1 = s\<lparr>twoFactorLimiter := l\<rparr>
           in if blocked
              then (writeRateLimit retryAfter,
                    auditLoginRateLimit L (uuid e 1) (clock e 7) userID ''second_factor'' sourceIP s1)
              else (writeError 401 ''invalid_two_factor_code'' ''invalid two factor code'', s1)))"

definition login_restart :: response where
  "login_restart = writeError 401 ''login_restart_required'' ''restart login to continue''"

text \<open>The challenge's user and configuration are current: the code is checked and spent.\<close>

definition spend_second_factor ::
    "libs \<Rightarrow> router \<Rightarrow> TwoFactorManager \<Rightarrow> env \<Rightarrow> VerifiedChallenge \<Rightarrow> User \<Rightarrow> UserTwoFactor \<Rightarrow> string \<Rightarrow>
     string \<Rightarrow> string list \<Rightarrow> instant \<Rightarrow> server \<Rightarrow> response \<times> server" where
  "spend_second_factor L R m e challenge user setting code ip limitKeys now s =
     (case verifyLoginCode L m setting code now of
        Inl InvalidSecondFactor \<Rightarrow> writeInvalidSecondFactor L e (u_ID user) ip limitKeys s
      | Inl CodeUnavailable \<Rightarrow> (two_factor_unavailable, s)
      | Inr verified \<Rightarrow>
          (case run_db (ConsumeLoginSecondFactor
              \<lparr>cp_ChallengeJTI = vc_JTI challenge, cp_UserID = vc_UserID challenge,
               cp_ConfigurationID = vc_ConfigurationID challenge, cp_TOTPCounter = vl_totpCounter verified,
               cp_RecoveryHash = vl_recoveryHash verified, cp_Now = now,
               cp_Audit = loginAuditEvent L (uuid e 0) (u_ID user) (vl_method verified) now\<rparr>) s of
             (Inl err, s1) \<Rightarrow>
               if err = ErrLoginRestartRequired then (login_restart, s1)
               else if err = ErrInvalidSecondFactor
               then writeInvalidSecondFactor L e (u_ID user) ip limitKeys s1
               else (two_factor_unavailable, s1)
           | (Inr _, s1) \<Rightarrow>
               (finishLogin L R (clock e 4) user,
                s1\<lparr>twoFactorLimiter := clearLoginFailures (twoFactorLimiter s1) limitKeys\<rparr>)))"

definition second_factor_fields :: struct where
  "second_factor_fields = [(''challenge_token'', FString []), (''code'', FString [])]"

definition handleLoginTwoFactor :: "libs \<Rightarrow> router \<Rightarrow> env \<Rightarrow> request \<Rightarrow> server \<Rightarrow> response \<times> server" where
  "handleLoginTwoFactor L R e req s =
     (case readLoginJSON L req second_factor_fields of
        Inl resp \<Rightarrow> (resp, s)
      | Inr body \<Rightarrow>
          (case rt_twoFactor R of
             None \<Rightarrow> (two_factor_unavailable, s)
           | Some m \<Rightarrow>
               (let now = clock e 0
                in case VerifyLoginChallengeAt (lib_unmarshalChallenge L) (tm_challengeKey m)
                          (str_field body ''challenge_token'') now of
                     Inl _ \<Rightarrow> (login_restart, s)
                   | Inr challenge \<Rightarrow>
                       (let ip = requestIP req; limitKeys = secondFactorLimitKeys (vc_UserID challenge) ip
                        in case allowLoginAttempt (\<lambda>i. clock e (1 + i)) (twoFactorLimiter s) limitKeys of
                             ((allowed, retryAfter), l) \<Rightarrow>
                               (let s1 = s\<lparr>twoFactorLimiter := l\<rparr>
                                in if \<not> allowed then (writeRateLimit retryAfter, s1)
                                   else case run_db (GetUserByID (vc_UserID challenge)) s1 of
                                          (Inl err, s2) \<Rightarrow>
                                            (if err = ErrNotFound then login_restart else two_factor_unavailable, s2)
                                        | (Inr user, s2) \<Rightarrow>
                                            (case run_db (GetEnabledTwoFactor (vc_UserID challenge)) s2 of
                                               (Inl err, s3) \<Rightarrow>
                                                 (if err = ErrNotFound then login_restart else two_factor_unavailable, s3)
                                             | (Inr setting, s3) \<Rightarrow>
                                                 if tf_ConfigurationID setting \<noteq> vc_ConfigurationID challenge
                                                 then (login_restart, s3)
                                                 else spend_second_factor L R m e challenge user setting
                                                        (str_field body ''code'') ip limitKeys now s3))))))"

section \<open>Sessions\<close>

definition handleLogout :: "response" where
  "handleLogout = (writeJSON 200 (json_map [(''ok'', JBool True)]))\<lparr>rs_cookie := Some ClearedCookie\<rparr>"

definition handleMe :: "libs \<Rightarrow> router \<Rightarrow> env \<Rightarrow> request \<Rightarrow> server \<Rightarrow> response \<times> server" where
  "handleMe L R e req s =
     (case requireUser L R (clock e 0) req s of
        (Inl resp, s1) \<Rightarrow> (resp, s1)
      | (Inr user, s1) \<Rightarrow> (writeJSON 200 (userResponse user), s1))"

end
