(* ===== verification/LoginFacts.thy ===== *)
theory LoginFacts
  imports LoginApi SingleUse
begin

text \<open>
  What the login handlers rely on from the store and the limiters, and what a response with a
  session cookie says about the state.
\<close>

section \<open>Audit records\<close>

text \<open>The row an audit stores.\<close>

definition stamped_event :: "string \<Rightarrow> instant \<Rightarrow> AuditEvent \<Rightarrow> AuditEvent" where
  "stamped_event i now e0 =
     (let e1 = (if ae_ID e0 = [] then e0\<lparr>ae_ID := i\<rparr> else e0);
          e2 = (if ae_CreatedAt e1 = zero_time then e1\<lparr>ae_CreatedAt := now\<rparr> else e1)
      in if ae_MetadataJSON e2 = [] then e2\<lparr>ae_MetadataJSON := ''{}''\<rparr> else e2)"

lemma stamped_event_simps [simp]:
  "ae_EventType (stamped_event i now ev) = ae_EventType ev"
  "ae_UserID (stamped_event i now ev) = ae_UserID ev"
  "ae_DeviceID (stamped_event i now ev) = ae_DeviceID ev"
  "ae_SessionID (stamped_event i now ev) = ae_SessionID ev"
  by (simp_all add: stamped_event_def Let_def)

lemma stamped_event_stamped:
  "(if ae_CreatedAt (stamped_event i now ev) = zero_time
    then (stamped_event i now ev)\<lparr>ae_CreatedAt := now\<rparr> else stamped_event i now ev) = stamped_event i now ev"
  by (simp add: stamped_event_def Let_def)

lemma audit_log_eq: "audit_log i now ev = bind (exec (insert_audit (stamped_event i now ev))) (\<lambda>_. ok ())"
proof -
  have "audit_log i now ev = bind (CreateAuditEvent now (stamped_event i now ev)) (\<lambda>_. ok ())"
    by (simp add: audit_log_def stamped_event_def Let_def)
  also have "\<dots> = bind (exec (insert_audit (stamped_event i now ev))) (\<lambda>_. ok ())"
    unfolding CreateAuditEvent_def stamped_event_stamped Let_def insertAuditEvent_def
    by (simp add: bind_def ok_def fun_eq_iff split: prod.splits sum.splits)
  finally show ?thesis .
qed

lemma audit_log_success:
  assumes "audit_log i now ev s = (Inr u, s')"
  shows "contents s' = (contents s)\<lparr>audit_events := audit_events (contents s) @ [stamped_event i now ev]\<rparr>"
    and "ae_ID (stamped_event i now ev) \<notin> ae_ID ` set (audit_events (contents s))"
  using assms by (auto simp: audit_log_eq store_inv insert_audit_def split: if_splits)

text \<open>An audit, best effort or not, touches no other table.\<close>

lemma audit_log_frame:
  "\<exists>evs. contents (snd (audit_log i now ev s)) = (contents s)\<lparr>audit_events := evs\<rparr>"
  by (rule exI [of _ "audit_events (contents (snd (audit_log i now ev s)))"])
    (simp add: audit_log_eq exec_def bind_def io_def ok_def insert_audit_def split: option.splits)

section \<open>Reads\<close>

lemma run_db_query_row:
  "run_db (query_row err q) s = (r, s') \<Longrightarrow>
     contents (db s') = contents (db s) \<and> (\<forall>x. r = Inr x \<longrightarrow> q (contents (db s)) = Some x) \<and>
     passwordLimiter s' = passwordLimiter s \<and> twoFactorLimiter s' = twoFactorLimiter s \<and>
     managementLimiter s' = managementLimiter s"
  using query_row_contents [of err q "db s"]
  by (cases r) (auto simp: run_db_eq store_inv)

lemmas run_db_reads = run_db_query_row [where r = "Inr x" for x, simplified]

lemma find_in: "find P xs = Some x \<Longrightarrow> x \<in> set xs \<and> P x"
  by (auto simp: find_Some_iff)

section \<open>Responses without a session\<close>

lemma refused_no_cookie:
  "password_refused L e ks uid ip s = (resp, s') \<Longrightarrow> rs_cookie resp = None"
  "writeInvalidSecondFactor L e uid ip ks s = (resp, s') \<Longrightarrow> rs_cookie resp = None"
  by (auto simp: password_refused_def writeInvalidSecondFactor_def Let_def split: prod.splits if_splits)

lemma constant_no_cookie [simp]:
  "rs_cookie two_factor_unavailable = None" "rs_cookie login_restart = None"
  by (simp_all add: two_factor_unavailable_def login_restart_def)

lemma challenge_no_cookie: "login_challenge L e m user setting s = (resp, s') \<Longrightarrow> rs_cookie resp = None"
  by (auto simp: login_challenge_def split: prod.splits sum.splits)

text \<open>What holds whenever a handler's response carries a cookie.\<close>

lemma cookie_caseI:
  assumes "\<And>resp s' c. h = (resp, s') \<Longrightarrow> rs_cookie resp = Some c \<Longrightarrow> E s' c"
  shows "case h of (resp, s') \<Rightarrow> (case rs_cookie resp of None \<Rightarrow> True | Some c \<Rightarrow> E s' c)"
  using assms by (auto split: prod.splits option.splits)

section \<open>The first step\<close>

definition session_cookie :: "libs \<Rightarrow> router \<Rightarrow> instant \<Rightarrow> string \<Rightarrow> cookie" where
  "session_cookie L R now userID =
     (case Set (lib_formatNano L) (rt_secret R) (rt_ttl R) now userID of (v, expires) \<Rightarrow> SessionCookie v expires)"

lemma finishLogin_cookie: "rs_cookie (finishLogin L R now user) = Some (session_cookie L R now (u_ID user))"
  by (simp add: finishLogin_def session_cookie_def split: prod.splits)

text \<open>A login of the user is on record.\<close>

definition login_recorded :: "string \<Rightarrow> tables \<Rightarrow> bool" where
  "login_recorded uid T \<longleftrightarrow> (\<exists>ev \<in> set (audit_events T). ae_EventType ev = ''login'' \<and> ae_UserID ev = uid)"

lemma completeLogin_cookie:
  assumes "completeLogin L R e user meth s = (resp, s')" and "rs_cookie resp = Some c"
  shows "c = session_cookie L R (clock e 8) (u_ID user)" and "login_recorded (u_ID user) (contents (db s'))"
proof -
  obtain s1 where s1: "run_db (audit_log (uuid e 1) (clock e 7)
        (loginAuditEvent L (uuid e 0) (u_ID user) meth (clock e 6))) s = (Inr (), s1)"
    and r: "resp = finishLogin L R (clock e 8) user" "s' = s1"
    using assms by (auto simp: completeLogin_def Let_def split: prod.splits sum.splits)
  then show "c = session_cookie L R (clock e 8) (u_ID user)" using assms(2) by (simp add: finishLogin_cookie)
  from s1 have "audit_log (uuid e 1) (clock e 7)
      (loginAuditEvent L (uuid e 0) (u_ID user) meth (clock e 6)) (db s) = (Inr (), db s1)"
    by (auto simp: run_db_eq)
  from audit_log_success [OF this] show "login_recorded (u_ID user) (contents (db s'))"
    unfolding r login_recorded_def by (force simp: loginAuditEvent_def)
qed

lemma password_accepted_cookie:
  assumes "password_accepted L R e user s = (resp, s')" and "rs_cookie resp = Some c"
  shows "enabled_row (u_ID user) (contents (db s)) = None \<and>
    c = session_cookie L R (clock e 8) (u_ID user) \<and> login_recorded (u_ID user) (contents (db s'))"
proof -
  obtain r s1 where g: "run_db (GetEnabledTwoFactor (u_ID user)) s = (r, s1)" by (metis surj_pair)
  show ?thesis
  proof (cases r)
    case (Inl err)
    with g assms have fin: "completeLogin L R e user ''password'' s1 = (resp, s')" and "err = ErrNotFound"
      by (auto simp: password_accepted_def split: if_splits)
    moreover have "enabled_row (u_ID user) (contents (db s)) = None"
      using g Inl \<open>err = ErrNotFound\<close>
      by (auto simp: GetEnabledTwoFactor_def run_db_eq query_row_def query_def bind_def io_def ok_def fail_def
          split: prod.splits if_splits option.splits)
    ultimately show ?thesis using completeLogin_cookie [OF fin assms(2)] by blast
  next
    case (Inr setting)
    with g assms have "rs_cookie resp = None"
      by (auto simp: password_accepted_def split: option.splits dest: challenge_no_cookie)
    with assms(2) show ?thesis by simp
  qed
qed

text \<open>A session from the first step alone.\<close>

lemma handleLogin_cookie:
  assumes "handleLogin L R e req s = (resp, s')" and "rs_cookie resp = Some c"
  shows "\<exists>body user. readLoginJSON L req login_fields = Inr body \<and>
    find (\<lambda>u. u_Username u = str_field body ''username'') (users (contents (db s))) = Some user \<and>
    lib_checkPassword L (u_PasswordHash user) (str_field body ''password'') \<and>
    fst (fst (allowLoginAttempt (clock e) (passwordLimiter s)
      (passwordLoginLimitKeys L (str_field body ''username'') (requestIP req)))) \<and>
    enabled_row (u_ID user) (contents (db s)) = None \<and>
    c = session_cookie L R (clock e 8) (u_ID user) \<and> login_recorded (u_ID user) (contents (db s'))"
proof -
  obtain body where body: "readLoginJSON L req login_fields = Inr body"
    using assms readLoginJSON_Inl by (cases "readLoginJSON L req login_fields") (auto simp: handleLogin_def)
  let ?u = "str_field body ''username''" and ?ip = "requestIP req"
  let ?ks = "passwordLoginLimitKeys L ?u ?ip"
  obtain ok retry l where al: "allowLoginAttempt (clock e) (passwordLimiter s) ?ks = ((ok, retry), l)"
    by (metis surj_pair)
  let ?s1 = "s\<lparr>passwordLimiter := l\<rparr>"
  obtain r s2 where g: "run_db (GetUserByUsername ?u) ?s1 = (r, s2)" by (metis surj_pair)
  have "ok" using assms body al by (auto simp: handleLogin_def Let_def split: if_splits)
  show ?thesis
  proof (cases r)
    case (Inl err)
    with assms body al g \<open>ok\<close> have "rs_cookie resp = None"
      by (auto simp: handleLogin_def Let_def split: if_splits dest: refused_no_cookie)
    with assms(2) show ?thesis by simp
  next
    case (Inr user)
    from g [unfolded Inr GetUserByUsername_def] run_db_query_row
    have user: "contents (db s2) = contents (db s)"
      "find (\<lambda>u. u_Username u = ?u) (users (contents (db s))) = Some user"
      by fastforce+
    let ?s3 = "s2\<lparr>passwordLimiter := clearLoginFailures (passwordLimiter s2) ?ks\<rparr>"
    have pw: "lib_checkPassword L (u_PasswordHash user) (str_field body ''password'')"
      and acc: "password_accepted L R e user ?s3 = (resp, s')"
      using assms body al g Inr \<open>ok\<close>
      by (auto simp: handleLogin_def Let_def split: if_splits dest: refused_no_cookie)
    from password_accepted_cookie [OF acc assms(2)] pw body user al \<open>ok\<close> show ?thesis
      by (intro exI [of _ body] exI [of _ user]) simp
  qed
qed

section \<open>The second step\<close>

text \<open>The parameters with which a request's second factor is spent.\<close>

definition spent_params ::
    "libs \<Rightarrow> env \<Rightarrow> VerifiedChallenge \<Rightarrow> string \<Rightarrow> verifiedLoginCode \<Rightarrow> instant \<Rightarrow> ConsumeParams" where
  "spent_params L e challenge uid v now =
     \<lparr>cp_ChallengeJTI = vc_JTI challenge, cp_UserID = vc_UserID challenge,
      cp_ConfigurationID = vc_ConfigurationID challenge, cp_TOTPCounter = vl_totpCounter v,
      cp_RecoveryHash = vl_recoveryHash v, cp_Now = now,
      cp_Audit = loginAuditEvent L (uuid e 0) uid (vl_method v) now\<rparr>"

lemma spend_cookie:
  assumes "spend_second_factor L R m e challenge user setting code ip ks now s = (resp, s')"
    and "rs_cookie resp = Some c"
  shows "\<exists>v. verifyLoginCode L m setting code now = Inr v \<and>
    ConsumeLoginSecondFactor (spent_params L e challenge (u_ID user) v now) (db s) = (Inr (), db s') \<and>
    c = session_cookie L R (clock e 4) (u_ID user)"
proof (cases "verifyLoginCode L m setting code now")
  case (Inl err)
  with assms have "rs_cookie resp = None"
    by (cases err) (auto simp: spend_second_factor_def dest: refused_no_cookie)
  with assms(2) show ?thesis by simp
next
  case (Inr v)
  let ?p = "spent_params L e challenge (u_ID user) v now"
  obtain r s1 where g: "run_db (ConsumeLoginSecondFactor ?p) s = (r, s1)" by (metis surj_pair)
  show ?thesis
  proof (cases r)
    case (Inl err)
    with assms Inr g have "rs_cookie resp = None"
      by (auto simp: spend_second_factor_def spent_params_def split: if_splits dest: refused_no_cookie)
    with assms(2) show ?thesis by simp
  next
    case (Inr u)
    have "resp = finishLogin L R (clock e 4) user" "db s' = db s1"
      using assms(1) \<open>verifyLoginCode L m setting code now = Inr v\<close> g Inr
      by (auto simp: spend_second_factor_def spent_params_def)
    with assms(2) g Inr \<open>verifyLoginCode L m setting code now = Inr v\<close> show ?thesis
      by (auto simp: finishLogin_cookie run_db_eq)
  qed
qed

lemma handleLoginTwoFactor_cookie:
  assumes "handleLoginTwoFactor L R e req s = (resp, s')" and "rs_cookie resp = Some c"
  shows "\<exists>body m challenge user setting v c0. readLoginJSON L req second_factor_fields = Inr body \<and>
    rt_twoFactor R = Some m \<and>
    VerifyLoginChallengeAt (lib_unmarshalChallenge L) (tm_challengeKey m)
      (str_field body ''challenge_token'') (clock e 0) = Inr challenge \<and>
    fst (fst (allowLoginAttempt (\<lambda>i. clock e (1 + i)) (twoFactorLimiter s)
      (secondFactorLimitKeys (vc_UserID challenge) (requestIP req)))) \<and>
    find (\<lambda>u. u_ID u = vc_UserID challenge) (users (contents (db s))) = Some user \<and>
    enabled_row (vc_UserID challenge) (contents (db s)) = Some setting \<and>
    verifyLoginCode L m setting (str_field body ''code'') (clock e 0) = Inr v \<and>
    contents c0 = contents (db s) \<and>
    ConsumeLoginSecondFactor (spent_params L e challenge (u_ID user) v (clock e 0)) c0 = (Inr (), db s') \<and>
    c = session_cookie L R (clock e 4) (u_ID user)"
proof -
  obtain body where body: "readLoginJSON L req second_factor_fields = Inr body"
    using assms readLoginJSON_Inl
    by (cases "readLoginJSON L req second_factor_fields") (auto simp: handleLoginTwoFactor_def)
  obtain m where m: "rt_twoFactor R = Some m"
    using assms body by (cases "rt_twoFactor R") (auto simp: handleLoginTwoFactor_def)
  obtain challenge where ch: "VerifyLoginChallengeAt (lib_unmarshalChallenge L) (tm_challengeKey m)
      (str_field body ''challenge_token'') (clock e 0) = Inr challenge" (is "?verify = _")
    using assms body m by (cases ?verify) (auto simp: handleLoginTwoFactor_def Let_def)
  let ?uid = "vc_UserID challenge" and ?ip = "requestIP req"
  let ?ks = "secondFactorLimitKeys ?uid ?ip"
  obtain ok retry l where al: "allowLoginAttempt (\<lambda>i. clock e (1 + i)) (twoFactorLimiter s) ?ks = ((ok, retry), l)"
    by (metis surj_pair)
  let ?s1 = "s\<lparr>twoFactorLimiter := l\<rparr>"
  note h = assms(1) [unfolded handleLoginTwoFactor_def] body m ch al
  have ok using h assms(2) by (auto simp: Let_def split: if_splits)
  obtain r2 s2 where g2: "run_db (GetUserByID ?uid) ?s1 = (r2, s2)" by (metis surj_pair)
  obtain user where user: "r2 = Inr user"
    using h \<open>ok\<close> g2 assms(2) by (cases r2) (auto simp: Let_def split: if_splits)
  obtain r3 s3 where g3: "run_db (GetEnabledTwoFactor ?uid) s2 = (r3, s3)" by (metis surj_pair)
  obtain setting where setting: "r3 = Inr setting"
    using h \<open>ok\<close> g2 user g3 assms(2) by (cases r3) (auto simp: Let_def split: if_splits)
  have sp: "spend_second_factor L R m e challenge user setting (str_field body ''code'') ?ip ?ks (clock e 0) s3 =
      (resp, s')"
    using h \<open>ok\<close> g2 user g3 setting assms(2) by (auto simp: Let_def split: if_splits)
  have f2: "contents (db s2) = contents (db s)"
    "find (\<lambda>u. u_ID u = ?uid) (users (contents (db s))) = Some user"
    using run_db_query_row [OF g2 [unfolded GetUserByID_def]] user by simp_all
  have f3: "contents (db s3) = contents (db s)" "enabled_row ?uid (contents (db s)) = Some setting"
    using run_db_query_row [OF g3 [unfolded GetEnabledTwoFactor_def]] setting f2(1) by simp_all
  from spend_cookie [OF sp assms(2)] obtain v where
    v: "verifyLoginCode L m setting (str_field body ''code'') (clock e 0) = Inr v"
      "ConsumeLoginSecondFactor (spent_params L e challenge (u_ID user) v (clock e 0)) (db s3) = (Inr (), db s')"
      "c = session_cookie L R (clock e 4) (u_ID user)"
    by blast
  show ?thesis
    by (intro exI [of _ body] exI [of _ m] exI [of _ challenge] exI [of _ user] exI [of _ setting]
        exI [of _ v] exI [of _ "db s3"] conjI body m ch f2(2) f3 v)
       (use al \<open>ok\<close> in simp)
qed

section \<open>A login that succeeds\<close>

text \<open>The challenges that creating one for a user keeps.\<close>

definition kept_challenges :: "instant \<Rightarrow> string \<Rightarrow> LoginChallenge list \<Rightarrow> LoginChallenge list" where
  "kept_challenges now uid rows =
     filter (\<lambda>r. \<not> (lc_UserID r = uid \<and> lc_ConsumedAt r = None \<and> now \<le> lc_ExpiresAt r))
       (filter (\<lambda>r. lc_JTI r \<notin> set (expired_victims now rows)) rows)"

definition create_effect :: "LoginChallenge \<Rightarrow> tables \<Rightarrow> tables" where
  "create_effect c T = T\<lparr>login_challenges :=
     kept_challenges (lc_CreatedAt c) (lc_UserID c) (login_challenges T) @ [c\<lparr>lc_ConsumedAt := None\<rparr>]\<rparr>"

lemma create_body_effect:
  "stmt_purge_expired now T = Some (T1, n1) \<Longrightarrow> stmt_drop_active uid now T1 = Some (T2, n2) \<Longrightarrow>
     T2 = T\<lparr>login_challenges := kept_challenges now uid (login_challenges T)\<rparr>"
  by (auto simp: stmt_purge_expired_def stmt_drop_active_def sql_delete_def kept_challenges_def Let_def)

lemma CreateLoginChallenge_success:
  assumes "CreateLoginChallenge now c s = (Inr u, s')"
  shows "contents s' = create_effect (stamped_challenge now c) (contents s)"
proof -
  let ?c = "stamped_challenge now c"
  obtain T1 n1 T2 n2 n3 where s1: "stmt_purge_expired (lc_CreatedAt ?c) (contents s) = Some (T1, n1)"
    and s2: "stmt_drop_active (lc_UserID ?c) (lc_CreatedAt ?c) T1 = Some (T2, n2)"
    and s3: "stmt_insert_challenge ?c T2 = Some (contents s', n3)"
    using assms by (auto simp: CreateLoginChallenge_def store_inv Let_def stamped_challenge_def [symmetric])
  from create_body_effect [OF s1 s2] s3 show ?thesis
    by (auto simp: stmt_insert_challenge_def create_effect_def split: if_splits)
qed

lemma CreateLoginChallenge_calm:
  assumes "lc_JTI c \<notin> lc_JTI ` set (login_challenges T)" and "lc_UserID c \<in> u_ID ` set (users T)"
  shows "CreateLoginChallenge now c (calm T) = (Inr (), calm (create_effect (stamped_challenge now c) T))"
proof -
  let ?c = "stamped_challenge now c"
  let ?body = "bind (exec (stmt_purge_expired (lc_CreatedAt ?c))) (\<lambda>_.
    bind (exec (stmt_drop_active (lc_UserID ?c) (lc_CreatedAt ?c))) (\<lambda>_.
    bind (exec (stmt_insert_challenge ?c)) (\<lambda>_. ok ())))"
  obtain T1 n1 where s1: "stmt_purge_expired (lc_CreatedAt ?c) T = Some (T1, n1)"
    by (simp add: stmt_purge_expired_def sql_delete_def Let_def)
  obtain T2 n2 where s2: "stmt_drop_active (lc_UserID ?c) (lc_CreatedAt ?c) T1 = Some (T2, n2)"
    by (simp add: stmt_drop_active_def sql_delete_def Let_def)
  have T2: "T2 = T\<lparr>login_challenges := kept_challenges (lc_CreatedAt ?c) (lc_UserID ?c) (login_challenges T)\<rparr>"
    using s1 s2 by (rule create_body_effect)
  have "set (login_challenges T2) \<subseteq> set (login_challenges T)" by (auto simp: T2 kept_challenges_def)
  with assms have "stmt_insert_challenge ?c T2 = Some (create_effect ?c T, 1)"
    by (auto simp: stmt_insert_challenge_def T2 create_effect_def)
  then have "?body (calm T) = (Inr (), calm (create_effect ?c T))"
    using s1 s2 by (simp add: calm_simps)
  from transaction_calm [where m = ?body, OF this] show ?thesis
    by (simp add: CreateLoginChallenge_def stamped_challenge_def [symmetric] Let_def)
qed

lemma run_db_calm: "db s = calm T \<Longrightarrow> m (calm T) = (r, calm T') \<Longrightarrow> run_db m s = (r, s\<lparr>db := calm T'\<rparr>)"
  by (simp add: run_db_def)

lemma verified_one_factor:
  "verifyLoginCode L m setting code now = Inr v \<Longrightarrow> one_factor (spent_params L e ch uid v now)"
proof -
  have "recoveryCodeHash uni key uid' code' \<noteq> []" for uni key uid' code'
    unfolding recoveryCodeHash_def by (rule b64_nonempty) (simp flip: length_greater_0_conv)
  then show "verifyLoginCode L m setting code now = Inr v \<Longrightarrow> one_factor (spent_params L e ch uid v now)"
    by (auto simp: verifyLoginCode_def Let_def one_factor_def spent_params_def RecoveryCodeHash_def
        split: if_splits sum.splits prod.splits)
qed

text \<open>The challenge a login issues, as a row of the store.\<close>

definition issued_row :: "instant \<Rightarrow> string \<Rightarrow> string \<Rightarrow> string \<Rightarrow> LoginChallenge" where
  "issued_row t0 jtiBytes uid cfg =
     \<lparr>lc_JTI = b64_encode jtiBytes, lc_UserID = uid, lc_ConfigurationID = cfg,
      lc_ExpiresAt = from_unix (unix_seconds (t0 + 5 * minute)), lc_ConsumedAt = None,
      lc_CreatedAt = from_unix (unix_seconds t0)\<rparr>"

lemma first_step_works:
  assumes m: "rt_twoFactor R = Some m" and body: "readLoginJSON L req login_fields = Inr body"
    and allowed: "fst (fst (allowLoginAttempt (clock e) (passwordLimiter s)
      (passwordLoginLimitKeys L (str_field body ''username'') (requestIP req))))"
    and db: "db s = calm T"
    and user: "find (\<lambda>u. u_Username u = str_field body ''username'') (users T) = Some user"
    and pw: "lib_checkPassword L (u_PasswordHash user) (str_field body ''password'')"
    and setting: "enabled_row (u_ID user) T = Some setting"
    and token: "IssueLoginChallenge (lib_marshalChallenge L) (tm_challengeKey m) (clock e 6) (random e 0)
      (u_ID user) (tf_ConfigurationID setting) = Inr token"
    and verify: "VerifyLoginChallengeAt (lib_unmarshalChallenge L) (tm_challengeKey m) token (clock e 7) =
      Inr \<lparr>vc_JTI = b64_encode (random e 0), vc_UserID = u_ID user,
        vc_ConfigurationID = tf_ConfigurationID setting, vc_IssuedAt = from_unix (unix_seconds (clock e 6)),
        vc_ExpiresAt = from_unix (unix_seconds (clock e 6 + 5 * minute))\<rparr>"
    and fresh: "b64_encode (random e 0) \<notin> lc_JTI ` set (login_challenges T)"
  shows "\<exists>s'. handleLogin L R e req s =
      (writeJSON 202 (json_map [(''two_factor_required'', JBool True), (''challenge_token'', JString token),
         (''expires_in'', json_int 300)]), s') \<and>
    db s' = calm (create_effect (stamped_challenge (clock e 8)
      (issued_row (clock e 6) (random e 0) (u_ID user) (tf_ConfigurationID setting))) T) \<and>
    twoFactorLimiter s' = twoFactorLimiter s"
proof -
  let ?row = "issued_row (clock e 6) (random e 0) (u_ID user) (tf_ConfigurationID setting)"
  let ?ks = "passwordLoginLimitKeys L (str_field body ''username'') (requestIP req)"
  obtain retry l where al: "allowLoginAttempt (clock e) (passwordLimiter s) ?ks = ((True, retry), l)"
    using allowed by (metis prod.collapse)
  have uid: "u_ID user \<in> u_ID ` set (users T)" using find_in [OF user] by blast
  define s2 where "s2 = s\<lparr>db := calm T, passwordLimiter := clearLoginFailures l ?ks\<rparr>"
  have g1: "run_db (GetUserByUsername (str_field body ''username'')) (s\<lparr>passwordLimiter := l\<rparr>) =
      (Inr user, s\<lparr>passwordLimiter := l, db := calm T\<rparr>)"
    by (rule run_db_calm [where T = T]) (simp_all add: db GetUserByUsername_def user)
  have g2: "run_db (GetEnabledTwoFactor (u_ID user)) s2 = (Inr setting, s2)"
    using run_db_calm [of s2 T "GetEnabledTwoFactor (u_ID user)" "Inr setting" T]
    by (simp add: GetEnabledTwoFactor_def setting s2_def)
  have g3: "run_db (CreateLoginChallenge (clock e 8) ?row) s2 =
      (Inr (), s2\<lparr>db := calm (create_effect (stamped_challenge (clock e 8) ?row) T)\<rparr>)"
    by (rule run_db_calm [where T = T], simp add: s2_def, rule CreateLoginChallenge_calm)
       (simp_all add: issued_row_def fresh uid)
  have "password_accepted L R e user s2 =
      (writeJSON 202 (json_map [(''two_factor_required'', JBool True), (''challenge_token'', JString token),
         (''expires_in'', json_int 300)]), s2\<lparr>db := calm (create_effect (stamped_challenge (clock e 8) ?row) T)\<rparr>)"
    using g3 by (simp add: password_accepted_def g2 m login_challenge_def token verify issued_row_def
        VerifyLoginChallenge_def)
  then show ?thesis
    by (simp add: handleLogin_def body al g1 pw s2_def)
qed

lemma second_step_works:
  assumes m: "rt_twoFactor R = Some m" and body: "readLoginJSON L req second_factor_fields = Inr body"
    and verify: "VerifyLoginChallengeAt (lib_unmarshalChallenge L) (tm_challengeKey m)
      (str_field body ''challenge_token'') (clock e 0) = Inr ch"
    and allowed: "fst (fst (allowLoginAttempt (\<lambda>i. clock e (1 + i)) (twoFactorLimiter s)
      (secondFactorLimitKeys (vc_UserID ch) (requestIP req))))"
    and db: "db s = calm T"
    and user: "find (\<lambda>u. u_ID u = vc_UserID ch) (users T) = Some user"
    and setting: "enabled_row (vc_UserID ch) T = Some setting"
      "tf_ConfigurationID setting = vc_ConfigurationID ch"
    and code: "verifyLoginCode L m setting (str_field body ''code'') (clock e 0) = Inr v"
    and verdict: "login_verdict (spent_params L e ch (u_ID user) v (clock e 0)) T = None"
  shows "\<exists>s'. handleLoginTwoFactor L R e req s = (finishLogin L R (clock e 4) user, s') \<and>
    db s' = calm (consume_effect (spent_params L e ch (u_ID user) v (clock e 0)) T)"
proof -
  let ?p = "spent_params L e ch (u_ID user) v (clock e 0)"
  let ?ks = "secondFactorLimitKeys (vc_UserID ch) (requestIP req)"
  obtain retry l where al: "allowLoginAttempt (\<lambda>i. clock e (1 + i)) (twoFactorLimiter s) ?ks = ((True, retry), l)"
    using allowed by (metis prod.collapse)
  define s1 where "s1 = s\<lparr>twoFactorLimiter := l, db := calm T\<rparr>"
  have g1: "run_db (GetUserByID (vc_UserID ch)) (s\<lparr>twoFactorLimiter := l\<rparr>) = (Inr user, s1)"
    unfolding s1_def by (rule run_db_calm [where T = T]) (simp_all add: db GetUserByID_def user)
  have g2: "run_db (GetEnabledTwoFactor (vc_UserID ch)) s1 = (Inr setting, s1)"
    using run_db_calm [of s1 T "GetEnabledTwoFactor (vc_UserID ch)" "Inr setting" T]
    by (simp add: GetEnabledTwoFactor_def setting s1_def)
  have g3: "run_db (ConsumeLoginSecondFactor ?p) s1 = (Inr (), s1\<lparr>db := calm (consume_effect ?p T)\<rparr>)"
    by (rule run_db_calm [where T = T]) (simp_all add: s1_def ConsumeLoginSecondFactor_calm verdict)
  show ?thesis
    using g3 [unfolded spent_params_def]
    by (simp add: handleLoginTwoFactor_def body m verify al [simplified] Let_def g1 g2 setting spend_second_factor_def code
        spent_params_def)
qed

end
