(* ===== verification/LoginClaims.thy ===== *)
theory LoginClaims
  imports LoginFacts StoreSafety
begin

text \<open>
  The properties of the login handlers: what a session cookie means, that a challenge gives one
  session, that a blocked client is refused before its password is looked at, and that a user with
  two factors can log in.
\<close>

section \<open>A session means a login\<close>

text \<open>C15: Whatever is posted to the first login step, a session cookie in its response means that the
  body named an existing user with its right password, that none of the request's limiter keys was
  blocked, that the user has no second factor enabled, and that the login was recorded by an audit
  event; the cookie is the session of that very user.\<close>

theorem password_session_sound:
  "case handleLogin L R e req s of (resp, s') \<Rightarrow>
     (case rs_cookie resp of
        None \<Rightarrow> True
      | Some c \<Rightarrow> \<exists>body user. readLoginJSON L req login_fields = Inr body \<and>
          find (\<lambda>u. u_Username u = str_field body ''username'') (users (contents (db s))) = Some user \<and>
          lib_checkPassword L (u_PasswordHash user) (str_field body ''password'') \<and>
          fst (fst (allowLoginAttempt (clock e) (passwordLimiter s)
            (passwordLoginLimitKeys L (str_field body ''username'') (requestIP req)))) \<and>
          enabled_row (u_ID user) (contents (db s)) = None \<and>
          c = session_cookie L R (clock e 8) (u_ID user) \<and> login_recorded (u_ID user) (contents (db s')))"
  by (rule cookie_caseI, drule (1) handleLogin_cookie)

text \<open>C16: Whatever is posted to the second login step, a session cookie in its response means that the
  body's token is a valid challenge of an existing user whose configuration is still enabled, that
  the user's keys were not blocked, that the code was checked, and that the challenge and the factor
  were unspent and are now spent together with the audit event.\<close>

theorem second_factor_session_sound:
  "case handleLoginTwoFactor L R e req s of (resp, s') \<Rightarrow>
     (case rs_cookie resp of
        None \<Rightarrow> True
      | Some c \<Rightarrow> \<exists>body m challenge user setting v. readLoginJSON L req second_factor_fields = Inr body \<and>
          rt_twoFactor R = Some m \<and>
          VerifyLoginChallengeAt (lib_unmarshalChallenge L) (tm_challengeKey m)
            (str_field body ''challenge_token'') (clock e 0) = Inr challenge \<and>
          fst (fst (allowLoginAttempt (\<lambda>i. clock e (1 + i)) (twoFactorLimiter s)
            (secondFactorLimitKeys (vc_UserID challenge) (requestIP req)))) \<and>
          find (\<lambda>u. u_ID u = vc_UserID challenge) (users (contents (db s))) = Some user \<and>
          enabled_row (vc_UserID challenge) (contents (db s)) = Some setting \<and>
          verifyLoginCode L m setting (str_field body ''code'') (clock e 0) = Inr v \<and>
          login_verdict (spent_params L e challenge (u_ID user) v (clock e 0)) (contents (db s)) = None \<and>
          contents (db s') =
            consume_effect (spent_params L e challenge (u_ID user) v (clock e 0)) (contents (db s)) \<and>
          c = session_cookie L R (clock e 4) (u_ID user))"
proof (rule cookie_caseI, drule (1) handleLoginTwoFactor_cookie, elim exE conjE)
  fix s' c body m challenge v and user :: User and setting :: UserTwoFactor and c0 :: "tables conn"
  let ?p = "spent_params L e challenge (u_ID user) v (clock e 0)"
  assume f: "readLoginJSON L req second_factor_fields = Inr body" "rt_twoFactor R = Some m"
      "VerifyLoginChallengeAt (lib_unmarshalChallenge L) (tm_challengeKey m)
        (str_field body ''challenge_token'') (clock e 0) = Inr challenge"
      "fst (fst (allowLoginAttempt (\<lambda>i. clock e (1 + i)) (twoFactorLimiter s)
        (secondFactorLimitKeys (vc_UserID challenge) (requestIP req))))"
      "find (\<lambda>u. u_ID u = vc_UserID challenge) (users (contents (db s))) = Some user"
      "enabled_row (vc_UserID challenge) (contents (db s)) = Some setting"
      "verifyLoginCode L m setting (str_field body ''code'') (clock e 0) = Inr v"
      "c = session_cookie L R (clock e 4) (u_ID user)"
    and c0: "contents c0 = contents (db s)" "ConsumeLoginSecondFactor ?p c0 = (Inr (), db s')"
  have "login_verdict ?p (contents (db s)) = None"
    and "contents (db s') = consume_effect ?p (contents (db s))"
    using ConsumeLoginSecondFactor_success [OF c0(2)] c0(1) by (simp_all add: login_verdict_def)
  note g = f this
  show "\<exists>body m challenge user setting v. readLoginJSON L req second_factor_fields = Inr body \<and>
      rt_twoFactor R = Some m \<and>
      VerifyLoginChallengeAt (lib_unmarshalChallenge L) (tm_challengeKey m)
        (str_field body ''challenge_token'') (clock e 0) = Inr challenge \<and>
      fst (fst (allowLoginAttempt (\<lambda>i. clock e (1 + i)) (twoFactorLimiter s)
        (secondFactorLimitKeys (vc_UserID challenge) (requestIP req)))) \<and>
      find (\<lambda>u. u_ID u = vc_UserID challenge) (users (contents (db s))) = Some user \<and>
      enabled_row (vc_UserID challenge) (contents (db s)) = Some setting \<and>
      verifyLoginCode L m setting (str_field body ''code'') (clock e 0) = Inr v \<and>
      login_verdict (spent_params L e challenge (u_ID user) v (clock e 0)) (contents (db s)) = None \<and>
      contents (db s') =
        consume_effect (spent_params L e challenge (u_ID user) v (clock e 0)) (contents (db s)) \<and>
      c = session_cookie L R (clock e 4) (u_ID user)"
    by (intro exI conjI) (rule g)+
qed

section \<open>One session per challenge\<close>

text \<open>The identifier of the challenge a request presents, when its token verifies.\<close>

definition presented :: "libs \<Rightarrow> router \<Rightarrow> env \<Rightarrow> request \<Rightarrow> string option" where
  "presented L R e req =
     (case (readLoginJSON L req second_factor_fields, rt_twoFactor R) of
        (Inr body, Some m) \<Rightarrow>
          (case VerifyLoginChallengeAt (lib_unmarshalChallenge L) (tm_challengeKey m)
              (str_field body ''challenge_token'') (clock e 0) of
             Inr challenge \<Rightarrow> Some (vc_JTI challenge) | Inl _ \<Rightarrow> None)
      | _ \<Rightarrow> None)"

lemma session_consumes:
  assumes "rs_cookie (fst (handleLoginTwoFactor L R e req s)) \<noteq> None"
  shows "\<exists>p c0. presented L R e req = Some (cp_ChallengeJTI p) \<and> contents c0 = contents (db s) \<and>
    apply_op (OpConsumeLogin p) c0 = (Inr (), db (snd (handleLoginTwoFactor L R e req s)))"
proof -
  obtain resp s' where h: "handleLoginTwoFactor L R e req s = (resp, s')" by (metis surj_pair)
  with assms obtain c where "rs_cookie resp = Some c" by auto
  from handleLoginTwoFactor_cookie [OF h this] obtain body m challenge v and user :: User and c0 :: "tables conn" where
    f: "readLoginJSON L req second_factor_fields = Inr body" "rt_twoFactor R = Some m"
      "VerifyLoginChallengeAt (lib_unmarshalChallenge L) (tm_challengeKey m)
        (str_field body ''challenge_token'') (clock e 0) = Inr challenge"
    and c0: "contents c0 = contents (db s)"
      "ConsumeLoginSecondFactor (spent_params L e challenge (u_ID user) v (clock e 0)) c0 = (Inr (), db s')"
    by blast
  have "presented L R e req = Some (vc_JTI challenge)" using f by (simp add: presented_def)
  then show ?thesis using c0 h
    by (intro exI [of _ "spent_params L e challenge (u_ID user) v (clock e 0)"] exI [of _ c0])
      (simp add: spent_params_def)
qed

lemma run_ops_spent:
  assumes "challenge_spent jti (contents s)" and "\<forall>y \<in> set ys. \<not> creates_challenge jti y"
  shows "challenge_spent jti (contents (run_ops ys s))"
  by (rule challenge.spent_after_run [OF assms])

lemma session_once:
  assumes wf: "wf_tables (contents (db s))"
    and first: "rs_cookie (fst (handleLoginTwoFactor L R e req s)) \<noteq> None"
    and ys: "\<forall>y \<in> set ys. \<not> creates_challenge jti y"
    and j: "presented L R e req = Some jti" "presented L2 R2 e2 req2 = Some jti"
    and db: "db s2 = run_ops ys (db (snd (handleLoginTwoFactor L R e req s)))"
  shows "rs_cookie (fst (handleLoginTwoFactor L2 R2 e2 req2 s2)) = None"
proof (rule ccontr)
  assume "rs_cookie (fst (handleLoginTwoFactor L2 R2 e2 req2 s2)) \<noteq> None"
  from session_consumes [OF this] j(2) obtain q d0 where q: "cp_ChallengeJTI q = jti"
    "contents d0 = contents (db s2)" "fst (apply_op (OpConsumeLogin q) d0) = Inr ()"
    by (metis fst_conv option.inject)
  from session_consumes [OF first] j(1) obtain p c0 where p: "cp_ChallengeJTI p = jti"
    "contents c0 = contents (db s)"
    "apply_op (OpConsumeLogin p) c0 = (Inr (), db (snd (handleLoginTwoFactor L R e req s)))"
    by (metis option.inject)
  have "challenge_spent jti (contents (db (snd (handleLoginTwoFactor L R e req s))))"
    using p wf by (intro challenge.spends [of jti "OpConsumeLogin p" c0]) (auto simp: consumes_challenge_def)
  then have "challenge_spent jti (contents (db s2))" unfolding db using ys by (rule run_ops_spent)
  then have "\<exists>e. fst (apply_op (OpConsumeLogin q) d0) = Inl e"
    using q by (intro challenge.refuses [of jti]) (auto simp: consumes_challenge_def)
  with q(3) show False by simp
qed

section \<open>Logging in with two factors\<close>

lemma two_steps:
  assumes m: "rt_twoFactor R = Some m"
    and body1: "readLoginJSON L req1 login_fields = Inr b1"
    and allowed1: "fst (fst (allowLoginAttempt (clock e1) (passwordLimiter s)
      (passwordLoginLimitKeys L (str_field b1 ''username'') (requestIP req1))))"
    and db: "db s = calm T"
    and user: "find (\<lambda>u. u_Username u = str_field b1 ''username'') (users T) = Some user"
      "find (\<lambda>u. u_ID u = u_ID user) (users T) = Some user" "u_ID user \<noteq> []"
    and pw: "lib_checkPassword L (u_PasswordHash user) (str_field b1 ''password'')"
    and setting: "enabled_row (u_ID user) T = Some setting" "tf_ConfigurationID setting \<noteq> []"
    and rnd: "random e1 0 \<noteq> []" "b64_encode (random e1 0) \<notin> lc_JTI ` set (login_challenges T)"
    and json: "lib_unmarshalChallenge L (lib_marshalChallenge L
        (issued_payload (clock e1 6) (random e1 0) (u_ID user) (tf_ConfigurationID setting))) =
      Some (issued_payload (clock e1 6) (random e1 0) (u_ID user) (tf_ConfigurationID setting))"
    and time1: "clock e1 6 \<le> clock e1 7" "clock e1 7 \<le> clock e1 6 + 5 * minute - second"
    and token: "IssueLoginChallenge (lib_marshalChallenge L) (tm_challengeKey m) (clock e1 6) (random e1 0)
      (u_ID user) (tf_ConfigurationID setting) = Inr token"
    and body2: "readLoginJSON L req2 second_factor_fields = Inr b2" "str_field b2 ''challenge_token'' = token"
    and time2: "clock e1 6 \<le> clock e2 0" "clock e2 0 \<le> clock e1 6 + 5 * minute - second"
    and allowed2: "fst (fst (allowLoginAttempt (\<lambda>i. clock e2 (1 + i)) (twoFactorLimiter s)
      (secondFactorLimitKeys (u_ID user) (requestIP req2))))"
    and code: "verifyLoginCode L m setting (str_field b2 ''code'') (clock e2 0) = Inr v"
    and factor: "case vl_totpCounter v of
        Some c \<Rightarrow> counter_fresh (u_ID user) (tf_ConfigurationID setting) c T
      | None \<Rightarrow> code_unused (u_ID user) (vl_recoveryHash v) T"
    and audit: "uuid e2 0 \<notin> ae_ID ` set (audit_events T)"
  shows "rs_status (fst (handleLogin L R e1 req1 s)) = 202 \<and>
    fst (handleLoginTwoFactor L R e2 req2 (snd (handleLogin L R e1 req1 s))) = finishLogin L R (clock e2 4) user \<and>
    presented L R e2 req2 = Some (b64_encode (random e1 0)) \<and>
    contents (db (snd (handleLogin L R e1 req1 s))) = create_effect (stamped_challenge (clock e1 8)
      (issued_row (clock e1 6) (random e1 0) (u_ID user) (tf_ConfigurationID setting))) T"
proof -
  let ?ch = "\<lparr>vc_JTI = b64_encode (random e1 0), vc_UserID = u_ID user,
    vc_ConfigurationID = tf_ConfigurationID setting, vc_IssuedAt = from_unix (unix_seconds (clock e1 6)),
    vc_ExpiresAt = from_unix (unix_seconds (clock e1 6 + 5 * minute))\<rparr>"
  let ?row = "stamped_challenge (clock e1 8)
    (issued_row (clock e1 6) (random e1 0) (u_ID user) (tf_ConfigurationID setting))"
  let ?T = "create_effect ?row T"
  note verify = verify_issued [where unmarshal = "lib_unmarshalChallenge L" and
      marshal = "lib_marshalChallenge L", OF user(3) setting(2) rnd(1) json token]
  obtain s1 where s1: "handleLogin L R e1 req1 s =
      (writeJSON 202 (json_map [(''two_factor_required'', JBool True), (''challenge_token'', JString token),
         (''expires_in'', json_int 300)]), s1)"
    "db s1 = calm ?T" "twoFactorLimiter s1 = twoFactorLimiter s"
    using first_step_works [OF m body1 allowed1 db user(1) pw setting(1) token verify [OF time1] rnd(2)] by blast
  let ?p = "spent_params L e2 ?ch (u_ID user) v (clock e2 0)"
  have "\<not> from_unix (unix_seconds (clock e1 6 + 5 * minute)) < clock e2 0" using time2(2) by (rule five_minutes)
  then have live: "challenge_live ?p ?T"
    by (auto simp: challenge_live_def spent_params_def create_effect_def issued_row_def)
  have rows: "user_two_factor ?T = user_two_factor T" "two_factor_recovery_codes ?T = two_factor_recovery_codes T"
    "audit_events ?T = audit_events T" "users ?T = users T" by (simp_all add: create_effect_def)
  have "enabled_row (u_ID user) ?T = Some setting" using setting(1) by (simp add: enabled_row_def rows)
  then have cur: "config_current (cp_UserID ?p) (cp_ConfigurationID ?p) ?T"
    by (simp add: config_current_def spent_params_def)
  have fac: "factor_valid ?p ?T" using factor
    by (auto simp: factor_valid_def spent_params_def counter_fresh_def code_unused_def rows split: option.splits)
  have "audit_fresh (cp_Audit ?p) ?T" using audit
    by (simp add: audit_fresh_def rows spent_params_def loginAuditEvent_def)
  then have "login_verdict ?p ?T = None"
    using live cur fac verified_one_factor [OF code, of e2 ?ch "u_ID user"] by (simp add: login_verdict_def)
  then obtain s2 where "handleLoginTwoFactor L R e2 req2 s1 = (finishLogin L R (clock e2 4) user, s2)"
    using second_step_works [OF m body2(1), of e2 ?ch s1 ?T user setting v] verify [OF time2] body2(2)
      allowed2 s1 user setting rows \<open>enabled_row (u_ID user) ?T = Some setting\<close> code by auto
  moreover have "presented L R e2 req2 = Some (b64_encode (random e1 0))"
    using body2 m verify [OF time2] by (simp add: presented_def)
  ultimately show ?thesis using s1 by simp
qed

section \<open>A sample login, for the witnesses\<close>

definition sample_token :: string where
  "sample_token = projr (IssueLoginChallenge (\<lambda>p. ''payload'') ''ck'' 0 ''0123456789abcdef'' ''u1'' ''cfg'')"

definition sample_libs :: libs where
  "sample_libs = \<lparr>lib_lex = (\<lambda>b. if b = ''first''
       then (tokens_of (JObject [(''username'', JString ''admin''), (''password'', JString ''pw'')]), True)
       else (tokens_of (JObject [(''challenge_token'', JString sample_token), (''code'', JString ''AAAA-BBBB'')]), True)),
     lib_mediaType = Some, lib_lower = (\<lambda>s. s), lib_upper = (\<lambda>s. s), lib_checkPassword = (\<lambda>h p. p = ''pw''),
     lib_formatNano = (\<lambda>t. ''t''), lib_parseNano = (\<lambda>s. None), lib_formatTime = (\<lambda>t. ''t''),
     lib_marshal = (\<lambda>j. ''{}''), lib_marshalChallenge = (\<lambda>p. ''payload''),
     lib_unmarshalChallenge = (\<lambda>s. Some (issued_payload 0 ''0123456789abcdef'' ''u1'' ''cfg''))\<rparr>"

definition sample_manager :: TwoFactorManager where
  "sample_manager = \<lparr>tm_seal = (\<lambda>n p. p), tm_open = (\<lambda>n c. None), tm_recoveryKey = ''rk'', tm_challengeKey = ''ck''\<rparr>"

definition sample_router :: router where
  "sample_router = \<lparr>rt_twoFactor = Some sample_manager, rt_secret = ''sk'', rt_ttl = hour, rt_fsMaxUpload = 100\<rparr>"

definition sample_env :: "instant \<Rightarrow> env" where
  "sample_env t = \<lparr>tick = (\<lambda>_. \<lparr>at_time = t, rounds = (\<lambda>_. [])\<rparr>), uuid = (\<lambda>_. ''a1''),
     random = (\<lambda>_. ''0123456789abcdef'')\<rparr>"

definition sample_request :: "string \<Rightarrow> request" where
  "sample_request b = \<lparr>rq_method = ''POST'', rq_path = ''/api/login'', rq_query = [], rq_remoteAddr = ''10.0.0.1:99'',
     rq_contentType = ''application/json'', rq_contentLength = 9, rq_cookie = None, rq_body = b, rq_broken = False\<rparr>"

definition fresh_limiter :: FailureLimiter where
  "fresh_limiter = \<lparr>entries = [], maxFailures = 5, window = 600, blockFor = 900, maxEntries = 5000\<rparr>"

definition sample_user2 :: User where
  "sample_user2 = \<lparr>u_ID = ''u1'', u_Username = ''admin'', u_PasswordHash = ''h'', u_CreatedAt = 1, u_UpdatedAt = 1\<rparr>"

definition sample_setting2 :: UserTwoFactor where
  "sample_setting2 = \<lparr>tf_UserID = ''u1'', tf_ConfigurationID = ''cfg'', tf_SecretCiphertext = ''x'',
     tf_SetupExpiresAt = None, tf_EnabledAt = Some 1, tf_LastTOTPCounter = Some 1, tf_CreatedAt = 1, tf_UpdatedAt = 1\<rparr>"

definition sample_tables :: tables where
  "sample_tables = empty_tables\<lparr>users := [sample_user2], user_two_factor := [sample_setting2],
     two_factor_recovery_codes := [\<lparr>rc_ID = ''r1'', rc_UserID = ''u1'',
       rc_CodeHash = recoveryCodeHash (\<lambda>s. s) ''rk'' ''u1'' ''AAAA-BBBB'', rc_UsedAt = None, rc_CreatedAt = 1\<rparr>]\<rparr>"

definition sample_server :: server where
  "sample_server = \<lparr>db = calm sample_tables, passwordLimiter = fresh_limiter, twoFactorLimiter = fresh_limiter,
     managementLimiter = fresh_limiter\<rparr>"

lemmas sample_world = sample_libs_def sample_manager_def sample_router_def sample_env_def sample_request_def
  fresh_limiter_def sample_user2_def sample_setting2_def sample_tables_def sample_server_def empty_tables_def

lemma allow_unknown_keys: "entries l = [] \<Longrightarrow> allowLoginAttempt clk l ks = ((True, 0), l)"
proof -
  assume "entries l = []"
  then have "allow_loop Allow clk i ks l True 0 = ((True, 0), l)" for i
    by (induction ks arbitrary: i) (simp_all add: Allow_def)
  then show ?thesis by (simp add: allowLoginAttempt_def)
qed

lemma readLoginJSON_object:
  assumes "lib_mediaType L (rq_contentType req) = Some ''application/json''"
    and "length (rq_body req) \<le> maxLoginJSONBytes" and "\<not> rq_broken req"
    and "lib_lex L (rq_body req) = (tokens_of v, True)" and "no_duplicates v"
    and "decode_struct True v dest = Some st"
  shows "readLoginJSON L req dest = Inr st"
  using assms validate_tokens [of v "[]" True] first_value_tokens [of v "[]"]
  by (simp add: readLoginJSON_def)

lemma sample_body1:
  "readLoginJSON sample_libs (sample_request ''first'') login_fields =
     Inr [(''username'', FString ''admin''), (''password'', FString ''pw'')]"
  by (rule readLoginJSON_object [where v = "JObject [(''username'', JString ''admin''), (''password'', JString ''pw'')]"])
    (simp_all add: sample_world maxLoginJSONBytes_def login_fields_def decode_struct_def target_field_def
      assign_field_def)

lemma sample_body2:
  "readLoginJSON sample_libs (sample_request ''second'') second_factor_fields =
     Inr [(''challenge_token'', FString sample_token), (''code'', FString ''AAAA-BBBB'')]"
  by (rule readLoginJSON_object
      [where v = "JObject [(''challenge_token'', JString sample_token), (''code'', JString ''AAAA-BBBB'')]"])
    (simp_all add: sample_world maxLoginJSONBytes_def second_factor_fields_def decode_struct_def target_field_def
      assign_field_def)

lemma sample_issue:
  "IssueLoginChallenge (\<lambda>p. ''payload'') ''ck'' 0 ''0123456789abcdef'' ''u1'' ''cfg'' = Inr sample_token"
  by (simp add: sample_token_def IssueLoginChallenge_def Let_def)

lemma sample_code_checked:
  "verifyLoginCode sample_libs sample_manager sample_setting2 ''AAAA-BBBB'' t =
     Inr \<lparr>vl_method = ''recovery_code'', vl_totpCounter = None,
       vl_recoveryHash = recoveryCodeHash (\<lambda>s. s) ''rk'' ''u1'' ''AAAA-BBBB''\<rparr>"
proof -
  have "trimSpace ''AAAA-BBBB'' = ''AAAA-BBBB''" by code_simp
  then show ?thesis by (simp add: verifyLoginCode_def RecoveryCodeHash_def sample_libs_def sample_manager_def
      sample_setting2_def Let_def)
qed

lemma sample_wf: "wf_tables sample_tables"
  by (simp add: wf_tables_def sample_world)

lemmas sample_steps = two_steps [of sample_router sample_manager sample_libs "sample_request ''first''"
  "[(''username'', FString ''admin''), (''password'', FString ''pw'')]" "sample_env 0" sample_server sample_tables
  sample_user2 sample_setting2 sample_token "sample_request ''second''"
  "[(''challenge_token'', FString sample_token), (''code'', FString ''AAAA-BBBB'')]" "sample_env (60 * second)"
  "\<lparr>vl_method = ''recovery_code'', vl_totpCounter = None,
       vl_recoveryHash = recoveryCodeHash (\<lambda>s. s) ''rk'' ''u1'' ''AAAA-BBBB''\<rparr>"]

text \<open>The facts about the sample world that its steps need.\<close>

lemma sample_facts:
  "rt_twoFactor sample_router = Some sample_manager"
  "\<And>clk ks. fst (fst (allowLoginAttempt clk (passwordLimiter sample_server) ks))"
  "\<And>clk ks. fst (fst (allowLoginAttempt clk (twoFactorLimiter sample_server) ks))"
  "db sample_server = calm sample_tables"
  "find (\<lambda>u. u_Username u = str_field [(''username'', FString ''admin''), (''password'', FString ''pw'')] ''username'')
     (users sample_tables) = Some sample_user2"
  "find (\<lambda>u. u_ID u = u_ID sample_user2) (users sample_tables) = Some sample_user2"
  "u_ID sample_user2 \<noteq> []"
  "lib_checkPassword sample_libs (u_PasswordHash sample_user2)
     (str_field [(''username'', FString ''admin''), (''password'', FString ''pw'')] ''password'')"
  "enabled_row (u_ID sample_user2) sample_tables = Some sample_setting2"
  "tf_ConfigurationID sample_setting2 \<noteq> []"
  "random (sample_env 0) 0 \<noteq> []"
  "b64_encode (random (sample_env 0) 0) \<notin> lc_JTI ` set (login_challenges sample_tables)"
  "lib_unmarshalChallenge sample_libs (lib_marshalChallenge sample_libs (issued_payload 0
      (random (sample_env 0) 0) (u_ID sample_user2) (tf_ConfigurationID sample_setting2))) =
    Some (issued_payload 0 (random (sample_env 0) 0) (u_ID sample_user2)
      (tf_ConfigurationID sample_setting2))"
  "\<And>t i j. clock (sample_env t) i \<le> clock (sample_env t) j"
  "\<And>t i. clock (sample_env t) i = t"
  "IssueLoginChallenge (lib_marshalChallenge sample_libs) (tm_challengeKey sample_manager) 0
     (random (sample_env 0) 0) (u_ID sample_user2) (tf_ConfigurationID sample_setting2) = Inr sample_token"
  "str_field [(''challenge_token'', FString sample_token), (''code'', FString ''AAAA-BBBB'')] ''challenge_token'' =
     sample_token"
  "str_field [(''challenge_token'', FString sample_token), (''code'', FString ''AAAA-BBBB'')] ''code'' = ''AAAA-BBBB''"
  "code_unused (u_ID sample_user2) (recoveryCodeHash (\<lambda>s. s) ''rk'' ''u1'' ''AAAA-BBBB'') sample_tables"
  "\<And>n. uuid (sample_env t) n \<notin> ae_ID ` set (audit_events sample_tables)"
  by (simp_all add: sample_world allow_unknown_keys str_field_def enabled_row_def clock_def sample_issue
      code_unused_def)

lemma sample_login_works:
  "rs_status (fst (handleLogin sample_libs sample_router (sample_env 0) (sample_request ''first'') sample_server)) = 202 \<and>
   fst (handleLoginTwoFactor sample_libs sample_router (sample_env (60 * second)) (sample_request ''second'')
     (snd (handleLogin sample_libs sample_router (sample_env 0) (sample_request ''first'') sample_server))) =
    finishLogin sample_libs sample_router (clock (sample_env (60 * second)) 4) sample_user2 \<and>
   presented sample_libs sample_router (sample_env (60 * second)) (sample_request ''second'') =
     Some (b64_encode (random (sample_env 0) 0)) \<and>
   contents (db (snd (handleLogin sample_libs sample_router (sample_env 0) (sample_request ''first'') sample_server))) =
     create_effect (stamped_challenge (clock (sample_env 0) 8) (issued_row (clock (sample_env 0) 6)
       (random (sample_env 0) 0) (u_ID sample_user2) (tf_ConfigurationID sample_setting2))) sample_tables"
  by (rule sample_steps) (simp_all add: sample_facts sample_body1 sample_body2 sample_code_checked
      second_def minute_def)

section \<open>Properties of the whole login\<close>

text \<open>C17: A user with two factors can log in: when the database answers, the limiters allow both
  requests, the password is right, the challenge comes back within five minutes less a second and
  the code is an unspent factor, the first step answers 202 and the second one 200 with the session
  of that user.\<close>

theorem two_factor_login_succeeds:
  assumes "rt_twoFactor R = Some m"
    and "readLoginJSON L req1 login_fields = Inr b1"
    and "fst (fst (allowLoginAttempt (clock e1) (passwordLimiter s)
      (passwordLoginLimitKeys L (str_field b1 ''username'') (requestIP req1))))"
    and "db s = calm T"
    and "find (\<lambda>u. u_Username u = str_field b1 ''username'') (users T) = Some user"
    and "find (\<lambda>u. u_ID u = u_ID user) (users T) = Some user" and "u_ID user \<noteq> []"
    and "lib_checkPassword L (u_PasswordHash user) (str_field b1 ''password'')"
    and "enabled_row (u_ID user) T = Some setting" and "tf_ConfigurationID setting \<noteq> []"
    and "random e1 0 \<noteq> []" and "b64_encode (random e1 0) \<notin> lc_JTI ` set (login_challenges T)"
    and "lib_unmarshalChallenge L (lib_marshalChallenge L
        (issued_payload (clock e1 6) (random e1 0) (u_ID user) (tf_ConfigurationID setting))) =
      Some (issued_payload (clock e1 6) (random e1 0) (u_ID user) (tf_ConfigurationID setting))"
    and "clock e1 6 \<le> clock e1 7" and "clock e1 7 \<le> clock e1 6 + 5 * minute - second"
    and "IssueLoginChallenge (lib_marshalChallenge L) (tm_challengeKey m) (clock e1 6) (random e1 0)
      (u_ID user) (tf_ConfigurationID setting) = Inr token"
    and "readLoginJSON L req2 second_factor_fields = Inr b2" and "str_field b2 ''challenge_token'' = token"
    and "clock e1 6 \<le> clock e2 0" and "clock e2 0 \<le> clock e1 6 + 5 * minute - second"
    and "fst (fst (allowLoginAttempt (\<lambda>i. clock e2 (1 + i)) (twoFactorLimiter s)
      (secondFactorLimitKeys (u_ID user) (requestIP req2))))"
    and "verifyLoginCode L m setting (str_field b2 ''code'') (clock e2 0) = Inr v"
    and "case vl_totpCounter v of
        Some c \<Rightarrow> counter_fresh (u_ID user) (tf_ConfigurationID setting) c T
      | None \<Rightarrow> code_unused (u_ID user) (vl_recoveryHash v) T"
    and "uuid e2 0 \<notin> ae_ID ` set (audit_events T)"
  shows "rs_status (fst (handleLogin L R e1 req1 s)) = 202 \<and>
    fst (handleLoginTwoFactor L R e2 req2 (snd (handleLogin L R e1 req1 s))) =
      (writeJSON 200 (userResponse user))\<lparr>rs_cookie := Some (session_cookie L R (clock e2 4) (u_ID user))\<rparr>"
proof -
  have "finishLogin L R (clock e2 4) user =
      (writeJSON 200 (userResponse user))\<lparr>rs_cookie := Some (session_cookie L R (clock e2 4) (u_ID user))\<rparr>"
    by (simp add: finishLogin_def session_cookie_def split: prod.splits)
  with two_steps [OF assms] show ?thesis by simp
qed

theorem two_factor_login_succeeds_witness:
  "rs_status (fst (handleLogin sample_libs sample_router (sample_env 0) (sample_request ''first'') sample_server)) = 202 \<and>
   fst (handleLoginTwoFactor sample_libs sample_router (sample_env (60 * second)) (sample_request ''second'')
     (snd (handleLogin sample_libs sample_router (sample_env 0) (sample_request ''first'') sample_server))) =
    (writeJSON 200 (userResponse sample_user2))\<lparr>rs_cookie :=
      Some (session_cookie sample_libs sample_router (clock (sample_env (60 * second)) 4) (u_ID sample_user2))\<rparr>"
  by (rule two_factor_login_succeeds [of sample_router sample_manager sample_libs "sample_request ''first''"
      "[(''username'', FString ''admin''), (''password'', FString ''pw'')]" "sample_env 0" sample_server sample_tables
      sample_user2 sample_setting2 sample_token "sample_request ''second''"
      "[(''challenge_token'', FString sample_token), (''code'', FString ''AAAA-BBBB'')]" "sample_env (60 * second)"
      "\<lparr>vl_method = ''recovery_code'', vl_totpCounter = None,
           vl_recoveryHash = recoveryCodeHash (\<lambda>s. s) ''rk'' ''u1'' ''AAAA-BBBB''\<rparr>"])
    (simp_all add: sample_facts sample_body1 sample_body2 sample_code_checked second_def minute_def)

text \<open>C18: A challenge gives one session: once the second login step has answered a challenge with a
  session, no request that presents the same challenge gets one, with any code, in any later state
  that store operations lead to, whatever fails, unless a challenge with that identifier is created
  anew.\<close>

theorem challenge_gives_one_session:
  assumes "wf_tables (contents (db s))"
    and "rs_cookie (fst (handleLoginTwoFactor L R e req s)) \<noteq> None"
    and "\<forall>y \<in> set ys. \<not> creates_challenge jti y"
    and "presented L R e req = Some jti" and "presented L2 R2 e2 req2 = Some jti"
    and "db s2 = run_ops ys (db (snd (handleLoginTwoFactor L R e req s)))"
  shows "rs_cookie (fst (handleLoginTwoFactor L2 R2 e2 req2 s2)) = None"
  using assms by (rule session_once)

theorem challenge_gives_one_session_witness:
  "let s1 = snd (handleLogin sample_libs sample_router (sample_env 0) (sample_request ''first'') sample_server);
       s2 = snd (handleLoginTwoFactor sample_libs sample_router (sample_env (60 * second)) (sample_request ''second'') s1)
   in rs_cookie (fst (handleLoginTwoFactor sample_libs sample_router (sample_env (60 * second))
        (sample_request ''second'') s2)) = None"
  unfolding Let_def
proof (rule challenge_gives_one_session [where ys = "[]" and jti = "b64_encode (random (sample_env 0) 0)"])
  let ?s1 = "snd (handleLogin sample_libs sample_router (sample_env 0) (sample_request ''first'') sample_server)"
  have "CreateLoginChallenge (clock (sample_env 0) 8) (issued_row (clock (sample_env 0) 6) (random (sample_env 0) 0)
      (u_ID sample_user2) (tf_ConfigurationID sample_setting2)) (calm sample_tables) =
    (Inr (), calm (contents (db ?s1)))"
    using sample_login_works
    by (subst CreateLoginChallenge_calm) (simp_all add: issued_row_def sample_facts, simp add: sample_world)
  then have "contents (db ?s1) = contents (run_ops [OpCreateLoginChallenge (clock (sample_env 0) 8)
      (issued_row (clock (sample_env 0) 6) (random (sample_env 0) 0) (u_ID sample_user2)
        (tf_ConfigurationID sample_setting2))] (calm sample_tables))" by simp
  moreover have "wf_tables \<dots>" by (rule runs_preserve) (auto intro: wf_keeps_stmts simp: sample_wf simp del: op_stmts.simps)
  ultimately show "wf_tables (contents (db ?s1))" by simp
qed (use sample_login_works in \<open>simp_all add: finishLogin_cookie\<close>)

end
