(* ===== verification/HttpClaims.thy ===== *)
theory HttpClaims
  imports LoginClaims
begin

text \<open>
  Properties of what the handlers share: the scan for duplicate fields, the types of decoded bodies,
  the refusal of blocked clients and the time they are told to wait.
\<close>

section \<open>Bodies\<close>

text \<open>C19: The scan for duplicate fields decides the reference predicate: a body whose tokens are those
  of a JSON value is refused as having duplicate fields exactly when some object in it, at any
  depth, names a field twice; and it is accepted exactly when it has none, nothing follows the value
  and the input ends cleanly.\<close>

theorem duplicate_scan_is_reference:
  "validateNoDuplicateJSONFields (tokens_of v @ rest, clean) =
     (if \<not> no_duplicates v then Some DuplicateField
      else if rest \<noteq> [] then Some SecondValue
      else if clean then None else Some TokenError)"
  by (rule validate_tokens)

text \<open>C20: The scan always returns a verdict: on every list of tokens, well formed or not, the recursion
  ends before the bound on its depth, twice the number of tokens and two, is reached.\<close>

theorem duplicate_scan_terminates:
  "validateNoDuplicateJSONFields (ts, clean) \<noteq> Some OutOfFuel"
proof -
  have "scanJSONValue (scan_fuel ts) ts \<noteq> Inl OutOfFuel"
    by (rule scan_enough_fuel(1)) (simp add: scan_fuel_def)
  then show ?thesis
    by (auto simp: validateNoDuplicateJSONFields_def split: sum.splits list.splits if_splits)
qed

text \<open>A decoded body has the type of the struct it was decoded into: the same fields in the same
  order, strings where strings were declared and numbers where numbers were, for both readers of
  bodies and whatever the client sent.\<close>

theorem decoded_body_typed:
  "(case readLoginJSON L req dest of Inl _ \<Rightarrow> True | Inr st \<Rightarrow> struct_type st = struct_type dest) \<and>
   (case readJSON L req dest of Inl _ \<Rightarrow> True | Inr st \<Rightarrow> struct_type st = struct_type dest)"
  by (auto simp: readLoginJSON_def readJSON_def bind_eq_Some_conv dest: decode_struct_type
      split: option.splits if_splits sum.splits prod.splits)

section \<open>Blocked clients\<close>

lemma fold_max_ge: "d \<le> fold max xs (d :: int)"
  by (induction xs arbitrary: d) (simp, metis fold_simps(2) max.coboundedI2 order_trans max.cobounded2)

lemma fold_max_member: "x \<in> set xs \<Longrightarrow> x \<le> fold max xs (d :: int)"
  by (induction xs arbitrary: d) (auto intro: order_trans [OF _ fold_max_ge])

lemma waits_member:
  "j < length ks \<Longrightarrow> retry (clk (i + j)) l (ks ! j) = Some d \<Longrightarrow> d \<in> set (waits retry clk i ks l)"
proof (induction ks arbitrary: i j)
  case Nil
  then show ?case by simp
next
  case (Cons k ks)
  show ?case
  proof (cases j)
    case 0
    with Cons.prems show ?thesis by simp
  next
    case (Suc n)
    with Cons.prems Cons.IH [of n "Suc i"] show ?thesis by (auto split: option.splits)
  qed
qed

text \<open>A client with a blocked key is refused before its password is looked at: the first login step
  answers 429 without touching the database, and the whole seconds in its Retry-After header cover
  the time every blocked key still has to wait.\<close>

theorem blocked_login_refused:
  assumes "mono (clock e)" and "readLoginJSON L req login_fields = Inr body"
    and "ks = passwordLoginLimitKeys L (str_field body ''username'') (requestIP req)"
    and "j < length ks" and "retry_after (clock e j) (passwordLimiter s) (ks ! j) = Some d"
    and "fold max (waits retry_after (clock e) 0 ks (passwordLimiter s)) 0 \<le> max_int64 - second"
  shows "\<exists>n. fst (handleLogin L R e req s) =
      (writeError 429 ''too_many_attempts'' ''too many login attempts'')\<lparr>rs_retryAfter := Some (formatInt n)\<rparr> \<and>
    d \<le> n * second \<and> db (snd (handleLogin L R e req s)) = db s"
proof -
  let ?w = "waits retry_after (clock e) 0 ks (passwordLimiter s)"
  have d: "d \<in> set ?w" using waits_member [of j ks retry_after "clock e" 0] assms(4,5) by simp
  have "?w \<noteq> []" using d by auto
  then obtain l where al: "allowLoginAttempt (clock e) (passwordLimiter s) ks = ((False, fold max ?w 0), l)"
    using lim.allow_loop_exact [OF assms(1), of 0 ks "passwordLimiter s" True 0]
    by (cases "allowLoginAttempt (clock e) (passwordLimiter s) ks") (simp add: allowLoginAttempt_def)
  have "d \<le> fold max ?w 0" using d by (rule fold_max_member)
  also have "\<dots> \<le> retry_seconds (fold max ?w 0) * second"
    using fold_max_ge assms(6) by (intro retry_seconds_bounds)
  finally show ?thesis using al assms(2,3)
    by (intro exI [of _ "retry_seconds (fold max ?w 0)"])
      (simp add: handleLogin_def Let_def writeRateLimit_def)
qed

definition blocked_server :: server where
  "blocked_server = sample_server\<lparr>passwordLimiter := fresh_limiter\<lparr>entries :=
     [(''source|10.0.0.1'', \<lparr>Failures = 5, WindowStart = 0, BlockedUntil = 900, LastSeen = 0\<rparr>)]\<rparr>\<rparr>"

lemma sample_keys:
  "passwordLoginLimitKeys sample_libs ''admin'' (requestIP (sample_request ''first'')) =
     [''account|admin'', ''source|10.0.0.1'', ''account_source|admin|10.0.0.1'']"
proof -
  have "trimSpace ''admin'' = ''admin''" by code_simp
  moreover have "requestIP (sample_request ''first'') = ''10.0.0.1''" by code_simp
  ultimately show ?thesis by (simp add: passwordLoginLimitKeys_def toLower_def ascii_def lower_byte_def Let_def)
qed

theorem blocked_login_refused_witness:
  "\<exists>n. fst (handleLogin sample_libs sample_router (sample_env 20) (sample_request ''first'') blocked_server) =
      (writeError 429 ''too_many_attempts'' ''too many login attempts'')\<lparr>rs_retryAfter := Some (formatInt n)\<rparr> \<and>
    880 \<le> n * second \<and>
    db (snd (handleLogin sample_libs sample_router (sample_env 20) (sample_request ''first'') blocked_server)) =
      db blocked_server"
proof (rule blocked_login_refused [where j = 1 and ks = "[''account|admin'', ''source|10.0.0.1'', ''account_source|admin|10.0.0.1'']"])
  show "[''account|admin'', ''source|10.0.0.1'', ''account_source|admin|10.0.0.1''] =
      passwordLoginLimitKeys sample_libs (str_field [(''username'', FString ''admin''), (''password'', FString ''pw'')] ''username'')
        (requestIP (sample_request ''first''))"
    by (simp add: str_field_def sample_keys)
qed (simp_all add: sample_body1 mono_def clock_def sample_env_def blocked_server_def sample_server_def
    fresh_limiter_def retry_after_def view_def entry_view_def time_add_def time_sub_def min_int64_def
    max_int64_def second_def)

end
