(* ===== verification/ManagementApi.thy ===== *)
theory ManagementApi
  imports LoginApi
begin

text \<open>
  The handlers of \<^verbatim>\<open>httpapi/router_2fa.go\<close> that manage a user's second factor. Each of them runs
  under the locks of its limiter keys (theory LockOrder), so its attempts are counted one request
  after the other.
\<close>

section \<open>Attempts\<close>

text \<open>The refusal of a blocked request, or nothing.\<close>

definition managementAttempt :: "env \<Rightarrow> string list \<Rightarrow> server \<Rightarrow> response option \<times> server" where
  "managementAttempt e keys s =
     (case allowLoginAttempt (\<lambda>i. clock e (1 + i)) (managementLimiter s) keys of
        ((allowed, retryAfter), l) \<Rightarrow>
          (if allowed then None else Some (writeRateLimit retryAfter), s\<lparr>managementLimiter := l\<rparr>))"

definition auditManagementRateLimit ::
    "libs \<Rightarrow> string \<Rightarrow> instant \<Rightarrow> string \<Rightarrow> string \<Rightarrow> string \<Rightarrow> server \<Rightarrow> server" where
  "auditManagementRateLimit L i now userID stage sourceIP =
     try_audit i now (zero_event\<lparr>ae_UserID := userID,
       ae_EventType := ''management_reauthentication_rate_limited'',
       ae_Summary := ''management reauthentication attempts rate limited'',
       ae_MetadataJSON := lib_marshal L (json_strings [(''stage'', stage), (''source_ip'', sourceIP)])\<rparr>)"

definition writeInvalidManagementCredential ::
    "libs \<Rightarrow> env \<Rightarrow> string \<Rightarrow> string \<Rightarrow> string \<Rightarrow> string list \<Rightarrow> string \<Rightarrow> string \<Rightarrow> server \<Rightarrow>
     response \<times> server" where
  "writeInvalidManagementCredential L e userID stage sourceIP limitKeys code message s =
     (case recordLoginFailure (\<lambda>i. tick e (4 + i)) (managementLimiter s) limitKeys of
        ((blocked, retryAfter), l) \<Rightarrow>
          (let s1 = s\<lparr>managementLimiter := l\<rparr>
           in if blocked
              then (writeRateLimit retryAfter,
                    auditManagementRateLimit L (uuid e 0) (clock e 7) userID stage sourceIP s1)
              else (writeError 401 code message, s1)))"

text \<open>The audit of a change that is already committed: its failure is logged, not answered.\<close>

definition auditCommittedTwoFactorChange ::
    "string \<Rightarrow> instant \<Rightarrow> string \<Rightarrow> string \<Rightarrow> string \<Rightarrow> server \<Rightarrow> server" where
  "auditCommittedTwoFactorChange i now userID eventType summary =
     try_audit i now (zero_event\<lparr>ae_UserID := userID, ae_EventType := eventType, ae_Summary := summary\<rparr>)"

definition clear_management :: "string list \<Rightarrow> server \<Rightarrow> server" where
  "clear_management keys s = s\<lparr>managementLimiter := clearLoginFailures (managementLimiter s) keys\<rparr>"

definition two_factor_conflict :: response where
  "two_factor_conflict =
     writeError 409 ''two_factor_state_conflict'' ''two factor authentication state changed''"

definition password_field :: struct where
  "password_field = [(''password'', FString [])]"

section \<open>Status\<close>

definition handleTwoFactorStatus :: "libs \<Rightarrow> router \<Rightarrow> env \<Rightarrow> request \<Rightarrow> server \<Rightarrow> response \<times> server" where
  "handleTwoFactorStatus L R e req s =
     (case requireUser L R (clock e 0) req s of
        (Inl resp, s1) \<Rightarrow> (resp, s1)
      | (Inr user, s1) \<Rightarrow>
          (case run_db (GetTwoFactorStatus (u_ID user)) s1 of
             (Inl _, s2) \<Rightarrow> (two_factor_unavailable, s2)
           | (Inr (enabled, remaining), s2) \<Rightarrow>
               (writeJSON 200 (json_map [(''enabled'', JBool enabled),
                  (''recovery_codes_remaining'', json_int (int remaining))]), s2)))"

section \<open>Setup\<close>

text \<open>What the current setting allows: a conflict, an error, or the configuration a new setup replaces.\<close>

definition setup_previous :: "store_error + UserTwoFactor \<Rightarrow> response + string" where
  "setup_previous current =
     (case current of
        Inr setting \<Rightarrow>
          if tf_EnabledAt setting \<noteq> None then Inl two_factor_conflict else Inr (tf_ConfigurationID setting)
      | Inl err \<Rightarrow> if err \<noteq> ErrNotFound then Inl two_factor_unavailable else Inr [])"

definition save_setup ::
    "libs \<Rightarrow> TwoFactorManager \<Rightarrow> env \<Rightarrow> User \<Rightarrow> string list \<Rightarrow> string \<Rightarrow> server \<Rightarrow> response \<times> server" where
  "save_setup L m e user limitKeys previous s =
     (case GenerateSetup m (random e 0) (random e 1) ''vibe-terminal'' (u_Username user) of
        (manualKey, otpauthURI, ciphertext) \<Rightarrow>
          (let now = clock e 7; expiresAt = time_add now (10 * minute)
           in case run_db (SavePendingTwoFactorIfUnchanged (clock e 8)
                  \<lparr>tf_UserID = u_ID user, tf_ConfigurationID = uuid e 0, tf_SecretCiphertext = ciphertext,
                   tf_SetupExpiresAt = Some expiresAt, tf_EnabledAt = None, tf_LastTOTPCounter = None,
                   tf_CreatedAt = now, tf_UpdatedAt = now\<rparr> previous) s of
                (Inl err, s1) \<Rightarrow> (if err = ErrConflict then two_factor_conflict else two_factor_unavailable, s1)
              | (Inr _, s1) \<Rightarrow>
                  (writeJSON 200 (json_strings [(''manual_key'', manualKey), (''otpauth_uri'', otpauthURI),
                     (''expires_at'', lib_formatNano L expiresAt)]), clear_management limitKeys s1)))"

definition handleTwoFactorSetup :: "libs \<Rightarrow> router \<Rightarrow> env \<Rightarrow> request \<Rightarrow> server \<Rightarrow> response \<times> server" where
  "handleTwoFactorSetup L R e req s =
     (case requireUser L R (clock e 0) req s of
        (Inl resp, s1) \<Rightarrow> (resp, s1)
      | (Inr user, s1) \<Rightarrow>
          (case readLoginJSON L req password_field of
             Inl resp \<Rightarrow> (resp, s1)
           | Inr body \<Rightarrow>
               (let ip = requestIP req; limitKeys = managementLimitKeys (u_ID user) ip
                in case managementAttempt e limitKeys s1 of
                     (Some resp, s2) \<Rightarrow> (resp, s2)
                   | (None, s2) \<Rightarrow>
                       if \<not> lib_checkPassword L (u_PasswordHash user) (str_field body ''password'')
                       then writeInvalidManagementCredential L e (u_ID user) ''setup_password'' ip limitKeys
                              ''invalid_credentials'' ''invalid current password'' s2
                       else (case rt_twoFactor R of
                               None \<Rightarrow> (two_factor_unavailable, s2)
                             | Some m \<Rightarrow>
                                 (case run_db (GetUserTwoFactor (u_ID user)) s2 of
                                    (current, s3) \<Rightarrow>
                                      (case setup_previous current of
                                         Inl resp \<Rightarrow> (resp, s3)
                                       | Inr previous \<Rightarrow> save_setup L m e user limitKeys previous s3))))))"

section \<open>Enabling\<close>

text \<open>Fresh recovery codes with identifiers: the plain codes and the rows.\<close>

definition recovery_inputs :: "env \<Rightarrow> string list \<Rightarrow> RecoveryCodeInput list" where
  "recovery_inputs e hashes =
     map (\<lambda>(i, h). \<lparr>rci_ID = uuid e (1 + i), rci_Hash = h\<rparr>) (zip [0..<length hashes] hashes)"

definition enable_setup ::
    "libs \<Rightarrow> TwoFactorManager \<Rightarrow> env \<Rightarrow> string \<Rightarrow> string \<Rightarrow> string list \<Rightarrow> int \<Rightarrow> instant \<Rightarrow> server \<Rightarrow>
     response \<times> server" where
  "enable_setup L m e userID configurationID limitKeys counter now s =
     (case GenerateRecoveryCodes (lib_upper L) (tm_recoveryKey m) (random e) userID of
        Inl _ \<Rightarrow> (two_factor_unavailable, s)
      | Inr (rawCodes, hashes) \<Rightarrow>
          (case run_db (EnableTwoFactor userID configurationID counter (recovery_inputs e hashes) now) s of
             (Inl err, s1) \<Rightarrow> (if err = ErrConflict then two_factor_conflict else two_factor_unavailable, s1)
           | (Inr _, s1) \<Rightarrow>
               (writeJSON 200 (json_map [(''recovery_codes'', JArray (map JString rawCodes))]),
                clear_management limitKeys
                  (auditCommittedTwoFactorChange (uuid e 0) (clock e 8) userID ''two_factor_enabled''
                     ''two factor authentication enabled'' s1))))"

definition code_field :: struct where
  "code_field = [(''code'', FString [])]"

definition handleTwoFactorEnable :: "libs \<Rightarrow> router \<Rightarrow> env \<Rightarrow> request \<Rightarrow> server \<Rightarrow> response \<times> server" where
  "handleTwoFactorEnable L R e req s =
     (case requireUser L R (clock e 0) req s of
        (Inl resp, s1) \<Rightarrow> (resp, s1)
      | (Inr user, s1) \<Rightarrow>
          (case readLoginJSON L req code_field of
             Inl resp \<Rightarrow> (resp, s1)
           | Inr body \<Rightarrow>
               (let ip = requestIP req; limitKeys = managementLimitKeys (u_ID user) ip
                in case managementAttempt e limitKeys s1 of
                     (Some resp, s2) \<Rightarrow> (resp, s2)
                   | (None, s2) \<Rightarrow>
                       (case rt_twoFactor R of
                          None \<Rightarrow> (two_factor_unavailable, s2)
                        | Some m \<Rightarrow>
                            (let now = clock e 7
                             in case run_db (GetPendingTwoFactor (u_ID user) now) s2 of
                                  (Inl err, s3) \<Rightarrow>
                                    (if err = ErrNotFound
                                     then writeError 409 ''two_factor_setup_expired'' ''two factor setup has expired''
                                     else two_factor_unavailable, s3)
                                | (Inr pending, s3) \<Rightarrow>
                                    (case DecryptSecret m (tf_SecretCiphertext pending) of
                                       Inl _ \<Rightarrow> (two_factor_unavailable, s3)
                                     | Inr secret \<Rightarrow>
                                         (case MatchTOTP (lib_upper L) secret (trimSpace (str_field body ''code'')) now of
                                            Inl _ \<Rightarrow> (two_factor_unavailable, s3)
                                          | Inr (counter, matched) \<Rightarrow>
                                              if \<not> matched
                                              then writeInvalidManagementCredential L e (u_ID user) ''enable_totp'' ip
                                                     limitKeys ''invalid_two_factor_code'' ''invalid two factor code'' s3
                                              else enable_setup L m e (u_ID user) (tf_ConfigurationID pending)
                                                     limitKeys counter now s3)))))))"

section \<open>New recovery codes\<close>

definition writeRecoveryCodeRotationStoreError :: "store_error \<Rightarrow> response option" where
  "writeRecoveryCodeRotationStoreError err =
     (if err = ErrConflict then Some two_factor_conflict
      else if err = ErrInvalidSecondFactor
      then Some (writeError 401 ''invalid_two_factor_code'' ''invalid two factor code'')
      else None)"

definition rotate_codes ::
    "libs \<Rightarrow> TwoFactorManager \<Rightarrow> env \<Rightarrow> string \<Rightarrow> string \<Rightarrow> string \<Rightarrow> string list \<Rightarrow> int \<Rightarrow> instant \<Rightarrow>
     server \<Rightarrow> response \<times> server" where
  "rotate_codes L m e userID configurationID ip limitKeys counter now s =
     (case GenerateRecoveryCodes (lib_upper L) (tm_recoveryKey m) (random e) userID of
        Inl _ \<Rightarrow> (two_factor_unavailable, s)
      | Inr (rawCodes, hashes) \<Rightarrow>
          (case run_db (ReplaceRecoveryCodesAfterTOTP userID configurationID counter (recovery_inputs e hashes) now) s of
             (Inl err, s1) \<Rightarrow>
               if err = ErrInvalidSecondFactor
               then writeInvalidManagementCredential L e userID ''recovery_totp'' ip limitKeys
                      ''invalid_two_factor_code'' ''invalid two factor code'' s1
               else (case writeRecoveryCodeRotationStoreError err of
                       Some resp \<Rightarrow> (resp, s1) | None \<Rightarrow> (two_factor_unavailable, s1))
           | (Inr _, s1) \<Rightarrow>
               (writeJSON 200 (json_map [(''recovery_codes'', JArray (map JString rawCodes))]),
                clear_management limitKeys
                  (auditCommittedTwoFactorChange (uuid e 0) (clock e 8) userID
                     ''two_factor_recovery_codes_regenerated'' ''two factor recovery codes regenerated'' s1))))"

definition password_code_fields :: struct where
  "password_code_fields = [(''password'', FString []), (''code'', FString [])]"

definition handleTwoFactorRecoveryCodes ::
    "libs \<Rightarrow> router \<Rightarrow> env \<Rightarrow> request \<Rightarrow> server \<Rightarrow> response \<times> server" where
  "handleTwoFactorRecoveryCodes L R e req s =
     (case requireUser L R (clock e 0) req s of
        (Inl resp, s1) \<Rightarrow> (resp, s1)
      | (Inr user, s1) \<Rightarrow>
          (case readLoginJSON L req password_code_fields of
             Inl resp \<Rightarrow> (resp, s1)
           | Inr body \<Rightarrow>
               (let ip = requestIP req; limitKeys = managementLimitKeys (u_ID user) ip
                in case managementAttempt e limitKeys s1 of
                     (Some resp, s2) \<Rightarrow> (resp, s2)
                   | (None, s2) \<Rightarrow>
                       if \<not> lib_checkPassword L (u_PasswordHash user) (str_field body ''password'')
                       then writeInvalidManagementCredential L e (u_ID user) ''recovery_password'' ip limitKeys
                              ''invalid_credentials'' ''invalid current password'' s2
                       else (case rt_twoFactor R of
                               None \<Rightarrow> (two_factor_unavailable, s2)
                             | Some m \<Rightarrow>
                                 (let now = clock e 7
                                  in case run_db (GetEnabledTwoFactor (u_ID user)) s2 of
                                       (Inl err, s3) \<Rightarrow>
                                         (if err = ErrNotFound then two_factor_conflict else two_factor_unavailable, s3)
                                     | (Inr setting, s3) \<Rightarrow>
                                         (case DecryptSecret m (tf_SecretCiphertext setting) of
                                            Inl _ \<Rightarrow> (two_factor_unavailable, s3)
                                          | Inr secret \<Rightarrow>
                                              (case MatchTOTP (lib_upper L) secret
                                                      (trimSpace (str_field body ''code'')) now of
                                                 Inl _ \<Rightarrow> (two_factor_unavailable, s3)
                                               | Inr (counter, matched) \<Rightarrow>
                                                   if \<not> matched
                                                   then writeInvalidManagementCredential L e (u_ID user)
                                                          ''recovery_totp'' ip limitKeys ''invalid_two_factor_code''
                                                          ''invalid two factor code'' s3
                                                   else rotate_codes L m e (u_ID user) (tf_ConfigurationID setting)
                                                          ip limitKeys counter now s3)))))))"

section \<open>Disabling\<close>

definition disable_factor ::
    "env \<Rightarrow> string \<Rightarrow> string list \<Rightarrow> server \<Rightarrow> response \<times> server" where
  "disable_factor e userID limitKeys s =
     (case run_db (DisableTwoFactor userID) s of
        (Inl err, s1) \<Rightarrow> (if err = ErrNotFound then two_factor_conflict else two_factor_unavailable, s1)
      | (Inr _, s1) \<Rightarrow>
          (writeJSON 200 (json_map [(''ok'', JBool True)]),
           clear_management limitKeys
             (auditCommittedTwoFactorChange (uuid e 0) (clock e 8) userID ''two_factor_disabled''
                ''two factor authentication disabled'' s1)))"

definition handleTwoFactorDisable :: "libs \<Rightarrow> router \<Rightarrow> env \<Rightarrow> request \<Rightarrow> server \<Rightarrow> response \<times> server" where
  "handleTwoFactorDisable L R e req s =
     (case requireUser L R (clock e 0) req s of
        (Inl resp, s1) \<Rightarrow> (resp, s1)
      | (Inr user, s1) \<Rightarrow>
          (case readLoginJSON L req password_field of
             Inl resp \<Rightarrow> (resp, s1)
           | Inr body \<Rightarrow>
               (let ip = requestIP req; limitKeys = managementLimitKeys (u_ID user) ip
                in case managementAttempt e limitKeys s1 of
                     (Some resp, s2) \<Rightarrow> (resp, s2)
                   | (None, s2) \<Rightarrow>
                       if \<not> lib_checkPassword L (u_PasswordHash user) (str_field body ''password'')
                       then writeInvalidManagementCredential L e (u_ID user) ''disable_password'' ip limitKeys
                              ''invalid_credentials'' ''invalid current password'' s2
                       else disable_factor e (u_ID user) limitKeys s2)))"

end
