(* ===== verification/ManagementClaims.thy ===== *)
theory ManagementClaims
  imports ManagementApi LoginFacts RecoveryCodes
begin

text \<open>
  What the management handlers guarantee: a second factor changes only for a user with a session who
  proved the password (or, to enable it, a code of the pending secret), and the recovery codes a
  response shows are the ones the user can log in with.
\<close>

section \<open>The tables of second factors\<close>

definition factor_tables :: "server \<Rightarrow> UserTwoFactor list \<times> RecoveryCode list" where
  "factor_tables s = (user_two_factor (contents (db s)), two_factor_recovery_codes (contents (db s)))"

lemma factor_tables_eq: "contents (db s') = contents (db s) \<Longrightarrow> factor_tables s' = factor_tables s"
  by (simp add: factor_tables_def)

lemma factor_tables_limiters [simp]:
  "factor_tables (s\<lparr>passwordLimiter := l\<rparr>) = factor_tables s"
  "factor_tables (s\<lparr>twoFactorLimiter := l\<rparr>) = factor_tables s"
  "factor_tables (s\<lparr>managementLimiter := l\<rparr>) = factor_tables s"
  "factor_tables (clear_management ks s) = factor_tables s"
  by (simp_all add: factor_tables_def clear_management_def)

lemma try_audit_factors [simp]: "factor_tables (try_audit i now ev s) = factor_tables s"
proof -
  obtain evs where "contents (snd (audit_log i now ev (db s))) = (contents (db s))\<lparr>audit_events := evs\<rparr>"
    using audit_log_frame by blast
  then show ?thesis by (simp add: try_audit_def factor_tables_def)
qed

lemma audit_factors [simp]:
  "factor_tables (auditCommittedTwoFactorChange i now uid t m s) = factor_tables s"
  "factor_tables (auditManagementRateLimit L i now uid st ip s) = factor_tables s"
  by (simp_all add: auditCommittedTwoFactorChange_def auditManagementRateLimit_def)

lemma invalid_credential_factors:
  "writeInvalidManagementCredential L e uid stage ip ks code msg s = (resp, s') \<Longrightarrow>
     factor_tables s' = factor_tables s \<and> rs_status resp \<noteq> 200"
  if "code = ''invalid_credentials'' \<or> code = ''invalid_two_factor_code''"
  by (auto simp: writeInvalidManagementCredential_def Let_def split: prod.splits if_splits)

section \<open>The common entry of the handlers\<close>

definition management_entry ::
    "libs \<Rightarrow> router \<Rightarrow> env \<Rightarrow> request \<Rightarrow> struct \<Rightarrow> server \<Rightarrow> (response + User \<times> struct) \<times> server" where
  "management_entry L R e req dest s =
     (case requireUser L R (clock e 0) req s of
        (Inl resp, s1) \<Rightarrow> (Inl resp, s1)
      | (Inr user, s1) \<Rightarrow>
          (case readLoginJSON L req dest of
             Inl resp \<Rightarrow> (Inl resp, s1)
           | Inr body \<Rightarrow>
               (case managementAttempt e (managementLimitKeys (u_ID user) (requestIP req)) s1 of
                  (Some resp, s2) \<Rightarrow> (Inl resp, s2)
                | (None, s2) \<Rightarrow> (Inr (user, body), s2))))"

lemma requireUser_contents:
  "requireUser L R now req s = (r, s1) \<Longrightarrow> contents (db s1) = contents (db s) \<and>
     (case r of Inl resp \<Rightarrow> rs_status resp \<noteq> 200
      | Inr user \<Rightarrow> Get (lib_parseNano L) (rt_secret R) now (rq_cookie req) = Inr (u_ID user) \<and>
                    user \<in> set (users (contents (db s))))"
proof -
  assume r: "requireUser L R now req s = (r, s1)"
  show ?thesis
  proof (cases "Get (lib_parseNano L) (rt_secret R) now (rq_cookie req)")
    case (Inl x)
    with r show ?thesis by (auto simp: requireUser_def)
  next
    case (Inr uid)
    obtain q s2 where g: "run_db (GetUserByID uid) s = (q, s2)" by (metis surj_pair)
    note q = run_db_query_row [OF g [unfolded GetUserByID_def]]
    show ?thesis
    proof (cases q)
      case (Inl err)
      with r Inr g q show ?thesis by (auto simp: requireUser_def split: if_splits)
    next
      case (Inr user)
      with q have "find (\<lambda>u. u_ID u = uid) (users (contents (db s))) = Some user" by simp
      then have "user \<in> set (users (contents (db s)))" "u_ID user = uid" using find_in by fastforce+
      with r g q Inr \<open>Get (lib_parseNano L) (rt_secret R) now (rq_cookie req) = Inr uid\<close> show ?thesis
        by (auto simp: requireUser_def)
    qed
  qed
qed

lemma readLoginJSON_status: "readLoginJSON L req dest = Inl resp \<Longrightarrow> rs_status resp \<noteq> 200"
  by (auto simp: readLoginJSON_def split: if_splits option.splits)

lemma managementAttempt_contents:
  "managementAttempt e ks s = (r, s') \<Longrightarrow> contents (db s') = contents (db s) \<and>
     (case r of Some resp \<Rightarrow> rs_status resp \<noteq> 200
      | None \<Rightarrow> fst (fst (allowLoginAttempt (\<lambda>i. clock e (1 + i)) (managementLimiter s) ks)))"
  by (auto simp: managementAttempt_def split: prod.splits)

text \<open>A request that may proceed: its session, its body, and no blocked key.\<close>

definition entered :: "libs \<Rightarrow> router \<Rightarrow> env \<Rightarrow> request \<Rightarrow> struct \<Rightarrow> server \<Rightarrow> User \<Rightarrow> struct \<Rightarrow> bool" where
  "entered L R e req dest s user body \<longleftrightarrow>
     Get (lib_parseNano L) (rt_secret R) (clock e 0) (rq_cookie req) = Inr (u_ID user) \<and>
     user \<in> set (users (contents (db s))) \<and> readLoginJSON L req dest = Inr body \<and>
     fst (fst (allowLoginAttempt (\<lambda>i. clock e (1 + i)) (managementLimiter s)
       (managementLimitKeys (u_ID user) (requestIP req))))"

lemma requireUser_limiters:
  "requireUser L R now req s = (r, s1) \<Longrightarrow> managementLimiter s1 = managementLimiter s"
  by (auto simp: requireUser_def run_db_eq split: sum.splits prod.splits if_splits)

lemma entry_contents:
  "management_entry L R e req dest s = (r, s2) \<Longrightarrow> contents (db s2) = contents (db s) \<and>
     (case r of Inl resp \<Rightarrow> rs_status resp \<noteq> 200 | Inr (user, body) \<Rightarrow> entered L R e req dest s user body)"
proof -
  assume h: "management_entry L R e req dest s = (r, s2)"
  obtain ru s1 where ru: "requireUser L R (clock e 0) req s = (ru, s1)" by (metis surj_pair)
  note c1 = requireUser_contents [OF ru] requireUser_limiters [OF ru]
  show ?thesis
  proof (cases ru)
    case (Inl resp)
    with h ru c1 show ?thesis by (auto simp: management_entry_def)
  next
    case user: (Inr user)
    show ?thesis
    proof (cases "readLoginJSON L req dest")
      case (Inl resp)
      with h ru user c1 readLoginJSON_status [OF Inl] show ?thesis by (auto simp: management_entry_def)
    next
      case body: (Inr body)
      obtain q s3 where m: "managementAttempt e (managementLimitKeys (u_ID user) (requestIP req)) s1 = (q, s3)"
        by (metis surj_pair)
      from managementAttempt_contents [OF m] h ru user body c1 m show ?thesis
        by (cases q) (auto simp: management_entry_def entered_def)
    qed
  qed
qed

section \<open>The handlers after their entry\<close>

lemma entry_continues:
  "(case requireUser L R (clock e 0) req s of
      (Inl resp, s1) \<Rightarrow> (resp, s1)
    | (Inr user, s1) \<Rightarrow>
        (case readLoginJSON L req dest of
           Inl resp \<Rightarrow> (resp, s1)
         | Inr body \<Rightarrow>
             (case managementAttempt e (managementLimitKeys (u_ID user) (requestIP req)) s1 of
                (Some resp, s2) \<Rightarrow> (resp, s2)
              | (None, s2) \<Rightarrow> k user body s2))) =
   (case management_entry L R e req dest s of
      (Inl resp, s2) \<Rightarrow> (resp, s2) | (Inr (user, body), s2) \<Rightarrow> k user body s2)"
  by (simp add: management_entry_def split: prod.split sum.split option.split)

lemma setup_entry:
  "handleTwoFactorSetup L R e req s =
     (case management_entry L R e req password_field s of
        (Inl resp, s2) \<Rightarrow> (resp, s2)
      | (Inr (user, body), s2) \<Rightarrow>
          if \<not> lib_checkPassword L (u_PasswordHash user) (str_field body ''password'')
          then writeInvalidManagementCredential L e (u_ID user) ''setup_password'' (requestIP req)
                 (managementLimitKeys (u_ID user) (requestIP req)) ''invalid_credentials'' ''invalid current password'' s2
          else (case rt_twoFactor R of
                  None \<Rightarrow> (two_factor_unavailable, s2)
                | Some m \<Rightarrow>
                    (case run_db (GetUserTwoFactor (u_ID user)) s2 of
                       (current, s3) \<Rightarrow>
                         (case setup_previous current of
                            Inl resp \<Rightarrow> (resp, s3)
                          | Inr previous \<Rightarrow>
                              save_setup L m e user (managementLimitKeys (u_ID user) (requestIP req)) previous s3))))"
  unfolding handleTwoFactorSetup_def Let_def by (rule entry_continues)

lemma disable_entry:
  "handleTwoFactorDisable L R e req s =
     (case management_entry L R e req password_field s of
        (Inl resp, s2) \<Rightarrow> (resp, s2)
      | (Inr (user, body), s2) \<Rightarrow>
          if \<not> lib_checkPassword L (u_PasswordHash user) (str_field body ''password'')
          then writeInvalidManagementCredential L e (u_ID user) ''disable_password'' (requestIP req)
                 (managementLimitKeys (u_ID user) (requestIP req)) ''invalid_credentials'' ''invalid current password'' s2
          else disable_factor e (u_ID user) (managementLimitKeys (u_ID user) (requestIP req)) s2)"
  unfolding handleTwoFactorDisable_def Let_def by (rule entry_continues)

text \<open>The state in which \<open>enable_setup\<close> or \<open>rotate_codes\<close> runs, after the code was checked.\<close>

definition enable_body ::
    "libs \<Rightarrow> router \<Rightarrow> env \<Rightarrow> request \<Rightarrow> User \<Rightarrow> struct \<Rightarrow> server \<Rightarrow> response \<times> server" where
  "enable_body L R e req user body s2 =
     (case rt_twoFactor R of
        None \<Rightarrow> (two_factor_unavailable, s2)
      | Some m \<Rightarrow>
          (case run_db (GetPendingTwoFactor (u_ID user) (clock e 7)) s2 of
             (Inl err, s3) \<Rightarrow>
               (if err = ErrNotFound
                then writeError 409 ''two_factor_setup_expired'' ''two factor setup has expired''
                else two_factor_unavailable, s3)
           | (Inr pending, s3) \<Rightarrow>
               (case DecryptSecret m (tf_SecretCiphertext pending) of
                  Inl _ \<Rightarrow> (two_factor_unavailable, s3)
                | Inr secret \<Rightarrow>
                    (case MatchTOTP (lib_upper L) secret (trimSpace (str_field body ''code'')) (clock e 7) of
                       Inl _ \<Rightarrow> (two_factor_unavailable, s3)
                     | Inr (counter, matched) \<Rightarrow>
                         if \<not> matched
                         then writeInvalidManagementCredential L e (u_ID user) ''enable_totp'' (requestIP req)
                                (managementLimitKeys (u_ID user) (requestIP req))
                                ''invalid_two_factor_code'' ''invalid two factor code'' s3
                         else enable_setup L m e (u_ID user) (tf_ConfigurationID pending)
                                (managementLimitKeys (u_ID user) (requestIP req)) counter (clock e 7) s3))))"

lemma enable_entry:
  "handleTwoFactorEnable L R e req s =
     (case management_entry L R e req code_field s of
        (Inl resp, s2) \<Rightarrow> (resp, s2) | (Inr (user, body), s2) \<Rightarrow> enable_body L R e req user body s2)"
  unfolding handleTwoFactorEnable_def Let_def enable_body_def by (rule entry_continues)

definition rotate_body ::
    "libs \<Rightarrow> router \<Rightarrow> env \<Rightarrow> request \<Rightarrow> User \<Rightarrow> struct \<Rightarrow> server \<Rightarrow> response \<times> server" where
  "rotate_body L R e req user body s2 =
     (if \<not> lib_checkPassword L (u_PasswordHash user) (str_field body ''password'')
      then writeInvalidManagementCredential L e (u_ID user) ''recovery_password'' (requestIP req)
             (managementLimitKeys (u_ID user) (requestIP req)) ''invalid_credentials'' ''invalid current password'' s2
      else (case rt_twoFactor R of
              None \<Rightarrow> (two_factor_unavailable, s2)
            | Some m \<Rightarrow>
                (case run_db (GetEnabledTwoFactor (u_ID user)) s2 of
                   (Inl err, s3) \<Rightarrow>
                     (if err = ErrNotFound then two_factor_conflict else two_factor_unavailable, s3)
                 | (Inr setting, s3) \<Rightarrow>
                     (case DecryptSecret m (tf_SecretCiphertext setting) of
                        Inl _ \<Rightarrow> (two_factor_unavailable, s3)
                      | Inr secret \<Rightarrow>
                          (case MatchTOTP (lib_upper L) secret (trimSpace (str_field body ''code'')) (clock e 7) of
                             Inl _ \<Rightarrow> (two_factor_unavailable, s3)
                           | Inr (counter, matched) \<Rightarrow>
                               if \<not> matched
                               then writeInvalidManagementCredential L e (u_ID user) ''recovery_totp'' (requestIP req)
                                      (managementLimitKeys (u_ID user) (requestIP req))
                                      ''invalid_two_factor_code'' ''invalid two factor code'' s3
                               else rotate_codes L m e (u_ID user) (tf_ConfigurationID setting) (requestIP req)
                                      (managementLimitKeys (u_ID user) (requestIP req)) counter (clock e 7) s3)))))"

lemma rotate_entry:
  "handleTwoFactorRecoveryCodes L R e req s =
     (case management_entry L R e req password_code_fields s of
        (Inl resp, s2) \<Rightarrow> (resp, s2) | (Inr (user, body), s2) \<Rightarrow> rotate_body L R e req user body s2)"
  unfolding handleTwoFactorRecoveryCodes_def Let_def rotate_body_def by (rule entry_continues)

text \<open>A handler that continues after its entry: what its continuation guarantees, it guarantees.\<close>

lemma after_entry:
  assumes h: "h = (case management_entry L R e req dest s of
      (Inl resp, s2) \<Rightarrow> (resp, s2) | (Inr (user, body), s2) \<Rightarrow> k user body s2)"
    and refused: "\<And>resp s2. rs_status resp \<noteq> 200 \<Longrightarrow> contents (db s2) = contents (db s) \<Longrightarrow> Q resp s2"
    and goes: "\<And>user body s2. entered L R e req dest s user body \<Longrightarrow> contents (db s2) = contents (db s) \<Longrightarrow>
      Q (fst (k user body s2)) (snd (k user body s2))"
  shows "Q (fst h) (snd h)"
proof -
  obtain r s2 where m: "management_entry L R e req dest s = (r, s2)" by (metis surj_pair)
  note c = entry_contents [OF m]
  show ?thesis
  proof (cases r)
    case (Inl resp)
    with c refused show ?thesis by (simp add: h m)
  next
    case (Inr p)
    obtain user body where "p = (user, body)" by force
    with Inr c goes show ?thesis by (simp add: h m)
  qed
qed

section \<open>Recovery codes that are shown\<close>

lemma recovery_inputs_hashes: "map rci_Hash (recovery_inputs e hashes) = hashes"
proof -
  have "map rci_Hash (recovery_inputs e hashes) = map snd (zip [0..<length hashes] hashes)"
    unfolding recovery_inputs_def map_map by (rule map_cong) auto
  then show ?thesis by simp
qed

lemma GenerateRecoveryCodes_shape:
  "GenerateRecoveryCodes uni k raws uid = Inr (codes, hashes) \<Longrightarrow>
     length codes = 10 \<and> hashes = map (recoveryCodeHash uni k uid) codes"
  by (auto simp: GenerateRecoveryCodes_def generateRecoveryCodes_def)

lemma shown_codes_stored:
  assumes "GenerateRecoveryCodes (lib_upper L) (tm_recoveryKey m) raws uid = Inr (codes, hashes)"
    and "two_factor_recovery_codes T' = renewed_codes uid now (recovery_inputs e hashes) T"
  shows "list_all (\<lambda>c. code_unused uid (RecoveryCodeHash L m uid c) T') codes"
proof -
  have h: "hashes = map (RecoveryCodeHash L m uid) codes"
    using GenerateRecoveryCodes_shape [OF assms(1)] by (simp add: RecoveryCodeHash_def [abs_def])
  have "\<exists>r \<in> set (map (recovery_row uid now) (recovery_inputs e hashes)).
      rc_UserID r = uid \<and> rc_CodeHash r = RecoveryCodeHash L m uid c \<and> rc_UsedAt r = None"
    if "c \<in> set codes" for c
  proof -
    have "RecoveryCodeHash L m uid c \<in> set (map rci_Hash (recovery_inputs e hashes))"
      using that by (simp add: recovery_inputs_hashes h del: set_map) simp
    then show ?thesis by (force simp: recovery_row_def)
  qed
  then show ?thesis unfolding list_all_iff code_unused_def assms(2) renewed_codes_def set_append by blast
qed

section \<open>Changes are authorized\<close>

text \<open>A state after a handler, with the evidence for a change of second factors.\<close>

definition changed_only_if :: "bool \<Rightarrow> server \<Rightarrow> server \<Rightarrow> bool" where
  "changed_only_if evidence s s' \<longleftrightarrow> factor_tables s' = factor_tables s \<or> evidence"

definition password_evidence :: "libs \<Rightarrow> router \<Rightarrow> env \<Rightarrow> request \<Rightarrow> struct \<Rightarrow> server \<Rightarrow> bool" where
  "password_evidence L R e req dest s \<longleftrightarrow> (\<exists>user body. entered L R e req dest s user body \<and>
     lib_checkPassword L (u_PasswordHash user) (str_field body ''password''))"

definition setup_evidence :: "libs \<Rightarrow> router \<Rightarrow> env \<Rightarrow> request \<Rightarrow> server \<Rightarrow> bool" where
  "setup_evidence L R e req s \<longleftrightarrow> (\<exists>user body m pending secret counter.
     entered L R e req code_field s user body \<and> rt_twoFactor R = Some m \<and>
     pending \<in> set (user_two_factor (contents (db s))) \<and> tf_UserID pending = u_ID user \<and>
     tf_EnabledAt pending = None \<and> DecryptSecret m (tf_SecretCiphertext pending) = Inr secret \<and>
     MatchTOTP (lib_upper L) secret (trimSpace (str_field body ''code'')) (clock e 7) = Inr (counter, True))"

lemma same_unchanged: "contents (db s2) = contents (db s) \<Longrightarrow> changed_only_if ev s s2"
  unfolding changed_only_if_def by (rule disjI1, rule factor_tables_eq)

lemma refused_unchanged:
  "contents (db s2) = contents (db s) \<Longrightarrow>
     writeInvalidManagementCredential L e uid stage ip ks ''invalid_credentials'' msg s2 = (resp, s') \<Longrightarrow>
     changed_only_if ev s s'"
  "contents (db s2) = contents (db s) \<Longrightarrow>
     writeInvalidManagementCredential L e uid stage ip ks ''invalid_two_factor_code'' msg s2 = (resp, s') \<Longrightarrow>
     changed_only_if ev s s'"
  using invalid_credential_factors [of "''invalid_credentials''" L e uid stage ip ks msg s2 resp s']
    invalid_credential_factors [of "''invalid_two_factor_code''" L e uid stage ip ks msg s2 resp s']
    factor_tables_eq [of s2 s] unfolding changed_only_if_def by simp_all

lemma password_step:
  assumes ent: "entered L R e req dest s user body" and same: "contents (db s2) = contents (db s)"
  shows "changed_only_if (password_evidence L R e req dest s) s
    (snd (if \<not> lib_checkPassword L (u_PasswordHash user) (str_field body ''password'')
          then writeInvalidManagementCredential L e uid stage ip ks ''invalid_credentials'' msg s2 else k))"
proof (cases "lib_checkPassword L (u_PasswordHash user) (str_field body ''password'')")
  case True
  with ent show ?thesis unfolding changed_only_if_def password_evidence_def by blast
next
  case False
  obtain resp s' where
    w: "writeInvalidManagementCredential L e uid stage ip ks ''invalid_credentials'' msg s2 = (resp, s')"
    by (metis surj_pair)
  from refused_unchanged(1) [OF same w] False w show ?thesis by simp
qed

lemma setup_authorized:
  "changed_only_if (password_evidence L R e req password_field s) s (snd (handleTwoFactorSetup L R e req s))"
  by (rule after_entry [where Q = "\<lambda>r s'. changed_only_if (password_evidence L R e req password_field s) s s'", OF setup_entry])
    (erule same_unchanged, rule password_step)

lemma disable_authorized:
  "changed_only_if (password_evidence L R e req password_field s) s (snd (handleTwoFactorDisable L R e req s))"
  by (rule after_entry [where Q = "\<lambda>r s'. changed_only_if (password_evidence L R e req password_field s) s s'", OF disable_entry])
    (erule same_unchanged, rule password_step)

lemma rotate_authorized:
  "changed_only_if (password_evidence L R e req password_code_fields s) s
     (snd (handleTwoFactorRecoveryCodes L R e req s))"
  by (rule after_entry [where Q = "\<lambda>r s'. changed_only_if (password_evidence L R e req password_code_fields s) s s'", OF rotate_entry])
    (erule same_unchanged, unfold rotate_body_def, rule password_step)

lemma enable_step:
  assumes ent: "entered L R e req code_field s user body" and same: "contents (db s2) = contents (db s)"
  shows "changed_only_if (setup_evidence L R e req s) s (snd (enable_body L R e req user body s2))"
proof (cases "rt_twoFactor R")
  case None
  with same show ?thesis by (simp add: enable_body_def same_unchanged)
next
  case m: (Some m)
  obtain r s3 where g: "run_db (GetPendingTwoFactor (u_ID user) (clock e 7)) s2 = (r, s3)" by (metis surj_pair)
  note q = run_db_query_row [OF g [unfolded GetPendingTwoFactor_def]]
  have same3: "contents (db s3) = contents (db s)" using q same by simp
  show ?thesis
  proof (cases r)
    case (Inl err)
    with m g same3 show ?thesis by (simp add: enable_body_def same_unchanged)
  next
    case p: (Inr pending)
    with q same have row: "pending \<in> set (user_two_factor (contents (db s)))" "tf_UserID pending = u_ID user"
      "tf_EnabledAt pending = None" by (auto dest: find_in)
    show ?thesis
    proof (cases "DecryptSecret m (tf_SecretCiphertext pending)")
      case (Inl err)
      with m g p same3 show ?thesis by (simp add: enable_body_def same_unchanged)
    next
      case d: (Inr secret)
      show ?thesis
      proof (cases "MatchTOTP (lib_upper L) secret (trimSpace (str_field body ''code'')) (clock e 7)")
        case (Inl err)
        with m g p d same3 show ?thesis by (simp add: enable_body_def same_unchanged)
      next
        case (Inr cm)
        obtain counter matched where cm: "cm = (counter, matched)" by force
        show ?thesis
        proof (cases matched)
          case True
          with Inr cm have "MatchTOTP (lib_upper L) secret (trimSpace (str_field body ''code'')) (clock e 7) =
              Inr (counter, True)" by simp
          with ent m row d have "setup_evidence L R e req s" unfolding setup_evidence_def by blast
          then show ?thesis by (simp add: changed_only_if_def)
        next
          case False
          obtain resp s' where w: "writeInvalidManagementCredential L e (u_ID user) ''enable_totp'' (requestIP req)
              (managementLimitKeys (u_ID user) (requestIP req)) ''invalid_two_factor_code''
              ''invalid two factor code'' s3 = (resp, s')" by (metis surj_pair)
          from refused_unchanged(2) [OF same3 w] False m g p d Inr cm w show ?thesis
            by (simp add: enable_body_def)
        qed
      qed
    qed
  qed
qed

lemma enable_authorized:
  "changed_only_if (setup_evidence L R e req s) s (snd (handleTwoFactorEnable L R e req s))"
  by (rule after_entry [where Q = "\<lambda>r s'. changed_only_if (setup_evidence L R e req s) s s'", OF enable_entry])
    (erule same_unchanged, rule enable_step)

section \<open>Responses with codes\<close>

definition shows_working_codes :: "libs \<Rightarrow> router \<Rightarrow> env \<Rightarrow> request \<Rightarrow> response \<Rightarrow> server \<Rightarrow> bool" where
  "shows_working_codes L R e req resp s' \<longleftrightarrow> (\<exists>uid m codes.
     Get (lib_parseNano L) (rt_secret R) (clock e 0) (rq_cookie req) = Inr uid \<and> rt_twoFactor R = Some m \<and>
     rs_body resp = Some (json_map [(''recovery_codes'', JArray (map JString codes))]) \<and> length codes = 10 \<and>
     list_all (\<lambda>c. code_unused uid (RecoveryCodeHash L m uid c) (contents (db s'))) codes)"

definition codes_response :: "libs \<Rightarrow> TwoFactorManager \<Rightarrow> string \<Rightarrow> response \<Rightarrow> server \<Rightarrow> bool" where
  "codes_response L m uid resp s' \<longleftrightarrow> rs_status resp \<noteq> 200 \<or> (\<exists>codes.
     rs_body resp = Some (json_map [(''recovery_codes'', JArray (map JString codes))]) \<and> length codes = 10 \<and>
     list_all (\<lambda>c. code_unused uid (RecoveryCodeHash L m uid c) (contents (db s'))) codes)"

lemma code_unused_factor: "factor_tables s' = factor_tables s \<Longrightarrow>
    code_unused uid h (contents (db s')) = code_unused uid h (contents (db s))"
  by (simp add: factor_tables_def code_unused_def)

lemma constant_status [simp]: "rs_status two_factor_unavailable = 500" "rs_status two_factor_conflict = 409"
  by (simp_all add: two_factor_unavailable_def two_factor_conflict_def)

lemma written_codes:
  assumes "GenerateRecoveryCodes (lib_upper L) (tm_recoveryKey m) (random e) uid = Inr (codes, hashes)"
    and "two_factor_recovery_codes (contents (db s1)) = renewed_codes uid now (recovery_inputs e hashes) T"
    and "factor_tables s' = factor_tables s1"
  shows "codes_response L m uid (writeJSON 200 (json_map [(''recovery_codes'', JArray (map JString codes))])) s'"
  using shown_codes_stored [OF assms(1,2)] GenerateRecoveryCodes_shape [OF assms(1)] code_unused_factor [OF assms(3)]
  by (auto simp: codes_response_def writeJSON_def)

lemma enable_setup_codes:
  "codes_response L m uid (fst (enable_setup L m e uid cfg ks c now s)) (snd (enable_setup L m e uid cfg ks c now s))"
proof (cases "GenerateRecoveryCodes (lib_upper L) (tm_recoveryKey m) (random e) uid")
  case (Inl err)
  then show ?thesis by (simp add: enable_setup_def codes_response_def)
next
  case (Inr ch)
  obtain codes hashes where ch: "ch = (codes, hashes)" by force
  obtain r s1 where g: "run_db (EnableTwoFactor uid cfg c (recovery_inputs e hashes) now) s = (r, s1)"
    by (metis surj_pair)
  show ?thesis
  proof (cases r)
    case (Inl err)
    with \<open>_ = Inr ch\<close> ch g show ?thesis by (simp add: enable_setup_def codes_response_def)
  next
    case (Inr u)
    have "EnableTwoFactor uid cfg c (recovery_inputs e hashes) now (db s) = (Inr (), db s1)"
      using g Inr by (auto simp: run_db_eq)
    then have "two_factor_recovery_codes (contents (db s1)) =
        renewed_codes uid now (recovery_inputs e hashes) (contents (db s))"
      by (simp add: EnableTwoFactor_codes)
    with \<open>_ = Inr ch\<close> ch g Inr show ?thesis by (simp add: enable_setup_def written_codes)
  qed
qed

lemma rotate_codes_codes:
  "codes_response L m uid (fst (rotate_codes L m e uid cfg ip ks c now s))
     (snd (rotate_codes L m e uid cfg ip ks c now s))"
proof (cases "GenerateRecoveryCodes (lib_upper L) (tm_recoveryKey m) (random e) uid")
  case (Inl err)
  then show ?thesis by (simp add: rotate_codes_def codes_response_def)
next
  case (Inr ch)
  obtain codes hashes where ch: "ch = (codes, hashes)" by force
  obtain r s1 where g: "run_db (ReplaceRecoveryCodesAfterTOTP uid cfg c (recovery_inputs e hashes) now) s = (r, s1)"
    by (metis surj_pair)
  show ?thesis
  proof (cases r)
    case (Inl err)
    obtain resp s2 where w: "writeInvalidManagementCredential L e uid ''recovery_totp'' ip ks
        ''invalid_two_factor_code'' ''invalid two factor code'' s1 = (resp, s2)" by (metis surj_pair)
    with invalid_credential_factors [OF _ w] have "rs_status resp \<noteq> 200" by simp
    with Inl \<open>_ = Inr ch\<close> ch g w show ?thesis
      by (simp add: rotate_codes_def codes_response_def writeRecoveryCodeRotationStoreError_def)
  next
    case (Inr u)
    have "ReplaceRecoveryCodesAfterTOTP uid cfg c (recovery_inputs e hashes) now (db s) = (Inr (), db s1)"
      using g Inr by (auto simp: run_db_eq)
    then have "two_factor_recovery_codes (contents (db s1)) =
        renewed_codes uid now (recovery_inputs e hashes) (contents (db s))"
      by (simp add: ReplaceRecoveryCodes_codes)
    with \<open>_ = Inr ch\<close> ch g Inr show ?thesis by (simp add: rotate_codes_def written_codes)
  qed
qed

lemma codes_response_shows:
  "codes_response L m (u_ID user) resp s' \<Longrightarrow> entered L R e req dest s user body \<Longrightarrow> rt_twoFactor R = Some m \<Longrightarrow>
     rs_status resp \<noteq> 200 \<or> shows_working_codes L R e req resp s'"
  by (auto simp: codes_response_def shows_working_codes_def entered_def)

lemma invalid_status:
  "rs_status (fst (writeInvalidManagementCredential L e uid stage ip ks ''invalid_credentials'' msg s)) \<noteq> 200"
  "rs_status (fst (writeInvalidManagementCredential L e uid stage ip ks ''invalid_two_factor_code'' msg s)) \<noteq> 200"
  using invalid_credential_factors by (metis prod.collapse)+

lemma stage_shows:
  "entered L R e req dest s user body \<Longrightarrow> rt_twoFactor R = Some m \<Longrightarrow>
     rs_status (fst (enable_setup L m e (u_ID user) cfg ks c now s3)) = 200 \<Longrightarrow>
     shows_working_codes L R e req (fst (enable_setup L m e (u_ID user) cfg ks c now s3))
       (snd (enable_setup L m e (u_ID user) cfg ks c now s3))"
  "entered L R e req dest s user body \<Longrightarrow> rt_twoFactor R = Some m \<Longrightarrow>
     rs_status (fst (rotate_codes L m e (u_ID user) cfg ip ks c now s3)) = 200 \<Longrightarrow>
     shows_working_codes L R e req (fst (rotate_codes L m e (u_ID user) cfg ip ks c now s3))
       (snd (rotate_codes L m e (u_ID user) cfg ip ks c now s3))"
  by (drule (1) codes_response_shows [OF enable_setup_codes [of L m "u_ID user" e cfg ks c now s3]], simp)
    (drule (1) codes_response_shows [OF rotate_codes_codes [of L m "u_ID user" e cfg ip ks c now s3]], simp)

lemma enable_body_codes:
  assumes ent: "entered L R e req code_field s user body"
  shows "rs_status (fst (enable_body L R e req user body s2)) \<noteq> 200 \<or>
    shows_working_codes L R e req (fst (enable_body L R e req user body s2)) (snd (enable_body L R e req user body s2))"
  using invalid_status
  by (auto simp: enable_body_def split: option.splits prod.splits sum.splits intro: stage_shows(1) [OF ent])

lemma rotate_body_codes:
  assumes ent: "entered L R e req password_code_fields s user body"
  shows "rs_status (fst (rotate_body L R e req user body s2)) \<noteq> 200 \<or>
    shows_working_codes L R e req (fst (rotate_body L R e req user body s2)) (snd (rotate_body L R e req user body s2))"
  using invalid_status
  by (auto simp: rotate_body_def split: option.splits prod.splits sum.splits intro: stage_shows(2) [OF ent])

section \<open>Properties\<close>


text \<open>C24: The codes a user is shown work: when enabling a second factor or regenerating the codes
  answers 200, the body lists ten codes, and each of them is an unused recovery code of the session's
  user in the database the handler leaves, under the hash the login step computes for it.\<close>

theorem shown_codes_work:
  "(if rs_status (fst (handleTwoFactorEnable L R e req s)) \<noteq> 200 then True
    else shows_working_codes L R e req (fst (handleTwoFactorEnable L R e req s))
           (snd (handleTwoFactorEnable L R e req s))) \<and>
   (if rs_status (fst (handleTwoFactorRecoveryCodes L R e req s)) \<noteq> 200 then True
    else shows_working_codes L R e req (fst (handleTwoFactorRecoveryCodes L R e req s))
           (snd (handleTwoFactorRecoveryCodes L R e req s)))"
proof -
  let ?Q = "\<lambda>resp s'. rs_status resp \<noteq> 200 \<or> shows_working_codes L R e req resp s'"
  have "?Q (fst (handleTwoFactorEnable L R e req s)) (snd (handleTwoFactorEnable L R e req s))"
    by (rule after_entry [where Q = ?Q, OF enable_entry]) (simp, rule enable_body_codes)
  moreover have "?Q (fst (handleTwoFactorRecoveryCodes L R e req s)) (snd (handleTwoFactorRecoveryCodes L R e req s))"
    by (rule after_entry [where Q = ?Q, OF rotate_entry]) (simp, rule rotate_body_codes)
  ultimately show ?thesis by simp
qed

end
