(* ===== verification/LockOrder.thy ===== *)
theory LockOrder
  imports ManagementApi
begin

text \<open>
  The locks of \<^verbatim>\<open>lockManagementCredentials\<close> and \<^verbatim>\<open>managementLockIndexes\<close> of
  \<^verbatim>\<open>httpapi/router_2fa.go\<close>: the mutexes a request takes for its limiter keys. Requests run
  concurrently: a step of the system is one request locking its next mutex, when no other request
  holds it, or unlocking its last one.
\<close>

section \<open>The indexes\<close>

text \<open>\<^verbatim>\<open>fnv.New32a\<close>: the 32-bit FNV-1a hash.\<close>

definition fnv1a :: "string \<Rightarrow> 32 word" where
  "fnv1a s = foldl (\<lambda>h c. (h XOR of_int (of_char c)) * 16777619) 2166136261 s"

definition managementLockIndexes :: "string list \<Rightarrow> nat list" where
  "managementLockIndexes keys = sort (remdups (map (\<lambda>key. unat (fnv1a key mod 256)) keys))"

lemma unat_mod_256: "unat (w mod (256 :: 32 word)) < 256"
proof -
  have "w mod 256 < (256 :: 32 word)" by (rule word_mod_less_divisor) simp
  then show ?thesis by (simp add: word_less_nat_alt)
qed

lemma lock_indexes_sorted: "sorted_wrt (<) (managementLockIndexes keys)"
  unfolding managementLockIndexes_def by (simp add: strict_sorted_iff)

lemma lock_indexes_range: "i \<in> set (managementLockIndexes keys) \<Longrightarrow> i < 256"
  by (auto simp: managementLockIndexes_def unat_mod_256)

section \<open>Locking and unlocking\<close>

text \<open>
  A request in its handler: the mutexes it still has to lock, in order, and the ones it holds, the
  last locked first. It starts unlocking, last one first, when there is none left to lock.
\<close>

record holder =
  wants :: "nat list"
  holds :: "nat list"

definition lockManagementCredentials :: "string list \<Rightarrow> holder" where
  "lockManagementCredentials keys = \<lparr>wants = managementLockIndexes keys, holds = []\<rparr>"

definition finished :: "holder \<Rightarrow> bool" where
  "finished p \<longleftrightarrow> wants p = [] \<and> holds p = []"

text \<open>The requests in progress, by position; \<open>free\<close>: no request holds the mutex.\<close>

definition free :: "nat \<Rightarrow> holder list \<Rightarrow> bool" where
  "free i ps \<longleftrightarrow> list_all (\<lambda>p. i \<notin> set (holds p)) ps"

inductive lock_step :: "holder list \<Rightarrow> holder list \<Rightarrow> bool" where
  lock: "n < length ps \<Longrightarrow> wants (ps ! n) = i # is \<Longrightarrow> free i ps \<Longrightarrow>
    lock_step ps (ps[n := \<lparr>wants = is, holds = i # holds (ps ! n)\<rparr>])"
| unlock: "n < length ps \<Longrightarrow> wants (ps ! n) = [] \<Longrightarrow> holds (ps ! n) = i # is \<Longrightarrow>
    lock_step ps (ps[n := \<lparr>wants = [], holds = is\<rparr>])"

inductive_cases lock_stepE: "lock_step ps qs"

section \<open>Invariant\<close>

text \<open>What a request holds and wants is increasing, so it holds only smaller indexes than it wants.\<close>

definition ordered :: "holder \<Rightarrow> bool" where
  "ordered p \<longleftrightarrow> sorted_wrt (<) (rev (holds p) @ wants p)"

definition ordered_all :: "holder list \<Rightarrow> bool" where
  "ordered_all ps \<longleftrightarrow> list_all ordered ps"

lemma ordered_start: "ordered (lockManagementCredentials keys)"
  by (simp add: ordered_def lockManagementCredentials_def lock_indexes_sorted)

lemma ordered_step: "lock_step ps qs \<Longrightarrow> ordered_all ps \<Longrightarrow> ordered_all qs"
proof (erule lock_stepE, goal_cases)
  case (1 n i "is")
  then have "ordered (ps ! n)" by (simp add: ordered_all_def list_all_length)
  with 1 have "ordered \<lparr>wants = is, holds = i # holds (ps ! n)\<rparr>" by (simp add: ordered_def)
  with 1 show ?case by (auto simp: ordered_all_def list_all_length nth_list_update)
next
  case (2 n i "is")
  then have "ordered (ps ! n)" by (simp add: ordered_all_def list_all_length)
  with 2 have "ordered \<lparr>wants = [], holds = is\<rparr>" by (simp add: ordered_def sorted_wrt_append)
  with 2 show ?case by (auto simp: ordered_all_def list_all_length nth_list_update)
qed

lemma ordered_run: "lock_step\<^sup>*\<^sup>* ps qs \<Longrightarrow> ordered_all ps \<Longrightarrow> ordered_all qs"
  by (induction rule: rtranclp_induct) (auto intro: ordered_step)

text \<open>No mutex has two holders.\<close>

definition exclusive :: "holder list \<Rightarrow> bool" where
  "exclusive ps \<longleftrightarrow>
     (\<forall>m<length ps. \<forall>n<length ps. m \<noteq> n \<longrightarrow> set (holds (ps ! m)) \<inter> set (holds (ps ! n)) = {})"

lemma exclusiveD:
  "exclusive ps \<Longrightarrow> m < length ps \<Longrightarrow> n < length ps \<Longrightarrow>
    i \<in> set (holds (ps ! m)) \<Longrightarrow> i \<in> set (holds (ps ! n)) \<Longrightarrow> m = n"
  by (auto simp: exclusive_def)

lemma freeD: "free i ps \<Longrightarrow> m < length ps \<Longrightarrow> i \<notin> set (holds (ps ! m))"
  by (simp add: free_def list_all_length)

lemma exclusive_step: "lock_step ps qs \<Longrightarrow> exclusive ps \<Longrightarrow> exclusive qs"
proof (erule lock_stepE, goal_cases)
  case (1 n i "is")
  then show ?case
    unfolding exclusive_def by (auto simp: nth_list_update dest: freeD)
next
  case (2 n i "is")
  then show ?case
    unfolding exclusive_def by (auto simp: nth_list_update) (metis disjoint_iff list.set_intros(2))+
qed

lemma exclusive_run: "lock_step\<^sup>*\<^sup>* ps qs \<Longrightarrow> exclusive ps \<Longrightarrow> exclusive qs"
  by (induction rule: rtranclp_induct) (auto intro: exclusive_step)

section \<open>Progress\<close>

lemma some_step:
  assumes ord: "ordered_all ps" and unfinished: "p \<in> set ps" "\<not> finished p"
  shows "\<exists>qs. lock_step ps qs"
proof (cases "\<exists>n<length ps. wants (ps ! n) = [] \<and> holds (ps ! n) \<noteq> []")
  case True
  then obtain n i "is" where "n < length ps" "wants (ps ! n) = []" "holds (ps ! n) = i # is"
    by (metis neq_Nil_conv)
  then show ?thesis using unlock by blast
next
  case False
  define W where "W = {n. n < length ps \<and> wants (ps ! n) \<noteq> []}"
  obtain n0 where "n0 < length ps" "ps ! n0 = p" using unfinished(1) by (auto simp: in_set_conv_nth)
  with unfinished(2) False have "n0 \<in> W" by (auto simp: W_def finished_def)
  have "finite W" by (simp add: W_def)
  have "Max ((\<lambda>n. hd (wants (ps ! n))) ` W) \<in> (\<lambda>n. hd (wants (ps ! n))) ` W"
    using \<open>finite W\<close> \<open>n0 \<in> W\<close> by (intro Max_in) auto
  then obtain n where nW: "n \<in> W" and top: "Max ((\<lambda>n. hd (wants (ps ! n))) ` W) = hd (wants (ps ! n))"
    by auto
  have max: "hd (wants (ps ! m)) \<le> hd (wants (ps ! n))" if "m \<in> W" for m
    unfolding top [symmetric] using that \<open>finite W\<close> by (intro Max_ge) auto
  from nW obtain i "is" where n: "n < length ps" "wants (ps ! n) = i # is"
    unfolding W_def by (cases "wants (ps ! n)") auto
  have "free i ps"
  proof (rule ccontr)
    assume "\<not> free i ps"
    then obtain m where m: "m < length ps" "i \<in> set (holds (ps ! m))"
      by (auto simp: free_def list_all_length)
    with False have "wants (ps ! m) \<noteq> []" by auto
    with m(1) have "m \<in> W" by (simp add: W_def)
    have "ordered (ps ! m)" using ord m(1) by (simp add: ordered_all_def list_all_length)
    with m(2) \<open>wants (ps ! m) \<noteq> []\<close> have "i < hd (wants (ps ! m))"
      by (auto simp: ordered_def sorted_wrt_append)
    with max [OF \<open>m \<in> W\<close>] n show False by simp
  qed
  with n show ?thesis using lock by blast
qed

text \<open>Every step makes progress: it takes one of the lockings and unlockings still to come.\<close>

definition steps_left :: "holder list \<Rightarrow> nat" where
  "steps_left ps = sum_list (map (\<lambda>p. 2 * length (wants p) + length (holds p)) ps)"

lemma steps_left_update:
  "n < length ps \<Longrightarrow> steps_left (ps[n := q]) + (2 * length (wants (ps ! n)) + length (holds (ps ! n))) =
     steps_left ps + (2 * length (wants q) + length (holds q))"
  unfolding steps_left_def
proof (induction ps arbitrary: n)
  case Nil
  then show ?case by simp
next
  case (Cons p ps)
  show ?case
  proof (cases n)
    case 0
    then show ?thesis by simp
  next
    case (Suc m)
    with Cons.prems Cons.IH [of m] show ?thesis by simp
  qed
qed

lemma step_decreases: "lock_step ps qs \<Longrightarrow> Suc (steps_left qs) = steps_left ps"
proof (erule lock_stepE, goal_cases)
  case (1 n i "is")
  with steps_left_update [of n ps "\<lparr>wants = is, holds = i # holds (ps ! n)\<rparr>"] show ?case by simp
next
  case (2 n i "is")
  with steps_left_update [of n ps "\<lparr>wants = [], holds = is\<rparr>"] show ?case by simp
qed

lemma all_finish:
  assumes "ordered_all ps"
  shows "\<exists>qs. lock_step\<^sup>*\<^sup>* ps qs \<and> list_all finished qs"
  using assms
proof (induction "steps_left ps" arbitrary: ps)
  case 0
  show ?case
  proof (cases "list_all finished ps")
    case True
    then show ?thesis by blast
  next
    case False
    then obtain qs where "lock_step ps qs" using some_step [OF 0(2)] by (auto simp: list_all_iff)
    with step_decreases 0(1) show ?thesis by fastforce
  qed
next
  case (Suc k)
  show ?case
  proof (cases "list_all finished ps")
    case True
    then show ?thesis by blast
  next
    case False
    then obtain qs where q: "lock_step ps qs" using some_step [OF Suc(3)] by (auto simp: list_all_iff)
    then have "k = steps_left qs" using step_decreases Suc(2) by fastforce
    with Suc(1) ordered_step [OF q Suc(3)] obtain rs where "lock_step\<^sup>*\<^sup>* qs rs" "list_all finished rs" by blast
    with q show ?thesis by (meson converse_rtranclp_into_rtranclp)
  qed
qed

section \<open>The properties\<close>

text \<open>The requests at the start, one per key list.\<close>

definition arrivals :: "string list list \<Rightarrow> holder list" where
  "arrivals kss = map lockManagementCredentials kss"

lemma ordered_arrivals: "ordered_all (arrivals kss)"
  by (simp add: arrivals_def ordered_all_def list_all_length ordered_start)

lemma exclusive_arrivals: "exclusive (arrivals kss)"
  by (simp add: arrivals_def exclusive_def lockManagementCredentials_def)

lemma steps_count: "(lock_step ^^ k) ps qs \<Longrightarrow> k + steps_left qs = steps_left ps"
  by (induction k arbitrary: qs) (fastforce dest: step_decreases)+

text \<open>A request is in its handler's guarded part when it has every mutex of its keys.\<close>

definition guarded :: "string list \<Rightarrow> holder \<Rightarrow> bool" where
  "guarded keys p \<longleftrightarrow> wants p = [] \<and> set (managementLockIndexes keys) \<subseteq> set (holds p)"

lemma shared_index:
  "key \<in> set ks \<Longrightarrow> unat (fnv1a key mod 256) \<in> set (managementLockIndexes ks)"
  by (simp add: managementLockIndexes_def)

text \<open>C25: two management requests with a limiter key in common (the same user, or the same
  address) are never both past their locks, however many other requests interleave with them: a
  failure one of them counts is seen by the other's check.\<close>

theorem shared_key_serialized:
  assumes "lock_step\<^sup>*\<^sup>* (arrivals kss) ps" "m < length ps" "n < length ps" "m \<noteq> n"
    and "key \<in> set (kss ! m)" "key \<in> set (kss ! n)"
  shows "\<not> (guarded (kss ! m) (ps ! m) \<and> guarded (kss ! n) (ps ! n))"
proof
  assume g: "guarded (kss ! m) (ps ! m) \<and> guarded (kss ! n) (ps ! n)"
  have "exclusive ps" using assms(1) exclusive_arrivals by (rule exclusive_run)
  moreover have "unat (fnv1a key mod 256) \<in> set (holds (ps ! m)) \<inter> set (holds (ps ! n))"
    using g assms(5,6) [THEN shared_index] by (auto simp: guarded_def)
  ultimately show False using exclusiveD assms(2-4) by blast
qed

text \<open>Two requests with the empty key, the first of them holding its mutex.\<close>

lemma empty_key: "managementLockIndexes [[]] = [197]"
  by (simp add: managementLockIndexes_def fnv1a_def)

lemma first_locks:
  "lock_step (arrivals [[[]], [[]]]) [\<lparr>wants = [], holds = [197]\<rparr>, \<lparr>wants = [197], holds = []\<rparr>]"
  using lock [of 0 "arrivals [[[]], [[]]]" 197 "[]"]
  by (simp add: arrivals_def lockManagementCredentials_def empty_key free_def)

theorem shared_key_serialized_witness:
  "guarded [[]] \<lparr>wants = [], holds = [197]\<rparr> \<and> \<not> guarded [[]] \<lparr>wants = [197], holds = []\<rparr>"
  using shared_key_serialized [OF r_into_rtranclp [where r = lock_step, OF first_locks], of 0 1 "[]"]
  by (simp add: guarded_def empty_key)

text \<open>C26: the locks never deadlock. From any state that any number of management requests reach,
  some request can take its next step unless all are done; every step is one of the lockings and
  unlockings their keys call for, so no run is longer than twice their number; and all of them can
  finish.\<close>

theorem locks_make_progress:
  "(lock_step ^^ k) (arrivals kss) ps \<Longrightarrow>
     k \<le> 2 * length (concat (map managementLockIndexes kss)) \<and>
     (list_all finished ps \<or> (\<exists>qs. lock_step ps qs)) \<and>
     (\<exists>qs. lock_step\<^sup>*\<^sup>* ps qs \<and> list_all finished qs)"
proof (intro conjI)
  assume run: "(lock_step ^^ k) (arrivals kss) ps"
  then have ord: "ordered_all ps"
    using ordered_arrivals ordered_run by (meson relpowp_imp_rtranclp)
  have "steps_left (arrivals kss) = 2 * length (concat (map managementLockIndexes kss))"
    by (induction kss) (simp_all add: steps_left_def arrivals_def lockManagementCredentials_def)
  with steps_count [OF run] show "k \<le> 2 * length (concat (map managementLockIndexes kss))" by simp
  show "list_all finished ps \<or> (\<exists>qs. lock_step ps qs)"
    using some_step [OF ord] by (auto simp: list_all_iff)
  show "\<exists>qs. lock_step\<^sup>*\<^sup>* ps qs \<and> list_all finished qs" using ord by (rule all_finish)
qed

theorem locks_make_progress_witness:
  "\<exists>qs. lock_step\<^sup>*\<^sup>* [\<lparr>wants = [], holds = [197]\<rparr>, \<lparr>wants = [197], holds = []\<rparr>] qs \<and> list_all finished qs"
  using locks_make_progress [of 1 "[[[]], [[]]]", unfolded relpowp_1, OF first_locks] by blast

end
