(* ===== verification/TokenApi.thy ===== *)
theory TokenApi
  imports Http
begin

text \<open>
  The handlers of \<^verbatim>\<open>httpapi/router.go\<close> for registration tokens, for the registration of a device
  with one of them, and for command snippets.
\<close>

section \<open>Secrets\<close>

text \<open>The random bytes are an argument: \<^verbatim>\<open>rand.Read\<close> fills the array or ends the program.\<close>

definition randomToken :: "string \<Rightarrow> string" where
  "randomToken bytes = b64_encode (take 32 bytes)"

definition hashSecret :: "string \<Rightarrow> string" where
  "hashSecret secret = b64_encode (sha256 secret)"

section \<open>Handlers of logged-in users\<close>

text \<open>\<^verbatim>\<open>if _, ok := r.requireUser(w, req); !ok { return }\<close>, and the rest of the handler.\<close>

definition with_user ::
    "libs \<Rightarrow> router \<Rightarrow> env \<Rightarrow> request \<Rightarrow> server \<Rightarrow> (User \<Rightarrow> server \<Rightarrow> response \<times> server) \<Rightarrow> response \<times> server" where
  "with_user L R e req s rest =
     (case requireUser L R (clock e 0) req s of
        (Inl resp, s1) \<Rightarrow> (resp, s1)
      | (Inr user, s1) \<Rightarrow> rest user s1)"

section \<open>Registration tokens\<close>

text \<open>\<^verbatim>\<open>agentTokenResponse\<close>: a struct, so its members are written in the order of its fields.\<close>

definition omitempty :: "string \<Rightarrow> string \<Rightarrow> (string \<times> json) list" where
  "omitempty name v = (if v = [] then [] else [(name, JString v)])"

definition agentTokenResponse :: "libs \<Rightarrow> AgentToken \<Rightarrow> (string \<times> json) list" where
  "agentTokenResponse L token =
     [(''id'', JString (tok_ID token)), (''name'', JString (tok_Name token)),
      (''expires_at'', JString (lib_formatTime L (tok_ExpiresAt token)))] @
     omitempty ''used_at'' (case tok_UsedAt token of None \<Rightarrow> [] | Some t \<Rightarrow> lib_formatTime L t) @
     omitempty ''revoked_at'' (case tok_RevokedAt token of None \<Rightarrow> [] | Some t \<Rightarrow> lib_formatTime L t) @
     [(''created_at'', JString (lib_formatTime L (tok_CreatedAt token)))]"

definition agentTokenToResponse :: "libs \<Rightarrow> AgentToken \<Rightarrow> json" where
  "agentTokenToResponse L token = JObject (agentTokenResponse L token)"

definition token_fields :: struct where
  "token_fields = [(''name'', FString []), (''ttl_hours'', FInt 0)]"

text \<open>\<^verbatim>\<open>time.Duration(body.TTLHours) * time.Hour\<close>: a product of 64-bit integers, which wraps.\<close>

definition token_ttl :: "int \<Rightarrow> duration" where
  "token_ttl ttlHours = int64 ((if ttlHours \<le> 0 then 24 else ttlHours) * hour)"

definition handleCreateAgentToken :: "libs \<Rightarrow> router \<Rightarrow> env \<Rightarrow> request \<Rightarrow> server \<Rightarrow> response \<times> server" where
  "handleCreateAgentToken L R e req s =
     with_user L R e req s (\<lambda>user s1.
       case readJSON L req token_fields of
         Inl resp \<Rightarrow> (resp, s1)
       | Inr body \<Rightarrow>
           (let name = (if str_field body ''name'' = [] then ''agent'' else str_field body ''name'');
                rawToken = randomToken (random e 0)
            in case run_db (CreateAgentToken (clock e 2)
                    \<lparr>ctp_ID = uuid e 0, ctp_Name = name, ctp_TokenHash = hashSecret rawToken,
                     ctp_ExpiresAt = time_add (clock e 1) (token_ttl (int_field body ''ttl_hours''))\<rparr>) s1 of
                 (Inl _, s2) \<Rightarrow> (writeError 500 ''token_error'' ''failed to save token'', s2)
               | (Inr token, s2) \<Rightarrow>
                   (writeJSON 201 (JObject (agentTokenResponse L token @ [(''token'', JString rawToken)])),
                    try_audit (uuid e 1) (clock e 3) (zero_event\<lparr>ae_UserID := u_ID user,
                      ae_EventType := ''agent_token_created'',
                      ae_Summary := ''agent registration token created''\<rparr>) s2)))"

definition handleListAgentTokens :: "libs \<Rightarrow> router \<Rightarrow> env \<Rightarrow> request \<Rightarrow> server \<Rightarrow> response \<times> server" where
  "handleListAgentTokens L R e req s =
     with_user L R e req s (\<lambda>_ s1.
       case run_db ListAgentTokens s1 of
         (Inl _, s2) \<Rightarrow> (writeError 500 ''token_error'' ''failed to list tokens'', s2)
       | (Inr tokens, s2) \<Rightarrow> (writeJSON 200 (JArray (map (agentTokenToResponse L) tokens)), s2))"

definition token_not_found :: response where
  "token_not_found = writeError 404 ''not_found'' ''agent token not found''"

definition handleDeleteRevokedAgentToken :: "env \<Rightarrow> User \<Rightarrow> string \<Rightarrow> server \<Rightarrow> response \<times> server" where
  "handleDeleteRevokedAgentToken e user i s =
     (if i = [] \<or> CHR ''/'' \<in> set i then (token_not_found, s)
      else case run_db (DeleteRevokedAgentToken i) s of
             (Inl err, s1) \<Rightarrow>
               (if err = ErrNotFound then token_not_found
                else if err = ErrConflict
                then writeError 409 ''token_active'' ''agent token must be revoked before permanent deletion''
                else writeError 500 ''token_error'' ''failed to delete token'', s1)
           | (Inr _, s1) \<Rightarrow>
               (writeHeader 204,
                try_audit (uuid e 0) (clock e 1) (zero_event\<lparr>ae_UserID := u_ID user,
                  ae_EventType := ''agent_token_deleted'',
                  ae_Summary := ''agent registration token permanently deleted''\<rparr>) s1))"

definition revoke_token :: "libs \<Rightarrow> env \<Rightarrow> User \<Rightarrow> string \<Rightarrow> server \<Rightarrow> response \<times> server" where
  "revoke_token L e user i s =
     (case run_db (RevokeAgentToken i (clock e 1)) s of
        (Inl err, s1) \<Rightarrow>
          (if err = ErrNotFound then token_not_found
           else writeError 500 ''token_error'' ''failed to revoke token'', s1)
      | (Inr token, s1) \<Rightarrow>
          (writeJSON 200 (agentTokenToResponse L token),
           try_audit (uuid e 0) (clock e 2) (zero_event\<lparr>ae_UserID := u_ID user,
             ae_EventType := ''agent_token_revoked'',
             ae_Summary := ''agent registration token revoked''\<rparr>) s1))"

definition handleRevokeAgentToken :: "libs \<Rightarrow> router \<Rightarrow> env \<Rightarrow> request \<Rightarrow> server \<Rightarrow> response \<times> server" where
  "handleRevokeAgentToken L R e req s =
     with_user L R e req s (\<lambda>user s1.
       let i = trimPrefix (rq_path req) ''/api/agent-tokens/''
       in if hasSuffix i ''/permanent''
          then handleDeleteRevokedAgentToken e user (trimSuffix i ''/permanent'') s1
          else if i = [] \<or> CHR ''/'' \<in> set i then (token_not_found, s1)
          else revoke_token L e user i s1)"

section \<open>Registration\<close>

definition register_fields :: struct where
  "register_fields = [(''token'', FString []), (''name'', FString []), (''platform'', FString []),
     (''agent_version'', FString []), (''fingerprint'', FString [])]"

definition register_device :: "env \<Rightarrow> struct \<Rightarrow> server \<Rightarrow> response \<times> server" where
  "register_device e body s =
     (let credential = randomToken (random e 0);
          name = (if str_field body ''name'' = [] then str_field body ''platform'' @ ''-agent''
                  else str_field body ''name'');
          version = (if str_field body ''agent_version'' = [] then ''unknown''
                     else str_field body ''agent_version'')
      in case run_db (CreateDevice (clock e 1)
              \<lparr>dev_ID = uuid e 0, dev_Name = name, dev_Platform = str_field body ''platform'',
               dev_AgentVersion = version, dev_Fingerprint = str_field body ''fingerprint'',
               dev_CredentialHash = hashSecret credential, dev_Authorized = True,
               dev_LastSeenAt = None, dev_CreatedAt = zero_time, dev_UpdatedAt = zero_time\<rparr>) s of
           (Inl _, s1) \<Rightarrow> (writeError 500 ''device_error'' ''failed to create device'', s1)
         | (Inr device, s1) \<Rightarrow>
             (writeJSON 201 (json_strings [(''device_id'', dev_ID device), (''credential'', credential)]),
              try_audit (uuid e 1) (clock e 2) (zero_event\<lparr>ae_DeviceID := dev_ID device,
                ae_EventType := ''device_registered'', ae_Summary := ''agent registered a device''\<rparr>) s1))"

definition handleAgentRegister :: "libs \<Rightarrow> env \<Rightarrow> request \<Rightarrow> server \<Rightarrow> response \<times> server" where
  "handleAgentRegister L e req s =
     (case readJSON L req register_fields of
        Inl resp \<Rightarrow> (resp, s)
      | Inr body \<Rightarrow>
          (if str_field body ''token'' = [] \<or> str_field body ''platform'' = [] \<or>
              str_field body ''fingerprint'' = []
           then (writeError 400 ''invalid_registration'' ''token, platform, and fingerprint are required'', s)
           else case run_db (UseAgentTokenByHash (hashSecret (str_field body ''token'')) (clock e 0)) s of
                  (Inl _, s1) \<Rightarrow> (writeError 401 ''invalid_token'' ''registration token is invalid'', s1)
                | (Inr _, s1) \<Rightarrow> register_device e body s1))"

section \<open>Command snippets\<close>

definition snippetBody :: struct where
  "snippetBody = [(''name'', FString []), (''command'', FString [])]"

text \<open>The name is trimmed in place, the command is not.\<close>

definition normalize :: "struct \<Rightarrow> (string \<times> string) \<times> bool" where
  "normalize body =
     (let name = trimSpace (str_field body ''name''); command = str_field body ''command''
      in ((name, command), name \<noteq> [] \<and> trimSpace command \<noteq> []))"

definition snippetResponse :: "libs \<Rightarrow> CommandSnippet \<Rightarrow> json" where
  "snippetResponse L c = json_strings
     [(''id'', cs_ID c), (''name'', cs_Name c), (''command'', cs_Command c),
      (''created_at'', lib_formatTime L (cs_CreatedAt c)),
      (''updated_at'', lib_formatTime L (cs_UpdatedAt c))]"

definition snippetIDFromPath :: "string \<Rightarrow> string" where
  "snippetIDFromPath path =
     (let i = trimPrefix path ''/api/snippets/'' in if i = [] \<or> CHR ''/'' \<in> set i then [] else i)"

definition handleListSnippets :: "libs \<Rightarrow> router \<Rightarrow> env \<Rightarrow> request \<Rightarrow> server \<Rightarrow> response \<times> server" where
  "handleListSnippets L R e req s =
     with_user L R e req s (\<lambda>_ s1.
       case run_db ListCommandSnippets s1 of
         (Inl _, s2) \<Rightarrow> (writeError 500 ''snippet_error'' ''failed to list snippets'', s2)
       | (Inr snippets, s2) \<Rightarrow> (writeJSON 200 (JArray (map (snippetResponse L) snippets)), s2))"

definition invalid_snippet :: response where
  "invalid_snippet = writeError 400 ''invalid_snippet'' ''name and command are required''"

definition handleCreateSnippet :: "libs \<Rightarrow> router \<Rightarrow> env \<Rightarrow> request \<Rightarrow> server \<Rightarrow> response \<times> server" where
  "handleCreateSnippet L R e req s =
     with_user L R e req s (\<lambda>_ s1.
       case readJSON L req snippetBody of
         Inl resp \<Rightarrow> (resp, s1)
       | Inr body \<Rightarrow>
           (case normalize body of
              ((name, command), valid) \<Rightarrow>
                if \<not> valid then (invalid_snippet, s1)
                else (case run_db (CreateCommandSnippet (clock e 1)
                         \<lparr>cs_ID = uuid e 0, cs_Name = name, cs_Command = command,
                          cs_CreatedAt = zero_time, cs_UpdatedAt = zero_time\<rparr>) s1 of
                        (Inl _, s2) \<Rightarrow> (writeError 500 ''snippet_error'' ''failed to create snippet'', s2)
                      | (Inr c, s2) \<Rightarrow> (writeJSON 201 (snippetResponse L c), s2))))"

definition snippet_not_found :: response where
  "snippet_not_found = writeError 404 ''not_found'' ''snippet not found''"

definition handleUpdateSnippet :: "libs \<Rightarrow> router \<Rightarrow> env \<Rightarrow> request \<Rightarrow> server \<Rightarrow> response \<times> server" where
  "handleUpdateSnippet L R e req s =
     with_user L R e req s (\<lambda>_ s1.
       let i = snippetIDFromPath (rq_path req)
       in if i = [] then (snippet_not_found, s1)
          else case readJSON L req snippetBody of
                 Inl resp \<Rightarrow> (resp, s1)
               | Inr body \<Rightarrow>
                   (case normalize body of
                      ((name, command), valid) \<Rightarrow>
                        if \<not> valid then (invalid_snippet, s1)
                        else (case run_db (UpdateCommandSnippet (clock e 1) i name command) s1 of
                                (Inl err, s2) \<Rightarrow> (writeStoreError err ''snippet'', s2)
                              | (Inr c, s2) \<Rightarrow> (writeJSON 200 (snippetResponse L c), s2))))"

definition handleDeleteSnippet :: "libs \<Rightarrow> router \<Rightarrow> env \<Rightarrow> request \<Rightarrow> server \<Rightarrow> response \<times> server" where
  "handleDeleteSnippet L R e req s =
     with_user L R e req s (\<lambda>_ s1.
       let i = snippetIDFromPath (rq_path req)
       in if i = [] then (snippet_not_found, s1)
          else case run_db (DeleteCommandSnippet i) s1 of
                 (Inl err, s2) \<Rightarrow> (writeStoreError err ''snippet'', s2)
               | (Inr _, s2) \<Rightarrow> (writeHeader 204, s2))"

end
