(* ===== verification/Protocol.thy ===== *)
theory Protocol
  imports Http
begin

text \<open>
  The messages of \<^verbatim>\<open>server/internal/protocol/messages.go\<close>, which agents, browsers and the server
  exchange, with their JSON form and the envelope around it.
\<close>

section \<open>Types of messages\<close>

definition TypeAgentHello :: string where [simp]: "TypeAgentHello = ''agent_hello''"
definition TypeHeartbeat :: string where [simp]: "TypeHeartbeat = ''heartbeat''"
definition TypeSyncSessions :: string where [simp]: "TypeSyncSessions = ''sync_sessions''"
definition TypeStartSession :: string where [simp]: "TypeStartSession = ''start_session''"
definition TypeSessionStarted :: string where [simp]: "TypeSessionStarted = ''session_started''"
definition TypeStdin :: string where [simp]: "TypeStdin = ''stdin''"
definition TypeResize :: string where [simp]: "TypeResize = ''resize''"
definition TypeStdout :: string where [simp]: "TypeStdout = ''stdout''"
definition TypeSessionExit :: string where [simp]: "TypeSessionExit = ''session_exit''"
definition TypeCloseSession :: string where [simp]: "TypeCloseSession = ''close_session''"
definition TypeSubscribeSession :: string where [simp]: "TypeSubscribeSession = ''subscribe_session''"
definition TypeSessionState :: string where [simp]: "TypeSessionState = ''session_state''"
definition TypeError :: string where [simp]: "TypeError = ''error''"
definition TypeFsList :: string where [simp]: "TypeFsList = ''fs_list''"
definition TypeFsListResult :: string where [simp]: "TypeFsListResult = ''fs_list_result''"
definition TypeFsRead :: string where [simp]: "TypeFsRead = ''fs_read''"
definition TypeFsReadResult :: string where [simp]: "TypeFsReadResult = ''fs_read_result''"
definition TypeFsWriteOpen :: string where [simp]: "TypeFsWriteOpen = ''fs_write_open''"
definition TypeFsWriteOpened :: string where [simp]: "TypeFsWriteOpened = ''fs_write_opened''"
definition TypeFsWriteChunk :: string where [simp]: "TypeFsWriteChunk = ''fs_write_chunk''"
definition TypeFsWriteAck :: string where [simp]: "TypeFsWriteAck = ''fs_write_ack''"
definition TypeFsWriteClose :: string where [simp]: "TypeFsWriteClose = ''fs_write_close''"
definition TypeFsWriteResult :: string where [simp]: "TypeFsWriteResult = ''fs_write_result''"
definition TypeFsError :: string where [simp]: "TypeFsError = ''fs_error''"

definition ProtocolVersion :: string where "ProtocolVersion = ''v1''"
definition CapabilityFs :: string where "CapabilityFs = ''fs''"

section \<open>Messages\<close>

record Envelope =
  env_Type :: string
  env_RequestID :: string
  env_SessionID :: string
  env_Payload :: "json option"

record SessionSummary =
  sum_SessionID :: string
  sum_Title :: string
  sum_ShellPath :: string
  sum_WorkingDirectory :: string
  sum_Status :: string
  sum_AgentPID :: int
  sum_LastOutputSeq :: int

record AgentHello =
  hello_DeviceID :: string
  hello_Credential :: string
  hello_Platform :: string
  hello_AgentVersion :: string
  hello_ProtocolVersion :: string
  hello_Capabilities :: "string list"
  hello_Sessions :: "SessionSummary list"

record FsEntry =
  fe_Name :: string
  fe_IsDir :: bool
  fe_Size :: int
  fe_Mode :: int
  fe_ModifiedAt :: int

text \<open>The structs, their fields in the order of their declaration.\<close>

datatype message =
    Heartbeat string
  | SyncSessions string "SessionSummary list"
  | StartSession string string string int int
  | SessionStarted string int string int
  | Stdin string string
  | Resize string int int
  | Stdout string int string
  | SessionExit string int string
  | CloseSession string
  | SubscribeSession string
  | SessionState string string string
  | ErrorMessage string string
  | FsList string
  | FsListResult string "FsEntry list"
  | FsRead string int int
  | FsReadResult string bool int
  | FsWriteOpen string string int bool
  | FsWriteOpened string
  | FsWriteChunk string int string
  | FsWriteAck string int
  | FsWriteClose string int
  | FsWriteResult string
  | FsError string string

text \<open>The method \<^verbatim>\<open>SessionIdentifier\<close>, of the structs that have it.\<close>

definition SessionIdentifier :: "message \<Rightarrow> string option" where
  "SessionIdentifier m =
     (case m of
        StartSession sid _ _ _ _ \<Rightarrow> Some sid
      | SessionStarted sid _ _ _ \<Rightarrow> Some sid
      | Stdin sid _ \<Rightarrow> Some sid
      | Resize sid _ _ \<Rightarrow> Some sid
      | Stdout sid _ _ \<Rightarrow> Some sid
      | SessionExit sid _ _ \<Rightarrow> Some sid
      | CloseSession sid \<Rightarrow> Some sid
      | SubscribeSession sid \<Rightarrow> Some sid
      | SessionState sid _ _ \<Rightarrow> Some sid
      | _ \<Rightarrow> None)"

section \<open>Encoding\<close>

definition summary_json :: "SessionSummary \<Rightarrow> json" where
  "summary_json x = JObject
     [(''session_id'', JString (sum_SessionID x)), (''title'', JString (sum_Title x)),
      (''shell_path'', JString (sum_ShellPath x)),
      (''working_directory'', JString (sum_WorkingDirectory x)),
      (''status'', JString (sum_Status x)), (''agent_pid'', json_int (sum_AgentPID x)),
      (''last_output_seq'', json_int (sum_LastOutputSeq x))]"

definition entry_json :: "FsEntry \<Rightarrow> json" where
  "entry_json x = JObject
     [(''name'', JString (fe_Name x)), (''is_dir'', JBool (fe_IsDir x)), (''size'', json_int (fe_Size x)),
      (''mode'', json_int (fe_Mode x)), (''modified_at'', json_int (fe_ModifiedAt x))]"

text \<open>An empty slice of the model stands for a slice that is not nil.\<close>

definition payload_json :: "message \<Rightarrow> json" where
  "payload_json m =
     (case m of
        Heartbeat dev \<Rightarrow> JObject [(''device_id'', JString dev)]
      | SyncSessions dev xs \<Rightarrow>
          JObject [(''device_id'', JString dev), (''sessions'', JArray (map summary_json xs))]
      | StartSession sid shell dir cols rows \<Rightarrow>
          JObject [(''session_id'', JString sid), (''shell_path'', JString shell),
            (''working_directory'', JString dir), (''cols'', json_int cols), (''rows'', json_int rows)]
      | SessionStarted sid pid title seq \<Rightarrow>
          JObject [(''session_id'', JString sid), (''agent_pid'', json_int pid),
            (''title'', JString title), (''last_output_seq'', json_int seq)]
      | Stdin sid data \<Rightarrow> JObject [(''session_id'', JString sid), (''data'', JString data)]
      | Resize sid cols rows \<Rightarrow>
          JObject [(''session_id'', JString sid), (''cols'', json_int cols), (''rows'', json_int rows)]
      | Stdout sid seq data \<Rightarrow>
          JObject [(''session_id'', JString sid), (''seq'', json_int seq), (''data'', JString data)]
      | SessionExit sid code text \<Rightarrow>
          JObject [(''session_id'', JString sid), (''exit_code'', json_int code), (''message'', JString text)]
      | CloseSession sid \<Rightarrow> JObject [(''session_id'', JString sid)]
      | SubscribeSession sid \<Rightarrow> JObject [(''session_id'', JString sid)]
      | SessionState sid status text \<Rightarrow>
          JObject ([(''session_id'', JString sid), (''status'', JString status)] @
            (if text = [] then [] else [(''message'', JString text)]))
      | ErrorMessage code text \<Rightarrow> JObject [(''code'', JString code), (''message'', JString text)]
      | FsList path \<Rightarrow> JObject [(''path'', JString path)]
      | FsListResult path xs \<Rightarrow>
          JObject [(''path'', JString path), (''entries'', JArray (map entry_json xs))]
      | FsRead path off len \<Rightarrow>
          JObject [(''path'', JString path), (''offset'', json_int off), (''length'', json_int len)]
      | FsReadResult data eof len \<Rightarrow>
          JObject [(''data'', JString data), (''eof'', JBool eof), (''file_size'', json_int len)]
      | FsWriteOpen up path len overwrite \<Rightarrow>
          JObject [(''upload_id'', JString up), (''path'', JString path), (''size'', json_int len),
            (''overwrite'', JBool overwrite)]
      | FsWriteOpened up \<Rightarrow> JObject [(''upload_id'', JString up)]
      | FsWriteChunk up off data \<Rightarrow>
          JObject [(''upload_id'', JString up), (''offset'', json_int off), (''data'', JString data)]
      | FsWriteAck up off \<Rightarrow> JObject [(''upload_id'', JString up), (''offset'', json_int off)]
      | FsWriteClose up len \<Rightarrow> JObject [(''upload_id'', JString up), (''total_size'', json_int len)]
      | FsWriteResult up \<Rightarrow> JObject [(''upload_id'', JString up)]
      | FsError code text \<Rightarrow> JObject [(''code'', JString code), (''message'', JString text)])"

definition omit_empty :: "string \<Rightarrow> string \<Rightarrow> (string \<times> json) list" where
  "omit_empty name v = (if v = [] then [] else [(name, JString v)])"

definition envelope_json :: "Envelope \<Rightarrow> json" where
  "envelope_json e = JObject ([(''type'', JString (env_Type e))] @
     omit_empty ''request_id'' (env_RequestID e) @ omit_empty ''session_id'' (env_SessionID e) @
     (case env_Payload e of None \<Rightarrow> [] | Some v \<Rightarrow> [(''payload'', v)]))"

definition EncodeEnvelopeWithRequest :: "libs \<Rightarrow> string \<Rightarrow> string \<Rightarrow> message \<Rightarrow> string" where
  "EncodeEnvelopeWithRequest L messageType requestID payload =
     lib_marshal L (envelope_json
       \<lparr>env_Type = messageType, env_RequestID = requestID,
        env_SessionID = (case SessionIdentifier payload of None \<Rightarrow> [] | Some sid \<Rightarrow> sid),
        env_Payload = Some (payload_json payload)\<rparr>)"

definition EncodeEnvelope :: "libs \<Rightarrow> string \<Rightarrow> message \<Rightarrow> string" where
  "EncodeEnvelope L messageType payload =
     lib_marshal L (envelope_json
       \<lparr>env_Type = messageType, env_RequestID = [],
        env_SessionID = (case SessionIdentifier payload of None \<Rightarrow> [] | Some sid \<Rightarrow> sid),
        env_Payload = Some (payload_json payload)\<rparr>)"

section \<open>Decoding\<close>

text \<open>\<^verbatim>\<open>json.Unmarshal\<close> reads the one value the data consists of.\<close>

definition unmarshal :: "libs \<Rightarrow> string \<Rightarrow> json option" where
  "unmarshal L data =
     (case first_value (fst (lib_lex L data)) of
        Some (v, rest) \<Rightarrow> if rest = [] \<and> snd (lib_lex L data) then Some v else None
      | None \<Rightarrow> None)"

definition envelope_fields :: struct where
  "envelope_fields = [(''type'', FString []), (''request_id'', FString []), (''session_id'', FString []),
     (''payload'', FRaw None)]"

definition DecodeEnvelope :: "libs \<Rightarrow> string \<Rightarrow> Envelope option" where
  "DecodeEnvelope L data =
     (case Option.bind (unmarshal L data) (\<lambda>v. decode_struct False v envelope_fields) of
        None \<Rightarrow> None
      | Some st \<Rightarrow>
          if str_field st ''type'' = [] then None
          else Some \<lparr>env_Type = str_field st ''type'', env_RequestID = str_field st ''request_id'',
                 env_SessionID = str_field st ''session_id'', env_Payload = raw_field st ''payload''\<rparr>)"

text \<open>\<^verbatim>\<open>decodePayload\<close>: a missing payload is no JSON, a null one leaves the struct as it is.\<close>

definition decodePayload :: "struct \<Rightarrow> Envelope \<Rightarrow> struct option" where
  "decodePayload dest env = Option.bind (env_Payload env) (\<lambda>v. decode_struct False v dest)"

text \<open>A slice of the struct, from the value of its member.\<close>

definition decode_slice :: "(json \<Rightarrow> 'a option) \<Rightarrow> json option \<Rightarrow> 'a list option" where
  "decode_slice item raw =
     (case raw of
        None \<Rightarrow> Some []
      | Some JNull \<Rightarrow> Some []
      | Some (JArray vs) \<Rightarrow> those (map item vs)
      | Some _ \<Rightarrow> None)"

definition decode_string :: "json \<Rightarrow> string option" where
  "decode_string v = (case v of JString s \<Rightarrow> Some s | JNull \<Rightarrow> Some [] | _ \<Rightarrow> None)"

text \<open>\<^verbatim>\<open>uint32\<close>\<close>

definition decode_uint32 :: "json option \<Rightarrow> int option" where
  "decode_uint32 raw =
     (case raw of
        None \<Rightarrow> Some 0
      | Some JNull \<Rightarrow> Some 0
      | Some (JNumber s) \<Rightarrow>
          if s \<noteq> [] \<and> list_all is_digit s \<and> nat_of_digits s < 2 ^ 32 then Some (int (nat_of_digits s)) else None
      | Some _ \<Rightarrow> None)"

definition summary_fields :: struct where
  "summary_fields = [(''session_id'', FString []), (''title'', FString []), (''shell_path'', FString []),
     (''working_directory'', FString []), (''status'', FString []), (''agent_pid'', FInt 0),
     (''last_output_seq'', FInt 0)]"

definition decode_summary :: "json \<Rightarrow> SessionSummary option" where
  "decode_summary v = map_option (\<lambda>st. \<lparr>sum_SessionID = str_field st ''session_id'',
     sum_Title = str_field st ''title'', sum_ShellPath = str_field st ''shell_path'',
     sum_WorkingDirectory = str_field st ''working_directory'', sum_Status = str_field st ''status'',
     sum_AgentPID = int_field st ''agent_pid'', sum_LastOutputSeq = int_field st ''last_output_seq''\<rparr>)
     (decode_struct False v summary_fields)"

definition decode_hello :: "Envelope \<Rightarrow> AgentHello option" where
  "decode_hello env =
     Option.bind (decodePayload [(''device_id'', FString []), (''credential'', FString []),
         (''platform'', FString []), (''agent_version'', FString []), (''protocol_version'', FString []),
         (''capabilities'', FRaw None), (''sessions'', FRaw None)] env) (\<lambda>st.
     Option.bind (decode_slice decode_string (raw_field st ''capabilities'')) (\<lambda>caps.
     Option.bind (decode_slice decode_summary (raw_field st ''sessions'')) (\<lambda>sessions.
       Some \<lparr>hello_DeviceID = str_field st ''device_id'', hello_Credential = str_field st ''credential'',
         hello_Platform = str_field st ''platform'', hello_AgentVersion = str_field st ''agent_version'',
         hello_ProtocolVersion = str_field st ''protocol_version'', hello_Capabilities = caps,
         hello_Sessions = sessions\<rparr>)))"

definition decode_sync :: "Envelope \<Rightarrow> SessionSummary list option" where
  "decode_sync env =
     Option.bind (decodePayload [(''device_id'', FString []), (''sessions'', FRaw None)] env) (\<lambda>st.
       decode_slice decode_summary (raw_field st ''sessions''))"

definition decode_started :: "Envelope \<Rightarrow> (string \<times> int \<times> string \<times> int) option" where
  "decode_started env = map_option (\<lambda>st. (str_field st ''session_id'', int_field st ''agent_pid'',
       str_field st ''title'', int_field st ''last_output_seq''))
     (decodePayload [(''session_id'', FString []), (''agent_pid'', FInt 0), (''title'', FString []),
       (''last_output_seq'', FInt 0)] env)"

definition decode_stdin :: "Envelope \<Rightarrow> (string \<times> string) option" where
  "decode_stdin env = map_option (\<lambda>st. (str_field st ''session_id'', str_field st ''data''))
     (decodePayload [(''session_id'', FString []), (''data'', FString [])] env)"

definition decode_resize :: "Envelope \<Rightarrow> (string \<times> int \<times> int) option" where
  "decode_resize env = map_option (\<lambda>st. (str_field st ''session_id'', int_field st ''cols'', int_field st ''rows''))
     (decodePayload [(''session_id'', FString []), (''cols'', FInt 0), (''rows'', FInt 0)] env)"

definition decode_stdout :: "Envelope \<Rightarrow> (string \<times> int \<times> string) option" where
  "decode_stdout env = map_option (\<lambda>st. (str_field st ''session_id'', int_field st ''seq'', str_field st ''data''))
     (decodePayload [(''session_id'', FString []), (''seq'', FInt 0), (''data'', FString [])] env)"

definition decode_exit :: "Envelope \<Rightarrow> (string \<times> int \<times> string) option" where
  "decode_exit env = map_option (\<lambda>st. (str_field st ''session_id'', int_field st ''exit_code'', str_field st ''message''))
     (decodePayload [(''session_id'', FString []), (''exit_code'', FInt 0), (''message'', FString [])] env)"

definition decode_subscribe :: "Envelope \<Rightarrow> string option" where
  "decode_subscribe env = map_option (\<lambda>st. str_field st ''session_id'')
     (decodePayload [(''session_id'', FString [])] env)"

text \<open>The replies of an agent to file requests.\<close>

definition decode_entry :: "json \<Rightarrow> FsEntry option" where
  "decode_entry v =
     Option.bind (decode_struct False v [(''name'', FString []), (''is_dir'', FBool False), (''size'', FInt 0),
         (''mode'', FRaw None), (''modified_at'', FInt 0)]) (\<lambda>st.
     map_option (\<lambda>mode. \<lparr>fe_Name = str_field st ''name'', fe_IsDir = bool_field st ''is_dir'',
         fe_Size = int_field st ''size'', fe_Mode = mode, fe_ModifiedAt = int_field st ''modified_at''\<rparr>)
       (decode_uint32 (raw_field st ''mode'')))"

definition decode_list_result :: "Envelope \<Rightarrow> (string \<times> FsEntry list) option" where
  "decode_list_result env =
     Option.bind (decodePayload [(''path'', FString []), (''entries'', FRaw None)] env) (\<lambda>st.
       map_option (\<lambda>xs. (str_field st ''path'', xs)) (decode_slice decode_entry (raw_field st ''entries'')))"

definition decode_read_result :: "Envelope \<Rightarrow> (string \<times> bool \<times> int) option" where
  "decode_read_result env = map_option (\<lambda>st. (str_field st ''data'', bool_field st ''eof'', int_field st ''file_size''))
     (decodePayload [(''data'', FString []), (''eof'', FBool False), (''file_size'', FInt 0)] env)"

definition decode_upload :: "Envelope \<Rightarrow> string option" where
  "decode_upload env = map_option (\<lambda>st. str_field st ''upload_id'')
     (decodePayload [(''upload_id'', FString [])] env)"

definition decode_ack :: "Envelope \<Rightarrow> (string \<times> int) option" where
  "decode_ack env = map_option (\<lambda>st. (str_field st ''upload_id'', int_field st ''offset''))
     (decodePayload [(''upload_id'', FString []), (''offset'', FInt 0)] env)"

definition decode_fs_error :: "Envelope \<Rightarrow> (string \<times> string) option" where
  "decode_fs_error env = map_option (\<lambda>st. (str_field st ''code'', str_field st ''message''))
     (decodePayload [(''code'', FString []), (''message'', FString [])] env)"

end
