(* ===== verification/Hub.thy ===== *)
theory Hub
  imports Protocol
begin

text \<open>
  \<^verbatim>\<open>server/internal/ws/hub.go\<close>, the routing of messages between agents and browsers, and
  \<^verbatim>\<open>server/internal/devices/service.go\<close>, which devices are online and what they can do. Every method
  holds its lock from start to end (\<^verbatim>\<open>FromAgent\<close> sends after releasing it, to the subscribers it
  read), so a call is one step. A connection is a number, as the code compares pointers.
\<close>

section \<open>Connections\<close>

type_synonym peer = nat

record Outbound =
  ob_Type :: string
  ob_SessionID :: string
  ob_RequestID :: string
  ob_Payload :: message

text \<open>
  What was sent so far, and whether the next sends work: a script like that of the database
  driver. Nothing left in the script means that they do.
\<close>

record wire =
  sent :: "(peer \<times> Outbound) list"
  outcomes :: "bool list"

text \<open>\<^verbatim>\<open>socketPeer.Send\<close>: the bytes of the message, and the write.\<close>

definition socket_frame :: "libs \<Rightarrow> Outbound \<Rightarrow> string" where
  "socket_frame L msg =
     (if ob_RequestID msg \<noteq> []
      then EncodeEnvelopeWithRequest L (ob_Type msg) (ob_RequestID msg) (ob_Payload msg)
      else EncodeEnvelope L (ob_Type msg) (ob_Payload msg))"

definition Send :: "peer \<Rightarrow> Outbound \<Rightarrow> wire \<Rightarrow> bool \<times> wire" where
  "Send p msg w =
     (if outcomes w \<noteq> [] \<and> \<not> hd (outcomes w) then (False, w\<lparr>outcomes := tl (outcomes w)\<rparr>)
      else (True, w\<lparr>sent := sent w @ [(p, msg)], outcomes := tl (outcomes w)\<rparr>))"

section \<open>The hub\<close>

datatype hub_error = ErrNoAgent | ErrNoSessionRoute | SendFailed

text \<open>An inner map without elements is a key the outer map still has.\<close>

record Hub =
  agents :: "string \<rightharpoonup> peer"
  sessionDevices :: "string \<rightharpoonup> string"
  webSubscribers :: "string \<rightharpoonup> peer list"

definition NewHub :: Hub where
  "NewHub = \<lparr>agents = Map.empty, sessionDevices = Map.empty, webSubscribers = Map.empty\<rparr>"

definition AttachAgent :: "string \<Rightarrow> peer \<Rightarrow> Hub \<Rightarrow> Hub" where
  "AttachAgent deviceID p h = h\<lparr>agents := (agents h)(deviceID \<mapsto> p)\<rparr>"

definition DetachAgent :: "string \<Rightarrow> Hub \<Rightarrow> Hub" where
  "DetachAgent deviceID h = h\<lparr>agents := (agents h)(deviceID := None)\<rparr>"

definition send_result :: "bool \<times> wire \<Rightarrow> hub_error option \<times> wire" where
  "send_result r = (if fst r then None else Some SendFailed, snd r)"

definition ToDevice :: "string \<Rightarrow> Outbound \<Rightarrow> Hub \<Rightarrow> wire \<Rightarrow> hub_error option \<times> wire" where
  "ToDevice deviceID msg h w =
     (case agents h deviceID of
        None \<Rightarrow> (Some ErrNoAgent, w)
      | Some agent \<Rightarrow> send_result (Send agent msg w))"

definition BindSession :: "string \<Rightarrow> string \<Rightarrow> Hub \<Rightarrow> Hub" where
  "BindSession sessionID deviceID h = h\<lparr>sessionDevices := (sessionDevices h)(sessionID \<mapsto> deviceID)\<rparr>"

text \<open>The subscribers of a session; indexing a map without the key gives an empty inner map.\<close>

definition subscribers :: "Hub \<Rightarrow> string \<Rightarrow> peer list" where
  "subscribers h sessionID = (case webSubscribers h sessionID of None \<Rightarrow> [] | Some ps \<Rightarrow> ps)"

definition SubscribeWeb :: "string \<Rightarrow> peer \<Rightarrow> Hub \<Rightarrow> Hub" where
  "SubscribeWeb sessionID p h =
     h\<lparr>webSubscribers := (webSubscribers h)(sessionID \<mapsto> List.insert p (subscribers h sessionID))\<rparr>"

definition UnsubscribeWeb :: "string \<Rightarrow> peer \<Rightarrow> Hub \<Rightarrow> Hub" where
  "UnsubscribeWeb sessionID p h =
     h\<lparr>webSubscribers := (webSubscribers h)
         (sessionID := map_option (removeAll p) (webSubscribers h sessionID))\<rparr>"

text \<open>The loop visits every session once, so its order does not matter.\<close>

definition UnsubscribePeer :: "peer \<Rightarrow> Hub \<Rightarrow> Hub" where
  "UnsubscribePeer p h =
     h\<lparr>webSubscribers := (\<lambda>sessionID.
         case webSubscribers h sessionID of
           None \<Rightarrow> None
         | Some ps \<Rightarrow> if removeAll p ps = [] then None else Some (removeAll p ps))\<rparr>"

definition sessionIDOf :: "message \<Rightarrow> string" where
  "sessionIDOf m =
     (case m of
        Stdin sid _ \<Rightarrow> sid
      | Resize sid _ _ \<Rightarrow> sid
      | Stdout sid _ _ \<Rightarrow> sid
      | SessionState sid _ _ \<Rightarrow> sid
      | SessionStarted sid _ _ _ \<Rightarrow> sid
      | SessionExit sid _ _ \<Rightarrow> sid
      | CloseSession sid \<Rightarrow> sid
      | StartSession sid _ _ _ _ \<Rightarrow> sid
      | _ \<Rightarrow> [])"

definition typeOf :: "message \<Rightarrow> string" where
  "typeOf m =
     (case m of
        Stdin _ _ \<Rightarrow> TypeStdin
      | Resize _ _ _ \<Rightarrow> TypeResize
      | Stdout _ _ _ \<Rightarrow> TypeStdout
      | SessionState _ _ _ \<Rightarrow> TypeSessionState
      | SessionStarted _ _ _ _ \<Rightarrow> TypeSessionStarted
      | SessionExit _ _ _ \<Rightarrow> TypeSessionExit
      | CloseSession _ \<Rightarrow> TypeCloseSession
      | StartSession _ _ _ _ _ \<Rightarrow> TypeStartSession
      | _ \<Rightarrow> TypeError)"

definition outbound :: "message \<Rightarrow> Outbound" where
  "outbound m = \<lparr>ob_Type = typeOf m, ob_SessionID = sessionIDOf m, ob_RequestID = [], ob_Payload = m\<rparr>"

definition FromWeb :: "message \<Rightarrow> Hub \<Rightarrow> wire \<Rightarrow> hub_error option \<times> wire" where
  "FromWeb m h w =
     (case sessionDevices h (sessionIDOf m) of
        None \<Rightarrow> (Some ErrNoSessionRoute, w)
      | Some deviceID \<Rightarrow>
          (case agents h deviceID of
             None \<Rightarrow> (Some ErrNoAgent, w)
           | Some agent \<Rightarrow> send_result (Send agent (outbound m) w)))"

text \<open>The loop over the subscribers stops at the first one that cannot be sent to.\<close>

fun send_each :: "Outbound \<Rightarrow> peer list \<Rightarrow> wire \<Rightarrow> hub_error option \<times> wire" where
  "send_each msg [] w = (None, w)"
| "send_each msg (p # ps) w =
     (case Send p msg w of
        (True, w1) \<Rightarrow> send_each msg ps w1
      | (False, w1) \<Rightarrow> (Some SendFailed, w1))"

text \<open>The device is not looked at; \<open>\<sigma>\<close> is the order in which the map of subscribers is visited.\<close>

definition FromAgent :: "choice \<Rightarrow> string \<Rightarrow> message \<Rightarrow> Hub \<Rightarrow> wire \<Rightarrow> hub_error option \<times> wire" where
  "FromAgent \<sigma> deviceID m h w = send_each (outbound m) (visit \<sigma> (subscribers h (sessionIDOf m))) w"

section \<open>Subscriptions as a relation\<close>

definition subscribed :: "Hub \<Rightarrow> (string \<times> peer) set" where
  "subscribed h = {(sessionID, p). p \<in> set (subscribers h sessionID)}"

definition hub_inv :: "Hub \<Rightarrow> bool" where
  "hub_inv h \<longleftrightarrow> (\<forall>sessionID. distinct (subscribers h sessionID))"

lemma subscribers_simps [simp]:
  "subscribers NewHub s = []"
  "subscribers (AttachAgent d p h) s = subscribers h s"
  "subscribers (DetachAgent d h) s = subscribers h s"
  "subscribers (BindSession t d h) s = subscribers h s"
  "subscribers (SubscribeWeb t p h) s = (if s = t then List.insert p (subscribers h t) else subscribers h s)"
  "subscribers (UnsubscribeWeb t p h) s = (if s = t then removeAll p (subscribers h t) else subscribers h s)"
  "subscribers (UnsubscribePeer p h) s = removeAll p (subscribers h s)"
  by (simp_all add: subscribers_def NewHub_def AttachAgent_def DetachAgent_def BindSession_def
      SubscribeWeb_def UnsubscribeWeb_def UnsubscribePeer_def split: option.splits)

lemma subscribed_simps [simp]:
  "subscribed NewHub = {}"
  "subscribed (AttachAgent d p h) = subscribed h"
  "subscribed (DetachAgent d h) = subscribed h"
  "subscribed (BindSession t d h) = subscribed h"
  "subscribed (SubscribeWeb t p h) = insert (t, p) (subscribed h)"
  "subscribed (UnsubscribeWeb t p h) = subscribed h - {(t, p)}"
  "subscribed (UnsubscribePeer p h) = subscribed h - UNIV \<times> {p}"
  by (auto simp: subscribed_def split: if_splits)

lemma hub_inv_steps [simp]:
  "hub_inv NewHub"
  "hub_inv h \<Longrightarrow> hub_inv (AttachAgent d p h)"
  "hub_inv h \<Longrightarrow> hub_inv (DetachAgent d h)"
  "hub_inv h \<Longrightarrow> hub_inv (BindSession t d h)"
  "hub_inv h \<Longrightarrow> hub_inv (SubscribeWeb t p h)"
  "hub_inv h \<Longrightarrow> hub_inv (UnsubscribeWeb t p h)"
  "hub_inv h \<Longrightarrow> hub_inv (UnsubscribePeer p h)"
  by (simp_all add: hub_inv_def distinct_removeAll)

section \<open>Deliveries\<close>

lemma Send_sent: "\<exists>ms. sent (snd (Send p msg w)) = sent w @ ms \<and> set ms \<subseteq> {(p, msg)}"
  by (simp add: Send_def)

lemma Send_works: "outcomes w = [] \<Longrightarrow> Send p msg w = (True, w\<lparr>sent := sent w @ [(p, msg)]\<rparr>)"
  by (simp add: Send_def)

lemma send_each_works:
  "outcomes w = [] \<Longrightarrow> send_each msg ps w = (None, w\<lparr>sent := sent w @ map (\<lambda>p. (p, msg)) ps\<rparr>)"
  by (induction ps arbitrary: w) (simp_all add: Send_works)

text \<open>Whatever fails, a prefix of the peers gets the message, all of them when there is no error.\<close>

lemma send_each_prefix:
  "\<exists>n \<le> length ps. sent (snd (send_each msg ps w)) = sent w @ map (\<lambda>p. (p, msg)) (take n ps) \<and>
     (fst (send_each msg ps w) = None \<longleftrightarrow> n = length ps)"
proof (induction ps arbitrary: w)
  case Nil
  then show ?case by simp
next
  case (Cons p ps)
  show ?case
  proof (cases "fst (Send p msg w)")
    case True
    then obtain w1 where s: "Send p msg w = (True, w1)" by (cases "Send p msg w") auto
    then have w1: "sent w1 = sent w @ [(p, msg)]" by (auto simp: Send_def split: if_splits)
    obtain n where "n \<le> length ps"
      "sent (snd (send_each msg ps w1)) = sent w1 @ map (\<lambda>p. (p, msg)) (take n ps)"
      "fst (send_each msg ps w1) = None \<longleftrightarrow> n = length ps"
      using Cons.IH by blast
    with s w1 show ?thesis by (intro exI [of _ "Suc n"]) simp
  next
    case False
    then have "Send p msg w = (False, w\<lparr>outcomes := tl (outcomes w)\<rparr>)" by (auto simp: Send_def)
    then show ?thesis by (intro exI [of _ 0]) simp
  qed
qed

section \<open>Presence\<close>

record Presence =
  online :: "string \<rightharpoonup> bool"
  capabilities :: "string \<rightharpoonup> (string \<rightharpoonup> bool)"

definition NewPresence :: Presence where
  "NewPresence = \<lparr>online = Map.empty, capabilities = Map.empty\<rparr>"

definition SetOnline :: "string \<Rightarrow> bool \<Rightarrow> Presence \<Rightarrow> Presence" where
  "SetOnline deviceID on p =
     (let q = p\<lparr>online := (online p)(deviceID \<mapsto> on)\<rparr>
      in if \<not> on then q\<lparr>capabilities := (capabilities q)(deviceID := None)\<rparr> else q)"

definition Online :: "string \<Rightarrow> Presence \<Rightarrow> bool" where
  "Online deviceID p = (online p deviceID = Some True)"

definition SetCapabilities :: "string \<Rightarrow> string list \<Rightarrow> Presence \<Rightarrow> Presence" where
  "SetCapabilities deviceID caps p =
     p\<lparr>capabilities := (capabilities p)(deviceID \<mapsto> (\<lambda>c. if c \<in> set caps then Some True else None))\<rparr>"

definition HasCapability :: "string \<Rightarrow> string \<Rightarrow> Presence \<Rightarrow> bool" where
  "HasCapability deviceID capability p =
     (case capabilities p deviceID of None \<Rightarrow> False | Some caps \<Rightarrow> caps capability = Some True)"

lemma presence_simps [simp]:
  "Online d (SetOnline e on p) = (if d = e then on else Online d p)"
  "Online d (SetCapabilities e caps p) = Online d p"
  "HasCapability d c (SetCapabilities e caps p) = (if d = e then c \<in> set caps else HasCapability d c p)"
  "HasCapability d c (SetOnline e on p) = ((d = e \<longrightarrow> on) \<and> HasCapability d c p)"
  by (auto simp: SetOnline_def Online_def SetCapabilities_def HasCapability_def Let_def split: option.splits)

end
