(* ===== verification/Terminal.thy ===== *)
theory Terminal
  imports GoStrings
begin

text \<open>
  \<^verbatim>\<open>server/internal/terminal/service.go\<close>: the defaults of a new session and the files that hold
  the output of the sessions, with the functions of \<^verbatim>\<open>path/filepath\<close> they use (on Unix).
\<close>

section \<open>New sessions\<close>

record CreateRequest =
  cr_ShellPath :: string
  cr_WorkingDirectory :: string
  cr_Cols :: int
  cr_Rows :: int

definition NormalizeCreateRequest :: "CreateRequest \<Rightarrow> CreateRequest" where
  "NormalizeCreateRequest req =
     \<lparr>cr_ShellPath = (if cr_ShellPath req = [] then ''/bin/bash'' else cr_ShellPath req),
      cr_WorkingDirectory = (if cr_WorkingDirectory req = [] then ''$HOME'' else cr_WorkingDirectory req),
      cr_Cols = (if cr_Cols req \<le> 0 then 80 else cr_Cols req),
      cr_Rows = (if cr_Rows req \<le> 0 then 24 else cr_Rows req)\<rparr>"

lemma NormalizeCreateRequest_idem [simp]:
  "NormalizeCreateRequest (NormalizeCreateRequest req) = NormalizeCreateRequest req"
  by (simp add: NormalizeCreateRequest_def)

section \<open>Paths\<close>

text \<open>
  \<^verbatim>\<open>filepath.Clean\<close>: empty elements and dots go, two dots remove the element before them, or stay
  in front of a path that does not start at the root. The stack has the last element first.
\<close>

definition slash :: char where "slash = CHR ''/''"

definition rooted :: "string \<Rightarrow> bool" where
  "rooted p \<longleftrightarrow> take 1 p = [slash]"

definition clean_step :: "bool \<Rightarrow> string list \<Rightarrow> string \<Rightarrow> string list" where
  "clean_step r stack c =
     (if c = [] \<or> c = ''.'' then stack
      else if c = ''..''
      then (if stack \<noteq> [] \<and> hd stack \<noteq> ''..'' then tl stack else if r then stack else c # stack)
      else c # stack)"

definition path_parts :: "string \<Rightarrow> string list" where
  "path_parts p = rev (foldl (clean_step (rooted p)) [] (splitOn slash p))"

fun join_with :: "char \<Rightarrow> string list \<Rightarrow> string" where
  "join_with c [] = []"
| "join_with c [p] = p"
| "join_with c (p # q # ps) = p @ c # join_with c (q # ps)"

definition Clean :: "string \<Rightarrow> string" where
  "Clean p =
     (if rooted p then slash # join_with slash (path_parts p)
      else if path_parts p = [] then ''.'' else join_with slash (path_parts p))"

definition Join :: "string list \<Rightarrow> string" where
  "Join es = (let parts = filter (\<lambda>e. e \<noteq> []) es in if parts = [] then [] else Clean (join_with slash parts))"

definition Dir :: "string \<Rightarrow> string" where
  "Dir p = Clean (rev (dropWhile (\<lambda>c. c \<noteq> slash) (rev p)))"

section \<open>Files\<close>

text \<open>
  The files below the server's control, by path. The script says how the next operations end: an
  operation the system refuses changes nothing, a write can stop after some bytes.
\<close>

datatype io_result = Works | Refused | Stops nat

record disk =
  files :: "string \<rightharpoonup> string"
  io_script :: "io_result list"

definition next_io :: "disk \<Rightarrow> io_result \<times> disk" where
  "next_io d = (case io_script d of [] \<Rightarrow> (Works, d) | r # rs \<Rightarrow> (r, d\<lparr>io_script := rs\<rparr>))"

text \<open>No file name has a zero byte; \<^verbatim>\<open>os.MkdirAll\<close> only makes directories.\<close>

definition MkdirAll :: "string \<Rightarrow> disk \<Rightarrow> bool \<times> disk" where
  "MkdirAll dir d =
     (if byte 0 \<in> set dir then (False, d)
      else case next_io d of (r, d1) \<Rightarrow> (r = Works, d1))"

definition WriteFile :: "string \<Rightarrow> string \<Rightarrow> disk \<Rightarrow> bool \<times> disk" where
  "WriteFile path data d =
     (if byte 0 \<in> set path then (False, d)
      else case next_io d of
             (Works, d1) \<Rightarrow> (True, d1\<lparr>files := (files d1)(path \<mapsto> data)\<rparr>)
           | (Refused, d1) \<Rightarrow> (False, d1)
           | (Stops n, d1) \<Rightarrow> (False, d1\<lparr>files := (files d1)(path \<mapsto> take n data)\<rparr>))"

definition ReadFile :: "string \<Rightarrow> disk \<Rightarrow> string option \<times> disk" where
  "ReadFile path d = (case next_io d of (r, d1) \<Rightarrow> (if r = Works then files d1 path else None, d1))"

section \<open>Output chunks\<close>

definition safeName :: "string \<Rightarrow> string" where
  "safeName v = replaceAll ''..'' ''_'' (replaceAll [CHR 0x5C] ''_'' (replaceAll ''/'' ''_'' v))"

definition chunk_path :: "string \<Rightarrow> int \<Rightarrow> int \<Rightarrow> string" where
  "chunk_path sessionID startSeq endSeq =
     Join [Join [''sessions'', safeName sessionID], padded 12 startSeq @ ''-'' @ padded 12 endSeq @ ''.log'']"

text \<open>The result is the path and the number of bytes; \<^verbatim>\<open>ToSlash\<close> is the identity.\<close>

definition WriteChunk ::
    "string \<Rightarrow> string \<Rightarrow> int \<Rightarrow> int \<Rightarrow> string \<Rightarrow> disk \<Rightarrow> (string \<times> int) option \<times> disk" where
  "WriteChunk root sessionID startSeq endSeq data d =
     (case MkdirAll (Join [root, Join [''sessions'', safeName sessionID]]) d of
        (False, d1) \<Rightarrow> (None, d1)
      | (True, d1) \<Rightarrow>
          (case WriteFile (Join [root, chunk_path sessionID startSeq endSeq]) data d1 of
             (False, d2) \<Rightarrow> (None, d2)
           | (True, d2) \<Rightarrow> (Some (chunk_path sessionID startSeq endSeq, int (length data)), d2)))"

text \<open>The path a read opens, unless the storage path is refused.\<close>

definition read_target :: "string \<Rightarrow> string \<Rightarrow> string option" where
  "read_target root storagePath =
     (let cleanPath = Clean storagePath
      in if rooted cleanPath \<or> cleanPath = ''.'' \<or> hasPrefix cleanPath ''../'' \<or> cleanPath = ''..''
         then None else Some (Join [root, cleanPath]))"

definition ReadChunk :: "string \<Rightarrow> string \<Rightarrow> disk \<Rightarrow> string option \<times> disk" where
  "ReadChunk root storagePath d =
     (case read_target root storagePath of None \<Rightarrow> (None, d) | Some path \<Rightarrow> ReadFile path d)"

section \<open>Facts about clean paths\<close>

definition plain :: "string \<Rightarrow> bool" where
  "plain c \<longleftrightarrow> c \<noteq> [] \<and> c \<noteq> ''.'' \<and> c \<noteq> ''..'' \<and> slash \<notin> set c"

lemma splitOn_between: "splitOn c (a @ c # b) = splitOn c a @ splitOn c b"
proof (induction a)
  case Nil
  then show ?case by simp
next
  case (Cons x a)
  then show ?case by (cases "splitOn c a") auto
qed

lemma splitOn_join:
  "ps \<noteq> [] \<Longrightarrow> (\<And>p. p \<in> set ps \<Longrightarrow> c \<notin> set p) \<Longrightarrow> splitOn c (join_with c ps) = ps"
proof (induction c ps rule: join_with.induct)
  case (3 c p q ps)
  have "splitOn c (join_with c (p # q # ps)) = p # splitOn c (join_with c (q # ps))"
    using 3 by (simp add: splitOn_append)
  with 3 show ?case by simp
qed (simp_all add: splitOn_none)

lemma clean_plain: "(\<And>c. c \<in> set cs \<Longrightarrow> plain c) \<Longrightarrow> foldl (clean_step r) st cs = rev cs @ st"
  by (induction cs arbitrary: st) (simp_all add: clean_step_def plain_def)

text \<open>What a clean stack holds: plain elements, below them two dots when the path is relative.\<close>

definition clean_stack :: "bool \<Rightarrow> string list \<Rightarrow> bool" where
  "clean_stack r st \<longleftrightarrow> (\<exists>as n. st = as @ replicate n ''..'' \<and> list_all plain as \<and> (r \<longrightarrow> n = 0))"

lemma clean_stack_step:
  assumes "clean_stack r st" and "slash \<notin> set c"
  shows "clean_stack r (clean_step r st c)"
proof -
  obtain as n where st: "st = as @ replicate n ''..''" "list_all plain as" "r \<longrightarrow> n = 0"
    using assms(1) by (auto simp: clean_stack_def)
  show ?thesis
  proof (cases "c = ''..''")
    case True
    show ?thesis
    proof (cases as)
      case Nil
      with st True have "clean_step r st c = (if r then [] else replicate (Suc n) ''..'')"
        by (cases n) (auto simp: clean_step_def)
      then show ?thesis
        unfolding clean_stack_def by (intro exI [of _ "[]"] exI [of _ "if r then 0 else Suc n"]) simp
    next
      case (Cons a as')
      with st True have "clean_step r st c = as' @ replicate n ''..''"
        by (auto simp: clean_step_def plain_def)
      with st Cons show ?thesis unfolding clean_stack_def by auto
    qed
  next
    case False
    show ?thesis
    proof (cases "c = [] \<or> c = ''.''")
      case True
      with assms(1) show ?thesis by (auto simp: clean_step_def)
    next
      case other: False
      with False assms(2) st have "clean_step r st c = (c # as) @ replicate n ''..''" "list_all plain (c # as)"
        by (auto simp: clean_step_def plain_def)
      with st show ?thesis unfolding clean_stack_def by blast
    qed
  qed
qed

lemma clean_stack_fold:
  "clean_stack r st \<Longrightarrow> (\<And>c. c \<in> set cs \<Longrightarrow> slash \<notin> set c) \<Longrightarrow> clean_stack r (foldl (clean_step r) st cs)"
  by (induction cs arbitrary: st) (simp_all add: clean_stack_step)

lemma path_parts_shape:
  "\<exists>n as. path_parts p = replicate n ''..'' @ as \<and> list_all plain as \<and> (rooted p \<longrightarrow> n = 0)"
proof -
  have "clean_stack (rooted p) (foldl (clean_step (rooted p)) [] (splitOn slash p))"
    by (rule clean_stack_fold) (auto simp: clean_stack_def dest: splitOn_parts)
  then obtain as n where "foldl (clean_step (rooted p)) [] (splitOn slash p) = as @ replicate n ''..''"
    "list_all plain as" "rooted p \<longrightarrow> n = 0"
    by (auto simp: clean_stack_def)
  then show ?thesis unfolding path_parts_def
    by (intro exI [of _ n] exI [of _ "rev as"]) (simp add: list_all_iff)
qed

lemma join_plain:
  "list_all plain as \<Longrightarrow> splitOn slash (join_with slash as) = (if as = [] then [[]] else as)"
  by (auto simp: splitOn_join plain_def list_all_iff)

lemma rooted_Cons [simp]: "rooted (slash # p)"
  by (simp add: rooted_def)

lemma rooted_append: "a \<noteq> [] \<Longrightarrow> rooted (a @ b) = rooted a"
  by (cases a) (simp_all add: rooted_def)

lemma join_with_Cons: "join_with c (p # ps) = p @ (if ps = [] then [] else c # join_with c ps)"
  by (cases ps) auto

lemma rooted_plain: "plain p \<Longrightarrow> \<not> rooted p"
  by (cases p) (auto simp: rooted_def plain_def)

lemma rooted_join: "list_all plain as \<Longrightarrow> \<not> rooted (join_with slash as)"
  by (cases as) (auto simp: join_with_Cons rooted_append rooted_plain plain_def rooted_def [of "[]"])

lemma clean_dots: "foldl (clean_step False) (replicate k ''..'') (replicate n ''..'') = replicate (n + k) ''..''"
proof (induction n arbitrary: k)
  case 0
  then show ?case by simp
next
  case (Suc n)
  have "clean_step False (replicate k ''..'') ''..'' = replicate (Suc k) ''..''"
    by (cases k) (auto simp: clean_step_def)
  then show ?case using Suc [of "Suc k"] by simp
qed

lemma rooted_Clean [simp]: "rooted (Clean p) = rooted p"
proof (cases "rooted p")
  case True
  then show ?thesis by (simp add: Clean_def)
next
  case False
  obtain n as where shape: "path_parts p = replicate n ''..'' @ as" "list_all plain as"
    using path_parts_shape by blast
  have "\<not> rooted (join_with slash (replicate n ''..'' @ as))"
  proof (cases n)
    case 0
    then show ?thesis using shape(2) by (simp add: rooted_join)
  next
    case (Suc m)
    then show ?thesis by (simp add: join_with_Cons rooted_def slash_def)
  qed
  with False shape show ?thesis by (simp add: Clean_def) (simp add: rooted_def slash_def)
qed

lemma parts_Clean [simp]: "path_parts (Clean p) = path_parts p"
proof -
  obtain n as where shape: "path_parts p = replicate n ''..'' @ as" "list_all plain as" "rooted p \<Longrightarrow> n = 0"
    using path_parts_shape by blast
  show ?thesis
  proof (cases "rooted p")
    case True
    with shape have c: "Clean p = slash # join_with slash as" by (simp add: Clean_def)
    have "foldl (clean_step True) [] (splitOn slash (slash # join_with slash as)) = rev as"
      using shape(2) clean_plain [of as True "[]"] by (simp add: join_plain list_all_iff clean_step_def)
    then have "path_parts (slash # join_with slash as) = as"
      unfolding path_parts_def [of "slash # join_with slash as"] by simp
    then show ?thesis using True shape(1,3) unfolding c by simp
  next
    case False
    show ?thesis
    proof (cases "path_parts p = []")
      case True
      with False have c: "Clean p = ''.''" by (simp add: Clean_def)
      have "path_parts ''.'' = []" by code_simp
      with c True show ?thesis by simp
    next
      case nonempty: False
      have no_slash: "slash \<notin> set q" if "q \<in> set (path_parts p)" for q
      proof -
        from that shape have "q = ''..'' \<or> plain q" by (auto simp: list_all_iff)
        then show ?thesis by (auto simp: plain_def slash_def)
      qed
      have c: "Clean p = join_with slash (path_parts p)" using False nonempty by (simp add: Clean_def)
      have "splitOn slash (Clean p) = path_parts p" unfolding c using nonempty no_slash by (rule splitOn_join)
      moreover have "foldl (clean_step False) [] (path_parts p) = rev (path_parts p)"
        using clean_dots [of 0 n] clean_plain [of as False "replicate n ''..''"] shape(2)
        by (simp add: shape(1) list_all_iff)
      moreover have "\<not> rooted (Clean p)" using False by simp
      ultimately show ?thesis unfolding path_parts_def [of "Clean p"] by simp
    qed
  qed
qed

lemma Clean_idem [simp]: "Clean (Clean p) = Clean p"
proof -
  have "Clean (Clean p) = (if rooted p then slash # join_with slash (path_parts p)
      else if path_parts p = [] then ''.'' else join_with slash (path_parts p))"
    unfolding Clean_def [of "Clean p"] by simp
  then show ?thesis unfolding Clean_def [of p] .
qed

text \<open>Joining adds plain elements at the end.\<close>

lemma parts_append:
  assumes "a \<noteq> []" and "list_all plain as"
  shows "path_parts (a @ slash # join_with slash as) = path_parts a @ as"
proof -
  have "foldl (clean_step r) st (splitOn slash (join_with slash as)) = rev as @ st" for r st
    using assms(2) by (simp add: join_plain clean_plain list_all_iff clean_step_def)
  then show ?thesis using assms(1) by (simp add: path_parts_def rooted_append splitOn_between)
qed

lemma parts_plain: "list_all plain as \<Longrightarrow> path_parts (join_with slash as) = as"
  by (simp add: path_parts_def rooted_join join_plain clean_plain list_all_iff clean_step_def)

lemma join_nonempty: "list_all plain as \<Longrightarrow> as \<noteq> [] \<Longrightarrow> join_with slash as \<noteq> []"
  by (cases as) (auto simp: join_with_Cons plain_def)

lemma Join_plain:
  assumes "as \<noteq> []" and "list_all plain as"
  shows "path_parts (Join [a, join_with slash as]) = path_parts a @ as"
    and "rooted (Join [a, join_with slash as]) = rooted a"
proof -
  have "path_parts [] = []" "\<not> rooted []" by code_simp+
  then show "path_parts (Join [a, join_with slash as]) = path_parts a @ as"
    and "rooted (Join [a, join_with slash as]) = rooted a"
    using assms join_nonempty [OF assms(2,1)]
    by (auto simp: Join_def Let_def parts_append parts_plain rooted_append rooted_join)
qed

lemma Clean_plain: "as \<noteq> [] \<Longrightarrow> list_all plain as \<Longrightarrow> Clean (join_with slash as) = join_with slash as"
  by (simp add: Clean_def rooted_join parts_plain)

section \<open>Where chunks are read and written\<close>

lemma read_target_cases:
  assumes "read_target root storagePath = Some path"
  obtains as where "as \<noteq> []" "list_all plain as" "path = Join [root, join_with slash as]"
proof -
  let ?c = "Clean storagePath"
  have c: "\<not> rooted storagePath" "?c \<noteq> ''.''" "\<not> hasPrefix ?c ''../''" "?c \<noteq> ''..''"
    and path: "path = Join [root, ?c]"
    using assms by (auto simp: read_target_def Let_def split: if_splits)
  obtain n as where shape: "path_parts storagePath = replicate n ''..'' @ as" "list_all plain as"
    using path_parts_shape by blast
  have ne: "path_parts storagePath \<noteq> []" using c(1,2) by (auto simp: Clean_def)
  then have j: "?c = join_with slash (replicate n ''..'' @ as)" using c(1) by (simp add: Clean_def shape(1))
  have "n = 0"
  proof (rule ccontr)
    assume "n \<noteq> 0"
    then obtain m where "n = Suc m" by (cases n) auto
    with j have "?c = ''..'' @ (if replicate m ''..'' @ as = [] then [] else slash # join_with slash (replicate m ''..'' @ as))"
      by (simp add: join_with_Cons)
    then show False using c(3,4) by (auto simp: hasPrefix_def slash_def split: if_splits)
  qed
  with that [of as] shape ne j path show ?thesis by simp
qed

text \<open>C33: reading a chunk stays below the directory of the output, whatever the storage path in the
  database is: a path that is not refused is the directory's own followed by at least one name, and
  no two dots come after it.\<close>

theorem chunk_reads_stay_inside:
  "case read_target root storagePath of
     None \<Rightarrow> ReadChunk root storagePath d = (None, d)
   | Some path \<Rightarrow> ReadChunk root storagePath d = ReadFile path d \<and> rooted path = rooted root \<and>
       (\<exists>as. as \<noteq> [] \<and> list_all plain as \<and> path_parts path = path_parts root @ as)"
proof (cases "read_target root storagePath")
  case None
  then show ?thesis by (simp add: ReadChunk_def)
next
  case (Some path)
  then obtain as where "as \<noteq> []" "list_all plain as" "path = Join [root, join_with slash as]"
    by (rule read_target_cases)
  with Some Join_plain [of as root] show ?thesis by (auto simp: ReadChunk_def)
qed

lemma safeName_no_dots: "safeName v \<noteq> ''..''"
proof -
  have "replaceAll ''..'' ''_'' s \<noteq> ''..''" for s
  proof
    assume r: "replaceAll ''..'' ''_'' s = ''..''"
    then obtain c cs where s: "s = c # cs" "\<not> hasPrefix s ''..''" "c = CHR ''.''" "replaceAll ''..'' ''_'' cs = ''.''"
      by (cases s) (auto simp: replaceAll_Cons split: if_splits)
    then obtain d ds where "cs = d # ds" "d = CHR ''.''"
      by (cases cs) (auto simp: replaceAll_Cons split: if_splits)
    with s show False by (simp add: hasPrefix_def)
  qed
  then show ?thesis by (simp add: safeName_def)
qed

lemma safeName_no_slash: "slash \<notin> set (safeName v)"
proof -
  have "slash \<notin> set (replaceAll ''/'' ''_'' v)" 
    using replaceAll_char_absent [of slash "''_''" v] by (simp add: slash_def)
  then have "slash \<notin> set (replaceAll [CHR 0x5C] ''_'' (replaceAll ''/'' ''_'' v))"
    using set_replaceAll [of "[CHR 0x5C]" "''_''"] by (fastforce simp: slash_def)
  then show ?thesis unfolding safeName_def using set_replaceAll [of "''..''" "''_''"] by (fastforce simp: slash_def)
qed

lemma padded_chars: "c \<in> set (padded w i) \<Longrightarrow> c = CHR ''-'' \<or> is_digit c"
  by (auto simp: padded_def Let_def is_digit_def [of "CHR ''0''"] dest: digits_of_digits split: if_splits)

lemma chunk_file_plain: "plain (padded 12 a @ ''-'' @ padded 12 b @ ''.log'')"
  by (auto simp: plain_def slash_def append_eq_Cons_conv dest!: padded_chars) (simp_all add: is_digit_def)

lemma chunk_path_join:
  obtains as where "as \<noteq> []" "list_all plain as" "chunk_path sid a b = join_with slash as"
    "take 1 as = [''sessions'']"
proof -
  let ?f = "padded 12 a @ ''-'' @ padded 12 b @ ''.log''"
  define ds where "ds = ''sessions'' # (if safeName sid = [] \<or> safeName sid = ''.'' then [] else [safeName sid])"
  have ds: "list_all plain ds" "ds \<noteq> []"
    using safeName_no_dots safeName_no_slash by (auto simp: ds_def plain_def slash_def)
  have "Join [''sessions'', safeName sid] = join_with slash ds"
  proof (cases "safeName sid = ''.''")
    case True
    moreover have "Join [''sessions'', ''.''] = ''sessions''" by code_simp
    ultimately show ?thesis by (simp add: ds_def)
  next
    case False
    then have "Join [''sessions'', safeName sid] = Clean (join_with slash ds)" by (simp add: Join_def ds_def)
    with ds show ?thesis by (simp add: Clean_plain)
  qed
  moreover have "list_all plain (ds @ [?f])" using ds chunk_file_plain by simp
  moreover have "join_with slash (ds @ [x]) = join_with slash ds @ slash # x" for x
    by (simp add: ds_def)
  ultimately have "chunk_path sid a b = join_with slash (ds @ [?f])"
    using ds join_nonempty [OF ds] Clean_plain [of "ds @ [?f]"] by (simp add: chunk_path_def Join_def)
  then show ?thesis using that [of "ds @ [?f]"] \<open>list_all plain (ds @ [?f])\<close> by (simp add: ds_def)
qed

lemma read_target_chunk: "read_target root (chunk_path sid a b) = Some (Join [root, chunk_path sid a b])"
proof -
  obtain as where as: "as \<noteq> []" "list_all plain as" "chunk_path sid a b = join_with slash as" "take 1 as = [''sessions'']"
    by (rule chunk_path_join)
  then have "hasPrefix (chunk_path sid a b) ''sessions''"
    by (cases as) (auto simp: join_with_Cons hasPrefix_def)
  then have "hasPrefix (Clean (chunk_path sid a b)) ''sessions''" and c: "Clean (chunk_path sid a b) = chunk_path sid a b"
    using as by (simp_all add: Clean_plain)
  moreover have "\<not> rooted (chunk_path sid a b)" using as by (simp add: rooted_join)
  ultimately show ?thesis by (auto simp: read_target_def hasPrefix_iff)
qed

text \<open>C34: what \<^verbatim>\<open>WriteChunk\<close> reports as written is what \<^verbatim>\<open>ReadChunk\<close> gives back for the path it
  returned, for every session identifier, sequence numbers and bytes.\<close>

theorem chunk_round_trip:
  assumes "WriteChunk root sessionID startSeq endSeq data d = (Some (path, n), d')"
    and "io_script d' = []"
  shows "ReadChunk root path d' = (Some data, d') \<and> n = int (length data)"
  using assms
  by (auto simp: WriteChunk_def ReadChunk_def read_target_chunk ReadFile_def WriteFile_def next_io_def
      split: prod.splits if_splits io_result.splits list.splits bool.splits)

definition sample_disk :: disk where
  "sample_disk = \<lparr>files = Map.empty, io_script = []\<rparr>"

theorem chunk_round_trip_witness:
  "fst (ReadChunk ''/data'' ''sessions/s1/000000000001-000000000001.log''
     (snd (WriteChunk ''/data'' ''s1'' 1 1 ''hello'' sample_disk))) = Some ''hello''"
proof -
  have "chunk_path ''s1'' 1 1 = ''sessions/s1/000000000001-000000000001.log''" by code_simp
  moreover have "byte 0 \<notin> set (Join [''/data'', Join [''sessions'', safeName ''s1'']])"
    "byte 0 \<notin> set (Join [''/data'', ''sessions/s1/000000000001-000000000001.log''])"
    by code_simp+
  ultimately obtain d where w: "WriteChunk ''/data'' ''s1'' 1 1 ''hello'' sample_disk =
      (Some (''sessions/s1/000000000001-000000000001.log'', 5), d)" "io_script d = []"
    by (auto simp: WriteChunk_def MkdirAll_def WriteFile_def next_io_def sample_disk_def)
  from chunk_round_trip [OF w] w(1) show ?thesis by simp
qed

end
