(* ===== verification/Base64Std.thy ===== *)
theory Base64Std
  imports Codec
begin

text \<open>
  \<^verbatim>\<open>base64.StdEncoding\<close>: groups of four characters, the last one filled up with \<open>=\<close>. It carries
  the bytes of files in the messages.
\<close>

definition base64_alphabet :: string where
  "base64_alphabet = ''ABCDEFGHIJKLMNOPQRSTUVWXYZabcdefghijklmnopqrstuvwxyz0123456789+/''"

definition std_encode :: "string \<Rightarrow> string" where
  "std_encode s =
     (let e = encode_with 6 base64_alphabet s in e @ replicate ((4 - length e mod 4) mod 4) (CHR ''=''))"

text \<open>Bits of the last digit that no byte takes are ignored.\<close>

definition std_decode :: "string \<Rightarrow> string option" where
  "std_decode s =
     (let t = strip_newlines s; body = takeWhile (\<lambda>c. c \<noteq> CHR ''='') t; pads = drop (length body) t
      in if length t mod 4 \<noteq> 0 \<or> 2 < length pads \<or> \<not> list_all (\<lambda>c. c = CHR ''='') pads then None
         else map_option (\<lambda>vs. whole_bytes (decoded_bits 6 vs)) (digit_values base64_alphabet body))"

lemma base64_alphabet_facts: "length base64_alphabet = 2 ^ 6" "distinct base64_alphabet"
  by (simp_all add: base64_alphabet_def)

lemma base64_alphabet_plain:
  "c \<in> set base64_alphabet \<Longrightarrow> c \<noteq> byte 10 \<and> c \<noteq> byte 13 \<and> c \<noteq> CHR ''=''"
proof -
  have "list_all (\<lambda>c. c \<noteq> byte 10 \<and> c \<noteq> byte 13 \<and> c \<noteq> CHR ''='') base64_alphabet" by code_simp
  then show "c \<in> set base64_alphabet \<Longrightarrow> c \<noteq> byte 10 \<and> c \<noteq> byte 13 \<and> c \<noteq> CHR ''=''"
    by (simp add: list_all_iff)
qed

lemma pads_small:
  assumes "6 * n = 8 * m + p" and "p < (6 :: nat)"
  shows "n mod 4 \<noteq> 1"
proof
  assume "n mod 4 = 1"
  then obtain q where "n = 4 * q + 1" by (metis mult_div_mod_eq)
  then have "8 * (3 * q) + 6 = 8 * m + p" using assms(1) by simp
  then have "(8 * (3 * q) + 6) mod 8 = (8 * m + p) mod 8" by simp
  moreover have "(8 * (3 * q) + 6) mod 8 = 6" "(8 * m + p) mod 8 = p"
    using assms(2) by (simp_all only: mod_mult_self4) simp_all
  ultimately show False using assms(2) by simp
qed

lemma std_round_trip [simp]: "std_decode (std_encode s) = Some s"
proof -
  define e where "e = encode_with 6 base64_alphabet s"
  define k where "k = (4 - length e mod 4) mod 4"
  obtain vs p where vs: "digit_values base64_alphabet e = Some vs" and p: "p < 6"
    and bits: "decoded_bits 6 vs = byte_bits s @ replicate p False"
    and len: "6 * length e = 8 * length s + p"
    unfolding e_def by (rule decoded_encode [OF _ base64_alphabet_facts]) (simp, blast)
  have enc: "std_encode s = e @ replicate k (CHR ''='')" by (simp add: std_encode_def Let_def e_def k_def)
  have plain: "c \<noteq> byte 10 \<and> c \<noteq> byte 13 \<and> c \<noteq> CHR ''=''" if "c \<in> set e" for c
    using that set_encode_with [of 6 base64_alphabet s] base64_alphabet_facts(1) base64_alphabet_plain
    unfolding e_def by auto
  have "CHR ''='' \<noteq> byte 10" "CHR ''='' \<noteq> byte 13" by code_simp+
  then have t: "strip_newlines (std_encode s) = e @ replicate k (CHR ''='')"
    unfolding enc strip_newlines_def using plain by (intro filter_True) auto
  have w: "takeWhile (\<lambda>c. c \<noteq> CHR ''='') (e @ replicate k (CHR ''='')) = e"
    using plain by (simp add: takeWhile_append2)
  define r where "r = length e mod 4"
  have "r \<noteq> 1" "r < 4" using pads_small [OF len p] by (simp_all add: r_def)
  then have "r = 0 \<or> r = 2 \<or> r = 3" by arith
  then have "k \<le> 2" "(r + k) mod 4 = 0" by (auto simp: k_def r_def [symmetric])
  moreover have "(length e + k) mod 4 = (r + k) mod 4" unfolding r_def by (rule mod_add_left_eq [symmetric])
  moreover have "whole_bytes (decoded_bits 6 vs) = s" unfolding bits using p by (simp add: whole_bytes_padded)
  ultimately show ?thesis by (simp add: std_decode_def t w vs Let_def list_all_iff)
qed

end
