(* ===== verification/Site.thy ===== *)
theory Site
  imports TokenApi Hub Terminal Base64Std
begin

text \<open>
  The state of the whole server: the part the login handlers use (\<open>server\<close>), the hub, the
  presence of devices, what was sent on the connections, the file service and the files with the
  output of the sessions.
\<close>

text \<open>
  \<^verbatim>\<open>files.Service\<close>: the requests that wait for an agent's answer (\<^verbatim>\<open>pending\<close>), the answers in
  their channels, and how many operations each device has (\<^verbatim>\<open>active\<close>).
\<close>

record Service =
  chunkSize :: nat
  maxPerDevice :: int
  pending :: "string set"
  replies :: "string \<rightharpoonup> Envelope"
  active :: "string \<rightharpoonup> int"

definition NewService :: Service where
  "NewService = \<lparr>chunkSize = 256 * 1024, maxPerDevice = 4, pending = {}, replies = Map.empty,
     active = Map.empty\<rparr>"

text \<open>\<open>out_store\<close>: the root directory and the files below it, when output is kept at all.\<close>

record site =
  srv :: server
  hub :: Hub
  presence :: Presence
  wires :: wire
  fs :: Service
  out_store :: "(string \<times> disk) option"

definition site_db :: "'a store \<Rightarrow> site \<Rightarrow> (store_error + 'a) \<times> site" where
  "site_db m s = (case run_db m (srv s) of (r, x) \<Rightarrow> (r, s\<lparr>srv := x\<rparr>))"

text \<open>Calls whose error the code drops.\<close>

definition try_db :: "'a store \<Rightarrow> site \<Rightarrow> site" where
  "try_db m s = snd (site_db m s)"

definition site_audit :: "string \<Rightarrow> instant \<Rightarrow> AuditEvent \<Rightarrow> site \<Rightarrow> site" where
  "site_audit i now ev s = s\<lparr>srv := try_audit i now ev (srv s)\<rparr>"

definition on_hub :: "(Hub \<Rightarrow> Hub) \<Rightarrow> site \<Rightarrow> site" where
  "on_hub f s = s\<lparr>hub := f (hub s)\<rparr>"

definition on_presence :: "(Presence \<Rightarrow> Presence) \<Rightarrow> site \<Rightarrow> site" where
  "on_presence f s = s\<lparr>presence := f (presence s)\<rparr>"

definition on_fs :: "(Service \<Rightarrow> Service) \<Rightarrow> site \<Rightarrow> site" where
  "on_fs f s = s\<lparr>fs := f (fs s)\<rparr>"

definition site_send :: "(Hub \<Rightarrow> wire \<Rightarrow> hub_error option \<times> wire) \<Rightarrow> site \<Rightarrow> hub_error option \<times> site" where
  "site_send f s = (case f (hub s) (wires s) of (r, w) \<Rightarrow> (r, s\<lparr>wires := w\<rparr>))"

definition reply_to :: "peer \<Rightarrow> Outbound \<Rightarrow> site \<Rightarrow> site" where
  "reply_to p msg s = s\<lparr>wires := snd (Send p msg (wires s))\<rparr>"

definition errorOutbound :: "string \<Rightarrow> string \<Rightarrow> Outbound" where
  "errorOutbound code text =
     \<lparr>ob_Type = TypeError, ob_SessionID = [], ob_RequestID = [], ob_Payload = ErrorMessage code text\<rparr>"

definition valueOr :: "string \<Rightarrow> string \<Rightarrow> string" where
  "valueOr v fallback = (if v \<noteq> [] then v else fallback)"

text \<open>The rows a step of the server sees.\<close>

definition rows :: "site \<Rightarrow> tables" where
  "rows s = contents (db (srv s))"

lemma site_parts [simp]:
  "hub (snd (site_db m s)) = hub s" "presence (snd (site_db m s)) = presence s"
  "wires (snd (site_db m s)) = wires s" "fs (snd (site_db m s)) = fs s"
  "out_store (snd (site_db m s)) = out_store s" "db (srv (snd (site_db m s))) = snd (m (db (srv s)))"
  "fst (site_db m s) = fst (m (db (srv s)))"
  by (simp_all add: site_db_def split: prod.splits) (simp_all add: run_db_def split: prod.splits)

lemma rows_simps [simp]:
  "rows (on_hub f s) = rows s" "rows (on_presence g s) = rows s" "rows (on_fs h s) = rows s"
  "rows (snd (site_send k s)) = rows s" "rows (reply_to p msg s) = rows s"
  "rows (s\<lparr>out_store := d\<rparr>) = rows s" "rows (s\<lparr>wires := w\<rparr>) = rows s"
  by (simp_all add: rows_def on_hub_def on_presence_def on_fs_def site_send_def reply_to_def split: prod.splits)

lemma hub_simps [simp]:
  "hub (on_hub f s) = f (hub s)" "hub (on_presence g s) = hub s" "hub (on_fs h s) = hub s"
  "hub (snd (site_send k s)) = hub s" "hub (reply_to p msg s) = hub s" "hub (try_db m s) = hub s"
  "hub (site_audit i now ev s) = hub s" "hub (s\<lparr>out_store := d\<rparr>) = hub s"
  by (simp_all add: on_hub_def on_presence_def on_fs_def site_send_def reply_to_def try_db_def
      site_audit_def split: prod.splits)

lemma wires_simps [simp]:
  "wires (on_hub f s) = wires s" "wires (on_presence g s) = wires s" "wires (on_fs h s) = wires s"
  "wires (try_db m s) = wires s" "wires (site_audit i now ev s) = wires s"
  "wires (s\<lparr>out_store := d\<rparr>) = wires s"
  by (simp_all add: on_hub_def on_presence_def on_fs_def try_db_def site_audit_def)

text \<open>What an operation of the store keeps, it keeps as a call of the server.\<close>

lemma rows_site_db: "preserves P m \<Longrightarrow> P (rows s) \<Longrightarrow> P (rows (snd (site_db m s)))"
  by (simp add: rows_def preserves_def)

lemma rows_try_db: "preserves P m \<Longrightarrow> P (rows s) \<Longrightarrow> P (rows (try_db m s))"
  by (simp add: try_db_def rows_site_db)

lemma rows_audit: "preserves P (audit_log i now ev) \<Longrightarrow> P (rows s) \<Longrightarrow> P (rows (site_audit i now ev s))"
  by (simp add: site_audit_def try_audit_def rows_def preserves_def)

end
