(* ===== verification/AgentApi.thy ===== *)
theory AgentApi
  imports Site
begin

text \<open>
  The two websockets of \<^verbatim>\<open>httpapi/router.go\<close>: what an agent's connection does when it opens, for
  each message and when it ends (\<^verbatim>\<open>handleAgentWebSocket\<close>, \<^verbatim>\<open>handleAgentEnvelope\<close>), and what a
  browser's connection does (\<^verbatim>\<open>handleWebWebSocket\<close>). A message is handled as one step of the
  server. The readings of the clock a loop takes are numbered on from \<open>n\<close>.
\<close>

section \<open>Sessions an agent reports\<close>

definition agentOwnsSession :: "string \<Rightarrow> string \<Rightarrow> site \<Rightarrow> bool \<times> site" where
  "agentOwnsSession deviceID sessionID s =
     (case site_db (GetTerminalSession sessionID) s of
        (Inl _, s1) \<Rightarrow> (False, s1)
      | (Inr x, s1) \<Rightarrow> (ts_DeviceID x = deviceID, s1))"

text \<open>One round of the loop over the reported sessions.\<close>

definition sync_session :: "env \<Rightarrow> string \<Rightarrow> nat \<Rightarrow> SessionSummary \<Rightarrow> site \<Rightarrow> site" where
  "sync_session e deviceID n x s =
     (case site_db (GetTerminalSession (sum_SessionID x)) s of
        (Inl err, s1) \<Rightarrow>
          if err = ErrNotFound
          then on_hub (BindSession (sum_SessionID x) deviceID)
                 (try_db (CreateTerminalSession (clock e n)
                    \<lparr>ts_ID = sum_SessionID x, ts_DeviceID = deviceID,
                     ts_Title = valueOr (sum_Title x) ''shell'',
                     ts_ShellPath = valueOr (sum_ShellPath x) ''/bin/bash'',
                     ts_WorkingDirectory = valueOr (sum_WorkingDirectory x) ''$HOME'',
                     ts_Status = valueOr (sum_Status x) SessionRunning,
                     ts_AgentPID = sum_AgentPID x, ts_LastOutputSeq = sum_LastOutputSeq x,
                     ts_CreatedAt = zero_time, ts_UpdatedAt = zero_time\<rparr>) s1)
          else s1
      | (Inr existing, s1) \<Rightarrow>
          if ts_DeviceID existing \<noteq> deviceID then s1
          else if ts_Status existing = SessionClosed then s1
          else try_db (UpdateTerminalSessionStatus (clock e n) (sum_SessionID x)
                   (valueOr (sum_Status x) SessionRunning) (sum_AgentPID x) (sum_LastOutputSeq x))
                 (on_hub (BindSession (sum_SessionID x) deviceID) s1))"

fun sync_reported :: "env \<Rightarrow> string \<Rightarrow> nat \<Rightarrow> SessionSummary list \<Rightarrow> site \<Rightarrow> site" where
  "sync_reported e deviceID n [] s = s"
| "sync_reported e deviceID n (x # xs) s =
     sync_reported e deviceID (Suc n) xs (sync_session e deviceID n x s)"

text \<open>The loop over the device's sessions that skips the ones in \<open>seen\<close>.\<close>

fun lose_sessions :: "env \<Rightarrow> nat \<Rightarrow> string list \<Rightarrow> TerminalSession list \<Rightarrow> site \<Rightarrow> site" where
  "lose_sessions e n seen [] s = s"
| "lose_sessions e n seen (x # xs) s =
     lose_sessions e (Suc n) seen xs
       (if ts_ID x \<in> set seen then s
        else if ts_Status x \<noteq> SessionRunning \<and> ts_Status x \<noteq> SessionStarting then s
        else try_db (UpdateTerminalSessionStatus (clock e n) (ts_ID x) SessionLost
               (ts_AgentPID x) (ts_LastOutputSeq x)) s)"

definition syncAgentSessions :: "env \<Rightarrow> nat \<Rightarrow> string \<Rightarrow> SessionSummary list \<Rightarrow> site \<Rightarrow> site" where
  "syncAgentSessions e n deviceID sessions s =
     (case site_db (ListTerminalSessionsForDevice deviceID) (sync_reported e deviceID n sessions s) of
        (Inl _, s1) \<Rightarrow> s1
      | (Inr existing, s1) \<Rightarrow>
          lose_sessions e (n + length sessions) (map sum_SessionID sessions) existing s1)"

definition markDisconnectedSessionsLost :: "env \<Rightarrow> nat \<Rightarrow> string \<Rightarrow> site \<Rightarrow> site" where
  "markDisconnectedSessionsLost e n deviceID s =
     (case site_db (ListTerminalSessionsForDevice deviceID) s of
        (Inl _, s1) \<Rightarrow> s1
      | (Inr sessions, s1) \<Rightarrow> lose_sessions e n [] sessions s1)"

section \<open>Messages of an agent\<close>

definition persistOutputChunk :: "env \<Rightarrow> string \<Rightarrow> int \<Rightarrow> string \<Rightarrow> site \<Rightarrow> site" where
  "persistOutputChunk e sessionID seq data s =
     (case out_store s of
        None \<Rightarrow> s
      | Some (root, d) \<Rightarrow>
          (case WriteChunk root sessionID seq seq data d of
             (None, d1) \<Rightarrow>
               site_audit (uuid e 0) (clock e 1) (zero_event\<lparr>ae_SessionID := sessionID,
                 ae_EventType := ''output_write_failed'',
                 ae_Summary := ''terminal output chunk failed to write''\<rparr>) (s\<lparr>out_store := Some (root, d1)\<rparr>)
           | (Some (path, bytes), d1) \<Rightarrow>
               try_db (CreateOutputChunk (clock e 1)
                   \<lparr>oc_ID = uuid e 0, oc_SessionID = sessionID, oc_StartSeq = seq, oc_EndSeq = seq,
                    oc_StoragePath = path, oc_ByteSize = bytes, oc_CreatedAt = zero_time\<rparr>)
                 (s\<lparr>out_store := Some (root, d1)\<rparr>)))"

definition session_forbidden :: Outbound where
  "session_forbidden = errorOutbound ''session_forbidden'' ''session does not belong to this device''"

definition from_agent :: "choice \<Rightarrow> string \<Rightarrow> message \<Rightarrow> site \<Rightarrow> site" where
  "from_agent \<sigma> deviceID m s = snd (site_send (FromAgent \<sigma> deviceID m) s)"

definition session_started :: "choice \<Rightarrow> env \<Rightarrow> string \<Rightarrow> string \<times> int \<times> string \<times> int \<Rightarrow> peer \<Rightarrow> site \<Rightarrow> site" where
  "session_started \<sigma> e deviceID m p s =
     (case m of (sessionID, pid, title, seq) \<Rightarrow>
        (case agentOwnsSession deviceID sessionID s of
           (False, s1) \<Rightarrow> reply_to p session_forbidden s1
         | (True, s1) \<Rightarrow>
             from_agent \<sigma> deviceID (SessionStarted sessionID pid title seq)
               (on_hub (BindSession sessionID deviceID)
                 (try_db (UpdateTerminalSessionStatus (clock e 0) sessionID SessionRunning pid seq) s1))))"

text \<open>The new output moves the session's sequence number, and a starting session to running.\<close>

definition note_output :: "env \<Rightarrow> string \<Rightarrow> int \<Rightarrow> site \<Rightarrow> site" where
  "note_output e sessionID seq s =
     (case site_db (GetTerminalSession sessionID) s of
        (Inl _, s1) \<Rightarrow> s1
      | (Inr x, s1) \<Rightarrow>
          try_db (UpdateTerminalSessionStatus (clock e 0) sessionID
            (if ts_Status x = SessionStarting then SessionRunning else ts_Status x)
            (ts_AgentPID x) seq) s1)"

definition session_output :: "choice \<Rightarrow> env \<Rightarrow> string \<Rightarrow> string \<times> int \<times> string \<Rightarrow> peer \<Rightarrow> site \<Rightarrow> site" where
  "session_output \<sigma> e deviceID m p s =
     (case m of (sessionID, seq, data) \<Rightarrow>
        (case agentOwnsSession deviceID sessionID s of
           (False, s1) \<Rightarrow> reply_to p session_forbidden s1
         | (True, s1) \<Rightarrow>
             from_agent \<sigma> deviceID (Stdout sessionID seq data)
               (persistOutputChunk e sessionID seq data (note_output e sessionID seq s1))))"

definition exit_state :: "string \<Rightarrow> site \<Rightarrow> (string \<times> int \<times> int) \<times> site" where
  "exit_state sessionID s =
     (case site_db (GetTerminalSession sessionID) s of
        (Inl _, s1) \<Rightarrow> ((SessionExited, 0, 0), s1)
      | (Inr x, s1) \<Rightarrow>
          ((if ts_Status x = SessionClosed then SessionClosed else SessionExited,
            ts_AgentPID x, ts_LastOutputSeq x), s1))"

definition session_exited :: "choice \<Rightarrow> env \<Rightarrow> string \<Rightarrow> string \<times> int \<times> string \<Rightarrow> peer \<Rightarrow> site \<Rightarrow> site" where
  "session_exited \<sigma> e deviceID m p s =
     (case m of (sessionID, exitCode, text) \<Rightarrow>
        (case agentOwnsSession deviceID sessionID s of
           (False, s1) \<Rightarrow> reply_to p session_forbidden s1
         | (True, s1) \<Rightarrow>
             (case exit_state sessionID s1 of
                ((status, pid, seq), s2) \<Rightarrow>
                  from_agent \<sigma> deviceID (SessionState sessionID status text)
                    (try_db (UpdateTerminalSessionStatus (clock e 0) sessionID status pid seq) s2))))"

text \<open>
  \<^verbatim>\<open>Service.HandleAgentResponse\<close>: an answer goes to the request that waits for it, if one does.
\<close>

definition HandleAgentResponse :: "Envelope \<Rightarrow> Service \<Rightarrow> bool \<times> Service" where
  "HandleAgentResponse env F =
     (if env_RequestID env = [] then (False, F)
      else if env_RequestID env \<notin> pending F then (False, F)
      else (True, F\<lparr>pending := pending F - {env_RequestID env},
                    replies := (replies F)(env_RequestID env \<mapsto> env)\<rparr>))"

definition invalid_payload :: "string \<Rightarrow> Outbound" where
  "invalid_payload text = errorOutbound ''invalid_payload'' text"

definition handleAgentEnvelope :: "choice \<Rightarrow> env \<Rightarrow> string \<Rightarrow> Envelope \<Rightarrow> peer \<Rightarrow> site \<Rightarrow> site" where
  "handleAgentEnvelope \<sigma> e deviceID env p s =
     (if env_Type env = TypeHeartbeat then try_db (TouchDevice (clock e 1) deviceID (clock e 0)) s
      else if env_Type env = TypeSyncSessions
      then (case decode_sync env of
              None \<Rightarrow> reply_to p (invalid_payload ''invalid sync payload'') s
            | Some sessions \<Rightarrow> syncAgentSessions e 0 deviceID sessions s)
      else if env_Type env = TypeSessionStarted
      then (case decode_started env of
              None \<Rightarrow> reply_to p (invalid_payload ''invalid session_started payload'') s
            | Some m \<Rightarrow> session_started \<sigma> e deviceID m p s)
      else if env_Type env = TypeStdout
      then (case decode_stdout env of
              None \<Rightarrow> reply_to p (invalid_payload ''invalid stdout payload'') s
            | Some m \<Rightarrow> session_output \<sigma> e deviceID m p s)
      else if env_Type env = TypeSessionExit
      then (case decode_exit env of
              None \<Rightarrow> reply_to p (invalid_payload ''invalid session_exit payload'') s
            | Some m \<Rightarrow> session_exited \<sigma> e deviceID m p s)
      else if env_Type env \<in> {TypeFsListResult, TypeFsReadResult, TypeFsWriteOpened, TypeFsWriteAck,
          TypeFsWriteResult, TypeFsError}
      then on_fs (\<lambda>F. snd (HandleAgentResponse env F)) s
      else if env_Type env = TypeError
      then site_audit (uuid e 0) (clock e 0) (zero_event\<lparr>ae_DeviceID := deviceID,
             ae_EventType := ''agent_error'', ae_Summary := ''agent reported an error''\<rparr>) s
      else reply_to p (errorOutbound ''unsupported_message'' ''unsupported agent message'') s)"

section \<open>An agent's connection\<close>

text \<open>The first message: the reason of a refusal, or the device with its greeting.\<close>

definition agent_handshake :: "libs \<Rightarrow> string \<Rightarrow> site \<Rightarrow> (string + Device \<times> AgentHello) \<times> site" where
  "agent_handshake L data s =
     (case DecodeEnvelope L data of
        None \<Rightarrow> (Inl ''agent_hello required'', s)
      | Some env \<Rightarrow>
          if env_Type env \<noteq> TypeAgentHello then (Inl ''agent_hello required'', s)
          else (case decode_hello env of
                  None \<Rightarrow> (Inl ''unsupported protocol'', s)
                | Some hello \<Rightarrow>
                    if hello_ProtocolVersion hello \<noteq> ProtocolVersion then (Inl ''unsupported protocol'', s)
                    else (case site_db (GetDevice (hello_DeviceID hello)) s of
                            (Inl _, s1) \<Rightarrow> (Inl ''invalid device credential'', s1)
                          | (Inr device, s1) \<Rightarrow>
                              if \<not> dev_Authorized device \<or>
                                 dev_CredentialHash device \<noteq> hashSecret (hello_Credential hello)
                              then (Inl ''invalid device credential'', s1)
                              else (Inr (device, hello), s1))))"

definition agent_connected :: "env \<Rightarrow> Device \<Rightarrow> AgentHello \<Rightarrow> peer \<Rightarrow> site \<Rightarrow> site" where
  "agent_connected e device hello p s =
     syncAgentSessions e 2 (dev_ID device) (hello_Sessions hello)
       (on_hub (AttachAgent (dev_ID device) p)
         (try_db (TouchDevice (clock e 1) (dev_ID device) (clock e 0))
           (on_presence (SetCapabilities (dev_ID device) (hello_Capabilities hello))
             (on_presence (SetOnline (dev_ID device) True) s))))"

definition agent_disconnected :: "env \<Rightarrow> string \<Rightarrow> site \<Rightarrow> site" where
  "agent_disconnected e deviceID s =
     on_hub (DetachAgent deviceID)
       (on_presence (SetOnline deviceID False) (markDisconnectedSessionsLost e 0 deviceID s))"

definition invalid_envelope :: Outbound where
  "invalid_envelope =
     \<lparr>ob_Type = TypeError, ob_SessionID = [], ob_RequestID = [],
      ob_Payload = ErrorMessage ''invalid_envelope'' ''invalid protocol envelope''\<rparr>"

definition agent_message :: "libs \<Rightarrow> choice \<Rightarrow> env \<Rightarrow> string \<Rightarrow> string \<Rightarrow> peer \<Rightarrow> site \<Rightarrow> site" where
  "agent_message L \<sigma> e deviceID data p s =
     (case DecodeEnvelope L data of
        None \<Rightarrow> reply_to p invalid_envelope s
      | Some env \<Rightarrow> handleAgentEnvelope \<sigma> e deviceID env p s)"

section \<open>A browser's connection\<close>

text \<open>\<^verbatim>\<open>err.Error()\<close>; the text of a failed write is the transport's.\<close>

definition hub_error_text :: "string \<Rightarrow> hub_error \<Rightarrow> string" where
  "hub_error_text transport err =
     (case err of
        ErrNoAgent \<Rightarrow> ''agent not connected''
      | ErrNoSessionRoute \<Rightarrow> ''session route not found''
      | SendFailed \<Rightarrow> transport)"

definition web_forward :: "string \<Rightarrow> message \<Rightarrow> peer \<Rightarrow> site \<Rightarrow> site" where
  "web_forward transport m p s =
     (case site_send (FromWeb m) s of
        (None, s1) \<Rightarrow> s1
      | (Some err, s1) \<Rightarrow> reply_to p (errorOutbound ''agent_unavailable'' (hub_error_text transport err)) s1)"

definition web_subscribe :: "string \<Rightarrow> peer \<Rightarrow> site \<Rightarrow> site" where
  "web_subscribe sessionID p s =
     (case site_db (GetTerminalSession sessionID) s of
        (Inl _, s1) \<Rightarrow> reply_to p (errorOutbound ''session_not_found'' ''session not found'') s1
      | (Inr x, s1) \<Rightarrow>
          reply_to p \<lparr>ob_Type = TypeSessionState, ob_SessionID = ts_ID x, ob_RequestID = [],
              ob_Payload = SessionState (ts_ID x) (ts_Status x) []\<rparr>
            (on_hub (SubscribeWeb (ts_ID x) p) (on_hub (BindSession (ts_ID x) (ts_DeviceID x)) s1)))"

definition web_message :: "libs \<Rightarrow> string \<Rightarrow> string \<Rightarrow> peer \<Rightarrow> site \<Rightarrow> site" where
  "web_message L transport data p s =
     (case DecodeEnvelope L data of
        None \<Rightarrow> reply_to p invalid_envelope s
      | Some env \<Rightarrow>
          if env_Type env = TypeSubscribeSession
          then (case decode_subscribe env of
                  None \<Rightarrow> reply_to p (invalid_payload ''invalid subscribe payload'') s
                | Some sessionID \<Rightarrow> web_subscribe sessionID p s)
          else if env_Type env = TypeStdin
          then (case decode_stdin env of
                  None \<Rightarrow> reply_to p (invalid_payload ''invalid stdin payload'') s
                | Some (sessionID, keys) \<Rightarrow> web_forward transport (Stdin sessionID keys) p s)
          else if env_Type env = TypeResize
          then (case decode_resize env of
                  None \<Rightarrow> reply_to p (invalid_payload ''invalid resize payload'') s
                | Some (sessionID, cols, nrows) \<Rightarrow> web_forward transport (Resize sessionID cols nrows) p s)
          else reply_to p (errorOutbound ''unsupported_message'' ''unsupported web message'') s)"

definition web_closed :: "peer \<Rightarrow> site \<Rightarrow> site" where
  "web_closed p s = on_hub (UnsubscribePeer p) s"

end
