(* ===== verification/AgentFrame.thy ===== *)
theory AgentFrame
  imports AgentApi StoreSafety
begin

text \<open>
  What an agent's messages can do to the database. The locale states the contract between the
  handlers and a property of the tables: how the property bears the single writes that the handlers
  make for a device's own sessions. Inside it, every handler keeps the property.
\<close>

section \<open>Reads and writes of a session\<close>

definition with_status :: "string \<Rightarrow> string \<Rightarrow> int \<Rightarrow> int \<Rightarrow> instant \<Rightarrow> tables \<Rightarrow> tables" where
  "with_status i st pid sq now T =
     T\<lparr>terminal_sessions := map (\<lambda>x. if ts_ID x = i then set_status st pid sq now x else x) (terminal_sessions T)\<rparr>"

lemma stmt_session_status_eq: "stmt_session_status i st pid sq now T = Some (T', n) \<Longrightarrow> T' = with_status i st pid sq now T"
  by (auto simp: stmt_session_status_def sql_update_def with_status_def)

lemma exec_rows:
  "contents (snd (requireAffected (exec st) err c)) = contents c \<or>
     (\<exists>T n. st (contents c) = Some (T, n) \<and> contents (snd (requireAffected (exec st) err c)) = T)"
  by (auto simp: requireAffected_def exec_def bind_def io_def ok_def fail_def
      split: option.splits prod.splits sum.splits if_splits)

lemma exec_ok_rows:
  "contents (snd (bind (exec st) (\<lambda>_. ok x) c)) = contents c \<or>
     (\<exists>T n. st (contents c) = Some (T, n) \<and> contents (snd (bind (exec st) (\<lambda>_. ok x) c)) = T)"
  by (auto simp: exec_def bind_def io_def ok_def split: option.splits prod.splits sum.splits if_splits)

lemma rows_status:
  "rows (try_db (UpdateTerminalSessionStatus now i st pid sq) s) = rows s \<or>
   rows (try_db (UpdateTerminalSessionStatus now i st pid sq) s) = with_status i st pid sq now (rows s)"
  using exec_rows [of "stmt_session_status i st pid sq now" ErrNotFound "db (srv s)"]
  by (auto simp: rows_def try_db_def UpdateTerminalSessionStatus_def dest: stmt_session_status_eq)

lemma rows_read [simp]: "rows (snd (site_db (query_row err q) s)) = rows s"
  by (simp add: rows_def query_row_contents)

lemma rows_list [simp]: "rows (snd (site_db (query_rows q) s)) = rows s"
  by (simp add: rows_def query_rows_contents)

lemma site_db_run: "site_db m s = (r, s1) \<Longrightarrow> m (db (srv s)) = (r, db (srv s1))"
  by (auto simp: site_db_def run_db_def split: prod.splits)

lemma read_cases:
  assumes "site_db (GetTerminalSession i) s = (r, s1)"
  shows "rows s1 = rows s"
    and "r = Inr x \<Longrightarrow> session_by_id i (rows s) = Some x"
    and "r = Inl ErrNotFound \<Longrightarrow> session_by_id i (rows s) = None"
proof -
  have s1: "s1 = snd (site_db (GetTerminalSession i) s)" and r: "r = fst (GetTerminalSession i (db (srv s)))"
    using assms by (metis snd_conv, metis fst_conv site_parts(7))
  show "rows s1 = rows s" unfolding s1 GetTerminalSession_def by simp
  show "r = Inr x \<Longrightarrow> session_by_id i (rows s) = Some x"
    using query_row_Inr [of ErrNotFound "session_by_id i" "db (srv s)" x]
    unfolding r rows_def GetTerminalSession_def by (metis prod.collapse)
  show "r = Inl ErrNotFound \<Longrightarrow> session_by_id i (rows s) = None"
    unfolding r rows_def GetTerminalSession_def
    by (auto simp: query_row_def query_def bind_def io_def ok_def fail_def split: if_splits option.splits)
qed

lemma session_by_id_with [simp]:
  "session_by_id j (with_status i st pid sq now T) =
     map_option (\<lambda>x. if i = j then set_status st pid sq now x else x) (session_by_id j T)"
proof -
  have "find (\<lambda>x. ts_ID x = j) (map (\<lambda>x. if ts_ID x = i then set_status st pid sq now x else x) xs) =
      map_option (\<lambda>x. if i = j then set_status st pid sq now x else x) (find (\<lambda>x. ts_ID x = j) xs)" for xs
    by (induction xs) (auto simp: set_status_def)
  then show ?thesis by (simp add: session_by_id_def with_status_def)
qed

lemma session_by_idD: "session_by_id i T = Some x \<Longrightarrow> x \<in> set (terminal_sessions T) \<and> ts_ID x = i"
  by (auto simp: session_by_id_def find_Some_iff)

lemma session_by_id_unique:
  "wf_tables T \<Longrightarrow> x \<in> set (terminal_sessions T) \<Longrightarrow> session_by_id (ts_ID x) T = Some x"
proof -
  have "distinct (map ts_ID xs) \<Longrightarrow> x \<in> set xs \<Longrightarrow> find (\<lambda>y. ts_ID y = ts_ID x) xs = Some x" for xs :: "TerminalSession list"
    by (induction xs) force+
  then show "wf_tables T \<Longrightarrow> x \<in> set (terminal_sessions T) \<Longrightarrow> session_by_id (ts_ID x) T = Some x"
    by (simp add: session_by_id_def wf_tables_def)
qed

section \<open>The contract\<close>

text \<open>
  \<open>moves a b\<close>: the property bears that a session of the device goes from status \<open>a\<close> to \<open>b\<close>.
\<close>

locale agent_frame =
  fixes dev :: string
    and P :: "tables \<Rightarrow> bool"
    and moves :: "string \<Rightarrow> string \<Rightarrow> bool"
  assumes wf: "P T \<Longrightarrow> wf_tables T"
    and update: "P T \<Longrightarrow> session_by_id i T = Some x \<Longrightarrow> ts_DeviceID x = dev \<Longrightarrow> moves (ts_Status x) st \<Longrightarrow>
      P (with_status i st pid sq now T)"
    and create: "P T \<Longrightarrow> stmt_insert_session y T = Some (T', n) \<Longrightarrow> ts_DeviceID y = dev \<Longrightarrow> P T'"
    and touch: "P T \<Longrightarrow> stmt_touch_device dev seen now T = Some (T', n) \<Longrightarrow> P T'"
    and chunk: "P T \<Longrightarrow> stmt_insert_chunk c T = Some (T', n) \<Longrightarrow>
      session_by_id (oc_SessionID c) T = Some x \<Longrightarrow> ts_DeviceID x = dev \<Longrightarrow> P T'"
    and audit: "P T \<Longrightarrow> insert_audit ev T = Some (T', n) \<Longrightarrow> P T'"
    and same: "moves a a"
    and report: "a \<noteq> SessionClosed \<Longrightarrow> moves a b"
begin

text \<open>The session \<open>i\<close> is the device's, with a status that may become \<open>st\<close>.\<close>

definition may :: "string \<Rightarrow> string \<Rightarrow> tables \<Rightarrow> bool" where
  "may i st T \<longleftrightarrow> (\<exists>x. session_by_id i T = Some x \<and> ts_DeviceID x = dev \<and> moves (ts_Status x) st)"

lemma keep_status: "P (rows s) \<Longrightarrow> may i st (rows s) \<Longrightarrow> P (rows (try_db (UpdateTerminalSessionStatus now i st pid sq) s))"
  using rows_status [of now i st pid sq s] update by (auto simp: may_def)

lemma may_kept:
  "may i st (rows s) \<Longrightarrow> i \<noteq> j \<Longrightarrow> may i st (rows (try_db (UpdateTerminalSessionStatus now j st' pid sq) s))"
  using rows_status [of now j st' pid sq s] by (auto simp: may_def)

lemma keep_create:
  "P (rows s) \<Longrightarrow> ts_DeviceID y = dev \<Longrightarrow> P (rows (try_db (CreateTerminalSession now y) s))"
proof -
  define z where "z = (let x1 = (if ts_CreatedAt y = zero_time then y\<lparr>ts_CreatedAt := now\<rparr> else y)
    in if ts_UpdatedAt x1 = zero_time then x1\<lparr>ts_UpdatedAt := now\<rparr> else x1)"
  assume p: "P (rows s)" and "ts_DeviceID y = dev"
  then have z: "ts_DeviceID z = dev" by (simp add: z_def Let_def)
  have "CreateTerminalSession now y = bind (exec (stmt_insert_session z)) (\<lambda>_. ok z)"
    by (simp add: CreateTerminalSession_def z_def Let_def)
  then show ?thesis
    using exec_ok_rows [of "stmt_insert_session z" z "db (srv s)"] p create [OF _ _ z]
    by (auto simp: rows_def try_db_def)
qed

lemma keep_touch: "P (rows s) \<Longrightarrow> P (rows (try_db (TouchDevice now dev seen) s))"
  using exec_rows [of "stmt_touch_device dev seen now" ErrNotFound "db (srv s)"] touch
  by (auto simp: rows_def try_db_def TouchDevice_def)

lemma keep_chunk:
  "P (rows s) \<Longrightarrow> session_by_id (oc_SessionID c) (rows s) = Some x \<Longrightarrow> ts_DeviceID x = dev \<Longrightarrow>
    P (rows (try_db (CreateOutputChunk now c) s))"
proof -
  define z where "z = (if oc_CreatedAt c = zero_time then c\<lparr>oc_CreatedAt := now\<rparr> else c)"
  assume p: "P (rows s)" and "session_by_id (oc_SessionID c) (rows s) = Some x" "ts_DeviceID x = dev"
  then have z: "session_by_id (oc_SessionID z) (rows s) = Some x" "ts_DeviceID x = dev" by (simp_all add: z_def)
  have "CreateOutputChunk now c = bind (exec (stmt_insert_chunk z)) (\<lambda>_. ok z)"
    by (simp add: CreateOutputChunk_def z_def Let_def)
  then show ?thesis
    using exec_ok_rows [of "stmt_insert_chunk z" z "db (srv s)"] p chunk [OF _ _ z]
    by (auto simp: rows_def try_db_def)
qed

lemma keep_audit: "P (rows s) \<Longrightarrow> P (rows (site_audit i now ev s))"
proof (rule rows_audit)
  have "keeps P (insert_audit ev')" for ev' using audit by (auto simp: keeps_def)
  then show "preserves P (audit_log i now ev)"
    by (auto simp: audit_log_def CreateAuditEvent_def insertAuditEvent_def Let_def intro!: keep)
qed

text \<open>The handlers.\<close>

lemma owned:
  "agentOwnsSession dev i s = (True, s1) \<Longrightarrow>
    rows s1 = rows s \<and> (\<exists>x. session_by_id i (rows s) = Some x \<and> ts_DeviceID x = dev)"
  by (auto simp: agentOwnsSession_def split: prod.splits sum.splits dest: read_cases)

lemma not_owned: "agentOwnsSession dev i s = (False, s1) \<Longrightarrow> rows s1 = rows s"
  by (auto simp: agentOwnsSession_def split: prod.splits sum.splits dest: read_cases)

lemma keep_reported: "P (rows s) \<Longrightarrow> P (rows (sync_session e dev n x s))"
proof -
  assume p: "P (rows s)"
  obtain r s1 where r: "site_db (GetTerminalSession (sum_SessionID x)) s = (r, s1)" by force
  note read = read_cases [OF r]
  show ?thesis
  proof (cases r)
    case (Inl err)
    with r p read(1) show ?thesis by (auto simp: sync_session_def intro: keep_create)
  next
    case (Inr y)
    have "may (sum_SessionID x) st (rows s1)" if "ts_DeviceID y = dev" "ts_Status y \<noteq> SessionClosed" for st
      using that read(1) read(2) [OF Inr] report by (auto simp: may_def)
    with r p read(1) Inr show ?thesis by (auto simp: sync_session_def intro!: keep_status)
  qed
qed

lemma keep_all_reported: "P (rows s) \<Longrightarrow> P (rows (sync_reported e dev n xs s))"
  by (induction xs arbitrary: n s) (simp_all add: keep_reported)

lemma keep_lost:
  "P (rows s) \<Longrightarrow> distinct (map ts_ID xs) \<Longrightarrow>
    (\<And>x. x \<in> set xs \<Longrightarrow> ts_Status x = SessionRunning \<or> ts_Status x = SessionStarting \<Longrightarrow> may (ts_ID x) SessionLost (rows s)) \<Longrightarrow>
    P (rows (lose_sessions e n seen xs s))"
proof (induction xs arbitrary: n s)
  case Nil
  then show ?case by simp
next
  case (Cons x xs)
  let ?s = "if ts_ID x \<in> set seen then s
        else if ts_Status x \<noteq> SessionRunning \<and> ts_Status x \<noteq> SessionStarting then s
        else try_db (UpdateTerminalSessionStatus (clock e n) (ts_ID x) SessionLost
               (ts_AgentPID x) (ts_LastOutputSeq x)) s"
  have "P (rows (lose_sessions e (Suc n) seen xs ?s))"
  proof (rule Cons.IH)
    show "P (rows ?s)" using Cons.prems(1,3) by (auto intro!: keep_status)
    show "distinct (map ts_ID xs)" using Cons.prems(2) by simp
    show "may (ts_ID y) SessionLost (rows ?s)"
      if "y \<in> set xs" "ts_Status y = SessionRunning \<or> ts_Status y = SessionStarting" for y
    proof -
      have "ts_ID y \<noteq> ts_ID x" using Cons.prems(2) that(1) by (auto simp: image_iff)
      with Cons.prems(3) that show ?thesis by (auto intro!: may_kept)
    qed
  qed
  then show ?case by simp
qed

lemma listed:
  assumes "site_db (ListTerminalSessionsForDevice dev) s = (Inr xs, s1)" and "P (rows s)"
  shows "rows s1 = rows s" and "distinct (map ts_ID xs)"
    and "x \<in> set xs \<Longrightarrow> session_by_id (ts_ID x) (rows s1) = Some x \<and> ts_DeviceID x = dev \<and> ts_Status x \<noteq> SessionClosed"
proof -
  let ?q = "\<lambda>T. sort_key ts_CreatedAt (filter (\<lambda>x. ts_DeviceID x = dev \<and> ts_Status x \<noteq> SessionClosed) (terminal_sessions T))"
  have q: "query_rows ?q (db (srv s)) = (Inr xs, db (srv s1))"
    using assms(1) unfolding ListTerminalSessionsForDevice_def by (rule site_db_run)
  show rows: "rows s1 = rows s" using q query_rows_contents [of ?q "db (srv s)"] by (simp add: rows_def)
  have xs: "xs = ?q (rows s)" using query_rows_Inr [OF q] by (simp add: rows_def)
  have wf: "wf_tables (rows s)" using assms(2) by (rule wf)
  then have "distinct (map ts_ID (terminal_sessions (rows s)))" by (simp only: wf_tables_def)
  then have "distinct (map ts_ID (filter (\<lambda>x. ts_DeviceID x = dev \<and> ts_Status x \<noteq> SessionClosed) (terminal_sessions (rows s))))"
    by (rule distinct_map_filter')
  moreover have "mset (map ts_ID (sort_key ts_CreatedAt ys)) = mset (map ts_ID ys)" for ys by simp
  ultimately show "distinct (map ts_ID xs)" unfolding xs using mset_eq_imp_distinct_iff by blast
  show "x \<in> set xs \<Longrightarrow> session_by_id (ts_ID x) (rows s1) = Some x \<and> ts_DeviceID x = dev \<and> ts_Status x \<noteq> SessionClosed"
    using session_by_id_unique [OF wf] unfolding rows xs by simp
qed

lemma keep_loss_of_list:
  "site_db (ListTerminalSessionsForDevice dev) s = (Inr xs, s1) \<Longrightarrow> P (rows s) \<Longrightarrow>
    P (rows (lose_sessions e n seen xs s1))"
proof (rule keep_lost)
  assume l: "site_db (ListTerminalSessionsForDevice dev) s = (Inr xs, s1)" and p: "P (rows s)"
  show "P (rows s1)" "distinct (map ts_ID xs)" using listed(1,2) [OF l p] p by simp_all
  show "may (ts_ID x) SessionLost (rows s1)" if "x \<in> set xs" for x
    using listed(3) [OF l p that] report [of "ts_Status x"] by (auto simp: may_def)
qed

lemma list_failed: "site_db (ListTerminalSessionsForDevice dev) s = (r, s1) \<Longrightarrow> rows s1 = rows s"
  by (auto simp: rows_def ListTerminalSessionsForDevice_def query_rows_contents dest!: site_db_run arg_cong [where f = snd])

lemma keep_sync: "P (rows s) \<Longrightarrow> P (rows (syncAgentSessions e n dev xs s))"
  using keep_all_reported [of s e n xs]
  by (auto simp: syncAgentSessions_def keep_loss_of_list list_failed split: prod.splits sum.splits)

lemma keep_disconnected: "P (rows s) \<Longrightarrow> P (rows (agent_disconnected e dev s))"
  by (auto simp: agent_disconnected_def markDisconnectedSessionsLost_def keep_loss_of_list list_failed
      split: prod.splits sum.splits)

lemma keep_started:
  assumes "P (rows s)" and "\<And>a. moves a SessionRunning"
  shows "P (rows (session_started \<sigma> e dev m p s))"
proof -
  obtain i pid title sq where m: "m = (i, pid, title, sq)" by (cases m)
  obtain b s1 where o: "agentOwnsSession dev i s = (b, s1)" by force
  show ?thesis
  proof (cases b)
    case True
    with o owned have "rows s1 = rows s" "may i SessionRunning (rows s1)"
      using assms(2) by (fastforce simp: may_def)+
    with assms(1) o m True show ?thesis by (simp add: session_started_def from_agent_def keep_status)
  next
    case False
    with assms(1) o m not_owned show ?thesis by (simp add: session_started_def)
  qed
qed

lemma keep_note:
  assumes "P (rows s)" "session_by_id i (rows s) = Some x" "ts_DeviceID x = dev"
  shows "P (rows (note_output e i sq s)) \<and>
    (\<exists>y. session_by_id i (rows (note_output e i sq s)) = Some y \<and> ts_DeviceID y = dev)"
proof -
  obtain r s1 where r: "site_db (GetTerminalSession i) s = (r, s1)" by force
  note read = read_cases [OF r]
  show ?thesis
  proof (cases r)
    case (Inl err)
    with r read assms show ?thesis by (auto simp: note_output_def)
  next
    case (Inr y)
    let ?st = "if ts_Status y = SessionStarting then SessionRunning else ts_Status y"
    have yx: "y = x" using read(2) [OF Inr] assms(2) by simp
    have "may i ?st (rows s1)" using read(1) yx assms same report [of SessionStarting]
      by (auto simp: may_def session_status_defs)
    then have "P (rows (try_db (UpdateTerminalSessionStatus (clock e 0) i ?st (ts_AgentPID y) sq) s1))"
      using read(1) assms(1) by (intro keep_status) simp_all
    moreover have "\<exists>z. session_by_id i (rows (try_db (UpdateTerminalSessionStatus (clock e 0) i ?st (ts_AgentPID y) sq) s1)) = Some z \<and>
        ts_DeviceID z = dev"
      using rows_status [of "clock e 0" i ?st "ts_AgentPID y" sq s1] read(1) assms(2,3)
      by (elim disjE) (simp_all add: set_status_def)
    ultimately show ?thesis using r Inr by (simp add: note_output_def)
  qed
qed

lemma keep_persist:
  assumes "P (rows s)" "session_by_id i (rows s) = Some x" "ts_DeviceID x = dev"
  shows "P (rows (persistOutputChunk e i sq data s))"
  using assms
  by (auto simp: persistOutputChunk_def keep_audit split: option.splits prod.splits intro!: keep_chunk)

lemma keep_output: "P (rows s) \<Longrightarrow> P (rows (session_output \<sigma> e dev m p s))"
proof -
  assume P: "P (rows s)"
  obtain i sq data where m: "m = (i, sq, data)" by (cases m)
  obtain b s1 where o: "agentOwnsSession dev i s = (b, s1)" by force
  show ?thesis
  proof (cases b)
    case True
    with o obtain x where x: "rows s1 = rows s" "session_by_id i (rows s1) = Some x" "ts_DeviceID x = dev"
      using owned by force
    with keep_note [of s1 i x e sq] P keep_persist [of "note_output e i sq s1" i _ e sq data]
    have "P (rows (persistOutputChunk e i sq data (note_output e i sq s1)))" by auto
    with o m True show ?thesis by (simp add: session_output_def from_agent_def)
  next
    case False
    with P o m not_owned show ?thesis by (simp add: session_output_def)
  qed
qed

text \<open>
  The end of a session reads its row again; when the driver fails just then, the status it writes
  is not the row's.
\<close>

lemma keep_exited:
  assumes "P (rows s)" and "(\<forall>a. moves a SessionExited) \<or> faults (db (srv s)) = []"
  shows "P (rows (session_exited \<sigma> e dev m p s))"
proof -
  obtain i code msg where m: "m = (i, code, msg)" by (cases m)
  obtain b s1 where o: "agentOwnsSession dev i s = (b, s1)" by force
  show ?thesis
  proof (cases b)
    case True
    with o obtain x where x: "rows s1 = rows s" "session_by_id i (rows s1) = Some x" "ts_DeviceID x = dev"
      using owned by force
    obtain st pid sq s2 where ex: "exit_state i s1 = ((st, pid, sq), s2)" by (cases "exit_state i s1") auto
    have f: "faults (db (srv s1)) = []" if "faults (db (srv s)) = []"
    proof -
      have c: "db (srv s) = calm (rows s)" using that by (simp add: calm_def rows_def)
      obtain r' s' where r': "site_db (GetTerminalSession i) s = (r', s')" by force
      then have "db (srv s') = calm (rows s)" using site_db_run [OF r'] c by (simp add: GetTerminalSession_def)
      moreover have "s1 = s'" using o r' by (auto simp: agentOwnsSession_def split: sum.splits)
      ultimately show ?thesis by (simp add: calm_def)
    qed
    obtain r s3 where r: "site_db (GetTerminalSession i) s1 = (r, s3)" by force
    note read = read_cases [OF r]
    have "rows s2 = rows s1" and "moves (ts_Status x) st"
    proof -
      show "rows s2 = rows s1" using ex r read(1) by (auto simp: exit_state_def split: sum.splits)
      show "moves (ts_Status x) st"
      proof (cases r)
        case (Inr y)
        then have "y = x" using read(2) [OF Inr] x(2) by simp
        with ex r Inr same report show ?thesis by (auto simp: exit_state_def split: if_splits)
      next
        case (Inl err)
        with ex r have st: "st = SessionExited" by (auto simp: exit_state_def)
        have "faults (db (srv s1)) = [] \<Longrightarrow> False"
        proof -
          assume "faults (db (srv s1)) = []"
          then have "db (srv s1) = calm (rows s1)" by (simp add: calm_def rows_def)
          then show False using site_db_run [OF r] Inl x(1,2) by (simp add: GetTerminalSession_def)
        qed
        with assms(2) f st show ?thesis by blast
      qed
    qed
    with x assms(1) have "P (rows (try_db (UpdateTerminalSessionStatus (clock e 0) i st pid sq) s2))"
      by (intro keep_status) (auto simp: may_def)
    with o m True ex show ?thesis by (simp add: session_exited_def from_agent_def)
  next
    case False
    with assms(1) o m not_owned show ?thesis by (simp add: session_exited_def)
  qed
qed

text \<open>A whole message, a connection's start and its end.\<close>

lemma keep_envelope:
  assumes "P (rows s)"
    and "env_Type env = TypeSessionStarted \<Longrightarrow> \<forall>a. moves a SessionRunning"
    and "env_Type env = TypeSessionExit \<Longrightarrow> (\<forall>a. moves a SessionExited) \<or> faults (db (srv s)) = []"
  shows "P (rows (handleAgentEnvelope \<sigma> e dev env p s))"
  using assms keep_touch keep_sync keep_started keep_output keep_exited keep_audit
  unfolding handleAgentEnvelope_def
  by (simp split: option.splits)

end

end
