(* ===== verification/AgentClaims.thy ===== *)
theory AgentClaims
  imports AgentFrame
begin

text \<open>
  The two instances of the contract of AgentFrame, what an agent's messages send and to whom, and
  the properties of the agent's connection.
\<close>

section \<open>Instances of the contract\<close>

text \<open>What of the database is not the device's: sessions, devices, chunks of those sessions.\<close>

definition foreign :: "string \<Rightarrow> tables \<Rightarrow> TerminalSession list \<times> Device list \<times> OutputChunk list" where
  "foreign dev T =
     (filter (\<lambda>x. ts_DeviceID x \<noteq> dev) (terminal_sessions T),
      filter (\<lambda>d. dev_ID d \<noteq> dev) (devices T),
      filter (\<lambda>c. oc_SessionID c \<in> ts_ID ` set (filter (\<lambda>x. ts_DeviceID x \<noteq> dev) (terminal_sessions T)))
        (terminal_output_chunks T))"

lemma own_id_unique:
  assumes "wf_tables T" "session_by_id i T = Some x" "y \<in> set (terminal_sessions T)" "ts_ID y = i"
  shows "y = x"
  using session_by_id_unique [OF assms(1,3)] assms(2,4) by simp

lemma filter_map_same:
  "(\<And>x. x \<in> set xs \<Longrightarrow> Q (f x) = Q x) \<Longrightarrow> (\<And>x. x \<in> set xs \<Longrightarrow> Q x \<Longrightarrow> f x = x) \<Longrightarrow> filter Q (map f xs) = filter Q xs"
  by (induction xs) auto

lemma foreign_update:
  assumes "wf_tables T" "session_by_id i T = Some x" "ts_DeviceID x = dev"
  shows "foreign dev (with_status i st pid sq now T) = foreign dev T"
proof -
  let ?f = "\<lambda>x. if ts_ID x = i then set_status st pid sq now x else x"
  have dev: "ts_DeviceID y = dev" if "y \<in> set (terminal_sessions T)" "ts_ID y = i" for y
    using own_id_unique [OF assms(1,2) that] assms(3) by simp
  have "filter (\<lambda>x. ts_DeviceID x \<noteq> dev) (map ?f (terminal_sessions T)) = filter (\<lambda>x. ts_DeviceID x \<noteq> dev) (terminal_sessions T)"
    using dev by (intro filter_map_same) (auto simp: set_status_def)
  then show ?thesis by (simp add: foreign_def with_status_def del: set_filter)
qed

lemma foreign_touch: "stmt_touch_device dev seen now T = Some (T', n) \<Longrightarrow> foreign dev T' = foreign dev T"
proof -
  have "filter (\<lambda>d. dev_ID d \<noteq> dev)
      (map (\<lambda>d. if dev_ID d = dev then d\<lparr>dev_LastSeenAt := Some seen, dev_UpdatedAt := now\<rparr> else d) ds) =
      filter (\<lambda>d. dev_ID d \<noteq> dev) ds" for ds
    by (intro filter_map_same) auto
  then show "stmt_touch_device dev seen now T = Some (T', n) \<Longrightarrow> foreign dev T' = foreign dev T"
    by (auto simp: stmt_touch_device_def sql_update_def foreign_def)
qed

lemma foreign_create:
  "stmt_insert_session y T = Some (T', n) \<Longrightarrow> ts_DeviceID y = dev \<Longrightarrow> foreign dev T' = foreign dev T"
  by (auto simp: stmt_insert_session_def foreign_def simp del: set_filter split: if_splits)

lemma foreign_chunk:
  "wf_tables T \<Longrightarrow> stmt_insert_chunk c T = Some (T', n) \<Longrightarrow> session_by_id (oc_SessionID c) T = Some x \<Longrightarrow>
    ts_DeviceID x = dev \<Longrightarrow> foreign dev T' = foreign dev T"
proof -
  assume a: "wf_tables T" "stmt_insert_chunk c T = Some (T', n)" "session_by_id (oc_SessionID c) T = Some x"
    "ts_DeviceID x = dev"
  have "oc_SessionID c \<notin> ts_ID ` set (filter (\<lambda>x. ts_DeviceID x \<noteq> dev) (terminal_sessions T))"
    using own_id_unique [OF a(1,3)] a(4) by auto
  with a(2) show "foreign dev T' = foreign dev T"
    by (auto simp: stmt_insert_chunk_def foreign_def simp del: set_filter split: if_splits)
qed

lemma foreign_audit: "insert_audit ev T = Some (T', n) \<Longrightarrow> foreign dev T' = foreign dev T"
  by (auto simp: insert_audit_def foreign_def split: if_splits)

interpretation iso: agent_frame dev "\<lambda>T. wf_tables T \<and> foreign dev T = V" "\<lambda>_ _. True" for dev V
proof (unfold_locales, goal_cases)
  case (2 T i x st pid sq now)
  then have "keeps wf_tables (stmt_session_status i st pid sq now)" by (intro wf_keeps_updates)
  then have "wf_tables (with_status i st pid sq now T)"
    using 2 by (auto simp: keeps_def stmt_session_status_def sql_update_def with_status_def)
  with 2 foreign_update show ?case by simp
next
  case (3 T y T' n)
  with foreign_create show ?case using wf_keeps_inserts(7) by (fastforce simp: keeps_def)
next
  case (4 T seen now T' n)
  with foreign_touch show ?case using wf_keeps_updates(9) by (fastforce simp: keeps_def)
next
  case (5 T c T' n x)
  with foreign_chunk show ?case using wf_keeps_inserts(9) by (fastforce simp: keeps_def)
next
  case (6 T ev T' n)
  with foreign_audit show ?case using wf_keeps_inserts(8) by (fastforce simp: keeps_def)
qed simp_all

text \<open>The session is closed.\<close>

definition closed :: "string \<Rightarrow> tables \<Rightarrow> bool" where
  "closed i T \<longleftrightarrow> (case session_by_id i T of None \<Rightarrow> False | Some x \<Rightarrow> ts_Status x = SessionClosed)"

lemma find_Some_append: "find p xs = Some x \<Longrightarrow> find p (xs @ ys) = Some x"
  by (induction xs) auto

lemma closed_stmts:
  "stmt_insert_session y T = Some (T', n) \<Longrightarrow> closed i T \<Longrightarrow> closed i T'"
  "stmt_touch_device dev seen now T = Some (T', n) \<Longrightarrow> closed i T' = closed i T"
  "stmt_insert_chunk c T = Some (T', n) \<Longrightarrow> closed i T' = closed i T"
  "insert_audit ev T = Some (T', n) \<Longrightarrow> closed i T' = closed i T"
  by (auto simp: stmt_insert_session_def stmt_touch_device_def stmt_insert_chunk_def insert_audit_def
      closed_def session_by_id_def sql_update_def find_Some_append split: if_splits option.splits)

interpretation shut: agent_frame dev "\<lambda>T. wf_tables T \<and> closed i T"
  "\<lambda>a b. a \<noteq> SessionClosed \<or> b = SessionClosed" for dev i
proof (unfold_locales, goal_cases)
  case (2 T j x st pid sq now)
  have "keeps wf_tables (stmt_session_status j st pid sq now)" by (rule wf_keeps_updates)
  then have "wf_tables (with_status j st pid sq now T)"
    using 2 by (auto simp: keeps_def stmt_session_status_def sql_update_def with_status_def)
  with 2 show ?case by (auto simp: closed_def set_status_def split: option.splits)
next
  case (3 T y T' n)
  with closed_stmts(1) show ?case using wf_keeps_inserts(7) by (fastforce simp: keeps_def)
next
  case (4 T seen now T' n)
  with closed_stmts(2) show ?case using wf_keeps_updates(9) by (fastforce simp: keeps_def)
next
  case (5 T c T' n x)
  with closed_stmts(3) show ?case using wf_keeps_inserts(9) by (fastforce simp: keeps_def)
next
  case (6 T ev T' n)
  with closed_stmts(4) show ?case using wf_keeps_inserts(8) by (fastforce simp: keeps_def)
qed simp_all

section \<open>What a message sends\<close>

lemma quiet_parts [simp]:
  "wires (sync_session e dev n x s) = wires s"
  "wires (sync_reported e dev n xs s) = wires s"
  "wires (lose_sessions e n seen ys s) = wires s"
  "wires (syncAgentSessions e n dev xs s) = wires s"
  "wires (note_output e i sq s) = wires s"
  "wires (persistOutputChunk e i sq data s) = wires s"
  "hub (note_output e i sq s) = hub s"
  "hub (persistOutputChunk e i sq data s) = hub s"
proof -
  show one: "wires (sync_session e dev n x s) = wires s" for e dev n x s
    by (auto simp: sync_session_def split: prod.splits sum.splits dest!: arg_cong [where f = "wires \<circ> snd"])
  show all: "wires (sync_reported e dev n xs s) = wires s" for e dev n xs s
    by (induction xs arbitrary: n s) (simp_all add: one)
  show lost: "wires (lose_sessions e n seen ys s) = wires s" for e n seen ys s
    by (induction ys arbitrary: n s) simp_all
  show "wires (syncAgentSessions e n dev xs s) = wires s"
    by (auto simp: syncAgentSessions_def lost split: prod.splits sum.splits
        dest!: arg_cong [where f = "wires \<circ> snd"] simp: all)
  show "wires (note_output e i sq s) = wires s" "hub (note_output e i sq s) = hub s"
    by (auto simp: note_output_def split: prod.splits sum.splits
        dest!: arg_cong [where f = "\<lambda>r. (wires (snd r), hub (snd r))"])
  show "wires (persistOutputChunk e i sq data s) = wires s" "hub (persistOutputChunk e i sq data s) = hub s"
    by (simp_all add: persistOutputChunk_def split: option.splits prod.splits)
qed

text \<open>
  Who may get what: the agent's own connection any message, another connection the messages of a
  session it subscribed to, when the session is the device's.
\<close>

definition addressed :: "string \<Rightarrow> peer \<Rightarrow> site \<Rightarrow> (peer \<times> Outbound) set" where
  "addressed dev p s = {(q, m). q = p \<or> (ob_SessionID m, q) \<in> subscribed (hub s) \<and>
     (case session_by_id (ob_SessionID m) (rows s) of None \<Rightarrow> False | Some x \<Rightarrow> ts_DeviceID x = dev)}"

definition sends :: "(peer \<times> Outbound) set \<Rightarrow> site \<Rightarrow> site \<Rightarrow> bool" where
  "sends A s t \<longleftrightarrow> (\<exists>ms. sent (wires t) = sent (wires s) @ ms \<and> set ms \<subseteq> A)"

lemma sends_reply: "wires t = wires s \<Longrightarrow> sends (addressed dev p s) s (reply_to p m t)"
  using Send_sent [of p m "wires s"] by (auto simp: sends_def reply_to_def addressed_def)

lemma sends_nothing: "wires t = wires s \<Longrightarrow> sends A s t"
  by (simp add: sends_def)

lemma sends_subscribers:
  assumes "wires t = wires s" "\<And>i. subscribers (hub t) i = subscribers (hub s) i"
    and "session_by_id (sessionIDOf m) (rows s) = Some x" "ts_DeviceID x = dev"
  shows "sends (addressed dev p s) s (from_agent \<sigma> dev m t)"
proof -
  let ?ps = "visit \<sigma> (subscribers (hub s) (sessionIDOf m))"
  obtain n where n: "sent (snd (send_each (outbound m) ?ps (wires s))) =
      sent (wires s) @ map (\<lambda>q. (q, outbound m)) (take n ?ps)"
    using send_each_prefix by blast
  have "set (take n ?ps) \<subseteq> set (subscribers (hub s) (sessionIDOf m))"
    using set_take_subset [of n ?ps] by simp
  then have "set (map (\<lambda>q. (q, outbound m)) (take n ?ps)) \<subseteq> addressed dev p s"
    using assms(3,4) by (auto simp: addressed_def subscribed_def outbound_def)
  moreover have "sent (wires (from_agent \<sigma> dev m t)) = sent (snd (send_each (outbound m) ?ps (wires s)))"
    by (simp add: from_agent_def site_send_def FromAgent_def assms(1,2) split: prod.splits)
  ultimately show ?thesis unfolding sends_def n by blast
qed

lemma owned_parts:
  assumes "agentOwnsSession dev i s = (b, s1)"
  shows "wires s1 = wires s" "hub s1 = hub s" "b \<Longrightarrow> \<exists>x. session_by_id i (rows s) = Some x \<and> ts_DeviceID x = dev"
proof -
  have "s1 = snd (site_db (GetTerminalSession i) s)"
    using assms by (auto simp: agentOwnsSession_def split: prod.splits sum.splits)
  then show "wires s1 = wires s" "hub s1 = hub s" by simp_all
  show "b \<Longrightarrow> \<exists>x. session_by_id i (rows s) = Some x \<and> ts_DeviceID x = dev"
    using assms by (auto simp: agentOwnsSession_def split: prod.splits sum.splits dest: read_cases)
qed

lemma exit_parts [simp]: "wires (snd (exit_state i s)) = wires s" "hub (snd (exit_state i s)) = hub s"
  by (auto simp: exit_state_def split: prod.splits sum.splits
      dest!: arg_cong [where f = "\<lambda>r. (wires (snd r), hub (snd r))"])

lemma started_sends: "sends (addressed dev p s) s (session_started \<sigma> e dev m p s)"
proof -
  obtain i pid title sq where m: "m = (i, pid, title, sq)" by (cases m)
  obtain b s1 where o: "agentOwnsSession dev i s = (b, s1)" by force
  note parts = owned_parts [OF o]
  show ?thesis
  proof (cases b)
    case True
    obtain x where "session_by_id i (rows s) = Some x" "ts_DeviceID x = dev" using parts(3) True by blast
    with o m True parts(1,2) show ?thesis
      by (simp add: session_started_def) (rule sends_subscribers; simp add: sessionIDOf_def)
  next
    case False
    with o m parts(1) show ?thesis by (simp add: session_started_def sends_reply)
  qed
qed

lemma output_sends: "sends (addressed dev p s) s (session_output \<sigma> e dev m p s)"
proof -
  obtain i sq data where m: "m = (i, sq, data)" by (cases m)
  obtain b s1 where o: "agentOwnsSession dev i s = (b, s1)" by force
  note parts = owned_parts [OF o]
  show ?thesis
  proof (cases b)
    case True
    obtain x where "session_by_id i (rows s) = Some x" "ts_DeviceID x = dev" using parts(3) True by blast
    with o m True parts(1,2) show ?thesis
      by (simp add: session_output_def) (rule sends_subscribers; simp add: sessionIDOf_def)
  next
    case False
    with o m parts(1) show ?thesis by (simp add: session_output_def sends_reply)
  qed
qed

lemma exited_sends: "sends (addressed dev p s) s (session_exited \<sigma> e dev m p s)"
proof -
  obtain i code msg where m: "m = (i, code, msg)" by (cases m)
  obtain b s1 where o: "agentOwnsSession dev i s = (b, s1)" by force
  note parts = owned_parts [OF o]
  show ?thesis
  proof (cases b)
    case True
    obtain x where "session_by_id i (rows s) = Some x" "ts_DeviceID x = dev" using parts(3) True by blast
    moreover obtain st pid sq s2 where ex: "exit_state i s1 = ((st, pid, sq), s2)" by (cases "exit_state i s1") auto
    moreover have "wires s2 = wires s" "hub s2 = hub s" using exit_parts [of i s1] ex parts(1,2) by simp_all
    ultimately show ?thesis using o m True
      by (simp add: session_exited_def) (rule sends_subscribers; simp add: sessionIDOf_def)
  next
    case False
    with o m parts(1) show ?thesis by (simp add: session_exited_def sends_reply)
  qed
qed

lemma sends_if: "(b \<Longrightarrow> sends A s x) \<Longrightarrow> (\<not> b \<Longrightarrow> sends A s y) \<Longrightarrow> sends A s (if b then x else y)"
  by simp

lemma sends_option:
  "sends A s x \<Longrightarrow> (\<And>y. sends A s (f y)) \<Longrightarrow> sends A s (case z of None \<Rightarrow> x | Some y \<Rightarrow> f y)"
  by (cases z) simp_all

lemma envelope_sends: "sends (addressed dev p s) s (handleAgentEnvelope \<sigma> e dev env p s)"
  unfolding handleAgentEnvelope_def
  by (intro sends_if sends_option started_sends output_sends exited_sends sends_reply sends_nothing) simp_all

section \<open>The properties\<close>



text \<open>Two devices; the first one's session is closed, the second one's runs.\<close>

definition sample_device :: "string \<Rightarrow> Device" where
  "sample_device i = \<lparr>dev_ID = i, dev_Name = i, dev_Platform = ''linux'', dev_AgentVersion = ''1'',
     dev_Fingerprint = i, dev_CredentialHash = ''h'', dev_Authorized = True, dev_LastSeenAt = None,
     dev_CreatedAt = 0, dev_UpdatedAt = 0\<rparr>"

definition sample_session :: "string \<Rightarrow> string \<Rightarrow> string \<Rightarrow> TerminalSession" where
  "sample_session i dev st = \<lparr>ts_ID = i, ts_DeviceID = dev, ts_Title = ''shell'', ts_ShellPath = ''/bin/bash'',
     ts_WorkingDirectory = ''$HOME'', ts_Status = st, ts_AgentPID = 1, ts_LastOutputSeq = 1,
     ts_CreatedAt = 0, ts_UpdatedAt = 0\<rparr>"

definition sample_rows :: tables where
  "sample_rows = empty_tables\<lparr>devices := [sample_device ''d1'', sample_device ''d2''],
     terminal_sessions := [sample_session ''s1'' ''d1'' SessionClosed, sample_session ''s2'' ''d2'' SessionRunning]\<rparr>"

definition quiet_limiter :: FailureLimiter where
  "quiet_limiter = \<lparr>entries = [], maxFailures = 5, window = 600, blockFor = 900, maxEntries = 5000\<rparr>"

definition sample_site :: site where
  "sample_site = \<lparr>srv = \<lparr>db = calm sample_rows, passwordLimiter = quiet_limiter, twoFactorLimiter = quiet_limiter,
       managementLimiter = quiet_limiter\<rparr>,
     hub = SubscribeWeb ''s2'' 8 NewHub, presence = NewPresence, wires = \<lparr>sent = [], outcomes = []\<rparr>,
     fs = NewService, out_store = None\<rparr>"

definition sample_clock :: env where
  "sample_clock = \<lparr>tick = (\<lambda>n. \<lparr>at_time = int n, rounds = (\<lambda>_. [])\<rparr>), uuid = (\<lambda>n. ''id''), random = (\<lambda>n. ''bytes'')\<rparr>"

definition heartbeat :: Envelope where
  "heartbeat = \<lparr>env_Type = TypeHeartbeat, env_RequestID = [], env_SessionID = [], env_Payload = None\<rparr>"

lemma sample_rows_facts: "wf_tables (rows sample_site)" "closed ''s1'' (rows sample_site)"
  by (simp_all add: rows_def sample_site_def sample_rows_def wf_tables_def empty_tables_def closed_def
      session_by_id_def sample_device_def sample_session_def)



end
