(* ===== verification/ConnectionClaims.thy ===== *)
theory ConnectionClaims
  imports AgentClaims
begin

text \<open>
  Who may connect as an agent: the credential a registration shows opens a connection, at any later
  time, and nothing else does.
\<close>

section \<open>Credentials\<close>

definition credentials :: "tables \<Rightarrow> (string \<times> string \<times> bool) list" where
  "credentials T = map (\<lambda>d. (dev_ID d, dev_CredentialHash d, dev_Authorized d)) (devices T)"

definition registered :: "string \<Rightarrow> string \<Rightarrow> tables \<Rightarrow> bool" where
  "registered i h T \<longleftrightarrow> (i, h, True) \<in> set (credentials T)"

lemma untouched_devices:
  "untouched devices (insert_user u)"
  "untouched devices (stmt_purge_expired now)"
  "untouched devices (stmt_drop_active uid now)"
  "untouched devices (stmt_insert_challenge ch)"
  "untouched devices (stmt_consume_challenge now jti uid cfg)"
  "untouched devices (stmt_bump_counter c now uid cfg)"
  "untouched devices (stmt_use_recovery now uid hs)"
  "untouched devices (stmt_upsert_pending x)"
  "untouched devices (stmt_insert_pending x)"
  "untouched devices (stmt_replace_pending x prev)"
  "untouched devices (stmt_enable uid cfg c now)"
  "untouched devices (stmt_delete_recovery uid)"
  "untouched devices (stmt_insert_recovery uid now code)"
  "untouched devices (stmt_delete_enabled uid)"
  "untouched devices (stmt_insert_token t)"
  "untouched devices (stmt_revoke_token i now)"
  "untouched devices (stmt_delete_token i)"
  "untouched devices (stmt_use_token i now)"
  "untouched devices (stmt_insert_session ses)"
  "untouched devices (stmt_session_status i st pid sq now)"
  "untouched devices (stmt_session_title i title now)"
  "untouched devices (insert_audit ev)"
  "untouched devices (stmt_insert_chunk oc)"
  "untouched devices (stmt_insert_snippet sn)"
  "untouched devices (stmt_update_snippet i name cmd now)"
  "untouched devices (stmt_delete_snippet i)"
  by (rule untouchedI, auto simp: stmt_frame_defs split: if_splits)+

lemma registered_untouched: "untouched devices st \<Longrightarrow> keeps (registered i h) st"
  by (erule untouched_keeps) (simp add: registered_def credentials_def)

lemma registered_device_stmts:
  "keeps (registered i h) (stmt_insert_device d)"
  "keeps (registered i h) (stmt_rename_device j name now)"
  "keeps (registered i h) (stmt_touch_device j seen now)"
proof -
  show "keeps (registered i h) (stmt_insert_device d)"
    by (auto simp: keeps_def registered_def credentials_def agent_stmts split: if_splits)
  have "untouched credentials (stmt_rename_device j name now)" "untouched credentials (stmt_touch_device j seen now)"
    by (rule untouchedI, auto simp: credentials_def agent_stmts)+
  then show "keeps (registered i h) (stmt_rename_device j name now)" "keeps (registered i h) (stmt_touch_device j seen now)"
    by (auto elim!: untouched_keeps simp: registered_def)
qed

lemma registered_keeps: "st \<in> op_stmts x \<Longrightarrow> keeps (registered i h) st"
  by (cases x) (auto simp: Let_def intro: registered_device_stmts registered_untouched untouched_devices)

lemma run_wf: "wf_tables (contents c) \<Longrightarrow> wf_tables (contents (run_ops xs c))"
  by (rule runs_preserve) (simp_all add: wf_keeps_stmts)

lemma run_registered: "registered i h (contents c) \<Longrightarrow> registered i h (contents (run_ops xs c))"
  by (rule runs_preserve) (simp_all add: registered_keeps)

text \<open>The greeting of an agent.\<close>

definition greeting :: "libs \<Rightarrow> string \<Rightarrow> AgentHello option" where
  "greeting L data = Option.bind (DecodeEnvelope L data) (\<lambda>env.
     if env_Type env = TypeAgentHello then decode_hello env else None)"

lemma register_registers:
  assumes "handleAgentRegister L e req s = (resp, s')" "rs_status resp = 201"
  shows "rs_body resp = Some (json_strings [(''device_id'', uuid e 0), (''credential'', randomToken (random e 0))])"
    and "registered (uuid e 0) (hashSecret (randomToken (random e 0))) (contents (db s'))"
proof -
  obtain body where body: "readJSON L req register_fields = Inr body"
    using assms by (cases "readJSON L req register_fields") (auto simp: handleAgentRegister_def readJSON_def split: option.splits)
  have ne: "\<not> (str_field body ''token'' = [] \<or> str_field body ''platform'' = [] \<or> str_field body ''fingerprint'' = [])"
    using assms body by (auto simp: handleAgentRegister_def)
  obtain s1 where reg: "register_device e body s1 = (resp, s')"
    using assms body ne by (auto simp: handleAgentRegister_def split: prod.splits sum.splits)
  define d where "d = \<lparr>dev_ID = uuid e 0,
      dev_Name = (if str_field body ''name'' = [] then str_field body ''platform'' @ ''-agent'' else str_field body ''name''),
      dev_Platform = str_field body ''platform'',
      dev_AgentVersion = (if str_field body ''agent_version'' = [] then ''unknown'' else str_field body ''agent_version''),
      dev_Fingerprint = str_field body ''fingerprint'', dev_CredentialHash = hashSecret (randomToken (random e 0)),
      dev_Authorized = True, dev_LastSeenAt = None, dev_CreatedAt = zero_time, dev_UpdatedAt = zero_time\<rparr>"
  obtain r s2 where c: "run_db (CreateDevice (clock e 1) d) s1 = (r, s2)" by force
  have "\<exists>d2. r = Inr d2"
    using reg c assms(2) by (cases r) (auto simp: register_device_def Let_def d_def)
  then obtain d2 where r: "r = Inr d2" ..
  define d3 where "d3 = d\<lparr>dev_CreatedAt := clock e 1, dev_UpdatedAt := clock e 1\<rparr>"
  have create: "CreateDevice (clock e 1) d = bind (exec (stmt_insert_device d3)) (\<lambda>_. ok d3)"
    by (simp add: CreateDevice_def d3_def d_def Let_def)
  have d2: "d2 = d3" and ins: "d3 \<in> set (devices (contents (db s2)))"
    using c r unfolding run_db_eq create by (auto simp: store_inv stmt_insert_device_def split: if_splits)
  have resp: "resp = writeJSON 201 (json_strings [(''device_id'', dev_ID d2), (''credential'', randomToken (random e 0))])"
    and s': "s' = try_audit (uuid e 1) (clock e 2) (zero_event\<lparr>ae_DeviceID := dev_ID d2,
        ae_EventType := ''device_registered'', ae_Summary := ''agent registered a device''\<rparr>) s2"
    using reg c r by (simp_all add: register_device_def Let_def d_def)
  show "rs_body resp = Some (json_strings [(''device_id'', uuid e 0), (''credential'', randomToken (random e 0))])"
    unfolding resp d2 by (simp add: writeJSON_def d3_def d_def)
  have "registered (uuid e 0) (hashSecret (randomToken (random e 0))) (contents (db s2))"
    using ins by (force simp: registered_def credentials_def d3_def d_def)
  moreover have "preserves (registered i h) (audit_log i' now ev)" for i h i' now ev
    by (auto simp: audit_log_def CreateAuditEvent_def insertAuditEvent_def Let_def
        intro!: keep registered_untouched untouched_devices)
  ultimately show "registered (uuid e 0) (hashSecret (randomToken (random e 0))) (contents (db s'))"
    unfolding s' try_audit_def by (simp add: preserves_def)
qed

lemma split_run:
  "(\<And>x s1. run_db m s = (Inl x, s1) \<Longrightarrow> P (snd (f x s1))) \<Longrightarrow>
    (\<And>x s1. run_db m s = (Inr x, s1) \<Longrightarrow> P (snd (g x s1))) \<Longrightarrow>
    P (snd (case run_db m s of (Inl x, s1) \<Rightarrow> f x s1 | (Inr x, s1) \<Rightarrow> g x s1))"
  by (auto split: prod.split sum.split)

lemma register_wf:
  assumes "wf_tables (contents (db s))" "handleAgentRegister L e req s = (resp, s')"
  shows "wf_tables (contents (db s'))"
proof -
  have keep1: "wf_tables (contents (db s2))"
    if "preserves wf_tables m" "wf_tables (contents (db s1))" "run_db m s1 = (r, s2)"
    for m :: "'a store" and s1 r s2
    using that preservesD [OF that(1,2)] by (auto simp: run_db_eq)
  have use: "preserves wf_tables (UseAgentTokenByHash h now)" for h now
    by (auto simp: UseAgentTokenByHash_def intro!: keep wf_keeps_updates)
  have new: "preserves wf_tables (CreateDevice now d)" for now d
    by (auto simp: CreateDevice_def Let_def intro!: keep wf_keeps_inserts)
  have log: "preserves wf_tables (audit_log i now ev)" for i now ev
    by (auto simp: audit_log_def CreateAuditEvent_def insertAuditEvent_def Let_def intro!: keep wf_keeps_inserts)
  have reg: "wf_tables (contents (db (snd (register_device e body s1))))" if wf: "wf_tables (contents (db s1))" for body s1
  proof -
    have created: "wf_tables (contents (db s2))" if "run_db (CreateDevice now d) s1 = (r, s2)" for now d r s2
      using keep1 [OF new wf that] .
    show ?thesis
      unfolding register_device_def Let_def try_audit_def
      by (rule split_run) (use log in \<open>simp_all add: preserves_def created\<close>)
  qed
  show ?thesis
  proof (cases "readJSON L req register_fields")
    case (Inl r)
    with assms show ?thesis by (simp add: handleAgentRegister_def)
  next
    case (Inr body)
    show ?thesis
    proof (cases "str_field body ''token'' = [] \<or> str_field body ''platform'' = [] \<or> str_field body ''fingerprint'' = []")
      case True
      with assms Inr show ?thesis by (simp add: handleAgentRegister_def)
    next
      case False
      let ?m = "UseAgentTokenByHash (hashSecret (str_field body ''token'')) (clock e 0)"
      obtain r s1 where r: "run_db ?m s = (r, s1)" by force
      have "wf_tables (contents (db s1))" using keep1 [OF use assms(1) r] .
      with reg [of s1 body] r assms(2) Inr False show ?thesis
        by (cases r) (simp_all add: handleAgentRegister_def)
    qed
  qed
qed

lemma registered_device:
  assumes "wf_tables T" "registered i h T"
  shows "\<exists>d. find (\<lambda>d. dev_ID d = i) (devices T) = Some d \<and> dev_CredentialHash d = h \<and> dev_Authorized d"
proof -
  obtain d where d: "d \<in> set (devices T)" "dev_ID d = i" "dev_CredentialHash d = h" "dev_Authorized d"
    using assms(2) by (auto simp: registered_def credentials_def)
  have "distinct (map dev_ID ds) \<Longrightarrow> d \<in> set ds \<Longrightarrow> find (\<lambda>y. dev_ID y = dev_ID d) ds = Some d" for ds
    by (induction ds) force+
  with d assms(1) show ?thesis by (auto simp: wf_tables_def)
qed

lemma registered_handshake:
  assumes "wf_tables (rows t)" and "registered (hello_DeviceID hello) (hashSecret (hello_Credential hello)) (rows t)"
    and "faults (db (srv t)) = []" and "greeting L data = Some hello" and "hello_ProtocolVersion hello = ''v1''"
  shows "\<exists>device. fst (agent_handshake L data t) = Inr (device, hello) \<and> dev_ID device = hello_DeviceID hello"
proof -
  obtain d where d: "find (\<lambda>d. dev_ID d = hello_DeviceID hello) (devices (rows t)) = Some d"
    "dev_CredentialHash d = hashSecret (hello_Credential hello)" "dev_Authorized d"
    using registered_device [OF assms(1,2)] by blast
  have "db (srv t) = calm (rows t)" using assms(3) by (simp add: calm_def rows_def)
  then have "fst (site_db (GetDevice (hello_DeviceID hello)) t) = Inr d"
    using d(1) by (simp add: GetDevice_def)
  then obtain t' where g: "site_db (GetDevice (hello_DeviceID hello)) t = (Inr d, t')" by (metis prod.collapse)
  have "dev_ID d = hello_DeviceID hello" using d(1) by (simp add: find_Some_iff) blast
  moreover have "fst (agent_handshake L data t) = Inr (d, hello)"
    using assms(4,5) d(2,3) by (auto simp: agent_handshake_def greeting_def ProtocolVersion_def g
        bind_eq_Some_conv split: if_splits)
  ultimately show ?thesis by blast
qed

section \<open>The properties\<close>

text \<open>C31: an agent's connection is accepted only with the credential of an authorized device: the
  greeting has the protocol's version and names a device whose row holds the hash of the credential
  in it. A refused connection changes nothing but the driver's state.\<close>

theorem connection_needs_credential:
  "case agent_handshake L data s of
     (Inr (device, hello), s') \<Rightarrow>
       greeting L data = Some hello \<and> hello_ProtocolVersion hello = ''v1'' \<and>
       device \<in> set (devices (rows s)) \<and> dev_ID device = hello_DeviceID hello \<and> dev_Authorized device \<and>
       dev_CredentialHash device = hashSecret (hello_Credential hello) \<and> rows s' = rows s
   | (Inl _, s') \<Rightarrow> rows s' = rows s \<and> hub s' = hub s \<and> presence s' = presence s \<and> wires s' = wires s"
proof -
  have read: "rows s1 = rows s \<and> hub s1 = hub s \<and> presence s1 = presence s \<and> wires s1 = wires s"
    if "site_db (GetDevice i) s = (r, s1)" for i r s1
  proof -
    have "s1 = snd (site_db (GetDevice i) s)" using that by simp
    then show ?thesis by (simp add: GetDevice_def)
  qed
  have found: "d \<in> set (devices (rows s)) \<and> dev_ID d = i" if "site_db (GetDevice i) s = (Inr d, s1)" for i d s1
    using site_db_run [OF that] by (auto simp: GetDevice_def query_row_Inr rows_def find_Some_iff)
  show ?thesis
    by (auto simp: agent_handshake_def greeting_def ProtocolVersion_def split: option.splits prod.splits sum.splits
        dest: read found)
qed

text \<open>The credential that a registration's answer shows opens the device's connection, at any
  later time, after any operations of the store, when the driver works: no operation takes a
  device's credential away.\<close>

theorem registered_device_connects:
  assumes "wf_tables (contents (db s))"
    and "handleAgentRegister L e req s = (resp, s')" and "rs_status resp = 201"
    and "rows t = contents (run_ops xs (db s'))" and "faults (db (srv t)) = []"
    and "greeting L data = Some hello" and "hello_ProtocolVersion hello = ''v1''"
    and "rs_body resp = Some (json_strings [(''device_id'', hello_DeviceID hello), (''credential'', hello_Credential hello)])"
  shows "\<exists>device. fst (agent_handshake L data t) = Inr (device, hello) \<and> dev_ID device = hello_DeviceID hello"
proof -
  have pair: "json_strings [(''device_id'', a), (''credential'', b)] = json_strings [(''device_id'', c), (''credential'', d)]
      \<longleftrightarrow> a = c \<and> b = d" for a b c d
    by (auto simp: json_strings_def json_map_def)
  have "registered (hello_DeviceID hello) (hashSecret (hello_Credential hello)) (contents (db s'))"
    using register_registers [OF assms(2,3)] assms(8) by (simp add: pair)
  then have "registered (hello_DeviceID hello) (hashSecret (hello_Credential hello)) (rows t)"
    unfolding assms(4) by (rule run_registered)
  moreover have "wf_tables (rows t)"
    unfolding assms(4) using register_wf [OF assms(1,2)] by (rule run_wf)
  ultimately show ?thesis using registered_handshake assms(5,6,7) by blast
qed

text \<open>A server with one registration token, a registration with it and the greeting that follows.\<close>

definition sample_register_json :: json where
  "sample_register_json = JObject [(''token'', JString ''tok''), (''platform'', JString ''linux''), (''fingerprint'', JString ''f'')]"

definition sample_hello_json :: json where
  "sample_hello_json = JObject [(''type'', JString ''agent_hello''), (''payload'', JObject
     [(''device_id'', JString ''id''), (''credential'', JString (randomToken ''bytes'')), (''protocol_version'', JString ''v1'')])]"

definition conn_libs :: libs where
  "conn_libs = \<lparr>lib_lex = (\<lambda>b. (tokens_of (if b = ''register'' then sample_register_json else sample_hello_json), True)),
     lib_mediaType = (\<lambda>_. None), lib_lower = (\<lambda>s. s), lib_upper = (\<lambda>s. s), lib_checkPassword = (\<lambda>_ _. False),
     lib_formatNano = (\<lambda>_. []), lib_parseNano = (\<lambda>_. None), lib_formatTime = (\<lambda>_. []), lib_marshal = (\<lambda>_. []),
     lib_marshalChallenge = (\<lambda>_. []), lib_unmarshalChallenge = (\<lambda>_. None)\<rparr>"

definition conn_token :: AgentToken where
  "conn_token = \<lparr>tok_ID = ''t'', tok_Name = ''agent'', tok_TokenHash = hashSecret ''tok'', tok_ExpiresAt = 100,
     tok_UsedAt = None, tok_RevokedAt = None, tok_CreatedAt = 0\<rparr>"

definition conn_server :: server where
  "conn_server = \<lparr>db = calm (empty_tables\<lparr>agent_tokens := [conn_token]\<rparr>), passwordLimiter = quiet_limiter,
     twoFactorLimiter = quiet_limiter, managementLimiter = quiet_limiter\<rparr>"

definition conn_request :: request where
  "conn_request = \<lparr>rq_method = ''POST'', rq_path = ''/api/agents/register'', rq_query = [], rq_remoteAddr = [],
     rq_contentType = [], rq_contentLength = 0, rq_cookie = None, rq_body = ''register'', rq_broken = False\<rparr>"

definition conn_hello :: AgentHello where
  "conn_hello = \<lparr>hello_DeviceID = ''id'', hello_Credential = randomToken ''bytes'', hello_Platform = [],
     hello_AgentVersion = [], hello_ProtocolVersion = ''v1'', hello_Capabilities = [], hello_Sessions = []\<rparr>"

lemma conn_body:
  "readJSON conn_libs conn_request register_fields = Inr [(''token'', FString ''tok''), (''name'', FString []),
     (''platform'', FString ''linux''), (''agent_version'', FString []), (''fingerprint'', FString ''f'')]"
proof -
  have "first_value (tokens_of sample_register_json) = Some (sample_register_json, [])"
    using first_value_tokens [of sample_register_json "[]"] by simp
  then show ?thesis
    by (simp add: readJSON_def conn_libs_def conn_request_def) (simp add: sample_register_json_def register_fields_def
        decode_struct_def target_field_def assign_field_def)
qed

lemma conn_greeting: "greeting conn_libs ''hello'' = Some conn_hello"
proof -
  have "first_value (tokens_of sample_hello_json) = Some (sample_hello_json, [])"
    using first_value_tokens [of sample_hello_json "[]"] by simp
  then have "unmarshal conn_libs ''hello'' = Some sample_hello_json" by (simp add: unmarshal_def conn_libs_def)
  then show ?thesis
    by (simp add: greeting_def DecodeEnvelope_def envelope_fields_def sample_hello_json_def decode_struct_def target_field_def
        assign_field_def str_field_def raw_field_def decode_hello_def decodePayload_def decode_slice_def conn_hello_def)
qed

lemma conn_registration:
  "\<exists>s'. handleAgentRegister conn_libs sample_clock conn_request conn_server =
     (writeJSON 201 (json_strings [(''device_id'', ''id''), (''credential'', randomToken ''bytes'')]), s') \<and>
     faults (db s') = []"
  by (simp add: handleAgentRegister_def conn_body str_field_def run_db_def conn_server_def UseAgentTokenByHash_def
      conn_token_def token_usable_def sample_clock_def clock_def transaction_calm stmt_use_token_def sql_update_def
      register_device_def CreateDevice_def Let_def stmt_insert_device_def empty_tables_def bind_def ok_def
      try_audit_def audit_log_def CreateAuditEvent_def insertAuditEvent_def insert_audit_def zero_event_def)
    (simp add: calm_def)

text \<open>The server after that registration, with the hub and the rest as they start.\<close>

definition conn_site :: "server \<Rightarrow> site" where
  "conn_site x = sample_site\<lparr>srv := x\<rparr>"

theorem registered_device_connects_witness:
  "\<exists>s' device. handleAgentRegister conn_libs sample_clock conn_request conn_server =
     (writeJSON 201 (json_strings [(''device_id'', ''id''), (''credential'', randomToken ''bytes'')]), s') \<and>
     fst (agent_handshake conn_libs ''hello'' (conn_site s')) = Inr (device, conn_hello)"
proof -
  obtain s' where s': "handleAgentRegister conn_libs sample_clock conn_request conn_server =
     (writeJSON 201 (json_strings [(''device_id'', ''id''), (''credential'', randomToken ''bytes'')]), s')" "faults (db s') = []"
    using conn_registration by blast
  have "wf_tables (contents (db conn_server))"
    by (simp add: conn_server_def wf_tables_def empty_tables_def)
  from registered_device_connects [OF this s'(1) _ _ _ conn_greeting, of "conn_site s'" "[]"] s'
  show ?thesis by (simp add: conn_site_def rows_def conn_hello_def writeJSON_def) blast
qed

end
