(* ===== verification/Files.thy ===== *)
theory Files
  imports AgentApi
begin

text \<open>
  \<^verbatim>\<open>server/internal/files/service.go\<close>: file operations on a device, as requests to its agent that
  wait for an answer. Other handlers run while a request waits; what they do to the server, and
  which case of the \<^verbatim>\<open>select\<close> ends the wait, is the \<open>turn\<close> of the request.
\<close>

section \<open>Errors\<close>

text \<open>\<^verbatim>\<open>OpError\<close> with its code and message, or an error of the reader or writer passed on.\<close>

datatype fs_error = OpError string string | IOError string

definition CodeAgentUnsupported :: string where "CodeAgentUnsupported = ''agent_unsupported''"
definition CodeAgentOffline :: string where "CodeAgentOffline = ''agent_offline''"
definition CodeTimeout :: string where "CodeTimeout = ''timeout''"
definition CodeBusy :: string where "CodeBusy = ''busy''"
definition CodeAgentError :: string where "CodeAgentError = ''agent_error''"

section \<open>Slots\<close>

definition checkDevice :: "string \<Rightarrow> site \<Rightarrow> fs_error option" where
  "checkDevice deviceID s =
     (if \<not> HasCapability deviceID CapabilityFs (presence s)
      then Some (OpError CodeAgentUnsupported ''agent does not support file operations'') else None)"

definition active_ops :: "Service \<Rightarrow> string \<Rightarrow> int" where
  "active_ops F deviceID = (case active F deviceID of None \<Rightarrow> 0 | Some n \<Rightarrow> n)"

definition acquire :: "string \<Rightarrow> Service \<Rightarrow> fs_error option \<times> Service" where
  "acquire deviceID F =
     (if maxPerDevice F \<le> active_ops F deviceID
      then (Some (OpError CodeBusy ''too many concurrent file operations''), F)
      else (None, F\<lparr>active := (active F)(deviceID \<mapsto> active_ops F deviceID + 1)\<rparr>))"

definition release :: "string \<Rightarrow> Service \<Rightarrow> Service" where
  "release deviceID F =
     (let n = active_ops F deviceID - 1
      in F\<lparr>active := (active F)(deviceID := (if n \<le> 0 then None else Some n))\<rparr>)"

text \<open>The start every operation has; \<^verbatim>\<open>defer s.release(deviceID)\<close> is the end of those that get in.\<close>

definition enter_op :: "string \<Rightarrow> site \<Rightarrow> fs_error option \<times> site" where
  "enter_op deviceID s =
     (case checkDevice deviceID s of
        Some err \<Rightarrow> (Some err, s)
      | None \<Rightarrow> (case acquire deviceID (fs s) of (r, F) \<Rightarrow> (r, s\<lparr>fs := F\<rparr>)))"

section \<open>One request\<close>

datatype wake = Replied | TimedOut | Cancelled

record turn =
  tr_requestID :: string
  tr_others :: "site \<Rightarrow> site"
  tr_wake :: wake

text \<open>A fresh channel is empty; nothing can read it after the request has ended.\<close>

definition expect_reply :: "string \<Rightarrow> Service \<Rightarrow> Service" where
  "expect_reply i F = F\<lparr>pending := insert i (pending F), replies := (replies F)(i := None)\<rparr>"

definition drop_request :: "string \<Rightarrow> Service \<Rightarrow> Service" where
  "drop_request i F = F\<lparr>pending := pending F - {i}, replies := (replies F)(i := None)\<rparr>"

definition timeout_error :: fs_error where
  "timeout_error = OpError CodeTimeout ''agent did not respond in time''"

text \<open>Without an answer in the channel only the timer or the context can end the wait.\<close>

definition await_reply :: "turn \<Rightarrow> site \<Rightarrow> (fs_error + Envelope) \<times> site" where
  "await_reply t s =
     (case (tr_wake t, replies (fs s) (tr_requestID t)) of
        (Replied, Some env) \<Rightarrow>
          (Inr env, on_fs (\<lambda>F. F\<lparr>replies := (replies F)(tr_requestID t := None)\<rparr>) s)
      | (Cancelled, _) \<Rightarrow>
          (Inl (OpError CodeTimeout ''request cancelled''), on_fs (drop_request (tr_requestID t)) s)
      | _ \<Rightarrow> (Inl timeout_error, on_fs (drop_request (tr_requestID t)) s))"

definition request :: "turn \<Rightarrow> string \<Rightarrow> message \<Rightarrow> Outbound" where
  "request t messageType payload =
     \<lparr>ob_Type = messageType, ob_SessionID = [], ob_RequestID = tr_requestID t, ob_Payload = payload\<rparr>"

definition roundTrip :: "turn \<Rightarrow> string \<Rightarrow> string \<Rightarrow> message \<Rightarrow> site \<Rightarrow> (fs_error + Envelope) \<times> site" where
  "roundTrip t deviceID messageType payload s =
     (case site_send (ToDevice deviceID (request t messageType payload))
             (on_fs (expect_reply (tr_requestID t)) s) of
        (Some _, s1) \<Rightarrow>
          (Inl (OpError CodeAgentOffline ''agent not connected''), on_fs (drop_request (tr_requestID t)) s1)
      | (None, s1) \<Rightarrow> await_reply t (tr_others t s1))"

text \<open>\<open>quoted\<close> is the \<^verbatim>\<open>%q\<close> of \<^verbatim>\<open>fmt\<close>; \<open>decode\<close> reads the payload into the wanted struct.\<close>

definition decodeResult ::
    "(string \<Rightarrow> string) \<Rightarrow> (Envelope \<Rightarrow> 'a option) \<Rightarrow> string \<Rightarrow> Envelope \<Rightarrow> fs_error + 'a" where
  "decodeResult quoted decode wantType env =
     (if env_Type env = TypeFsError
      then (case decode_fs_error env of
              None \<Rightarrow> Inl (OpError CodeAgentError ''invalid agent error payload'')
            | Some (code, text) \<Rightarrow> Inl (OpError code text))
      else if env_Type env \<noteq> wantType
      then Inl (OpError CodeAgentError (''unexpected reply type '' @ quoted (env_Type env)))
      else (case decode env of
              None \<Rightarrow> Inl (OpError CodeAgentError ''invalid agent payload'')
            | Some v \<Rightarrow> Inr v))"

section \<open>Directories\<close>

definition Service_List ::
    "(string \<Rightarrow> string) \<Rightarrow> turn \<Rightarrow> string \<Rightarrow> string \<Rightarrow> site \<Rightarrow> (fs_error + string \<times> FsEntry list) \<times> site" where
  "Service_List quoted t deviceID path s =
     (case enter_op deviceID s of
        (Some err, s1) \<Rightarrow> (Inl err, s1)
      | (None, s1) \<Rightarrow>
          (case roundTrip t deviceID TypeFsList (FsList path) s1 of
             (Inl err, s2) \<Rightarrow> (Inl err, on_fs (release deviceID) s2)
           | (Inr env, s2) \<Rightarrow>
               (decodeResult quoted decode_list_result TypeFsListResult env, on_fs (release deviceID) s2)))"

section \<open>Downloads\<close>

text \<open>
  The rounds of a loop are numbered. A link says what the n-th request gives; the service's own is
  \<open>roundTrip\<close> with the turns of the operation.
\<close>

type_synonym 's link = "nat \<Rightarrow> string \<Rightarrow> message \<Rightarrow> 's \<Rightarrow> (fs_error + Envelope) \<times> 's"

definition device_link :: "(nat \<Rightarrow> turn) \<Rightarrow> string \<Rightarrow> site link" where
  "device_link turns deviceID n messageType payload s = roundTrip (turns n) deviceID messageType payload s"

text \<open>The calls of \<^verbatim>\<open>onSize\<close>, the bytes written, and which writes stop after some bytes.\<close>

record sink =
  sk_sizes :: "int list"
  sk_data :: string
  sk_faults :: "nat option list"

definition sink_write :: "string \<Rightarrow> sink \<Rightarrow> fs_error option \<times> sink" where
  "sink_write bytes k =
     (case sk_faults k of
        [] \<Rightarrow> (None, k\<lparr>sk_data := sk_data k @ bytes\<rparr>)
      | None # rest \<Rightarrow> (None, k\<lparr>sk_data := sk_data k @ bytes, sk_faults := rest\<rparr>)
      | Some n # rest \<Rightarrow>
          (Some (IOError ''write''), k\<lparr>sk_data := sk_data k @ take n bytes, sk_faults := rest\<rparr>))"

definition note_size :: "bool \<Rightarrow> int \<Rightarrow> int \<Rightarrow> sink \<Rightarrow> sink" where
  "note_size announce offset fileSize k =
     (if offset = 0 \<and> announce then k\<lparr>sk_sizes := sk_sizes k @ [fileSize]\<rparr> else k)"

text \<open>One answer: an error ends the download, otherwise the bytes taken and whether they were the last.\<close>

definition take_chunk ::
    "(string \<Rightarrow> string) \<Rightarrow> bool \<Rightarrow> int \<Rightarrow> Envelope \<Rightarrow> sink \<Rightarrow> (fs_error + nat \<times> bool) \<times> sink" where
  "take_chunk quoted announce offset env k =
     (case decodeResult quoted decode_read_result TypeFsReadResult env of
        Inl err \<Rightarrow> (Inl err, k)
      | Inr (data, eof, fileSize) \<Rightarrow>
          (case std_decode data of
             None \<Rightarrow> (Inl (OpError CodeAgentError ''invalid chunk encoding''), note_size announce offset fileSize k)
           | Some bytes \<Rightarrow>
               if bytes = [] then (Inr (0, eof), note_size announce offset fileSize k)
               else (case sink_write bytes (note_size announce offset fileSize k) of
                       (Some err, k1) \<Rightarrow> (Inl err, k1)
                     | (None, k1) \<Rightarrow> (Inr (length bytes, eof), k1))))"

text \<open>The loop has no bound: an agent may never say that the file ends. None is a download that runs on.\<close>

partial_function (option) download_loop ::
    "(string \<Rightarrow> string) \<Rightarrow> 's link \<Rightarrow> nat \<Rightarrow> bool \<Rightarrow> string \<Rightarrow> nat \<Rightarrow> int \<Rightarrow> sink \<Rightarrow> 's \<Rightarrow>
     (fs_error option \<times> sink \<times> 's) option" where
  "download_loop quoted rt bufsize announce path n offset k s =
     (case rt n TypeFsRead (FsRead path offset (int bufsize)) s of
        (Inl err, s1) \<Rightarrow> Some (Some err, k, s1)
      | (Inr env, s1) \<Rightarrow>
          (case take_chunk quoted announce offset env k of
             (Inl err, k1) \<Rightarrow> Some (Some err, k1, s1)
           | (Inr (len, eof), k1) \<Rightarrow>
               if eof then Some (None, k1, s1)
               else download_loop quoted rt bufsize announce path (Suc n) (int64 (offset + int len)) k1 s1))"

definition Service_Download ::
    "(string \<Rightarrow> string) \<Rightarrow> (nat \<Rightarrow> turn) \<Rightarrow> string \<Rightarrow> string \<Rightarrow> bool \<Rightarrow> sink \<Rightarrow> site \<Rightarrow>
     (fs_error option \<times> sink \<times> site) option" where
  "Service_Download quoted turns deviceID path announce k s =
     (case enter_op deviceID s of
        (Some err, s1) \<Rightarrow> Some (Some err, k, s1)
      | (None, s1) \<Rightarrow>
          map_option (\<lambda>(r, k1, s2). (r, k1, on_fs (release deviceID) s2))
            (download_loop quoted (device_link turns deviceID) (chunkSize (fs s1)) announce path 0 0 k s1))"

section \<open>Uploads\<close>

text \<open>A reader: the bytes it still has, and the error that follows them.\<close>

datatype read_error = EOF | UnexpectedEOF | ReadFailed string

record reader =
  rd_data :: string
  rd_end :: read_error

text \<open>\<^verbatim>\<open>io.ReadFull\<close> with a buffer of \<open>k\<close> bytes.\<close>

definition ReadFull :: "nat \<Rightarrow> reader \<Rightarrow> string \<times> read_error option \<times> reader" where
  "ReadFull k r =
     (if k \<le> length (rd_data r) then (take k (rd_data r), None, r\<lparr>rd_data := drop k (rd_data r)\<rparr>)
      else (rd_data r,
            Some (if rd_data r \<noteq> [] \<and> rd_end r = EOF then UnexpectedEOF else rd_end r),
            r\<lparr>rd_data := []\<rparr>))"

text \<open>A request whose answer is only looked at for errors.\<close>

definition confirm ::
    "(string \<Rightarrow> string) \<Rightarrow> 's link \<Rightarrow> (Envelope \<Rightarrow> 'a option) \<Rightarrow> string \<Rightarrow> nat \<Rightarrow> string \<Rightarrow> message \<Rightarrow> 's \<Rightarrow>
     fs_error option \<times> 's" where
  "confirm quoted rt decode wantType n messageType payload s =
     (case rt n messageType payload s of
        (Inl err, s1) \<Rightarrow> (Some err, s1)
      | (Inr env, s1) \<Rightarrow>
          (case decodeResult quoted decode wantType env of
             Inl err \<Rightarrow> (Some err, s1)
           | Inr _ \<Rightarrow> (None, s1)))"

definition send_chunk ::
    "(string \<Rightarrow> string) \<Rightarrow> 's link \<Rightarrow> string \<Rightarrow> nat \<Rightarrow> int \<Rightarrow> string \<Rightarrow> 's \<Rightarrow> fs_error option \<times> 's" where
  "send_chunk quoted rt uploadID n offset bytes s =
     confirm quoted rt decode_ack TypeFsWriteAck n TypeFsWriteChunk
       (FsWriteChunk uploadID offset (std_encode bytes)) s"

text \<open>The loop; its result is the error it returns, or the offset and the next round when it breaks.\<close>

partial_function (option) upload_loop ::
    "(string \<Rightarrow> string) \<Rightarrow> 's link \<Rightarrow> nat \<Rightarrow> string \<Rightarrow> nat \<Rightarrow> int \<Rightarrow> reader \<Rightarrow> 's \<Rightarrow>
     ((fs_error + int \<times> nat) \<times> 's) option" where
  "upload_loop quoted rt bufsize uploadID n offset r s =
     (case ReadFull bufsize r of
        (bytes, readErr, r1) \<Rightarrow>
          (case (if bytes = [] then (None, s) else send_chunk quoted rt uploadID n offset bytes s) of
             (Some err, s1) \<Rightarrow> Some (Inl err, s1)
           | (None, s1) \<Rightarrow>
               (case readErr of
                  None \<Rightarrow> upload_loop quoted rt bufsize uploadID (Suc n) (int64 (offset + int (length bytes))) r1 s1
                | Some (ReadFailed text) \<Rightarrow> Some (Inl (IOError text), s1)
                | Some _ \<Rightarrow> Some (Inr (int64 (offset + int (length bytes)), Suc n), s1))))"

definition truncated :: "int \<Rightarrow> int \<Rightarrow> fs_error" where
  "truncated offset declared =
     OpError ''invalid_request'' (''upload truncated: received '' @ formatInt offset @
       '' bytes, expected '' @ formatInt declared)"

text \<open>The end of an upload: a short body is closed with the declared size, which the agent refuses.\<close>

definition finish_upload ::
    "(string \<Rightarrow> string) \<Rightarrow> 's link \<Rightarrow> string \<Rightarrow> int \<Rightarrow> nat \<Rightarrow> int \<Rightarrow> 's \<Rightarrow> fs_error option \<times> 's" where
  "finish_upload quoted rt uploadID declared n offset s =
     (if offset \<noteq> declared
      then (Some (truncated offset declared), snd (rt n TypeFsWriteClose (FsWriteClose uploadID declared) s))
      else confirm quoted rt decode_upload TypeFsWriteResult n TypeFsWriteClose
             (FsWriteClose uploadID declared) s)"

definition upload_body ::
    "(string \<Rightarrow> string) \<Rightarrow> 's link \<Rightarrow> nat \<Rightarrow> string \<Rightarrow> string \<Rightarrow> int \<Rightarrow> bool \<Rightarrow> reader \<Rightarrow> 's \<Rightarrow>
     (fs_error option \<times> 's) option" where
  "upload_body quoted rt bufsize uploadID path declared overwrite r s =
     (case confirm quoted rt decode_upload TypeFsWriteOpened 0 TypeFsWriteOpen
             (FsWriteOpen uploadID path declared overwrite) s of
        (Some err, s1) \<Rightarrow> Some (Some err, s1)
      | (None, s1) \<Rightarrow>
          (case upload_loop quoted rt bufsize uploadID 1 0 r s1 of
             None \<Rightarrow> None
           | Some (Inl err, s2) \<Rightarrow> Some (Some err, s2)
           | Some (Inr (offset, n), s2) \<Rightarrow> Some (finish_upload quoted rt uploadID declared n offset s2)))"

definition Service_Upload ::
    "(string \<Rightarrow> string) \<Rightarrow> (nat \<Rightarrow> turn) \<Rightarrow> string \<Rightarrow> string \<Rightarrow> string \<Rightarrow> int \<Rightarrow> bool \<Rightarrow> reader \<Rightarrow> site \<Rightarrow>
     (fs_error option \<times> site) option" where
  "Service_Upload quoted turns uploadID deviceID path declared overwrite r s =
     (case enter_op deviceID s of
        (Some err, s1) \<Rightarrow> Some (Some err, s1)
      | (None, s1) \<Rightarrow>
          map_option (\<lambda>(e, s2). (e, on_fs (release deviceID) s2))
            (upload_body quoted (device_link turns deviceID) (chunkSize (fs s1)) uploadID path declared
               overwrite r s1))"

end
