(* ===== verification/FileAgent.thy ===== *)
theory FileAgent
  imports Files
begin

text \<open>
  The other end of the file operations, \<^verbatim>\<open>agent/src/fs.rs\<close>: how an agent lists a directory, reads a
  chunk of a file and takes an upload in chunks, and how \<^verbatim>\<open>client.rs\<close> answers a request with it.
  The device's file system is a map from paths to contents; the script says which of the coming
  system calls fail, and with what \<^verbatim>\<open>io_error\<close> makes of the failure. Paths are compared as written
  (no symbolic links), nothing else writes to the device's files, and a temporary file can be removed.
\<close>

section \<open>Errors\<close>

datatype FsOpError =
    NotFound string
  | PermissionDenied string
  | NotAFile string
  | NotADirectory string
  | AlreadyExists string
  | InvalidPath string
  | InvalidRequest string
  | FsIo string

fun error_code :: "FsOpError \<Rightarrow> string" where
  "error_code (NotFound m) = ''not_found''"
| "error_code (PermissionDenied m) = ''permission_denied''"
| "error_code (NotAFile m) = ''not_a_file''"
| "error_code (NotADirectory m) = ''not_a_directory''"
| "error_code (AlreadyExists m) = ''already_exists''"
| "error_code (InvalidPath m) = ''invalid_path''"
| "error_code (InvalidRequest m) = ''invalid_request''"
| "error_code (FsIo m) = ''io_error''"

fun error_message :: "FsOpError \<Rightarrow> string" where
  "error_message (NotFound m) = m"
| "error_message (PermissionDenied m) = m"
| "error_message (NotAFile m) = m"
| "error_message (NotADirectory m) = m"
| "error_message (AlreadyExists m) = m"
| "error_message (InvalidPath m) = m"
| "error_message (InvalidRequest m) = m"
| "error_message (FsIo m) = m"

section \<open>The device\<close>

text \<open>A directory lists its entries; None is one whose metadata cannot be read.\<close>

record Upload =
  up_tmp :: string
  up_target :: string
  up_written :: nat

record agent_files =
  ag_home :: "string option"
  ag_files :: "string \<rightharpoonup> string"
  ag_dirs :: "string \<rightharpoonup> FsEntry option list"
  ag_uploads :: "string \<rightharpoonup> Upload"
  ag_script :: "FsOpError option list"

text \<open>One system call.\<close>

definition sys_call :: "agent_files \<Rightarrow> FsOpError option \<times> agent_files" where
  "sys_call a = (case ag_script a of [] \<Rightarrow> (None, a) | x # xs \<Rightarrow> (x, a\<lparr>ag_script := xs\<rparr>))"

definition then_call :: "agent_files \<Rightarrow> (agent_files \<Rightarrow> (FsOpError + 'a) \<times> agent_files) \<Rightarrow> (FsOpError + 'a) \<times> agent_files" where
  "then_call a rest = (case sys_call a of (Some err, a1) \<Rightarrow> (Inl err, a1) | (None, a1) \<Rightarrow> rest a1)"

definition resolve_path :: "string option \<Rightarrow> string \<Rightarrow> FsOpError + string" where
  "resolve_path home raw =
     (if raw = ''~''
      then (case home of None \<Rightarrow> Inl (InvalidPath ''home directory unavailable'') | Some h \<Rightarrow> Inr h)
      else if hasPrefix raw ''~/''
      then (case home of
              None \<Rightarrow> Inl (InvalidPath ''home directory unavailable'')
            | Some h \<Rightarrow>
                (let rest = drop 2 raw
                 in Inr (if rooted rest then rest
                         else if h \<noteq> [] \<and> last h = slash then h @ rest else h @ slash # rest)))
      else if \<not> rooted raw then Inl (InvalidPath (''path must be absolute: '' @ raw))
      else Inr raw)"

definition not_found :: "string \<Rightarrow> FsOpError" where
  "not_found path = NotFound (path @ '' not found'')"

section \<open>Reading\<close>

definition list_dir :: "string \<Rightarrow> agent_files \<Rightarrow> (FsOpError + message) \<times> agent_files" where
  "list_dir raw a =
     (case resolve_path (ag_home a) raw of
        Inl err \<Rightarrow> (Inl err, a)
      | Inr path \<Rightarrow> then_call a (\<lambda>a1.
          case ag_dirs a1 path of
            None \<Rightarrow>
              (Inl (if ag_files a1 path \<noteq> None then NotADirectory (path @ '' is not a directory'')
                    else not_found path), a1)
          | Some es \<Rightarrow> then_call a1 (\<lambda>a2.
              (Inr (FsListResult path (sort_key (\<lambda>x. \<not> fe_IsDir x) (sort_key fe_Name
                 (map the (filter (\<lambda>x. x \<noteq> None) es))))), a2))))"

definition MAX_CHUNK_LEN :: nat where "MAX_CHUNK_LEN = 1024 * 1024"

definition chunk_reply :: "string \<Rightarrow> nat \<Rightarrow> nat \<Rightarrow> message" where
  "chunk_reply content offset len =
     (let bytes = take len (drop offset content)
      in FsReadResult (std_encode bytes) (length bytes < len) (int (length content)))"

definition read_chunk :: "string \<Rightarrow> nat \<Rightarrow> nat \<Rightarrow> agent_files \<Rightarrow> (FsOpError + message) \<times> agent_files" where
  "read_chunk raw offset len a =
     (if len = 0 \<or> MAX_CHUNK_LEN < len
      then (Inl (InvalidRequest (''invalid chunk length '' @ digits_of len)), a)
      else case resolve_path (ag_home a) raw of
             Inl err \<Rightarrow> (Inl err, a)
           | Inr path \<Rightarrow> then_call a (\<lambda>a1.
               case ag_files a1 path of
                 None \<Rightarrow>
                   (Inl (if ag_dirs a1 path \<noteq> None then NotAFile (path @ '' is not a regular file'')
                         else not_found path), a1)
               | Some content \<Rightarrow> then_call a1 (\<lambda>a2. (Inr (chunk_reply content offset len), a2))))"

section \<open>Uploads\<close>

text \<open>\<^verbatim>\<open>Path::parent\<close> and \<^verbatim>\<open>Path::join\<close> of absolute paths.\<close>

definition parent_dir :: "string \<Rightarrow> string option" where
  "parent_dir p =
     (case filter (\<lambda>c. c \<noteq> [] \<and> c \<noteq> ''.'') (splitOn slash p) of
        [] \<Rightarrow> None
      | cs \<Rightarrow> Some (slash # join_with slash (butlast cs)))"

definition tmp_name :: "string \<Rightarrow> string" where
  "tmp_name uploadID = ''.vibe-upload-'' @ uploadID @ ''.tmp''"

definition tmp_path :: "string \<Rightarrow> string \<Rightarrow> string" where
  "tmp_path parent uploadID =
     (if last parent = slash then parent @ tmp_name uploadID else parent @ slash # tmp_name uploadID)"

text \<open>\<^verbatim>\<open>Upload::drop\<close>: an upload that goes away removes its temporary file.\<close>

definition drop_upload :: "string \<Rightarrow> agent_files \<Rightarrow> agent_files" where
  "drop_upload uploadID a =
     (case ag_uploads a uploadID of
        None \<Rightarrow> a
      | Some u \<Rightarrow> a\<lparr>ag_uploads := (ag_uploads a)(uploadID := None),
                   ag_files := (ag_files a)(up_tmp u := None)\<rparr>)"

definition open_upload :: "string \<Rightarrow> string \<Rightarrow> string \<Rightarrow> agent_files \<Rightarrow> (FsOpError + unit) \<times> agent_files" where
  "open_upload uploadID parent target a =
     (let tmp = tmp_path parent uploadID
      in then_call a (\<lambda>a1.
           if ag_files a1 tmp \<noteq> None \<or> ag_dirs a1 tmp \<noteq> None
           then (Inl (FsIo (tmp @ '': file exists'')), a1)
           else (Inr (), (drop_upload uploadID (a1\<lparr>ag_files := (ag_files a1)(tmp \<mapsto> [])\<rparr>))
                   \<lparr>ag_uploads := (ag_uploads a1)
                      (uploadID \<mapsto> \<lparr>up_tmp = tmp, up_target = target, up_written = 0\<rparr>)\<rparr>)))"

definition upload_open ::
    "string \<Rightarrow> string \<Rightarrow> bool \<Rightarrow> agent_files \<Rightarrow> (FsOpError + unit) \<times> agent_files" where
  "upload_open uploadID raw overwrite a =
     (case resolve_path (ag_home a) raw of
        Inl err \<Rightarrow> (Inl err, a)
      | Inr target \<Rightarrow>
          (case parent_dir target of
             None \<Rightarrow> (Inl (InvalidPath ''upload target has no parent directory''), a)
           | Some parent \<Rightarrow> then_call a (\<lambda>a1.
               if ag_dirs a1 parent = None
               then (Inl (if ag_files a1 parent \<noteq> None then NotADirectory (parent @ '' is not a directory'')
                          else not_found parent), a1)
               else if ag_dirs a1 target \<noteq> None then (Inl (NotAFile (target @ '' is a directory'')), a1)
               else if \<not> overwrite \<and> ag_files a1 target \<noteq> None
               then (Inl (AlreadyExists (target @ '' already exists'')), a1)
               else open_upload uploadID parent target a1)))"

definition upload_unknown :: "string \<Rightarrow> FsOpError" where
  "upload_unknown uploadID = NotFound (''upload '' @ uploadID @ '' not found'')"

text \<open>A write that fails part of the way leaves a temporary file, which \<^verbatim>\<open>abort\<close> removes.\<close>

definition write_chunk :: "string \<Rightarrow> nat \<Rightarrow> string \<Rightarrow> agent_files \<Rightarrow> (FsOpError + nat) \<times> agent_files" where
  "write_chunk uploadID offset bytes a =
     (case ag_uploads a uploadID of
        None \<Rightarrow> (Inl (upload_unknown uploadID), a)
      | Some u \<Rightarrow>
          (if offset \<noteq> up_written u
           then (Inl (InvalidRequest (''unexpected offset '' @ digits_of offset @ '', expected '' @
                   digits_of (up_written u))), drop_upload uploadID a)
           else case sys_call a of
                  (Some err, a1) \<Rightarrow>
                    (Inl (FsIo (up_tmp u @ '': '' @ error_message err)), drop_upload uploadID a1)
                | (None, a1) \<Rightarrow>
                    (Inr (up_written u + length bytes),
                     a1\<lparr>ag_files := (ag_files a1)(up_tmp u := map_option (\<lambda>old. old @ bytes) (ag_files a1 (up_tmp u))),
                        ag_uploads := (ag_uploads a1)
                          (uploadID \<mapsto> u\<lparr>up_written := up_written u + length bytes\<rparr>)\<rparr>)))"

text \<open>The new name replaces whatever file has it; then the upload is dropped like after an error.\<close>

definition upload_close :: "string \<Rightarrow> nat \<Rightarrow> agent_files \<Rightarrow> (FsOpError + unit) \<times> agent_files" where
  "upload_close uploadID totalSize a =
     (case ag_uploads a uploadID of
        None \<Rightarrow> (Inl (upload_unknown uploadID), a)
      | Some u \<Rightarrow>
          (if up_written u \<noteq> totalSize
           then (Inl (InvalidRequest (''size mismatch: wrote '' @ digits_of (up_written u) @
                   '', expected '' @ digits_of totalSize)), drop_upload uploadID a)
           else case sys_call a of
                  (Some err, a1) \<Rightarrow> (Inl err, drop_upload uploadID a1)
                | (None, a1) \<Rightarrow>
                    (case sys_call a1 of
                       (Some err, a2) \<Rightarrow> (Inl err, drop_upload uploadID a2)
                     | (None, a2) \<Rightarrow>
                         (Inr (), drop_upload uploadID (a2\<lparr>ag_files :=
                            (ag_files a2)(up_target u := ag_files a2 (up_tmp u), up_tmp u := None)\<rparr>)))))"

section \<open>Requests\<close>

text \<open>
  \<^verbatim>\<open>handle_fs_message\<close>, on the request the payload decodes to (\<^verbatim>\<open>u64\<close> and \<^verbatim>\<open>u32\<close> take no negative
  number); the reply is its type and its payload, None for a message of another kind.
\<close>

definition fs_reply :: "string \<Rightarrow> FsOpError + message \<Rightarrow> string \<times> message" where
  "fs_reply okType r =
     (case r of Inr m \<Rightarrow> (okType, m) | Inl err \<Rightarrow> (TypeFsError, FsError (error_code err) (error_message err)))"

definition reply_with :: "string \<Rightarrow> ('a \<Rightarrow> message) \<Rightarrow> (FsOpError + 'a) \<times> agent_files \<Rightarrow>
    (string \<times> message) option \<times> agent_files" where
  "reply_with okType f r = (Some (fs_reply okType (map_sum id f (fst r))), snd r)"

definition invalid_request :: "string \<Rightarrow> agent_files \<Rightarrow> (string \<times> message) option \<times> agent_files" where
  "invalid_request text a = (Some (fs_reply [] (Inl (InvalidRequest text))), a)"

definition handle_fs_message :: "message \<Rightarrow> agent_files \<Rightarrow> (string \<times> message) option \<times> agent_files" where
  "handle_fs_message m a =
     (case m of
        FsList path \<Rightarrow> reply_with TypeFsListResult id (list_dir path a)
      | FsRead path offset len \<Rightarrow>
          if offset < 0 \<or> len < 0 \<or> 2 ^ 32 \<le> len then invalid_request ''invalid payload'' a
          else reply_with TypeFsReadResult id (read_chunk path (nat offset) (nat len) a)
      | FsWriteOpen uploadID path declared overwrite \<Rightarrow>
          if declared < 0 then invalid_request ''invalid payload'' a
          else reply_with TypeFsWriteOpened (\<lambda>_. FsWriteOpened uploadID) (upload_open uploadID path overwrite a)
      | FsWriteChunk uploadID offset data \<Rightarrow>
          if offset < 0 then invalid_request ''invalid payload'' a
          else (case std_decode data of
                  None \<Rightarrow> invalid_request ''invalid chunk encoding'' a
                | Some bytes \<Rightarrow>
                    reply_with TypeFsWriteAck (\<lambda>n. FsWriteAck uploadID (int n))
                      (write_chunk uploadID (nat offset) bytes a))
      | FsWriteClose uploadID totalSize \<Rightarrow>
          if totalSize < 0 then invalid_request ''invalid payload'' a
          else reply_with TypeFsWriteResult (\<lambda>_. FsWriteResult uploadID) (upload_close uploadID (nat totalSize) a)
      | _ \<Rightarrow> (None, a))"

text \<open>\<^verbatim>\<open>send_json\<close>: the answer carries the request's identifier.\<close>

definition fs_answer :: "string \<Rightarrow> string \<times> message \<Rightarrow> Envelope" where
  "fs_answer requestID r =
     \<lparr>env_Type = fst r, env_RequestID = requestID, env_SessionID = [],
      env_Payload = Some (payload_json (snd r))\<rparr>"

end
