(* ===== verification/ProtocolClaims.thy ===== *)
theory ProtocolClaims
  imports Protocol
begin

text \<open>
  What the messages of \<^verbatim>\<open>protocol/messages.go\<close> are for: a message that was encoded is decoded to
  itself, with its type, the identifier of the request and the session in the envelope.
\<close>

section \<open>Numbers\<close>

definition in_int64 :: "int \<Rightarrow> bool" where
  "in_int64 i \<longleftrightarrow> min_int64 \<le> i \<and> i \<le> max_int64"

lemma digits_of_start: "digits_of n \<noteq> [] \<and> \<not> hasPrefix (digits_of n) ''-''"
proof -
  have ne: "digits_of n \<noteq> []" by (subst digits_of.simps) simp
  then have "is_digit (hd (digits_of n))" by (rule digits_of_digits [OF hd_in_set])
  then have "hd (digits_of n) \<noteq> CHR ''-''" by (auto simp: is_digit_def)
  with ne show ?thesis by (cases "digits_of n") (auto simp: hasPrefix_iff)
qed

lemma parse_formatInt [simp]:
  assumes "min_int64 \<le> i" and "i \<le> max_int64"
  shows "parse_int64 (formatInt i) = Some i"
proof (cases "i < 0")
  case True
  then have "formatInt i = ''-'' @ digits_of (nat (- i))" by (simp add: formatInt_def)
  moreover have "hasPrefix (''-'' @ digits_of (nat (- i))) ''-''" by (simp only: hasPrefix_append)
  ultimately show ?thesis
    using assms True digits_of_start [of "nat (- i)"]
    by (simp add: parse_int64_def Let_def list_all_iff digits_of_digits)
next
  case False
  then show ?thesis
    using assms digits_of_start [of "nat i"]
    by (simp add: formatInt_def parse_int64_def Let_def list_all_iff digits_of_digits)
qed

lemma uint32_formatInt: "0 \<le> i \<Longrightarrow> i < 2 ^ 32 \<Longrightarrow> decode_uint32 (Some (json_int i)) = Some i"
  using digits_of_start [of "nat i"]
  by (simp add: decode_uint32_def json_int_def formatInt_def list_all_iff digits_of_digits)

lemma assign_field_simps [simp]:
  "assign_field v (FRaw x) = Some (FRaw (Some v))" "assign_field (JString s) (FString t) = Some (FString s)"
  "assign_field (JNumber n) (FInt i) = map_option FInt (parse_int64 n)"
  "assign_field (JBool b) (FBool c) = Some (FBool b)" "assign_field JNull (FString t) = Some (FString t)"
  by (simp_all add: assign_field_def split: json.split)

lemmas decode_defs = decodePayload_def decode_struct_def target_field_def str_field_def
  int_field_def bool_field_def raw_field_def payload_json_def json_int_def

section \<open>Lists\<close>

definition summary_good :: "SessionSummary \<Rightarrow> bool" where
  "summary_good x \<longleftrightarrow> in_int64 (sum_AgentPID x) \<and> in_int64 (sum_LastOutputSeq x)"

definition entry_good :: "FsEntry \<Rightarrow> bool" where
  "entry_good x \<longleftrightarrow> in_int64 (fe_Size x) \<and> 0 \<le> fe_Mode x \<and> fe_Mode x < 2 ^ 32 \<and> in_int64 (fe_ModifiedAt x)"

lemma summary_decodes: "summary_good x \<Longrightarrow> decode_summary (summary_json x) = Some x"
  by (simp add: decode_summary_def summary_json_def summary_fields_def summary_good_def in_int64_def decode_defs)

lemma entry_decodes: "entry_good x \<Longrightarrow> decode_entry (entry_json x) = Some x"
  using uint32_formatInt [of "fe_Mode x"]
  by (simp add: decode_entry_def entry_json_def entry_good_def in_int64_def decode_defs)

lemma those_decoded: "\<forall>x \<in> set xs. item (enc x) = Some x \<Longrightarrow> those (map item (map enc xs)) = Some xs"
  by (induction xs) simp_all

lemma slices_decode:
  "\<forall>x \<in> set xs. summary_good x \<Longrightarrow> decode_slice decode_summary (Some (JArray (map summary_json xs))) = Some xs"
  "\<forall>x \<in> set es. entry_good x \<Longrightarrow> decode_slice decode_entry (Some (JArray (map entry_json es))) = Some es"
  using those_decoded [of xs decode_summary summary_json] those_decoded [of es decode_entry entry_json]
  by (simp_all add: decode_slice_def summary_decodes entry_decodes)

section \<open>Messages\<close>

text \<open>The numbers of a message fit into the fields of its struct.\<close>

fun message_good :: "message \<Rightarrow> bool" where
  "message_good (SyncSessions _ xs) = (\<forall>x \<in> set xs. summary_good x)"
| "message_good (StartSession _ _ _ cols nrows) = (in_int64 cols \<and> in_int64 nrows)"
| "message_good (SessionStarted _ pid _ seq) = (in_int64 pid \<and> in_int64 seq)"
| "message_good (Resize _ cols nrows) = (in_int64 cols \<and> in_int64 nrows)"
| "message_good (Stdout _ seq _) = in_int64 seq"
| "message_good (SessionExit _ code _) = in_int64 code"
| "message_good (FsListResult _ es) = (\<forall>x \<in> set es. entry_good x)"
| "message_good (FsRead _ off len) = (in_int64 off \<and> in_int64 len)"
| "message_good (FsReadResult _ _ len) = in_int64 len"
| "message_good (FsWriteOpen _ _ len _) = in_int64 len"
| "message_good (FsWriteChunk _ off _) = in_int64 off"
| "message_good (FsWriteAck _ off) = in_int64 off"
| "message_good (FsWriteClose _ len) = in_int64 len"
| "message_good _ = True"

text \<open>The server reads the message \<open>m\<close> from the envelope, if it is one of those it reads.\<close>

fun reads_back :: "Envelope \<Rightarrow> message \<Rightarrow> bool" where
  "reads_back env (SyncSessions dev xs) = (decode_sync env = Some xs)"
| "reads_back env (SessionStarted i pid title seq) = (decode_started env = Some (i, pid, title, seq))"
| "reads_back env (Stdin i data) = (decode_stdin env = Some (i, data))"
| "reads_back env (Resize i cols nrows) = (decode_resize env = Some (i, cols, nrows))"
| "reads_back env (Stdout i seq data) = (decode_stdout env = Some (i, seq, data))"
| "reads_back env (SessionExit i code reason) = (decode_exit env = Some (i, code, reason))"
| "reads_back env (SubscribeSession i) = (decode_subscribe env = Some i)"
| "reads_back env (FsListResult path es) = (decode_list_result env = Some (path, es))"
| "reads_back env (FsReadResult data eof len) = (decode_read_result env = Some (data, eof, len))"
| "reads_back env (FsWriteOpened up) = (decode_upload env = Some up)"
| "reads_back env (FsWriteAck up off) = (decode_ack env = Some (up, off))"
| "reads_back env (FsWriteResult up) = (decode_upload env = Some up)"
| "reads_back env (FsError code reason) = (decode_fs_error env = Some (code, reason))"
| "reads_back env _ = True"

lemma payload_reads_back:
  "env_Payload env = Some (payload_json m) \<Longrightarrow> message_good m \<Longrightarrow> reads_back env m"
  by (cases m) (simp_all add: in_int64_def decode_defs slices_decode decode_sync_def decode_started_def
      decode_stdin_def decode_resize_def decode_stdout_def decode_exit_def decode_subscribe_def
      decode_list_result_def decode_read_result_def decode_upload_def decode_ack_def decode_fs_error_def)

text \<open>
  The tokenizer of \<^verbatim>\<open>encoding/json\<close> reads what its writer has written, which it does for values whose
  strings are UTF-8.
\<close>

definition carries :: "libs \<Rightarrow> json \<Rightarrow> bool" where
  "carries L v \<longleftrightarrow> lib_lex L (lib_marshal L v) = (tokens_of v, True)"

lemma unmarshal_marshal: "carries L v \<Longrightarrow> unmarshal L (lib_marshal L v) = Some v"
  using first_value_tokens [of v "[]"] by (simp add: carries_def unmarshal_def)

lemma envelope_decodes:
  assumes "carries L (envelope_json env)" and "env_Type env \<noteq> []"
  shows "DecodeEnvelope L (lib_marshal L (envelope_json env)) = Some env"
  using assms(2) unmarshal_marshal [OF assms(1)]
  by (cases "env_RequestID env = []"; cases "env_SessionID env = []"; cases "env_Payload env")
    (simp_all add: DecodeEnvelope_def envelope_json_def omit_empty_def envelope_fields_def decode_defs)

section \<open>A library\<close>

text \<open>
  A writer and a tokenizer that keep the law: every token is written with its kind, and texts after
  their length.
\<close>

fun token_chars :: "token \<Rightarrow> string" where
  "token_chars (TDelim c) = [CHR ''d'', c]"
| "token_chars (TString s) = CHR ''s'' # replicate (length s) (CHR ''1'') @ CHR ''0'' # s"
| "token_chars (TNumber s) = CHR ''n'' # replicate (length s) (CHR ''1'') @ CHR ''0'' # s"
| "token_chars (TBool b) = [if b then CHR ''t'' else CHR ''f'']"
| "token_chars TNull = ''u''"

definition counted :: "string \<Rightarrow> string \<times> string" where
  "counted s = (let n = length (takeWhile (\<lambda>c. c = CHR ''1'') s) in (take n (drop (Suc n) s), drop n (drop (Suc n) s)))"

fun read_tokens :: "nat \<Rightarrow> string \<Rightarrow> token list" where
  "read_tokens 0 s = []"
| "read_tokens (Suc n) s =
     (case s of
        [] \<Rightarrow> []
      | k # r \<Rightarrow>
          if k = CHR ''d'' then TDelim (hd r) # read_tokens n (tl r)
          else if k = CHR ''s'' then (case counted r of (x, r1) \<Rightarrow> TString x # read_tokens n r1)
          else if k = CHR ''n'' then (case counted r of (x, r1) \<Rightarrow> TNumber x # read_tokens n r1)
          else (if k = CHR ''u'' then TNull else TBool (k = CHR ''t'')) # read_tokens n r)"

lemma counted_chars: "counted (replicate (length s) (CHR ''1'') @ CHR ''0'' # s @ r) = (s, r)"
proof -
  have "takeWhile (\<lambda>c. c = CHR ''1'') (replicate (length s) (CHR ''1'') @ CHR ''0'' # s @ r) =
      replicate (length s) (CHR ''1'')"
    by (subst takeWhile_append2) auto
  then show ?thesis by (simp add: counted_def)
qed

lemma read_written: "length ts \<le> n \<Longrightarrow> read_tokens n (concat (map token_chars ts)) = ts"
proof (induction ts arbitrary: n)
  case Nil
  then show ?case by (cases n) simp_all
next
  case (Cons t ts)
  then obtain m where "n = Suc m" "length ts \<le> m" by (cases n) simp_all
  with Cons.IH [of m] show ?case by (cases t) (simp_all add: counted_chars)
qed

definition plain_libs :: libs where
  "plain_libs = \<lparr>lib_lex = (\<lambda>b. (read_tokens (length b) b, True)),
     lib_mediaType = (\<lambda>_. None), lib_lower = (\<lambda>s. s), lib_upper = (\<lambda>s. s), lib_checkPassword = (\<lambda>_ _. False),
     lib_formatNano = (\<lambda>_. []), lib_parseNano = (\<lambda>_. None), lib_formatTime = (\<lambda>_. []),
     lib_marshal = (\<lambda>v. concat (map token_chars (tokens_of v))),
     lib_marshalChallenge = (\<lambda>_. []), lib_unmarshalChallenge = (\<lambda>_. None)\<rparr>"

lemma plain_libs_carry: "carries plain_libs v"
proof -
  have "length ts \<le> length (concat (map token_chars ts))" for ts
  proof (induction ts)
    case (Cons t ts)
    then show ?case by (cases t) simp_all
  qed simp
  then show ?thesis by (simp add: carries_def plain_libs_def read_written)
qed

section \<open>The property\<close>

text \<open>The envelope of a message.\<close>

definition envelope_of :: "string \<Rightarrow> string \<Rightarrow> message \<Rightarrow> Envelope" where
  "envelope_of ty req m = \<lparr>env_Type = ty, env_RequestID = req,
     env_SessionID = (case SessionIdentifier m of None \<Rightarrow> [] | Some i \<Rightarrow> i), env_Payload = Some (payload_json m)\<rparr>"



end
