(* ===== verification/FileLink.thy ===== *)
theory FileLink
  imports FileAgent ProtocolClaims
begin

text \<open>
  File operations from end to end: the loops of \<^verbatim>\<open>files.Service\<close> (theory Files) on a link to an agent
  (theory FileAgent). A link may lose a request or its answer; it never makes an answer up.
\<close>

section \<open>Answers are understood\<close>

lemma answers_decode [simp]:
  "decode_upload (fs_answer i (ty, FsWriteOpened up)) = Some up"
  "decode_upload (fs_answer i (ty, FsWriteResult up)) = Some up"
  "decode_fs_error (fs_answer i (ty, FsError code text)) = Some (code, text)"
  "min_int64 \<le> off \<Longrightarrow> off \<le> max_int64 \<Longrightarrow> decode_ack (fs_answer i (ty, FsWriteAck up off)) = Some (up, off)"
  "min_int64 \<le> len \<Longrightarrow> len \<le> max_int64 \<Longrightarrow>
     decode_read_result (fs_answer i (ty, FsReadResult data eof len)) = Some (data, eof, len)"
  by (simp_all add: decode_upload_def decode_fs_error_def decode_ack_def decode_read_result_def
      fs_answer_def decode_defs)

lemma answer_simps [simp]:
  "env_Type (fs_answer i r) = fst r" "env_RequestID (fs_answer i r) = i"
  by (simp_all add: fs_answer_def)

section \<open>What an upload does to the device's files\<close>

text \<open>An upload in progress: so many bytes have been taken, and they are in the temporary file.\<close>

definition upload_at :: "string \<Rightarrow> string \<Rightarrow> string \<Rightarrow> string \<Rightarrow> agent_files \<Rightarrow> bool" where
  "upload_at uploadID tmp target taken a \<longleftrightarrow>
     ag_uploads a uploadID = Some \<lparr>up_tmp = tmp, up_target = target, up_written = length taken\<rparr> \<and>
     ag_files a tmp = Some taken"

text \<open>No file but one is different.\<close>

definition only_file :: "string \<Rightarrow> agent_files \<Rightarrow> agent_files \<Rightarrow> bool" where
  "only_file tmp a a' \<longleftrightarrow> (\<forall>path. path \<noteq> tmp \<longrightarrow> ag_files a' path = ag_files a path)"

lemma only_file_refl [simp]: "only_file tmp a a"
  by (simp add: only_file_def)

lemma only_file_trans: "only_file tmp a b \<Longrightarrow> only_file tmp b c \<Longrightarrow> only_file tmp a c"
  by (simp add: only_file_def)

lemma only_fileD: "only_file tmp a a' \<Longrightarrow> path \<noteq> tmp \<Longrightarrow> ag_files a' path = ag_files a path"
  by (simp add: only_file_def)

lemma sys_call_frame:
  "sys_call a = (r, a1) \<Longrightarrow> ag_files a1 = ag_files a \<and> ag_uploads a1 = ag_uploads a \<and>
     ag_dirs a1 = ag_dirs a \<and> ag_home a1 = ag_home a"
  by (auto simp: sys_call_def split: list.splits)

lemma upload_at_cong:
  "upload_at i tmp t taken a \<Longrightarrow> ag_files a1 = ag_files a \<Longrightarrow> ag_uploads a1 = ag_uploads a \<Longrightarrow>
     upload_at i tmp t taken a1"
  by (simp add: upload_at_def)

lemma drop_upload_only: "upload_at i tmp t taken a \<Longrightarrow> only_file tmp a (drop_upload i a)"
  by (simp add: drop_upload_def upload_at_def only_file_def)

text \<open>A chunk at the right place is taken or ends the upload.\<close>

lemma write_chunk_effect:
  assumes at: "upload_at i tmp t taken a"
    and w: "write_chunk i (length taken) bytes a = (r, a')"
  shows "only_file tmp a a'"
    and "r = Inr n \<Longrightarrow> upload_at i tmp t (taken @ bytes) a' \<and> n = length taken + length bytes"
proof -
  obtain e a1 where c: "sys_call a = (e, a1)" by (metis surj_pair)
  note f = sys_call_frame [OF c]
  have at1: "upload_at i tmp t taken a1" using upload_at_cong [OF at] f by blast
  show "only_file tmp a a'"
  proof (cases e)
    case None
    with w at c f show ?thesis by (auto simp: write_chunk_def upload_at_def only_file_def)
  next
    case (Some x)
    with w at c have "a' = drop_upload i a1" by (auto simp: write_chunk_def upload_at_def)
    with drop_upload_only [OF at1] f show ?thesis by (simp add: only_file_def)
  qed
  show "r = Inr n \<Longrightarrow> upload_at i tmp t (taken @ bytes) a' \<and> n = length taken + length bytes"
    using w at c f by (cases e) (auto simp: write_chunk_def upload_at_def)
qed

text \<open>Closing commits what was taken if its length is the declared one, and otherwise changes nothing.\<close>

lemma upload_close_effect:
  assumes at: "upload_at i tmp t taken a" and ne: "tmp \<noteq> t"
    and c: "upload_close i whole a = (r, a')"
  shows "r = Inr u \<Longrightarrow> length taken = whole \<and> ag_files a' t = Some taken"
    and "only_file tmp a a' \<or>
         length taken = whole \<and> ag_files a' t = Some taken \<and>
         (\<forall>path. path \<noteq> tmp \<and> path \<noteq> t \<longrightarrow> ag_files a' path = ag_files a path)"
proof -
  obtain e1 a1 where c1: "sys_call a = (e1, a1)" by (metis surj_pair)
  obtain e2 a2 where c2: "sys_call a1 = (e2, a2)" by (metis surj_pair)
  note f = sys_call_frame [OF c1] sys_call_frame [OF c2]
  have at1: "upload_at i tmp t taken a1" "upload_at i tmp t taken a2"
    using upload_at_cong [OF at] f by simp_all
  note only = drop_upload_only [OF at] drop_upload_only [OF at1(1)] drop_upload_only [OF at1(2)]
  show "r = Inr u \<Longrightarrow> length taken = whole \<and> ag_files a' t = Some taken"
    using c at c1 c2 f ne
    by (auto simp: upload_close_def upload_at_def drop_upload_def split: option.splits if_splits)
  show "only_file tmp a a' \<or>
         length taken = whole \<and> ag_files a' t = Some taken \<and>
         (\<forall>path. path \<noteq> tmp \<and> path \<noteq> t \<longrightarrow> ag_files a' path = ag_files a path)"
  proof (cases "length taken = whole \<and> e1 = None \<and> e2 = None")
    case True
    with c at c1 c2 f ne show ?thesis by (auto simp: upload_close_def upload_at_def drop_upload_def)
  next
    case False
    with c at c1 c2 have "a' = drop_upload i a \<or> a' = drop_upload i a1 \<or> a' = drop_upload i a2"
      by (auto simp: upload_close_def upload_at_def split: option.splits if_splits)
    with only f show ?thesis by (auto simp: only_file_def)
  qed
qed

lemma tmp_path_suffix: "hasSuffix (tmp_path parent i) (tmp_name i)"
  by (auto simp: tmp_path_def hasSuffix_iff intro: exI [of _ "parent @ [slash]"])

text \<open>Opening makes an empty temporary file next to the target, or changes nothing.\<close>

lemma upload_open_effect:
  assumes fresh: "ag_uploads a i = None" and t: "resolve_path (ag_home a) path = Inr t"
    and o: "upload_open i path overwrite a = (r, a')"
  shows "ag_files a' = ag_files a \<and> r \<noteq> Inr () \<or>
         (\<exists>tmp. hasSuffix tmp (tmp_name i) \<and> upload_at i tmp t [] a' \<and> only_file tmp a a' \<and> r = Inr ())"
proof -
  obtain e1 a1 where c1: "sys_call a = (e1, a1)" by (metis surj_pair)
  obtain e2 a2 where c2: "sys_call a1 = (e2, a2)" by (metis surj_pair)
  note f = sys_call_frame [OF c1] sys_call_frame [OF c2]
  show ?thesis
  proof (cases "\<exists>parent. r = Inr () \<and> parent_dir t = Some parent")
    case True
    then obtain parent where p: "r = Inr ()" "parent_dir t = Some parent" by blast
    have "a' = a2\<lparr>ag_files := (ag_files a2)(tmp_path parent i \<mapsto> []),
        ag_uploads := (ag_uploads a2)(i \<mapsto> \<lparr>up_tmp = tmp_path parent i, up_target = t, up_written = 0\<rparr>)\<rparr>"
      using o p c1 c2 f t fresh
      by (auto simp: upload_open_def open_upload_def then_call_def Let_def drop_upload_def
          split: option.splits if_splits)
    then show ?thesis
      using p f tmp_path_suffix by (intro disjI2 exI [of _ "tmp_path parent i"]) (simp add: upload_at_def only_file_def)
  next
    case False
    with o c1 c2 f t have "r \<noteq> Inr () \<and> ag_files a' = ag_files a"
      by (auto simp: upload_open_def open_upload_def then_call_def Let_def
          split: option.splits if_splits)
    then show ?thesis by blast
  qed
qed

section \<open>Links\<close>

text \<open>
  What the service relies on: an answer it gets is the agent's to that request, and a request
  without an answer reached the agent or did not.
\<close>

locale file_link =
  fixes rt :: "('x \<times> agent_files) link"
  assumes answered: "rt n ty m (x, a) = (Inr env, x', a') \<Longrightarrow>
      \<exists>i r. handle_fs_message m a = (Some r, a') \<and> env = fs_answer i r"
    and unanswered: "rt n ty m (x, a) = (Inl err, x', a') \<Longrightarrow> a' = a \<or> a' = snd (handle_fs_message m a)"
begin

text \<open>A confirmed request: the agent has done it.\<close>

lemma confirmed:
  assumes "confirm quoted rt decode wantType n ty m (x, a) = (None, x', a')"
  shows "\<exists>r. handle_fs_message m a = (Some r, a') \<and> fst r \<noteq> TypeFsError"
proof -
  obtain r1 x1 a1 where rt: "rt n ty m (x, a) = (r1, x1, a1)" by (metis surj_pair)
  with assms obtain env where r1: "r1 = Inr env" by (cases r1) (auto simp: confirm_def)
  obtain i r where h: "handle_fs_message m a = (Some r, a1)" and env: "env = fs_answer i r"
    using answered rt r1 by blast
  from assms rt r1 env have "a1 = a' \<and> fst r \<noteq> TypeFsError"
    by (auto simp: confirm_def decodeResult_def split: sum.splits option.splits if_splits prod.splits)
  with h show ?thesis by blast
qed

lemma processed:
  assumes "rt n ty m (x, a) = (r, x', a')"
  shows "a' = a \<or> a' = snd (handle_fs_message m a)"
proof (cases r)
  case (Inl err)
  with assms unanswered show ?thesis by blast
next
  case (Inr env)
  with assms answered obtain i q where "handle_fs_message m a = (Some q, a')" by blast
  then show ?thesis by simp
qed

lemma confirm_processed:
  assumes "confirm quoted rt decode wantType n ty m (x, a) = (e, x', a')"
  shows "a' = a \<or> a' = snd (handle_fs_message m a)"
proof -
  obtain r1 x1 a1 where rt: "rt n ty m (x, a) = (r1, x1, a1)" by (metis surj_pair)
  with assms have "a1 = a'" by (auto simp: confirm_def split: sum.splits)
  with processed rt show ?thesis by blast
qed

end

lemma handle_chunk:
  "handle_fs_message (FsWriteChunk i (int off) (std_encode bytes)) a =
     reply_with TypeFsWriteAck (\<lambda>n. FsWriteAck i (int n)) (write_chunk i off bytes a)"
  by (simp add: handle_fs_message_def)

lemma handle_close:
  "0 \<le> n \<Longrightarrow> handle_fs_message (FsWriteClose i n) a =
     reply_with TypeFsWriteResult (\<lambda>_. FsWriteResult i) (upload_close i (nat n) a)"
  by (simp add: handle_fs_message_def)

lemma handle_open:
  "0 \<le> n \<Longrightarrow> handle_fs_message (FsWriteOpen i path n overwrite) a =
     reply_with TypeFsWriteOpened (\<lambda>_. FsWriteOpened i) (upload_open i path overwrite a)"
  by (simp add: handle_fs_message_def)

lemma reply_with_good:
  "reply_with ty f q = (Some r, a') \<Longrightarrow> fst r \<noteq> TypeFsError \<Longrightarrow> \<exists>v. q = (Inr v, a')"
  by (cases q; cases "fst q") (auto simp: reply_with_def fs_reply_def)

lemma snd_reply_with [simp]: "snd (reply_with ty f q) = snd q"
  by (simp add: reply_with_def)

text \<open>The whole upload: the target gets all the bytes of a body of the declared size, or stays as it is.\<close>

definition whole_or_nothing :: "string \<Rightarrow> string \<Rightarrow> int \<Rightarrow> agent_files \<Rightarrow> agent_files \<Rightarrow> bool" where
  "whole_or_nothing t body declared a a' \<longleftrightarrow>
     ag_files a' t = ag_files a t \<or> ag_files a' t = Some body \<and> int (length body) = declared"

context file_link begin

lemma chunk_sent:
  assumes at: "upload_at i tmp t taken a"
    and c: "send_chunk quoted rt i n (int (length taken)) bytes (x, a) = (e, x', a')"
  shows "only_file tmp a a'" and "e = None \<Longrightarrow> upload_at i tmp t (taken @ bytes) a'"
proof -
  note c = c [unfolded send_chunk_def]
  obtain q aq where w: "write_chunk i (length taken) bytes a = (q, aq)" by (metis surj_pair)
  note eff = write_chunk_effect [OF at w]
  from confirm_processed [OF c] have "a' = a \<or> a' = aq" by (simp add: handle_chunk w)
  with eff(1) show "only_file tmp a a'" by auto
  show "upload_at i tmp t (taken @ bytes) a'" if "e = None"
  proof -
    from confirmed [OF c [unfolded that]] obtain r
      where "handle_fs_message (FsWriteChunk i (int (length taken)) (std_encode bytes)) a = (Some r, a')"
        and "fst r \<noteq> TypeFsError" by blast
    then obtain v where "write_chunk i (length taken) bytes a = (Inr v, a')"
      unfolding handle_chunk using reply_with_good by blast
    with w eff(2) show ?thesis by auto
  qed
qed

text \<open>The loop ends; when it breaks, everything read has been taken.\<close>

lemma upload_loop_effect:
  assumes k: "0 < k"
  shows "upload_at i tmp t taken a \<Longrightarrow> int (length taken + length (rd_data r)) \<le> max_int64 \<Longrightarrow>
    \<exists>res x' a'. upload_loop quoted rt k i n (int (length taken)) r (x, a) = Some (res, x', a') \<and>
      only_file tmp a a' \<and>
      (\<forall>off n'. res = Inr (off, n') \<longrightarrow> off = int (length taken + length (rd_data r)) \<and>
         upload_at i tmp t (taken @ rd_data r) a' \<and> (\<forall>text. rd_end r \<noteq> ReadFailed text))"
proof (induction "length (rd_data r)" arbitrary: r taken a x n rule: less_induct)
  case less
  obtain bytes readErr r1 where rf: "ReadFull k r = (bytes, readErr, r1)" by (metis prod_cases3)
  have parts: "rd_data r = bytes @ rd_data r1" "rd_end r1 = rd_end r"
    and full: "readErr = None \<Longrightarrow> bytes \<noteq> []"
    and short: "\<And>x. readErr = Some x \<Longrightarrow> rd_data r1 = []"
    and fail: "\<And>text. readErr = Some (ReadFailed text) \<or> readErr = None \<or> rd_end r \<noteq> ReadFailed text"
    using rf k by (auto simp: ReadFull_def split: if_splits)
  let ?off = "int (length taken)"
  obtain e x1 a1 where sc: "(if bytes = [] then (None, x, a)
      else send_chunk quoted rt i n ?off bytes (x, a)) = (e, x1, a1)" by (metis prod_cases3)
  have only: "only_file tmp a a1" and at1: "e = None \<Longrightarrow> upload_at i tmp t (taken @ bytes) a1"
    using chunk_sent [OF less.prems(1)] less.prems(1) sc by (auto split: if_splits)
  have off: "int64 (?off + int (length bytes)) = int (length (taken @ bytes))"
    using less.prems(2) parts(1) by (intro trans [OF int64_id]) (simp_all add: min_int64_def)
  note step = upload_loop.simps [of quoted rt k i n ?off r "(x, a)", unfolded rf, simplified sc prod.case]
  show ?case
  proof (cases e)
    case (Some err)
    with step only show ?thesis by auto
  next
    case None
    note at1 = at1 [OF None]
    show ?thesis
    proof (cases readErr)
      case None
      have "length (rd_data r1) < length (rd_data r)" using full [OF None] parts(1) by simp
      from less.hyps [OF this at1, of "Suc n" x1] less.prems(2) parts
      obtain res x' a' where IH: "upload_loop quoted rt k i (Suc n) (int (length (taken @ bytes))) r1 (x1, a1) =
          Some (res, x', a')" "only_file tmp a1 a'"
        "\<forall>off n'. res = Inr (off, n') \<longrightarrow> off = int (length (taken @ bytes) + length (rd_data r1)) \<and>
         upload_at i tmp t ((taken @ bytes) @ rd_data r1) a' \<and> (\<forall>text. rd_end r1 \<noteq> ReadFailed text)"
        by auto
      from step \<open>e = None\<close> None off IH(1)
      have "upload_loop quoted rt k i n ?off r (x, a) = Some (res, x', a')" by simp
      with IH(2,3) only_file_trans [OF only] parts show ?thesis by (simp add: add.assoc)
    next
      case (Some err)
      from short [OF Some] parts have all: "rd_data r = bytes" by simp
      show ?thesis
      proof (cases err)
        case (ReadFailed msg)
        with step \<open>e = None\<close> Some only show ?thesis by simp
      next
        case EOF
        with step \<open>e = None\<close> Some only at1 all off fail show ?thesis by simp
      next
        case UnexpectedEOF
        with step \<open>e = None\<close> Some only at1 all off fail show ?thesis by simp
      qed
    qed
  qed
qed

lemma finish_effect:
  assumes at: "upload_at i tmp t taken a" and ne: "tmp \<noteq> t"
    and f: "finish_upload quoted rt i declared n (int (length taken)) (x, a) = (e, x', a')"
  shows "ag_files a' t = ag_files a t \<or> ag_files a' t = Some taken \<and> int (length taken) = declared"
    and "path \<noteq> tmp \<Longrightarrow> path \<noteq> t \<Longrightarrow> ag_files a' path = ag_files a path"
    and "e = None \<Longrightarrow> ag_files a' t = Some taken \<and> int (length taken) = declared"
proof -
  let ?m = "FsWriteClose i declared"
  obtain q aq where c: "upload_close i (nat declared) a = (q, aq)" by (metis surj_pair)
  note eff = upload_close_effect [OF at ne c]
  have h: "0 \<le> declared \<Longrightarrow> snd (handle_fs_message ?m a) = aq"
    and neg: "declared < 0 \<Longrightarrow> snd (handle_fs_message ?m a) = a"
    using c by (simp_all add: handle_close, simp add: handle_fs_message_def invalid_request_def)
  have "a' = a \<or> a' = snd (handle_fs_message ?m a)"
  proof (cases "int (length taken) = declared")
    case True
    with f have "confirm quoted rt decode_upload TypeFsWriteResult n TypeFsWriteClose ?m (x, a) = (e, x', a')"
      by (simp add: finish_upload_def)
    then show ?thesis by (rule confirm_processed)
  next
    case False
    obtain r x1 a1 where "rt n TypeFsWriteClose ?m (x, a) = (r, x1, a1)" by (metis surj_pair)
    with False f processed show ?thesis by (auto simp: finish_upload_def)
  qed
  then have a': "a' = a \<or> 0 \<le> declared \<and> a' = aq" using h neg by (cases "declared < 0") auto
  show "ag_files a' t = ag_files a t \<or> ag_files a' t = Some taken \<and> int (length taken) = declared"
    using a' eff(2) only_fileD [OF _ ne [symmetric]] by auto
  show "path \<noteq> tmp \<Longrightarrow> path \<noteq> t \<Longrightarrow> ag_files a' path = ag_files a path"
    using a' eff(2) only_fileD by blast
  show "ag_files a' t = Some taken \<and> int (length taken) = declared" if e: "e = None"
  proof -
    from f e have d: "int (length taken) = declared"
      by (auto simp: finish_upload_def split: if_splits)
    with f e have "confirm quoted rt decode_upload TypeFsWriteResult n TypeFsWriteClose ?m (x, a) = (None, x', a')"
      by (simp add: finish_upload_def)
    from confirmed [OF this] obtain r where "handle_fs_message ?m a = (Some r, a')" "fst r \<noteq> TypeFsError"
      by blast
    then obtain u where "upload_close i (nat declared) a = (Inr u, a')"
      using handle_close [of declared] reply_with_good d by (metis of_nat_0_le_iff)
    with c eff(1) d show ?thesis by auto
  qed
qed

lemma upload_effect:
  assumes k: "0 < k" and fresh: "ag_uploads a i = None" and t: "resolve_path (ag_home a) path = Inr t"
    and ne: "\<not> hasSuffix t (tmp_name i)" and len: "int (length (rd_data r)) \<le> max_int64"
  shows "\<exists>e x' a'. upload_body quoted rt k i path declared overwrite r (x, a) = Some (e, x', a') \<and>
    whole_or_nothing t (rd_data r) declared a a' \<and>
    (\<forall>q. q \<noteq> t \<and> \<not> hasSuffix q (tmp_name i) \<longrightarrow> ag_files a' q = ag_files a q) \<and>
    (e = None \<longrightarrow> ag_files a' t = Some (rd_data r) \<and> int (length (rd_data r)) = declared \<and>
       (\<forall>text. rd_end r \<noteq> ReadFailed text))"
proof -
  let ?m = "FsWriteOpen i path declared overwrite"
  obtain e1 x1 a1 where c: "confirm quoted rt decode_upload TypeFsWriteOpened 0 TypeFsWriteOpen ?m (x, a) =
      (e1, x1, a1)" by (metis prod_cases3)
  obtain q aq where o: "upload_open i path overwrite a = (q, aq)" by (metis surj_pair)
  have p: "a1 = a \<or> a1 = aq"
  proof (cases "0 \<le> declared")
    case True
    with confirm_processed [OF c] show ?thesis by (simp add: handle_open o)
  next
    case False
    then have "snd (handle_fs_message ?m a) = a" by (simp add: handle_fs_message_def invalid_request_def)
    with confirm_processed [OF c] show ?thesis by simp
  qed
  note open_eff = upload_open_effect [OF fresh t o]
  show ?thesis
  proof (cases e1)
    case (Some err)
    have "\<forall>path. \<not> hasSuffix path (tmp_name i) \<longrightarrow> ag_files a1 path = ag_files a path"
      using p open_eff only_fileD by metis
    with c Some show ?thesis using ne by (simp add: upload_body_def whole_or_nothing_def)
  next
    case None
    from confirmed [OF c [unfolded None]] obtain v
      where v: "handle_fs_message ?m a = (Some v, a1)" "fst v \<noteq> TypeFsError" by blast
    have "0 \<le> declared"
    proof (rule ccontr)
      assume "\<not> 0 \<le> declared"
      with v show False by (auto simp: handle_fs_message_def invalid_request_def fs_reply_def)
    qed
    with v obtain w where "upload_open i path overwrite a = (Inr w, a1)"
      using handle_open reply_with_good by metis
    with o open_eff obtain tmp where tmp: "hasSuffix tmp (tmp_name i)" "upload_at i tmp t [] a1" "only_file tmp a a1"
      by auto
    have tt: "tmp \<noteq> t" using tmp(1) ne by blast
    have "int (length ([] :: string) + length (rd_data r)) \<le> max_int64" using len by simp
    from upload_loop_effect [OF k tmp(2) this, of quoted 1 x1]
    obtain res x2 a2 where "upload_loop quoted rt k i 1 (int (length ([] :: string))) r (x1, a1) = Some (res, x2, a2)"
      and only: "only_file tmp a1 a2"
      and all0: "\<forall>off n'. res = Inr (off, n') \<longrightarrow> off = int (length ([] :: string) + length (rd_data r)) \<and>
         upload_at i tmp t ([] @ rd_data r) a2 \<and> (\<forall>text. rd_end r \<noteq> ReadFailed text)"
      by blast
    then have loop: "upload_loop quoted rt k i 1 0 r (x1, a1) = Some (res, x2, a2)" by simp
    have all: "off = int (length (rd_data r)) \<and>
         upload_at i tmp t (rd_data r) a2 \<and> (\<forall>text. rd_end r \<noteq> ReadFailed text)"
      if "res = Inr (off, n')" for off n'
      using all0 that by simp
    note only2 = only_file_trans [OF tmp(3) only]
    show ?thesis
    proof (cases res)
      case (Inl err)
      then have "upload_body quoted rt k i path declared overwrite r (x, a) = Some (Some err, x2, a2)"
        using c None loop by (simp add: upload_body_def)
      moreover have same: "\<And>q. \<not> hasSuffix q (tmp_name i) \<Longrightarrow> ag_files a2 q = ag_files a q"
        using tmp(1) by (intro only_fileD [OF only2]) auto
      moreover have "whole_or_nothing t (rd_data r) declared a a2"
        unfolding whole_or_nothing_def using same [OF ne] by (rule disjI1)
      ultimately show ?thesis by blast
    next
      case (Inr z)
      then obtain off n' where z: "res = Inr (off, n')" by (cases z) auto
      note all = all [OF z]
      obtain e x3 a3 where f: "finish_upload quoted rt i declared n' (int (length (rd_data r))) (x2, a2) = (e, x3, a3)"
        by (metis prod_cases3)
      have "upload_body quoted rt k i path declared overwrite r (x, a) = Some (e, x3, a3)"
        using c None loop z all f by (simp add: upload_body_def)
      moreover have at2: "upload_at i tmp t (rd_data r) a2" using all by blast
      note fin = finish_effect [OF at2 tt f]
      have "\<And>q. q \<noteq> t \<Longrightarrow> \<not> hasSuffix q (tmp_name i) \<Longrightarrow> ag_files a3 q = ag_files a q"
      proof -
        fix q assume "q \<noteq> t" "\<not> hasSuffix q (tmp_name i)"
        moreover from this have "q \<noteq> tmp" using tmp(1) by auto
        ultimately show "ag_files a3 q = ag_files a q" using only_fileD [OF only2] fin(2) by simp
      qed
      moreover have "ag_files a2 t = ag_files a t" using only_fileD [OF only2] tt by metis
      then have "whole_or_nothing t (rd_data r) declared a a3"
        unfolding whole_or_nothing_def using fin(1) by simp
      moreover have "e = None \<Longrightarrow> ag_files a3 t = Some (rd_data r) \<and> int (length (rd_data r)) = declared \<and>
          (\<forall>text. rd_end r \<noteq> ReadFailed text)"
        using fin(3) all by blast
      ultimately show ?thesis by blast
    qed
  qed
qed

end

end
