(* ===== verification/FileTransfer.thy ===== *)
theory FileTransfer
  imports FileLink
begin

text \<open>
  Links that deliver, and the two ends put together: what \<^verbatim>\<open>files.Service\<close> does through the hub with
  an agent that answers with \<^verbatim>\<open>fs.rs\<close>.
\<close>

section \<open>Calm agents\<close>

lemma sys_call_calm: "ag_script a = [] \<Longrightarrow> sys_call a = (None, a)"
  by (simp add: sys_call_def)

lemma then_call_calm [simp]: "ag_script a = [] \<Longrightarrow> then_call a f = f a"
  by (simp add: then_call_def sys_call_calm)

definition calm_agent :: "agent_files \<Rightarrow> agent_files \<Rightarrow> bool" where
  "calm_agent a a' \<longleftrightarrow> ag_script a' = [] \<and> ag_home a' = ag_home a"

lemma handle_read:
  assumes "ag_script a = []" and "resolve_path (ag_home a) raw = Inr path"
    and "ag_files a path = Some content" and "0 < k" and "k \<le> MAX_CHUNK_LEN"
  shows "handle_fs_message (FsRead raw (int pos) (int k)) a =
    (Some (TypeFsReadResult, chunk_reply content pos k), a)"
  using assms by (simp add: handle_fs_message_def read_chunk_def reply_with_def fs_reply_def MAX_CHUNK_LEN_def)

lemma chunk_taken:
  assumes at: "upload_at i tmp t taken a" and c: "ag_script a = []"
  shows "\<exists>a'. handle_fs_message (FsWriteChunk i (int (length taken)) (std_encode bytes)) a =
      (Some (TypeFsWriteAck, FsWriteAck i (int (length taken + length bytes))), a') \<and>
      upload_at i tmp t (taken @ bytes) a' \<and> calm_agent a a'"
  using assms by (auto simp: handle_chunk write_chunk_def upload_at_def sys_call_calm reply_with_def fs_reply_def
      calm_agent_def)

lemma close_taken:
  assumes at: "upload_at i tmp t taken a" and c: "ag_script a = []"
  shows "\<exists>a'. handle_fs_message (FsWriteClose i (int (length taken))) a =
      (Some (TypeFsWriteResult, FsWriteResult i), a') \<and> calm_agent a a'"
  using assms by (auto simp: handle_close upload_close_def upload_at_def sys_call_calm reply_with_def fs_reply_def
      calm_agent_def drop_upload_def)

text \<open>The target of an upload can be opened.\<close>

definition can_upload :: "string \<Rightarrow> string \<Rightarrow> bool \<Rightarrow> agent_files \<Rightarrow> bool" where
  "can_upload i t overwrite a \<longleftrightarrow>
     (case parent_dir t of
        None \<Rightarrow> False
      | Some parent \<Rightarrow> parent \<in> dom (ag_dirs a) \<and> t \<notin> dom (ag_dirs a) \<and>
          (overwrite \<or> t \<notin> dom (ag_files a)) \<and>
          tmp_path parent i \<notin> dom (ag_files a) \<union> dom (ag_dirs a))"

lemma open_works:
  assumes "ag_uploads a i = None" and "resolve_path (ag_home a) path = Inr t"
    and "can_upload i t overwrite a" and "ag_script a = []" and "0 \<le> declared"
  shows "\<exists>tmp a'. handle_fs_message (FsWriteOpen i path declared overwrite) a =
      (Some (TypeFsWriteOpened, FsWriteOpened i), a') \<and> upload_at i tmp t [] a' \<and> calm_agent a a'"
  using assms
  by (auto simp: handle_open upload_open_def open_upload_def can_upload_def Let_def reply_with_def fs_reply_def
      drop_upload_def upload_at_def calm_agent_def split: option.splits)

lemma take_chunk_bytes:
  assumes d: "decodeResult quoted decode_read_result TypeFsReadResult env = Inr (std_encode bytes, eof, len)"
    and f: "sk_faults s = []"
  shows "take_chunk quoted announce off env s =
    (Inr (length bytes, eof), (note_size announce off len s)\<lparr>sk_data := sk_data s @ bytes\<rparr>)"
proof -
  have "(note_size announce off len s)\<lparr>sk_data := sk_data s\<rparr> = note_size announce off len s"
    by (simp add: note_size_def)
  then show ?thesis
    using f by (auto simp: take_chunk_def d [unfolded TypeFsReadResult_def] sink_write_def note_size_def)
qed

section \<open>Links that deliver\<close>

locale reliable_link = file_link rt for rt :: "('x \<times> agent_files) link" +
  fixes good :: "'x \<Rightarrow> bool"
  assumes delivers: "good x \<Longrightarrow> handle_fs_message m a = (Some r, a') \<Longrightarrow>
      \<exists>i x'. rt n ty m (x, a) = (Inr (fs_answer i r), x', a') \<and> good x'"
begin

lemma confirm_works:
  assumes "good x" and "handle_fs_message m a = (Some r, a')" and "fst r = wantType"
    and "wantType \<noteq> TypeFsError" and "\<And>i. decode (fs_answer i r) \<noteq> None"
  shows "\<exists>x'. confirm quoted rt decode wantType n ty m (x, a) = (None, x', a') \<and> good x'"
proof -
  obtain i x' where rt: "rt n ty m (x, a) = (Inr (fs_answer i r), x', a')" and g: "good x'"
    using delivers [OF assms(1,2)] by blast
  obtain v where "decode (fs_answer i r) = Some v" using assms(5) [of i] by blast
  with rt g assms(3,4) show ?thesis by (simp add: confirm_def decodeResult_def)
qed

lemma upload_loop_works:
  assumes k: "0 < k"
  shows "good x \<Longrightarrow> upload_at i tmp t taken a \<Longrightarrow> ag_script a = [] \<Longrightarrow>
    int (length taken + length (rd_data r)) \<le> max_int64 \<Longrightarrow> rd_end r = EOF \<Longrightarrow>
    \<exists>n' x' a'. upload_loop quoted rt k i n (int (length taken)) r (x, a) =
        Some (Inr (int (length taken + length (rd_data r)), n'), x', a') \<and> good x' \<and>
      upload_at i tmp t (taken @ rd_data r) a' \<and> calm_agent a a'"
proof (induction "length (rd_data r)" arbitrary: r taken a x n rule: less_induct)
  case less
  obtain bytes readErr r1 where rf: "ReadFull k r = (bytes, readErr, r1)" by (metis prod_cases3)
  have parts: "rd_data r = bytes @ rd_data r1" "rd_end r1 = rd_end r"
    and full: "readErr = None \<Longrightarrow> bytes \<noteq> []"
    and short: "\<And>x. readErr = Some x \<Longrightarrow> rd_data r1 = [] \<and> (x = EOF \<or> x = UnexpectedEOF)"
    using rf k less.prems(5) by (auto simp: ReadFull_def split: if_splits)
  let ?off = "int (length taken)"
  have "int (length taken + length bytes) \<le> max_int64" using less.prems(4) parts(1) by simp
  then have bounds: "min_int64 \<le> int (length taken + length bytes)" "int (length taken + length bytes) \<le> max_int64"
    by (simp_all add: min_int64_def)
  obtain a1 where h: "handle_fs_message (FsWriteChunk i ?off (std_encode bytes)) a =
      (Some (TypeFsWriteAck, FsWriteAck i (int (length taken + length bytes))), a1)"
    and at1: "upload_at i tmp t (taken @ bytes) a1" and calm1: "calm_agent a a1"
    using chunk_taken [OF less.prems(2,3)] by blast
  obtain x1 where "send_chunk quoted rt i n ?off bytes (x, a) = (None, x1, a1)" and "good x1"
    using confirm_works [OF less.prems(1) h, of TypeFsWriteAck decode_ack quoted n TypeFsWriteChunk] bounds
    unfolding send_chunk_def by auto
  then obtain x2 a2 where sc: "(if bytes = [] then (None, x, a)
      else send_chunk quoted rt i n ?off bytes (x, a)) = (None, x2, a2)" and g2: "good x2"
    and at2: "upload_at i tmp t (taken @ bytes) a2" and calm2: "calm_agent a a2"
    using at1 calm1 less.prems(1,2,3) by (cases "bytes = []") (auto simp: calm_agent_def)
  have off: "int64 (?off + int (length bytes)) = int (length (taken @ bytes))"
    using bounds by (simp add: int64_id)
  note step = upload_loop.simps [of quoted rt k i n ?off r "(x, a)", unfolded rf, simplified sc prod.case option.case]
  show ?case
  proof (cases readErr)
    case None
    have "length (rd_data r1) < length (rd_data r)" using full [OF None] parts(1) by simp
    moreover have "ag_script a2 = []" using calm2 by (simp add: calm_agent_def)
    ultimately obtain n' x' a' where IH: "upload_loop quoted rt k i (Suc n) (int (length (taken @ bytes))) r1 (x2, a2) =
        Some (Inr (int (length (taken @ bytes) + length (rd_data r1)), n'), x', a')" "good x'"
      "upload_at i tmp t ((taken @ bytes) @ rd_data r1) a'" "calm_agent a2 a'"
      using less.hyps [OF _ g2 at2, of r1 "Suc n"] less.prems(4,5) parts by auto
    from step None off IH(1) parts
    have "upload_loop quoted rt k i n ?off r (x, a) =
        Some (Inr (int (length taken + length (rd_data r)), n'), x', a')"
      by (simp add: add.assoc)
    with IH(2-4) calm2 parts show ?thesis by (simp add: calm_agent_def)
  next
    case (Some err)
    from short [OF Some] parts have all: "rd_data r = bytes" "err = EOF \<or> err = UnexpectedEOF" by auto
    with step Some off have "upload_loop quoted rt k i n ?off r (x, a) =
        Some (Inr (int (length taken + length (rd_data r)), Suc n), x2, a2)"
      by auto
    with g2 at2 calm2 all show ?thesis by auto
  qed
qed

lemma upload_works:
  assumes k: "0 < k" and fresh: "ag_uploads a i = None" and t: "resolve_path (ag_home a) path = Inr t"
    and can: "can_upload i t overwrite a" and calm: "ag_script a = []" and g: "good x"
    and len: "int (length (rd_data r)) \<le> max_int64" and eof: "rd_end r = EOF"
    and declared: "declared = int (length (rd_data r))"
  shows "\<exists>x' a'. upload_body quoted rt k i path declared overwrite r (x, a) = Some (None, x', a') \<and> good x' \<and>
    calm_agent a a'"
proof -
  have nn: "0 \<le> declared" using declared by simp
  obtain tmp a1 where o: "handle_fs_message (FsWriteOpen i path declared overwrite) a =
      (Some (TypeFsWriteOpened, FsWriteOpened i), a1)" "upload_at i tmp t [] a1" and calm1: "calm_agent a a1"
    using open_works [OF fresh t can calm nn] by blast
  obtain x1 where c1: "confirm quoted rt decode_upload TypeFsWriteOpened 0 TypeFsWriteOpen
      (FsWriteOpen i path declared overwrite) (x, a) = (None, x1, a1)" and g1: "good x1"
    using confirm_works [OF g o(1), of TypeFsWriteOpened decode_upload quoted 0 TypeFsWriteOpen] by auto
  have "ag_script a1 = []" using calm1 by (simp add: calm_agent_def)
  from upload_loop_works [OF k g1 o(2) this, of r quoted 1] len eof
  obtain n' x2 a2 where "upload_loop quoted rt k i 1 0 r (x1, a1) = Some (Inr (int (length (rd_data r)), n'), x2, a2)"
    and g2: "good x2" and at2: "upload_at i tmp t (rd_data r) a2" and calm2: "calm_agent a1 a2"
    by auto
  note loop = this(1)
  have "ag_script a2 = []" using calm2 by (simp add: calm_agent_def)
  from close_taken [OF at2 this] obtain a3 where h3: "handle_fs_message (FsWriteClose i declared) a2 =
      (Some (TypeFsWriteResult, FsWriteResult i), a3)" and calm3: "calm_agent a2 a3"
    unfolding declared by blast
  obtain x3 where "confirm quoted rt decode_upload TypeFsWriteResult n' TypeFsWriteClose
      (FsWriteClose i declared) (x2, a2) = (None, x3, a3)" and g3: "good x3"
    using confirm_works [OF g2 h3, of TypeFsWriteResult decode_upload quoted n' TypeFsWriteClose] by auto
  then have "finish_upload quoted rt i declared n' (int (length (rd_data r))) (x2, a2) = (None, x3, a3)"
    by (simp add: finish_upload_def declared)
  with c1 loop have "upload_body quoted rt k i path declared overwrite r (x, a) = Some (None, x3, a3)"
    by (simp add: upload_body_def)
  with g3 calm1 calm2 calm3 show ?thesis by (auto simp: calm_agent_def)
qed

text \<open>A download reads the file from the offset to its end, chunk by chunk.\<close>

lemma download_rest:
  assumes k: "0 < k" "k \<le> MAX_CHUNK_LEN" and calm: "ag_script a = []"
    and p: "resolve_path (ag_home a) raw = Inr path" and c: "ag_files a path = Some content"
    and len: "int (length content) \<le> max_int64"
  shows "good x \<Longrightarrow> pos \<le> length content \<Longrightarrow> sk_faults s = [] \<Longrightarrow>
    \<exists>x'. download_loop quoted rt k announce raw n (int pos) s (x, a) =
      Some (None, s\<lparr>sk_sizes := (if pos = 0 \<and> announce then sk_sizes s @ [int (length content)] else sk_sizes s),
                   sk_data := sk_data s @ drop pos content\<rparr>, x', a) \<and> good x'"
proof (induction "length content - pos" arbitrary: pos x n s rule: less_induct)
  case less
  let ?bytes = "take k (drop pos content)" and ?eof = "length content < pos + k"
  let ?s1 = "note_size announce (int pos) (int (length content)) s"
  let ?s2 = "?s1\<lparr>sk_data := sk_data s @ ?bytes\<rparr>"
  have reply: "chunk_reply content pos k = FsReadResult (std_encode ?bytes) ?eof (int (length content))"
    using less.prems(2) k by (auto simp: chunk_reply_def Let_def min_def)
  obtain i x1 where rt: "rt n TypeFsRead (FsRead raw (int pos) (int k)) (x, a) =
      (Inr (fs_answer i (TypeFsReadResult, chunk_reply content pos k)), x1, a)" and g1: "good x1"
    using delivers [OF less.prems(1) handle_read [OF calm p c k]] by blast
  have "min_int64 \<le> int (length content)" by (simp add: min_int64_def)
  then have dec: "decodeResult quoted decode_read_result TypeFsReadResult
      (fs_answer i (TypeFsReadResult, chunk_reply content pos k)) = Inr (std_encode ?bytes, ?eof, int (length content))"
    using len by (simp add: decodeResult_def reply)
  have tk: "take_chunk quoted announce (int pos) (fs_answer i (TypeFsReadResult, chunk_reply content pos k)) s =
      (Inr (length ?bytes, ?eof), ?s2)"
    by (rule take_chunk_bytes [OF dec less.prems(3)])
  note step = download_loop.simps [of quoted rt k announce raw n "int pos" s "(x, a)", unfolded rt,
    simplified prod.case sum.case tk]
  show ?case
  proof (cases ?eof)
    case True
    then have "?bytes = drop pos content" by simp
    with step True g1 show ?thesis by (auto simp: note_size_def)
  next
    case False
    then have len_bytes: "length ?bytes = k" using less.prems(2) by (auto simp: min_def)
    have off: "int64 (int pos + int k) = int (pos + k)"
      using False len by (intro trans [OF int64_id]) (simp_all add: min_int64_def)
    have s2: "sk_faults ?s2 = []" using less.prems(3) by (simp add: note_size_def)
    have smaller: "length content - (pos + k) < length content - pos" "pos + k \<le> length content"
      using False k by simp_all
    from less.hyps [OF smaller(1) g1 smaller(2) s2, of "Suc n"] k
    obtain x' where IH: "download_loop quoted rt k announce raw (Suc n) (int (pos + k)) ?s2 (x1, a) =
        Some (None, ?s2\<lparr>sk_sizes := sk_sizes ?s2, sk_data := sk_data ?s2 @ drop (pos + k) content\<rparr>, x', a)"
      and g': "good x'"
      by auto
    have all: "?bytes @ drop (pos + k) content = drop pos content"
      using append_take_drop_id [of k "drop pos content"] by (simp add: add.commute)
    from step False off len_bytes IH have
      "download_loop quoted rt k announce raw n (int pos) s (x, a) =
        Some (None, ?s2\<lparr>sk_sizes := sk_sizes ?s2, sk_data := sk_data ?s2 @ drop (pos + k) content\<rparr>, x', a)"
      by simp
    moreover have "sk_data ?s2 @ drop (pos + k) content = sk_data s @ drop pos content" using all by simp
    then have "?s2\<lparr>sk_sizes := sk_sizes ?s2, sk_data := sk_data ?s2 @ drop (pos + k) content\<rparr> =
        s\<lparr>sk_sizes := (if pos = 0 \<and> announce then sk_sizes s @ [int (length content)] else sk_sizes s),
          sk_data := sk_data s @ drop pos content\<rparr>"
      by (simp add: note_size_def)
    ultimately show ?thesis using g' by auto
  qed
qed

end

end
