(* ===== verification/FileClaims.thy ===== *)
theory FileClaims
  imports FileTransfer AgentClaims "HOL-Library.Multiset"
begin

text \<open>
  The file service and an agent over the real hub: uploads are whole or nothing whatever is lost, a
  file comes back as it was sent, and the slots of a device are neither exceeded nor leaked.
\<close>

section \<open>The way to an agent\<close>

datatype fate = Delivered | RequestLost | AnswerLost

text \<open>The device, the agent's connection, the requests' identifiers and what becomes of them.\<close>

record agent_path =
  ap_device :: string
  ap_peer :: peer
  ap_ids :: "nat \<Rightarrow> string"
  ap_fates :: "nat \<Rightarrow> fate"
  ap_choice :: choice
  ap_env :: "nat \<Rightarrow> env"

definition silent :: "string \<Rightarrow> turn" where
  "silent i = \<lparr>tr_requestID = i, tr_others = id, tr_wake = TimedOut\<rparr>"

text \<open>While the request waits, the agent's answer arrives like any of its messages.\<close>

definition answering :: "agent_path \<Rightarrow> nat \<Rightarrow> string \<times> message \<Rightarrow> turn" where
  "answering w n r =
     \<lparr>tr_requestID = ap_ids w n,
      tr_others = handleAgentEnvelope (ap_choice w) (ap_env w n) (ap_device w) (fs_answer (ap_ids w n) r) (ap_peer w),
      tr_wake = Replied\<rparr>"

definition reaches_agent :: "agent_path \<Rightarrow> nat \<Rightarrow> string \<Rightarrow> message \<Rightarrow> site \<Rightarrow> bool" where
  "reaches_agent w n messageType m s \<longleftrightarrow>
     ap_fates w n \<noteq> RequestLost \<and>
     fst (site_send (ToDevice (ap_device w) (request (silent (ap_ids w n)) messageType m))
       (on_fs (expect_reply (ap_ids w n)) s)) = None"

definition answer_turn :: "agent_path \<Rightarrow> nat \<Rightarrow> (string \<times> message) option \<Rightarrow> turn" where
  "answer_turn w n ans =
     (case ans of
        None \<Rightarrow> silent (ap_ids w n)
      | Some r \<Rightarrow> if ap_fates w n = AnswerLost then silent (ap_ids w n) else answering w n r)"

definition agent_link :: "agent_path \<Rightarrow> (site \<times> agent_files) link" where
  "agent_link w n messageType m y =
     (case y of (s, a) \<Rightarrow>
        (let (ans, a1) = (if reaches_agent w n messageType m s then handle_fs_message m a else (None, a))
         in case roundTrip (answer_turn w n ans) (ap_device w) messageType m s of (r, s1) \<Rightarrow> (r, s1, a1)))"

lemma fs_site_send [simp]: "fs (snd (site_send f s)) = fs s"
  by (simp add: site_send_def split: prod.splits)

lemma fs_on_fs [simp]: "fs (on_fs f s) = f (fs s)"
  by (simp add: on_fs_def)

lemma silent_fails: "\<exists>err s1. roundTrip (silent i) d ty m s = (Inl err, s1)"
  by (auto simp: roundTrip_def await_reply_def silent_def split: prod.splits option.splits)

definition fs_reply_types :: "string set" where
  "fs_reply_types = {TypeFsListResult, TypeFsReadResult, TypeFsWriteOpened, TypeFsWriteAck, TypeFsWriteResult,
     TypeFsError}"

lemma fs_reply_type: "handle_fs_message m a = (Some r, a') \<Longrightarrow> fst r \<in> fs_reply_types"
  by (auto simp: handle_fs_message_def reply_with_def fs_reply_def invalid_request_def fs_reply_types_def
      split: message.splits sum.splits if_splits option.splits)

lemma fs_answer_arrives:
  "fst r \<in> fs_reply_types \<Longrightarrow>
     handleAgentEnvelope \<sigma> e d (fs_answer i r) p s = on_fs (\<lambda>F. snd (HandleAgentResponse (fs_answer i r) F)) s"
  by (auto simp: handleAgentEnvelope_def fs_reply_types_def)

text \<open>A delivered request gives the agent's answer, if the request has an identifier.\<close>

lemma answering_result:
  assumes "fst r \<in> fs_reply_types"
  shows "roundTrip (answering w n r) (ap_device w) ty m s = (Inr env, s1) \<Longrightarrow> env = fs_answer (ap_ids w n) r"
  using assms
  by (auto simp: roundTrip_def answering_def await_reply_def fs_answer_arrives HandleAgentResponse_def
      expect_reply_def site_send_def split: prod.splits option.splits if_splits)

interpretation lossy: file_link "agent_link w" for w
proof unfold_locales
  fix n ty m x a env x' a'
  assume h: "agent_link w n ty m (x, a) = (Inr env, x', a')"
  obtain ans a1 where ans: "(if reaches_agent w n ty m x then handle_fs_message m a else (None, a)) = (ans, a1)"
    by (metis surj_pair)
  obtain r s1 where rt: "roundTrip (answer_turn w n ans) (ap_device w) ty m x = (r, s1)" by (metis surj_pair)
  from h ans rt have r: "r = Inr env" "a' = a1" by (simp_all add: agent_link_def)
  show "\<exists>i q. handle_fs_message m a = (Some q, a') \<and> env = fs_answer i q"
  proof (cases "answer_turn w n ans = silent (ap_ids w n)")
    case True
    with silent_fails [of "ap_ids w n" "ap_device w" ty m x] rt r show ?thesis by auto
  next
    case False
    then obtain q where q: "ans = Some q" "answer_turn w n ans = answering w n q"
      by (auto simp: answer_turn_def split: option.splits if_splits)
    with ans r have "handle_fs_message m a = (Some q, a')" by (auto split: if_splits)
    with fs_reply_type answering_result rt q r show ?thesis by metis
  qed
next
  fix n ty m x a err x' a'
  assume "agent_link w n ty m (x, a) = (Inl err, x', a')"
  then show "a' = a \<or> a' = snd (handle_fs_message m a)"
    by (auto simp: agent_link_def split: prod.splits if_splits)
qed

text \<open>The agent is connected and the coming sends work.\<close>

definition connected :: "agent_path \<Rightarrow> site \<Rightarrow> bool" where
  "connected w s \<longleftrightarrow> agents (hub s) (ap_device w) \<noteq> None \<and> outcomes (wires s) = []"

definition undisturbed :: "agent_path \<Rightarrow> bool" where
  "undisturbed w \<longleftrightarrow> (\<forall>n. ap_fates w n = Delivered \<and> ap_ids w n \<noteq> [])"

lemma connected_sends:
  assumes "connected w s"
  shows "\<exists>s1. site_send (ToDevice (ap_device w) msg) s = (None, s1) \<and> connected w s1 \<and> fs s1 = fs s"
  using assms
  by (auto simp: connected_def site_send_def ToDevice_def send_result_def Send_works)

lemma connected_on_fs [simp]: "connected w (on_fs f s) = connected w s"
  by (simp add: connected_def)

lemma reliable_agent: "undisturbed w \<Longrightarrow> reliable_link (agent_link w) (connected w)"
proof unfold_locales
  fix x m a r a' n ty
  assume u: "undisturbed w" and c: "connected w x" and h: "handle_fs_message m a = (Some r, a')"
  let ?i = "ap_ids w n"
  obtain s1 where s: "site_send (ToDevice (ap_device w) (request (silent ?i) ty m)) (on_fs (expect_reply ?i) x) =
      (None, s1)" and c1: "connected w s1" and f1: "fs s1 = expect_reply ?i (fs x)"
    using connected_sends [of w "on_fs (expect_reply ?i) x"] c by fastforce
  have same: "request (answering w n r) ty m = request (silent ?i) ty m" "tr_requestID (answering w n r) = ?i"
    by (simp_all add: request_def silent_def answering_def)
  have i: "?i \<noteq> []" and d: "ap_fates w n = Delivered" using u by (simp_all add: undisturbed_def)
  have resp: "HandleAgentResponse (fs_answer ?i r) (expect_reply ?i (fs x)) =
      (True, (expect_reply ?i (fs x))\<lparr>pending := pending (expect_reply ?i (fs x)) - {?i},
         replies := (replies (expect_reply ?i (fs x)))(?i \<mapsto> fs_answer ?i r)\<rparr>)"
    using i by (simp add: HandleAgentResponse_def expect_reply_def)
  have "\<exists>x'. roundTrip (answering w n r) (ap_device w) ty m x = (Inr (fs_answer ?i r), x') \<and> connected w x'"
    using s c1 i fs_reply_type [OF h]
    by (simp add: roundTrip_def same await_reply_def)
      (simp add: answering_def fs_answer_arrives f1 resp)
  with d h s show "\<exists>i x'. agent_link w n ty m (x, a) = (Inr (fs_answer i r), x', a') \<and> connected w x'"
    by (auto simp: agent_link_def reaches_agent_def answer_turn_def)
qed

definition perfect :: "agent_path \<Rightarrow> agent_path" where
  "perfect w = w\<lparr>ap_fates := (\<lambda>_. Delivered), ap_ids := (\<lambda>n. ''request-'' @ ap_ids w n)\<rparr>"

interpretation perfect: reliable_link "agent_link (perfect w)" "connected (perfect w)" for w
  by (rule reliable_agent) (simp add: undisturbed_def perfect_def)

section \<open>Uploads and downloads\<close>

definition sample_agent :: agent_files where
  "sample_agent = \<lparr>ag_home = Some ''/home/me'', ag_files = [''/home/me/old'' \<mapsto> ''old''],
     ag_dirs = [''/home/me'' \<mapsto> []], ag_uploads = Map.empty, ag_script = []\<rparr>"

definition sample_path :: agent_path where
  "sample_path = \<lparr>ap_device = ''d'', ap_peer = 7, ap_ids = (\<lambda>_. ''r''), ap_fates = (\<lambda>_. Delivered),
     ap_choice = [], ap_env = (\<lambda>_. sample_clock)\<rparr>"

definition transfer_site :: site where
  "transfer_site = sample_site\<lparr>hub := AttachAgent ''d'' 7 NewHub, wires := \<lparr>sent = [], outcomes = []\<rparr>\<rparr>"

text \<open>C35: An upload ends, whatever requests or answers are lost, whatever the device's file system
  refuses and however the body ends. The target file afterwards either is what it was or holds the
  whole body, of the declared size; it holds it whenever the upload reports success. No other
  file changes, apart from the upload's own temporary file.
\<close>

theorem upload_whole_or_nothing:
  assumes "ag_uploads a i = None" and "resolve_path (ag_home a) path = Inr t"
    and "\<not> hasSuffix t (tmp_name i)" and "int (length (rd_data r)) \<le> max_int64"
  shows "\<exists>e s' a'. upload_body quoted (agent_link w) (chunkSize NewService) i path declared overwrite r (s, a) =
      Some (e, s', a') \<and>
    whole_or_nothing t (rd_data r) declared a a' \<and>
    (\<forall>q. q \<noteq> t \<and> \<not> hasSuffix q (tmp_name i) \<longrightarrow> ag_files a' q = ag_files a q) \<and>
    (e = None \<longrightarrow> ag_files a' t = Some (rd_data r) \<and> int (length (rd_data r)) = declared \<and>
       (\<forall>text. rd_end r \<noteq> ReadFailed text))"
  by (rule lossy.upload_effect [OF _ assms]) (simp add: NewService_def)

theorem upload_whole_or_nothing_witness:
  "\<exists>e s' a'. upload_body id (agent_link (sample_path\<lparr>ap_fates := (\<lambda>n. if n = 2 then AnswerLost else Delivered)\<rparr>))
      (chunkSize NewService) ''u1'' ''~/new'' 5 True \<lparr>rd_data = ''hello'', rd_end = EOF\<rparr> (transfer_site, sample_agent) =
      Some (e, s', a') \<and>
    whole_or_nothing ''/home/me/new'' ''hello'' 5 sample_agent a'"
proof -
  have t: "resolve_path (ag_home sample_agent) ''~/new'' = Inr ''/home/me/new''"
    by (simp add: resolve_path_def sample_agent_def hasPrefix_def rooted_def slash_def)
  have n: "\<not> hasSuffix ''/home/me/new'' (tmp_name ''u1'')" by code_simp
  have u: "ag_uploads sample_agent ''u1'' = None" by (simp add: sample_agent_def)
  have l: "int (length (rd_data \<lparr>rd_data = ''hello'', rd_end = EOF\<rparr>)) \<le> max_int64"
    by (simp add: max_int64_def)
  show ?thesis
    using upload_whole_or_nothing [OF u t n l, of id
      "sample_path\<lparr>ap_fates := (\<lambda>n. if n = 2 then AnswerLost else Delivered)\<rparr>" 5 True transfer_site]
    by auto
qed

text \<open>C36: What a user uploads over a connected agent is what a user downloads from there: the upload
  succeeds, and a download of the same path ends, announces the size once and writes exactly the
  bytes of the body.
\<close>

theorem upload_download:
  assumes "undisturbed w" and "connected w s" and "ag_script a = []"
    and "ag_uploads a i = None" and "resolve_path (ag_home a) path = Inr t"
    and "\<not> hasSuffix t (tmp_name i)" and "can_upload i t overwrite a"
    and "int (length body) \<le> max_int64"
  shows "\<exists>s1 a1 s2. upload_body quoted (agent_link w) (chunkSize NewService) i path (int (length body)) overwrite
        \<lparr>rd_data = body, rd_end = EOF\<rparr> (s, a) = Some (None, s1, a1) \<and>
    download_loop quoted (agent_link w) (chunkSize NewService) True path 0 0
        \<lparr>sk_sizes = [], sk_data = [], sk_faults = []\<rparr> (s1, a1) =
      Some (None, \<lparr>sk_sizes = [int (length body)], sk_data = body, sk_faults = []\<rparr>, s2, a1)"
proof -
  note rel = reliable_agent [OF assms(1)]
  let ?r = "\<lparr>rd_data = body, rd_end = EOF\<rparr>" and ?k = "chunkSize NewService"
  have k: "0 < ?k" "?k \<le> MAX_CHUNK_LEN" by (simp_all add: NewService_def MAX_CHUNK_LEN_def)
  have len: "int (length (rd_data ?r)) \<le> max_int64" "rd_end ?r = EOF"
    "int (length body) = int (length (rd_data ?r))"
    using assms(8) by simp_all
  obtain s1 a1 where up: "upload_body quoted (agent_link w) ?k i path (int (length body)) overwrite ?r (s, a) =
      Some (None, s1, a1)" and c1: "connected w s1" and calm: "calm_agent a a1"
    using reliable_link.upload_works [OF rel k(1) assms(4,5,7,3,2) len, of quoted] by blast
  obtain e s' a' where up': "upload_body quoted (agent_link w) ?k i path (int (length body)) overwrite ?r (s, a) =
      Some (e, s', a')" and "e = None \<longrightarrow> ag_files a' t = Some (rd_data ?r)"
    using lossy.upload_effect [OF k(1) assms(4,5,6) len(1), of quoted w "int (length body)" overwrite s] by blast
  then have stored: "ag_files a1 t = Some body" unfolding up by simp
  have calm1: "ag_script a1 = []" and t1: "resolve_path (ag_home a1) path = Inr t"
    using calm assms(5) by (simp_all add: calm_agent_def)
  let ?fresh = "\<lparr>sk_sizes = [], sk_data = [], sk_faults = []\<rparr>"
  have "\<exists>s2. download_loop quoted (agent_link w) ?k True path 0 (int 0) ?fresh (s1, a1) =
      Some (None, ?fresh\<lparr>sk_sizes := (if 0 = (0::nat) \<and> True then sk_sizes ?fresh @ [int (length body)] else sk_sizes ?fresh),
        sk_data := sk_data ?fresh @ drop 0 body\<rparr>, s2, a1) \<and> connected w s2"
    by (rule reliable_link.download_rest [OF rel k calm1 t1 stored assms(8) c1]) simp_all
  then obtain s2 where "download_loop quoted (agent_link w) ?k True path 0 0 ?fresh (s1, a1) =
      Some (None, \<lparr>sk_sizes = [int (length body)], sk_data = body, sk_faults = []\<rparr>, s2, a1)"
    by auto
  with up show ?thesis by blast
qed

theorem upload_download_witness:
  "\<exists>s1 a1 s2. upload_body id (agent_link sample_path) (chunkSize NewService) ''u1'' ''~/new'' 5 False
        \<lparr>rd_data = ''hello'', rd_end = EOF\<rparr> (transfer_site, sample_agent) = Some (None, s1, a1) \<and>
    download_loop id (agent_link sample_path) (chunkSize NewService) True ''~/new'' 0 0
        \<lparr>sk_sizes = [], sk_data = [], sk_faults = []\<rparr> (s1, a1) =
      Some (None, \<lparr>sk_sizes = [5], sk_data = ''hello'', sk_faults = []\<rparr>, s2, a1)"
proof -
  have w: "undisturbed sample_path" by (simp add: undisturbed_def sample_path_def)
  have c: "connected sample_path transfer_site"
    by (simp add: connected_def sample_path_def transfer_site_def AttachAgent_def)
  have a: "ag_script sample_agent = []" "ag_uploads sample_agent ''u1'' = None" by (simp_all add: sample_agent_def)
  have t: "resolve_path (ag_home sample_agent) ''~/new'' = Inr ''/home/me/new''"
    by (simp add: resolve_path_def sample_agent_def hasPrefix_def rooted_def slash_def)
  have n: "\<not> hasSuffix ''/home/me/new'' (tmp_name ''u1'')" by code_simp
  have "parent_dir ''/home/me/new'' = Some ''/home/me''" by code_simp
  then have o: "can_upload ''u1'' ''/home/me/new'' False sample_agent"
    by (simp add: can_upload_def sample_agent_def tmp_path_def tmp_name_def slash_def)
  have l: "int (length ''hello'') \<le> max_int64" by (simp add: max_int64_def)
  show ?thesis using upload_download [OF w c a t n o l, of id] by simp
qed

section \<open>Slots\<close>

text \<open>
  The operations under way, as the devices they are on, and the service. An operation gets in with
  \<open>acquire\<close> or is turned away, runs its requests (which do not touch the slots) and leaves with
  \<open>release\<close>, on every path of the code.
\<close>

inductive slot_step :: "string multiset \<times> Service \<Rightarrow> string multiset \<times> Service \<Rightarrow> bool" where
  enter: "acquire d F = (None, F') \<Longrightarrow> slot_step (M, F) (add_mset d M, F')"
| busy: "acquire d F = (Some err, F') \<Longrightarrow> slot_step (M, F) (M, F')"
| ask: "slot_step (M, F) (M, expect_reply i F)"
| answer: "slot_step (M, F) (M, snd (HandleAgentResponse env F))"
| stop: "slot_step (M, F) (M, drop_request i F)"
| leave: "slot_step (add_mset d M, F) (M, release d F)"

inductive slot_run :: "string multiset \<times> Service \<Rightarrow> bool" where
  start: "slot_run ({#}, NewService)"
| step: "slot_run x \<Longrightarrow> slot_step x y \<Longrightarrow> slot_run y"

definition slots_right :: "string multiset \<times> Service \<Rightarrow> bool" where
  "slots_right x \<longleftrightarrow> maxPerDevice (snd x) = 4 \<and>
     (\<forall>d. active_ops (snd x) d = int (count (fst x) d) \<and> count (fst x) d \<le> 4)"

lemma active_simps [simp]:
  "active_ops (expect_reply i F) d = active_ops F d" "maxPerDevice (expect_reply i F) = maxPerDevice F"
  "active_ops (drop_request i F) d = active_ops F d" "maxPerDevice (drop_request i F) = maxPerDevice F"
  "active_ops (snd (HandleAgentResponse env F)) d = active_ops F d"
  "maxPerDevice (snd (HandleAgentResponse env F)) = maxPerDevice F"
  "maxPerDevice (release e F) = maxPerDevice F"
  by (simp_all add: active_ops_def expect_reply_def drop_request_def HandleAgentResponse_def release_def Let_def)

lemma active_release:
  "0 \<le> active_ops F e \<Longrightarrow> active_ops (release e F) d = (if d = e then max 0 (active_ops F e - 1) else active_ops F d)"
  by (auto simp: release_def active_ops_def Let_def split: option.splits)

lemma acquire_cases:
  "acquire d F = (r, F') \<Longrightarrow> maxPerDevice F' = maxPerDevice F \<and>
     (if maxPerDevice F \<le> active_ops F d then F' = F \<and> r \<noteq> None
      else r = None \<and> (\<forall>e. active_ops F' e = active_ops F e + (if e = d then 1 else 0)))"
  by (auto simp: acquire_def active_ops_def split: if_splits)

lemma slots_step: "slot_step x y \<Longrightarrow> slots_right x \<Longrightarrow> slots_right y"
proof (induction rule: slot_step.induct)
  case (enter d F F' M)
  note acquire_cases [OF enter.hyps]
  with enter.prems show ?case unfolding slots_right_def by (auto split: if_splits)
next
  case (busy d F err F' M)
  note acquire_cases [OF busy.hyps]
  with busy.prems show ?case by (auto simp: slots_right_def split: if_splits)
next
  case (leave d M F)
  then have "active_ops F e = int (count (add_mset d M) e) \<and> count (add_mset d M) e \<le> 4" for e
    by (simp add: slots_right_def)
  note F = this
  have "active_ops (release d F) e = int (count M e) \<and> count M e \<le> 4" for e
    using F [of e] F [of d] by (auto simp: active_release split: if_splits)
  with leave show ?case by (simp add: slots_right_def)
qed (simp_all add: slots_right_def)



end
