(* ===== verification/DeviceApi.thy ===== *)
theory DeviceApi
  imports Files
begin

text \<open>
  The handlers of \<^verbatim>\<open>httpapi/router.go\<close> for devices, their terminal sessions and their files:
  \<^verbatim>\<open>handleListDevices\<close> to \<^verbatim>\<open>handleCloseSession\<close>, \<^verbatim>\<open>handleSessionOutput\<close> and the responses they write.
\<close>

section \<open>Responses\<close>

definition deviceResponse :: "Device \<Rightarrow> bool \<Rightarrow> json" where
  "deviceResponse d on = json_map
     [(''id'', JString (dev_ID d)), (''name'', JString (dev_Name d)),
      (''platform'', JString (dev_Platform d)), (''agent_version'', JString (dev_AgentVersion d)),
      (''online'', JBool on)]"

definition sessionResponse :: "TerminalSession \<Rightarrow> json" where
  "sessionResponse x = json_map
     [(''id'', JString (ts_ID x)), (''device_id'', JString (ts_DeviceID x)),
      (''title'', JString (ts_Title x)), (''shell_path'', JString (ts_ShellPath x)),
      (''working_directory'', JString (ts_WorkingDirectory x)), (''status'', JString (ts_Status x)),
      (''agent_pid'', json_int (ts_AgentPID x)), (''last_output_seq'', json_int (ts_LastOutputSeq x))]"

definition route_not_found :: response where
  "route_not_found = writeError 404 ''not_found'' ''route not found''"

section \<open>Logged-in users\<close>

text \<open>The session check, as the start of a handler of the whole server.\<close>

definition for_user ::
    "libs \<Rightarrow> router \<Rightarrow> env \<Rightarrow> request \<Rightarrow> site \<Rightarrow> (User \<Rightarrow> site \<Rightarrow> response \<times> site) \<Rightarrow> response \<times> site" where
  "for_user L R e req s rest =
     (case requireUser L R (clock e 0) req (srv s) of
        (Inl resp, x) \<Rightarrow> (resp, s\<lparr>srv := x\<rparr>)
      | (Inr user, x) \<Rightarrow> rest user (s\<lparr>srv := x\<rparr>))"

section \<open>Devices\<close>

definition handleListDevices :: "libs \<Rightarrow> router \<Rightarrow> env \<Rightarrow> request \<Rightarrow> site \<Rightarrow> response \<times> site" where
  "handleListDevices L R e req s =
     for_user L R e req s (\<lambda>_ s1.
       case site_db ListDevices s1 of
         (Inl _, s2) \<Rightarrow> (writeError 500 ''device_error'' ''failed to list devices'', s2)
       | (Inr ds, s2) \<Rightarrow>
           (writeJSON 200 (JArray (map (\<lambda>d. deviceResponse d (Online (dev_ID d) (presence s2))) ds)), s2))"

definition name_field :: struct where "name_field = [(''name'', FString [])]"

definition handleRenameDevice ::
    "libs \<Rightarrow> router \<Rightarrow> env \<Rightarrow> request \<Rightarrow> string \<Rightarrow> site \<Rightarrow> response \<times> site" where
  "handleRenameDevice L R e req deviceID s =
     for_user L R e req s (\<lambda>_ s1.
       case readJSON L req name_field of
         Inl resp \<Rightarrow> (resp, s1)
       | Inr body \<Rightarrow>
           (let name = trimSpace (str_field body ''name'')
            in if name = [] then (writeError 400 ''invalid_name'' ''name is required'', s1)
               else case site_db (UpdateDeviceName (clock e 1) deviceID name) s1 of
                      (Inl err, s2) \<Rightarrow> (writeStoreError err ''device'', s2)
                    | (Inr _, s2) \<Rightarrow>
                        (case site_db (GetDevice deviceID) s2 of
                           (Inl err, s3) \<Rightarrow> (writeStoreError err ''device'', s3)
                         | (Inr d, s3) \<Rightarrow>
                             (writeJSON 200 (deviceResponse d (Online (dev_ID d) (presence s3))), s3))))"

section \<open>Sessions of a device\<close>

definition create_fields :: struct where
  "create_fields = [(''shell_path'', FString []), (''working_directory'', FString []),
     (''cols'', FInt 0), (''rows'', FInt 0)]"

definition create_request :: "struct \<Rightarrow> CreateRequest" where
  "create_request body =
     \<lparr>cr_ShellPath = str_field body ''shell_path'', cr_WorkingDirectory = str_field body ''working_directory'',
      cr_Cols = int_field body ''cols'', cr_Rows = int_field body ''rows''\<rparr>"

text \<open>The session is stored, bound to the device and started; the agent's absence makes it lost.\<close>

definition start_session ::
    "env \<Rightarrow> User \<Rightarrow> string \<Rightarrow> CreateRequest \<Rightarrow> TerminalSession \<Rightarrow> site \<Rightarrow> response \<times> site" where
  "start_session e user deviceID body session s =
     (case site_send (FromWeb (StartSession (ts_ID session) (cr_ShellPath body) (cr_WorkingDirectory body)
               (cr_Cols body) (cr_Rows body)))
             (on_hub (BindSession (ts_ID session) deviceID) s) of
        (Some _, s1) \<Rightarrow>
          (writeError 409 ''agent_unavailable'' ''agent is not ready for this session'',
           try_db (UpdateTerminalSessionStatus (clock e 2) (ts_ID session) SessionLost 0 0) s1)
      | (None, s1) \<Rightarrow>
          (writeJSON 201 (sessionResponse session),
           site_audit (uuid e 1) (clock e 2) (zero_event\<lparr>ae_UserID := u_ID user, ae_DeviceID := deviceID,
             ae_SessionID := ts_ID session, ae_EventType := ''session_created'',
             ae_Summary := ''terminal session created''\<rparr>) s1))"

definition create_session :: "env \<Rightarrow> User \<Rightarrow> string \<Rightarrow> CreateRequest \<Rightarrow> site \<Rightarrow> response \<times> site" where
  "create_session e user deviceID body s =
     (case site_db (CreateTerminalSession (clock e 1)
            \<lparr>ts_ID = uuid e 0, ts_DeviceID = deviceID, ts_Title = ''shell'',
             ts_ShellPath = cr_ShellPath body, ts_WorkingDirectory = cr_WorkingDirectory body,
             ts_Status = SessionStarting, ts_AgentPID = 0, ts_LastOutputSeq = 0,
             ts_CreatedAt = zero_time, ts_UpdatedAt = zero_time\<rparr>) s of
        (Inl _, s1) \<Rightarrow> (writeError 500 ''session_error'' ''failed to create session'', s1)
      | (Inr session, s1) \<Rightarrow> start_session e user deviceID body session s1)"

definition handleCreateSession ::
    "libs \<Rightarrow> router \<Rightarrow> env \<Rightarrow> request \<Rightarrow> string \<Rightarrow> site \<Rightarrow> response \<times> site" where
  "handleCreateSession L R e req deviceID s =
     for_user L R e req s (\<lambda>user s1.
       case site_db (GetDevice deviceID) s1 of
         (Inl err, s2) \<Rightarrow> (writeStoreError err ''device'', s2)
       | (Inr _, s2) \<Rightarrow>
           (if \<not> Online deviceID (presence s2)
            then (writeError 409 ''device_offline'' ''device is offline'', s2)
            else case readJSON L req create_fields of
                   Inl resp \<Rightarrow> (resp, s2)
                 | Inr body \<Rightarrow>
                     create_session e user deviceID (NormalizeCreateRequest (create_request body)) s2))"

definition handleListSessions ::
    "libs \<Rightarrow> router \<Rightarrow> env \<Rightarrow> request \<Rightarrow> string \<Rightarrow> site \<Rightarrow> response \<times> site" where
  "handleListSessions L R e req deviceID s =
     for_user L R e req s (\<lambda>_ s1.
       case site_db (ListTerminalSessionsForDevice deviceID) s1 of
         (Inl _, s2) \<Rightarrow> (writeError 500 ''session_error'' ''failed to list sessions'', s2)
       | (Inr xs, s2) \<Rightarrow> (writeJSON 200 (JArray (map sessionResponse xs)), s2))"

section \<open>Files of a device\<close>

definition writeFsError :: "fs_error \<Rightarrow> response" where
  "writeFsError err =
     (case err of
        IOError _ \<Rightarrow> writeError 500 ''fs_error'' ''file operation failed''
      | OpError code text \<Rightarrow>
          writeError
            (if code = CodeAgentOffline \<or> code = CodeAgentUnsupported then 503
             else if code = ''not_found'' then 404
             else if code = ''permission_denied'' then 403
             else if code \<in> {''not_a_file'', ''not_a_directory'', ''invalid_path'', ''invalid_request''} then 400
             else if code = ''already_exists'' then 409
             else if code = CodeTimeout then 504
             else if code = CodeBusy then 429
             else 500) code text)"

text \<open>\<^verbatim>\<open>req.URL.Query().Get\<close>\<close>

definition query_get :: "request \<Rightarrow> string \<Rightarrow> string" where
  "query_get req name = (case map_of (rq_query req) name of None \<Rightarrow> [] | Some v \<Rightarrow> v)"

definition path_required :: response where
  "path_required = writeError 400 ''invalid_path'' ''path query parameter is required''"

text \<open>The start the three handlers have: the path of the query and the device.\<close>

definition with_path ::
    "libs \<Rightarrow> router \<Rightarrow> env \<Rightarrow> request \<Rightarrow> string \<Rightarrow> site \<Rightarrow> (response + User) \<times> site" where
  "with_path L R e req deviceID s =
     (case requireUser L R (clock e 0) req (srv s) of
        (Inl resp, x) \<Rightarrow> (Inl resp, s\<lparr>srv := x\<rparr>)
      | (Inr user, x) \<Rightarrow>
          (if query_get req ''path'' = [] then (Inl path_required, s\<lparr>srv := x\<rparr>)
           else case site_db (GetDevice deviceID) (s\<lparr>srv := x\<rparr>) of
                  (Inl err, s1) \<Rightarrow> (Inl (writeStoreError err ''device''), s1)
                | (Inr _, s1) \<Rightarrow> (Inr user, s1)))"

text \<open>\<^verbatim>\<open>FsListResult\<close> as the struct it is.\<close>

definition list_json :: "string \<times> FsEntry list \<Rightarrow> json" where
  "list_json r = payload_json (FsListResult (fst r) (snd r))"

definition handleFsList ::
    "libs \<Rightarrow> router \<Rightarrow> (string \<Rightarrow> string) \<Rightarrow> env \<Rightarrow> turn \<Rightarrow> request \<Rightarrow> string \<Rightarrow> site \<Rightarrow> response \<times> site" where
  "handleFsList L R quoted e t req deviceID s =
     (case with_path L R e req deviceID s of
        (Inl resp, s1) \<Rightarrow> (resp, s1)
      | (Inr _, s1) \<Rightarrow>
          (case Service_List quoted t deviceID (query_get req ''path'') s1 of
             (Inl err, s2) \<Rightarrow> (writeFsError err, s2)
           | (Inr result, s2) \<Rightarrow> (writeJSON 200 (list_json result), s2)))"

definition path_bytes :: "libs \<Rightarrow> string \<Rightarrow> int \<Rightarrow> string" where
  "path_bytes L path n = lib_marshal L (json_map [(''path'', JString path), (''bytes'', json_int n)])"

definition file_event :: "libs \<Rightarrow> User \<Rightarrow> string \<Rightarrow> string \<Rightarrow> string \<Rightarrow> string \<Rightarrow> int \<Rightarrow> AuditEvent" where
  "file_event L user deviceID event summary path n =
     zero_event\<lparr>ae_UserID := u_ID user, ae_DeviceID := deviceID, ae_EventType := event,
       ae_Summary := summary, ae_MetadataJSON := path_bytes L path n\<rparr>"

text \<open>The announced size (the last one, if the agent lets the size be announced again) and the bytes.\<close>

definition fileSize :: "sink \<Rightarrow> int" where
  "fileSize k = (if sk_sizes k = [] then 0 else last (sk_sizes k))"

definition file_response :: "string \<Rightarrow> sink \<Rightarrow> response" where
  "file_response path k = (writeHeader 200)\<lparr>rs_file := Some (fileSize k, afterLast slash path, sk_data k)\<rparr>"

text \<open>\<open>failures\<close>: which writes to the client stop. None is a download that does not end.\<close>

definition handleFsDownload ::
    "libs \<Rightarrow> router \<Rightarrow> (string \<Rightarrow> string) \<Rightarrow> env \<Rightarrow> (nat \<Rightarrow> turn) \<Rightarrow> nat option list \<Rightarrow> request \<Rightarrow>
     string \<Rightarrow> site \<Rightarrow> (response \<times> site) option" where
  "handleFsDownload L R quoted e turns failures req deviceID s =
     (case with_path L R e req deviceID s of
        (Inl resp, s1) \<Rightarrow> Some (resp, s1)
      | (Inr user, s1) \<Rightarrow>
          (case Service_Download quoted turns deviceID (query_get req ''path'') True
                  \<lparr>sk_sizes = [], sk_data = [], sk_faults = failures\<rparr> s1 of
             None \<Rightarrow> None
           | Some (Some err, k, s2) \<Rightarrow>
               Some (if sk_sizes k = [] then writeFsError err
                     else file_response (query_get req ''path'') k, s2)
           | Some (None, k, s2) \<Rightarrow>
               Some (file_response (query_get req ''path'') k,
                 site_audit (uuid e 0) (clock e 1) (file_event L user deviceID ''file_download''
                   ''file downloaded from device'' (query_get req ''path'') (fileSize k)) s2)))"

text \<open>\<^verbatim>\<open>http.MaxBytesReader\<close>\<close>

definition max_bytes :: "int \<Rightarrow> reader \<Rightarrow> reader" where
  "max_bytes limit r =
     (if int (length (rd_data r)) \<le> limit then r
      else r\<lparr>rd_data := take (nat limit) (rd_data r), rd_end := ReadFailed ''http: request body too large''\<rparr>)"

text \<open>\<open>body_end\<close>: how the reading of the body ends.\<close>

definition handleFsUpload ::
    "libs \<Rightarrow> router \<Rightarrow> (string \<Rightarrow> string) \<Rightarrow> env \<Rightarrow> (nat \<Rightarrow> turn) \<Rightarrow> read_error \<Rightarrow> request \<Rightarrow>
     string \<Rightarrow> site \<Rightarrow> (response \<times> site) option" where
  "handleFsUpload L R quoted e turns body_end req deviceID s =
     (case with_path L R e req deviceID s of
        (Inl resp, s1) \<Rightarrow> Some (resp, s1)
      | (Inr user, s1) \<Rightarrow>
          (if rq_contentLength req < 0
           then Some (writeError 411 ''length_required'' ''Content-Length is required'', s1)
           else if rt_fsMaxUpload R < rq_contentLength req
           then Some (writeError 413 ''too_large'' ''file exceeds upload size limit'', s1)
           else (case Service_Upload quoted turns (uuid e 0) deviceID (query_get req ''path'')
                        (rq_contentLength req) (query_get req ''overwrite'' = ''true'')
                        (max_bytes (rt_fsMaxUpload R) \<lparr>rd_data = rq_body req, rd_end = body_end\<rparr>) s1 of
                   None \<Rightarrow> None
                 | Some (Some err, s2) \<Rightarrow> Some (writeFsError err, s2)
                 | Some (None, s2) \<Rightarrow>
                     Some (writeJSON 201 (json_map [(''path'', JString (query_get req ''path'')),
                              (''size'', json_int (rq_contentLength req))]),
                           site_audit (uuid e 1) (clock e 1) (file_event L user deviceID ''file_upload''
                             ''file uploaded to device'' (query_get req ''path'') (rq_contentLength req)) s2))))"

text \<open>What the handlers of files meet besides the request.\<close>

record transfer =
  xf_quoted :: "string \<Rightarrow> string"
  xf_turns :: "nat \<Rightarrow> turn"
  xf_failures :: "nat option list"
  xf_bodyEnd :: read_error

definition handleDeviceRoutes ::
    "libs \<Rightarrow> router \<Rightarrow> env \<Rightarrow> transfer \<Rightarrow> request \<Rightarrow> site \<Rightarrow> (response \<times> site) option" where
  "handleDeviceRoutes L R e x req s =
     (case cutAt slash (trimPrefix (rq_path req) ''/api/devices/'') of
        (deviceID, suffix, found) \<Rightarrow>
          if deviceID = [] then Some (route_not_found, s)
          else if \<not> found \<or> suffix = []
          then (if rq_method req = ''PATCH'' then Some (handleRenameDevice L R e req deviceID s)
                else Some (route_not_found, s))
          else if suffix = ''sessions'' \<and> rq_method req = ''POST''
          then Some (handleCreateSession L R e req deviceID s)
          else if suffix = ''sessions'' \<and> rq_method req = ''GET''
          then Some (handleListSessions L R e req deviceID s)
          else if suffix = ''sessions''
          then Some (writeError 405 ''method_not_allowed'' ''method not allowed'', s)
          else if suffix = ''fs'' \<and> rq_method req = ''GET''
          then Some (handleFsList L R (xf_quoted x) e (xf_turns x 0) req deviceID s)
          else if suffix = ''fs/file'' \<and> rq_method req = ''GET''
          then handleFsDownload L R (xf_quoted x) e (xf_turns x) (xf_failures x) req deviceID s
          else if suffix = ''fs/file'' \<and> rq_method req = ''POST''
          then handleFsUpload L R (xf_quoted x) e (xf_turns x) (xf_bodyEnd x) req deviceID s
          else Some (route_not_found, s))"

section \<open>Sessions\<close>

definition title_field :: struct where "title_field = [(''title'', FString [])]"

definition handleRenameSession ::
    "libs \<Rightarrow> router \<Rightarrow> env \<Rightarrow> request \<Rightarrow> string \<Rightarrow> site \<Rightarrow> response \<times> site" where
  "handleRenameSession L R e req sessionID s =
     for_user L R e req s (\<lambda>_ s1.
       case readJSON L req title_field of
         Inl resp \<Rightarrow> (resp, s1)
       | Inr body \<Rightarrow>
           (let title = trimSpace (str_field body ''title'')
            in if title = [] then (writeError 400 ''invalid_title'' ''title is required'', s1)
               else case site_db (UpdateTerminalSessionTitle (clock e 1) sessionID title) s1 of
                      (Inl err, s2) \<Rightarrow> (writeStoreError err ''session'', s2)
                    | (Inr _, s2) \<Rightarrow>
                        (case site_db (GetTerminalSession sessionID) s2 of
                           (Inl err, s3) \<Rightarrow> (writeStoreError err ''session'', s3)
                         | (Inr session, s3) \<Rightarrow> (writeJSON 200 (sessionResponse session), s3))))"

definition handleCloseSession ::
    "libs \<Rightarrow> router \<Rightarrow> env \<Rightarrow> request \<Rightarrow> string \<Rightarrow> site \<Rightarrow> response \<times> site" where
  "handleCloseSession L R e req sessionID s =
     for_user L R e req s (\<lambda>_ s1.
       case site_db (UpdateTerminalSessionStatus (clock e 1) sessionID SessionClosed 0 0) s1 of
         (Inl err, s2) \<Rightarrow> (writeStoreError err ''session'', s2)
       | (Inr _, s2) \<Rightarrow>
           (writeJSON 200 (json_map [(''ok'', JBool True)]),
            snd (site_send (FromWeb (CloseSession sessionID)) s2)))"

text \<open>The chunks with their data, unless a file cannot be read.\<close>

definition chunk_json :: "libs \<Rightarrow> OutputChunk \<Rightarrow> string \<Rightarrow> json" where
  "chunk_json L c data = json_map
     [(''id'', JString (oc_ID c)), (''session_id'', JString (oc_SessionID c)),
      (''start_seq'', json_int (oc_StartSeq c)), (''end_seq'', json_int (oc_EndSeq c)),
      (''storage_path'', JString (oc_StoragePath c)), (''byte_size'', json_int (oc_ByteSize c)),
      (''data'', JString data), (''created_at'', JString (lib_formatTime L (oc_CreatedAt c)))]"

fun read_chunks ::
    "libs \<Rightarrow> OutputChunk list \<Rightarrow> (string \<times> disk) option \<Rightarrow> json list option \<times> (string \<times> disk) option" where
  "read_chunks L [] out = (Some [], out)"
| "read_chunks L (c # cs) None =
     (case read_chunks L cs None of
        (None, out) \<Rightarrow> (None, out)
      | (Some vs, out) \<Rightarrow> (Some (chunk_json L c [] # vs), out))"
| "read_chunks L (c # cs) (Some (root, d)) =
     (case ReadChunk root (oc_StoragePath c) d of
        (None, d1) \<Rightarrow> (None, Some (root, d1))
      | (Some raw, d1) \<Rightarrow>
          (case read_chunks L cs (Some (root, d1)) of
             (None, out) \<Rightarrow> (None, out)
           | (Some vs, out) \<Rightarrow> (Some (chunk_json L c raw # vs), out)))"

definition handleSessionOutput ::
    "libs \<Rightarrow> router \<Rightarrow> env \<Rightarrow> request \<Rightarrow> string \<Rightarrow> site \<Rightarrow> response \<times> site" where
  "handleSessionOutput L R e req sessionID s =
     for_user L R e req s (\<lambda>_ s1.
       case site_db (ListOutputChunks sessionID) s1 of
         (Inl _, s2) \<Rightarrow> (writeError 500 ''output_error'' ''failed to list output'', s2)
       | (Inr cs, s2) \<Rightarrow>
           (case read_chunks L cs (out_store s2) of
              (None, out) \<Rightarrow>
                (writeError 500 ''output_error'' ''failed to read output'', s2\<lparr>out_store := out\<rparr>)
            | (Some vs, out) \<Rightarrow> (writeJSON 200 (JArray vs), s2\<lparr>out_store := out\<rparr>)))"

definition handleSessionRoutes :: "libs \<Rightarrow> router \<Rightarrow> env \<Rightarrow> request \<Rightarrow> site \<Rightarrow> response \<times> site" where
  "handleSessionRoutes L R e req s =
     (case cutAt slash (trimPrefix (rq_path req) ''/api/sessions/'') of
        (sessionID, suffix, _) \<Rightarrow>
          if sessionID = [] then (route_not_found, s)
          else if rq_method req = ''PATCH'' \<and> suffix = [] then handleRenameSession L R e req sessionID s
          else if rq_method req = ''POST'' \<and> suffix = ''close'' then handleCloseSession L R e req sessionID s
          else if rq_method req = ''GET'' \<and> suffix = ''output'' then handleSessionOutput L R e req sessionID s
          else (route_not_found, s))"

end
