(* ===== verification/Routes.thy ===== *)
theory Routes
  imports DeviceApi ManagementApi
begin

text \<open>
  \<^verbatim>\<open>NewRouter\<close> with its defaults, the table of routes and the dispatch of a request to its handler
  (\<^verbatim>\<open>httpapi/router.go\<close>). Which pattern of the table a request matches is for \<^verbatim>\<open>http.ServeMux\<close> to
  say: an argument.
\<close>

section \<open>The router and its defaults\<close>

text \<open>A dependency that is not given is \<^verbatim>\<open>nil\<close>; the two-factor manager and the output may stay so.\<close>

record Deps =
  dp_Store :: "tables conn"
  dp_SessionSecret :: string
  dp_SessionDuration :: duration
  dp_TwoFactor :: "TwoFactorManager option"
  dp_PasswordLimiter :: "FailureLimiter option"
  dp_TwoFactorLimiter :: "FailureLimiter option"
  dp_ManagementLimiter :: "FailureLimiter option"
  dp_Presence :: "Presence option"
  dp_Hub :: "Hub option"
  dp_Output :: "(string \<times> disk) option"
  dp_Files :: "Service option"
  dp_FsMaxUploadSize :: int

definition default_limiter :: "int \<Rightarrow> duration \<Rightarrow> duration \<Rightarrow> int \<Rightarrow> FailureLimiter option \<Rightarrow> limiter_panic + FailureLimiter" where
  "default_limiter maxFail win blk maxEnt given =
     (case given of Some l \<Rightarrow> Inr l | None \<Rightarrow> NewFailureLimiter maxFail win blk maxEnt)"

definition router_of :: "Deps \<Rightarrow> router" where
  "router_of deps =
     \<lparr>rt_twoFactor = dp_TwoFactor deps, rt_secret = dp_SessionSecret deps, rt_ttl = dp_SessionDuration deps,
      rt_fsMaxUpload = (if dp_FsMaxUploadSize deps \<le> 0 then 512 * 2 ^ 20 else dp_FsMaxUploadSize deps)\<rparr>"

definition site_of :: "Deps \<Rightarrow> FailureLimiter \<Rightarrow> FailureLimiter \<Rightarrow> FailureLimiter \<Rightarrow> site" where
  "site_of deps password twoFactor management =
     \<lparr>srv = \<lparr>db = dp_Store deps, passwordLimiter = password, twoFactorLimiter = twoFactor,
             managementLimiter = management\<rparr>,
      hub = (case dp_Hub deps of None \<Rightarrow> NewHub | Some h \<Rightarrow> h),
      presence = (case dp_Presence deps of None \<Rightarrow> NewPresence | Some p \<Rightarrow> p),
      wires = \<lparr>sent = [], outcomes = []\<rparr>,
      fs = (case dp_Files deps of None \<Rightarrow> NewService | Some F \<Rightarrow> F),
      out_store = dp_Output deps\<rparr>"

definition NewRouter :: "Deps \<Rightarrow> limiter_panic + router \<times> site" where
  "NewRouter deps =
     (case default_limiter 5 (10 * minute) (15 * minute) 5000 (dp_PasswordLimiter deps) of
        Inl p \<Rightarrow> Inl p
      | Inr password \<Rightarrow>
          (case default_limiter 5 (5 * minute) (15 * minute) 5000 (dp_TwoFactorLimiter deps) of
             Inl p \<Rightarrow> Inl p
           | Inr twoFactor \<Rightarrow>
               (case default_limiter 5 (10 * minute) (15 * minute) 5000 (dp_ManagementLimiter deps) of
                  Inl p \<Rightarrow> Inl p
                | Inr management \<Rightarrow> Inr (router_of deps, site_of deps password twoFactor management))))"

section \<open>Routes\<close>

datatype endpoint =
    Login | LoginTwoFactor | TwoFactorStatus | TwoFactorSetup | TwoFactorEnable
  | TwoFactorRecoveryCodes | TwoFactorDisable | Logout | Me
  | CreateToken | ListTokens | RevokeToken
  | ListSnippets | CreateSnippet | UpdateSnippet | DeleteSnippet
  | AgentRegister | ListDevicesRoute | DeviceRoutes | SessionRoutes
  | AgentSocket | WebSocket

text \<open>The patterns: a method or every method, and a path; a final slash stands for all paths below.\<close>

definition routes :: "(string option \<times> string \<times> endpoint) list" where
  "routes =
     [(Some ''POST'', ''/api/login'', Login),
      (Some ''POST'', ''/api/login/2fa'', LoginTwoFactor),
      (Some ''GET'', ''/api/security/2fa'', TwoFactorStatus),
      (Some ''POST'', ''/api/security/2fa/setup'', TwoFactorSetup),
      (Some ''POST'', ''/api/security/2fa/enable'', TwoFactorEnable),
      (Some ''POST'', ''/api/security/2fa/recovery-codes'', TwoFactorRecoveryCodes),
      (Some ''POST'', ''/api/security/2fa/disable'', TwoFactorDisable),
      (Some ''POST'', ''/api/logout'', Logout),
      (Some ''GET'', ''/api/me'', Me),
      (Some ''POST'', ''/api/agent-tokens'', CreateToken),
      (Some ''GET'', ''/api/agent-tokens'', ListTokens),
      (Some ''DELETE'', ''/api/agent-tokens/'', RevokeToken),
      (Some ''GET'', ''/api/snippets'', ListSnippets),
      (Some ''POST'', ''/api/snippets'', CreateSnippet),
      (Some ''PUT'', ''/api/snippets/'', UpdateSnippet),
      (Some ''DELETE'', ''/api/snippets/'', DeleteSnippet),
      (Some ''POST'', ''/api/agents/register'', AgentRegister),
      (Some ''GET'', ''/api/devices'', ListDevicesRoute),
      (None, ''/api/devices/'', DeviceRoutes),
      (None, ''/api/sessions/'', SessionRoutes),
      (Some ''GET'', ''/ws/agent'', AgentSocket),
      (Some ''GET'', ''/ws/web'', WebSocket)]"

section \<open>Dispatch\<close>

text \<open>A handler that only uses the part of the server the login handlers have.\<close>

definition on_server :: "(server \<Rightarrow> response \<times> server) \<Rightarrow> site \<Rightarrow> response \<times> site" where
  "on_server h s = (case h (srv s) of (resp, x) \<Rightarrow> (resp, s\<lparr>srv := x\<rparr>))"

text \<open>
  The answer of an endpoint: a response, or the connection a socket endpoint goes on with. A
  request that is no websocket handshake is answered by \<^verbatim>\<open>websocket.Accept\<close> (\<open>refusal\<close>).
\<close>

datatype answer = Responds response | Upgrades

definition handleWebWebSocket ::
    "libs \<Rightarrow> router \<Rightarrow> env \<Rightarrow> request \<Rightarrow> response option \<Rightarrow> site \<Rightarrow> answer \<times> site" where
  "handleWebWebSocket L R e req refusal s =
     (case requireUser L R (clock e 0) req (srv s) of
        (Inl resp, x) \<Rightarrow> (Responds resp, s\<lparr>srv := x\<rparr>)
      | (Inr _, x) \<Rightarrow>
          (case refusal of None \<Rightarrow> Upgrades | Some resp \<Rightarrow> Responds resp, s\<lparr>srv := x\<rparr>))"

definition responds :: "response \<times> site \<Rightarrow> (answer \<times> site) option" where
  "responds r = Some (Responds (fst r), snd r)"

text \<open>None is a file transfer that does not end.\<close>

definition serve ::
    "libs \<Rightarrow> router \<Rightarrow> env \<Rightarrow> transfer \<Rightarrow> response option \<Rightarrow> endpoint \<Rightarrow> request \<Rightarrow> site \<Rightarrow>
     (answer \<times> site) option" where
  "serve L R e x refusal ep req s =
     (case ep of
        Login \<Rightarrow> responds (on_server (handleLogin L R e req) s)
      | LoginTwoFactor \<Rightarrow> responds (on_server (handleLoginTwoFactor L R e req) s)
      | TwoFactorStatus \<Rightarrow> responds (on_server (handleTwoFactorStatus L R e req) s)
      | TwoFactorSetup \<Rightarrow> responds (on_server (handleTwoFactorSetup L R e req) s)
      | TwoFactorEnable \<Rightarrow> responds (on_server (handleTwoFactorEnable L R e req) s)
      | TwoFactorRecoveryCodes \<Rightarrow> responds (on_server (handleTwoFactorRecoveryCodes L R e req) s)
      | TwoFactorDisable \<Rightarrow> responds (on_server (handleTwoFactorDisable L R e req) s)
      | Logout \<Rightarrow> responds (handleLogout, s)
      | Me \<Rightarrow> responds (on_server (handleMe L R e req) s)
      | CreateToken \<Rightarrow> responds (on_server (handleCreateAgentToken L R e req) s)
      | ListTokens \<Rightarrow> responds (on_server (handleListAgentTokens L R e req) s)
      | RevokeToken \<Rightarrow> responds (on_server (handleRevokeAgentToken L R e req) s)
      | ListSnippets \<Rightarrow> responds (on_server (handleListSnippets L R e req) s)
      | CreateSnippet \<Rightarrow> responds (on_server (handleCreateSnippet L R e req) s)
      | UpdateSnippet \<Rightarrow> responds (on_server (handleUpdateSnippet L R e req) s)
      | DeleteSnippet \<Rightarrow> responds (on_server (handleDeleteSnippet L R e req) s)
      | AgentRegister \<Rightarrow> responds (on_server (handleAgentRegister L e req) s)
      | ListDevicesRoute \<Rightarrow> responds (handleListDevices L R e req s)
      | DeviceRoutes \<Rightarrow>
          map_option (\<lambda>(resp, s1). (Responds resp, s1)) (handleDeviceRoutes L R e x req s)
      | SessionRoutes \<Rightarrow> responds (handleSessionRoutes L R e req s)
      | AgentSocket \<Rightarrow> Some (case refusal of None \<Rightarrow> Upgrades | Some resp \<Rightarrow> Responds resp, s)
      | WebSocket \<Rightarrow> Some (handleWebWebSocket L R e req refusal s))"

text \<open>
  \<open>mux\<close> picks a route of the table, or none: then the static files or the mux itself answer
  (\<open>other\<close>), without touching the server's state.
\<close>

definition ServeHTTP ::
    "((string option \<times> string \<times> endpoint) list \<Rightarrow> request \<Rightarrow> endpoint option) \<Rightarrow> (request \<Rightarrow> response) \<Rightarrow>
     libs \<Rightarrow> router \<Rightarrow> env \<Rightarrow> transfer \<Rightarrow> response option \<Rightarrow> request \<Rightarrow> site \<Rightarrow> (answer \<times> site) option" where
  "ServeHTTP mux other L R e x refusal req s =
     (case mux routes req of
        None \<Rightarrow> responds (other req, s)
      | Some ep \<Rightarrow> serve L R e x refusal ep req s)"

end
