(* ===== verification/Config.thy ===== *)
theory Config
  imports GoStrings
begin

text \<open>
  \<^verbatim>\<open>server/internal/config/config.go\<close>: the settings of the server, from the defaults, a YAML file
  and the environment, each over the one before. Reading the file and the YAML decoder are
  arguments; None is an error of either.
\<close>

record Config =
  cf_Addr :: string
  cf_DatabasePath :: string
  cf_OutputRoot :: string
  cf_WebDir :: string
  cf_SessionSecret :: string
  cf_AdminUsername :: string
  cf_AdminPassword :: string
  cf_SessionDuration :: duration
  cf_FsMaxUploadSize :: int

record fileConfig =
  fc_Addr :: string
  fc_DatabasePath :: string
  fc_OutputRoot :: string
  fc_WebDir :: string
  fc_SessionSecret :: string
  fc_AdminUsername :: string
  fc_AdminPassword :: string
  fc_FsMaxUploadSize :: int

definition defaultConfig :: Config where
  "defaultConfig =
     \<lparr>cf_Addr = '':8080'', cf_DatabasePath = ''data/vibe-terminal.db'', cf_OutputRoot = ''workspace-data'',
      cf_WebDir = ''web/dist'', cf_SessionSecret = ''dev-session-secret-32-bytes-long'',
      cf_AdminUsername = [], cf_AdminPassword = [], cf_SessionDuration = 24 * hour,
      cf_FsMaxUploadSize = 512 * 2 ^ 20\<rparr>"

text \<open>\<^verbatim>\<open>if v != "" { dest = v }\<close>\<close>

definition override :: "string \<Rightarrow> string \<Rightarrow> string" where
  "override v old = (if v \<noteq> [] then v else old)"

definition applyFile :: "fileConfig \<Rightarrow> Config \<Rightarrow> Config" where
  "applyFile f c =
     \<lparr>cf_Addr = override (fc_Addr f) (cf_Addr c),
      cf_DatabasePath = override (fc_DatabasePath f) (cf_DatabasePath c),
      cf_OutputRoot = override (fc_OutputRoot f) (cf_OutputRoot c),
      cf_WebDir = override (fc_WebDir f) (cf_WebDir c),
      cf_SessionSecret = override (fc_SessionSecret f) (cf_SessionSecret c),
      cf_AdminUsername = override (fc_AdminUsername f) (cf_AdminUsername c),
      cf_AdminPassword = override (fc_AdminPassword f) (cf_AdminPassword c),
      cf_SessionDuration = cf_SessionDuration c,
      cf_FsMaxUploadSize = (if 0 < fc_FsMaxUploadSize f then fc_FsMaxUploadSize f else cf_FsMaxUploadSize c)\<rparr>"

text \<open>\<^verbatim>\<open>strconv.ParseInt(value, 10, 64)\<close>: one sign, then digits, within 64 bits.\<close>

definition ParseInt :: "string \<Rightarrow> int option" where
  "ParseInt s =
     (let neg = hasPrefix s ''-''; ds = (if neg \<or> hasPrefix s ''+'' then drop 1 s else s);
          v = (if neg then - int (nat_of_digits ds) else int (nat_of_digits ds))
      in if ds \<noteq> [] \<and> list_all is_digit ds \<and> min_int64 \<le> v \<and> v \<le> max_int64 then Some v else None)"

definition upload_size :: "string \<Rightarrow> int \<Rightarrow> int" where
  "upload_size v old =
     (case ParseInt v of Some parsed \<Rightarrow> if 0 < parsed then parsed else old | None \<Rightarrow> old)"

text \<open>\<open>getenv\<close> gives the empty string for a variable that is not set.\<close>

definition applyEnv :: "(string \<Rightarrow> string) \<Rightarrow> Config \<Rightarrow> Config" where
  "applyEnv getenv c =
     \<lparr>cf_Addr = override (getenv ''VIBE_ADDR'') (cf_Addr c),
      cf_DatabasePath = override (getenv ''VIBE_DB'') (cf_DatabasePath c),
      cf_OutputRoot = override (getenv ''VIBE_OUTPUT_ROOT'') (cf_OutputRoot c),
      cf_WebDir = override (getenv ''VIBE_WEB_DIR'') (cf_WebDir c),
      cf_SessionSecret = override (getenv ''VIBE_SESSION_SECRET'') (cf_SessionSecret c),
      cf_AdminUsername = override (getenv ''VIBE_ADMIN_USER'') (cf_AdminUsername c),
      cf_AdminPassword = override (getenv ''VIBE_ADMIN_PASSWORD'') (cf_AdminPassword c),
      cf_SessionDuration = cf_SessionDuration c,
      cf_FsMaxUploadSize =
        (if getenv ''VIBE_FS_MAX_UPLOAD_SIZE'' = [] then cf_FsMaxUploadSize c
         else upload_size (getenv ''VIBE_FS_MAX_UPLOAD_SIZE'') (cf_FsMaxUploadSize c))\<rparr>"

definition FromEnv :: "(string \<Rightarrow> string) \<Rightarrow> Config" where
  "FromEnv getenv = applyEnv getenv defaultConfig"

datatype config_error = ReadConfigFile string | ParseConfigFile string

definition loadFile ::
    "(string \<Rightarrow> string option) \<Rightarrow> (string \<Rightarrow> fileConfig option) \<Rightarrow> string \<Rightarrow> config_error + fileConfig" where
  "loadFile readFile yaml path =
     (case readFile path of
        None \<Rightarrow> Inl (ReadConfigFile path)
      | Some data \<Rightarrow>
          (case yaml data of None \<Rightarrow> Inl (ParseConfigFile path) | Some f \<Rightarrow> Inr f))"

definition Load ::
    "(string \<Rightarrow> string option) \<Rightarrow> (string \<Rightarrow> fileConfig option) \<Rightarrow> (string \<Rightarrow> string) \<Rightarrow> config_error + Config" where
  "Load readFile yaml getenv =
     (if getenv ''VIBE_CONFIG'' \<noteq> []
      then (case loadFile readFile yaml (getenv ''VIBE_CONFIG'') of
              Inl err \<Rightarrow> Inl err
            | Inr f \<Rightarrow> Inr (applyEnv getenv (applyFile f defaultConfig)))
      else Inr (applyEnv getenv defaultConfig))"

end
