(* ===== verification/ServerMain.thy ===== *)
theory ServerMain
  imports Routes Config
begin

text \<open>
  \<^verbatim>\<open>server/cmd/server/main.go\<close>: the start of the server, from its settings to the router. What the
  program ends with instead (\<^verbatim>\<open>log.Fatalf\<close>) is an error. Opening and migrating the database, the
  derivation of keys and bcrypt are arguments.
\<close>

definition ensureDatabaseDir :: "string \<Rightarrow> disk \<Rightarrow> bool \<times> disk" where
  "ensureDatabaseDir path d =
     (let dir = Dir path in if dir = ''.'' \<or> dir = [] then (True, d) else MkdirAll dir d)"

datatype admin_error = AdminStore store_error | AdminHash

text \<open>\<open>hash\<close> is \<^verbatim>\<open>HashPassword\<close>: bcrypt refuses a password that is too long.\<close>

definition ensureAdmin ::
    "(string \<Rightarrow> string option) \<Rightarrow> env \<Rightarrow> string \<Rightarrow> string \<Rightarrow> tables conn \<Rightarrow> (admin_error + unit) \<times> tables conn" where
  "ensureAdmin hash e username password c =
     (if username = [] \<or> password = [] then (Inr (), c)
      else case GetUserByUsername username c of
             (Inr _, c1) \<Rightarrow> (Inr (), c1)
           | (Inl err, c1) \<Rightarrow>
               (if err \<noteq> ErrNotFound then (Inl (AdminStore err), c1)
                else case hash password of
                       None \<Rightarrow> (Inl AdminHash, c1)
                     | Some h \<Rightarrow>
                         (case CreateUser (clock e 0)
                                 \<lparr>u_ID = uuid e 0, u_Username = username, u_PasswordHash = h,
                                  u_CreatedAt = zero_time, u_UpdatedAt = zero_time\<rparr> c1 of
                            (Inl err2, c2) \<Rightarrow> (Inl (AdminStore err2), c2)
                          | (Inr _, c2) \<Rightarrow> (Inr (), c2))))"

datatype fatal =
    LoadConfig config_error
  | PrepareDatabaseDirectory
  | OpenDatabase
  | EnsureAdministrator admin_error
  | CreateTwoFactorManager
  | LimiterPanic limiter_panic

text \<open>What the start uses of its surroundings.\<close>

record host =
  ho_readFile :: "string \<Rightarrow> string option"
  ho_yaml :: "string \<Rightarrow> fileConfig option"
  ho_getenv :: "string \<Rightarrow> string"
  ho_openDB :: "string \<Rightarrow> tables conn option"
  ho_hash :: "string \<Rightarrow> string option"
  ho_hkdf :: "string \<Rightarrow> string \<Rightarrow> string option"
  ho_gcm :: "string \<Rightarrow> ((string \<Rightarrow> string \<Rightarrow> string) \<times> (string \<Rightarrow> string \<Rightarrow> string option)) option"
  ho_env :: env

definition server_deps :: "Config \<Rightarrow> TwoFactorManager \<Rightarrow> tables conn \<Rightarrow> disk \<Rightarrow> Deps" where
  "server_deps cfg m c d =
     \<lparr>dp_Store = c, dp_SessionSecret = cf_SessionSecret cfg, dp_SessionDuration = cf_SessionDuration cfg,
      dp_TwoFactor = Some m, dp_PasswordLimiter = None, dp_TwoFactorLimiter = None,
      dp_ManagementLimiter = None, dp_Presence = None, dp_Hub = None,
      dp_Output = Some (cf_OutputRoot cfg, d), dp_Files = None,
      dp_FsMaxUploadSize = cf_FsMaxUploadSize cfg\<rparr>"

definition server_main :: "host \<Rightarrow> disk \<Rightarrow> fatal + router \<times> site" where
  "server_main H d =
     (case Load (ho_readFile H) (ho_yaml H) (ho_getenv H) of
        Inl err \<Rightarrow> Inl (LoadConfig err)
      | Inr cfg \<Rightarrow>
          (case ensureDatabaseDir (cf_DatabasePath cfg) d of
             (False, _) \<Rightarrow> Inl PrepareDatabaseDirectory
           | (True, d1) \<Rightarrow>
               (case ho_openDB H (cf_DatabasePath cfg) of
                  None \<Rightarrow> Inl OpenDatabase
                | Some c \<Rightarrow>
                    (case ensureAdmin (ho_hash H) (ho_env H) (cf_AdminUsername cfg) (cf_AdminPassword cfg) c of
                       (Inl err, _) \<Rightarrow> Inl (EnsureAdministrator err)
                     | (Inr _, c1) \<Rightarrow>
                         (case NewTwoFactorManager (ho_hkdf H) (ho_gcm H) (cf_SessionSecret cfg) of
                            None \<Rightarrow> Inl CreateTwoFactorManager
                          | Some m \<Rightarrow>
                              (case NewRouter (server_deps cfg m c1 d1) of
                                 Inl p \<Rightarrow> Inl (LimiterPanic p)
                               | Inr r \<Rightarrow> Inr r))))))"

end
