(* ===== verification/ServerFrame.thy ===== *)
theory ServerFrame
  imports Routes StoreSafety
begin

text \<open>
  What the operations of the store keep, the handlers keep: a property of the tables that every
  operation outside the terminal sessions preserves holds after every handler that only uses the
  database, whatever it answers and whatever fails.
\<close>

definition holds :: "(tables \<Rightarrow> bool) \<Rightarrow> server \<Rightarrow> bool" where
  "holds P s \<longleftrightarrow> P (contents (db s))"

lemma holds_limiters [simp]:
  "holds P (s\<lparr>passwordLimiter := l\<rparr>) = holds P s" "holds P (s\<lparr>twoFactorLimiter := l\<rparr>) = holds P s"
  "holds P (s\<lparr>managementLimiter := l\<rparr>) = holds P s" "holds P (clear_management ks s) = holds P s"
  by (simp_all add: holds_def clear_management_def)

text \<open>Rules that follow the text of a handler.\<close>

lemma frame_run:
  "preserves P m \<Longrightarrow> holds P s \<Longrightarrow> (\<And>r s1. holds P s1 \<Longrightarrow> holds P (snd (f r s1))) \<Longrightarrow>
    holds P (snd (case run_db m s of (r, s1) \<Rightarrow> f r s1))"
proof -
  assume m: "preserves P m" "holds P s" and f: "\<And>r s1. holds P s1 \<Longrightarrow> holds P (snd (f r s1))"
  have "holds P (snd (run_db m s))" using m by (simp add: holds_def preserves_def)
  with f [of "snd (run_db m s)" "fst (run_db m s)"] show ?thesis by (simp add: case_prod_beta)
qed

lemma frame_pair: "(\<And>a b. x = (a, b) \<Longrightarrow> holds P (snd (f a b))) \<Longrightarrow> holds P (snd (case x of (a, b) \<Rightarrow> f a b))"
  by (cases x) simp

lemma frame_sum:
  "(\<And>a. x = Inl a \<Longrightarrow> holds P (snd (f a))) \<Longrightarrow> (\<And>b. x = Inr b \<Longrightarrow> holds P (snd (g b))) \<Longrightarrow>
    holds P (snd (case x of Inl a \<Rightarrow> f a | Inr b \<Rightarrow> g b))"
  by (cases x) simp_all

lemma frame_option:
  "holds P (snd f) \<Longrightarrow> (\<And>b. holds P (snd (g b))) \<Longrightarrow>
    holds P (snd (case x of None \<Rightarrow> f | Some b \<Rightarrow> g b))"
  by (cases x) simp_all

lemma frame_if: "holds P (snd f) \<Longrightarrow> holds P (snd g) \<Longrightarrow> holds P (snd (if b then f else g))"
  by simp

lemma frame_answer: "holds P s \<Longrightarrow> holds P (snd (resp, s))"
  by simp

lemma frame_let: "holds P (snd (f x)) \<Longrightarrow> holds P (snd (let y = x in f y))"
  by (simp add: Let_def)

lemma frame_audit: "preserves P (audit_log i now ev) \<Longrightarrow> holds P s \<Longrightarrow> holds P (try_audit i now ev s)"
  by (simp add: try_audit_def holds_def preserves_def)

lemma frame_user:
  "holds P s \<Longrightarrow> (\<And>r s1. holds P s1 \<Longrightarrow> holds P (snd (f r s1))) \<Longrightarrow>
    holds P (snd (case requireUser L R now req s of (r, s1) \<Rightarrow> f r s1))"
proof -
  assume h: "holds P s" and f: "\<And>r s1. holds P s1 \<Longrightarrow> holds P (snd (f r s1))"
  have "holds P (snd (requireUser L R now req s))"
  proof (cases "Get (lib_parseNano L) (rt_secret R) now (rq_cookie req)")
    case (Inl err)
    with h show ?thesis by (simp add: requireUser_def)
  next
    case (Inr i)
    have "preserves P (GetUserByID i)" unfolding GetUserByID_def by (rule keep)
    then have "holds P (snd (run_db (GetUserByID i) s))" using h by (simp add: holds_def preserves_def)
    then show ?thesis
      using Inr by (cases "run_db (GetUserByID i) s") (auto simp: requireUser_def split: sum.split)
  qed
  with f [of "snd (requireUser L R now req s)" "fst (requireUser L R now req s)"]
  show ?thesis by (simp add: case_prod_beta)
qed

lemma frame_with_user:
  "holds P s \<Longrightarrow> (\<And>u s1. holds P s1 \<Longrightarrow> holds P (snd (f u s1))) \<Longrightarrow> holds P (snd (with_user L R e req s f))"
  unfolding with_user_def by (rule frame_user, assumption, rule frame_sum) auto

lemma frame_attempt:
  "holds P s \<Longrightarrow> (\<And>r s1. holds P s1 \<Longrightarrow> holds P (snd (f r s1))) \<Longrightarrow>
    holds P (snd (case managementAttempt e ks s of (r, s1) \<Rightarrow> f r s1))"
  by (auto simp: managementAttempt_def split: prod.splits)

lemmas frame = frame_with_user frame_user frame_attempt frame_run frame_pair frame_sum frame_option frame_if
  frame_let frame_answer

text \<open>The operations of the store that are about terminal sessions.\<close>

primrec session_op :: "store_op \<Rightarrow> bool" where
  "session_op (OpCreateUser now u) = False"
| "session_op (OpCreateLoginChallenge now c) = False"
| "session_op (OpConsumeLogin p) = False"
| "session_op (OpSavePending now x) = False"
| "session_op (OpSavePendingIfUnchanged now x prev) = False"
| "session_op (OpEnable uid cfg c codes now) = False"
| "session_op (OpConsumeTOTP uid cfg c now) = False"
| "session_op (OpConsumeRecovery uid h now) = False"
| "session_op (OpReplaceCodes uid cfg c codes now) = False"
| "session_op (OpDisable uid) = False"
| "session_op (OpCreateToken now p) = False"
| "session_op (OpRevokeToken i now) = False"
| "session_op (OpDeleteToken i) = False"
| "session_op (OpUseToken h now) = False"
| "session_op (OpCreateDevice now d) = False"
| "session_op (OpRenameDevice now i n) = False"
| "session_op (OpTouchDevice now i t) = False"
| "session_op (OpCreateSession now x) = True"
| "session_op (OpSessionStatus now i st pid sq) = True"
| "session_op (OpSessionTitle now i t) = True"
| "session_op (OpAudit now e) = False"
| "session_op (OpCreateChunk now c) = False"
| "session_op (OpCreateSnippet now c) = False"
| "session_op (OpUpdateSnippet now i n c) = False"
| "session_op (OpDeleteSnippet i) = False"

lemma preserves_void: "preserves P (void m) = preserves P m"
proof -
  have "snd (void m s) = snd (m s)" for s
    by (simp add: void_def bind_def ok_def split: prod.split sum.split)
  then show ?thesis by (simp add: preserves_def)
qed

locale server_frame =
  fixes P :: "tables \<Rightarrow> bool"
  assumes op: "\<not> session_op x \<Longrightarrow> preserves P (apply_op x)"
begin

lemma calls:
  "preserves P (GetUserByUsername n)" "preserves P (GetUserByID i)" "preserves P (GetEnabledTwoFactor i)"
  "preserves P (CreateLoginChallenge now c)" "preserves P (ConsumeLoginSecondFactor p)"
  "preserves P (GetTwoFactorStatus i)" "preserves P (GetUserTwoFactor i)"
  "preserves P (SavePendingTwoFactorIfUnchanged now x prev)" "preserves P (GetPendingTwoFactor i now)"
  "preserves P (EnableTwoFactor i cfg cnt codes now)" "preserves P (ReplaceRecoveryCodesAfterTOTP i cfg cnt codes now)"
  "preserves P (DisableTwoFactor i)" "preserves P (CreateAgentToken now tp)" "preserves P ListAgentTokens"
  "preserves P (RevokeAgentToken i now)" "preserves P (DeleteRevokedAgentToken i)"
  "preserves P (UseAgentTokenByHash h now)" "preserves P (CreateDevice now d)"
  "preserves P (UpdateDeviceName now i n)" "preserves P (TouchDevice now i now2)"
  "preserves P ListCommandSnippets" "preserves P (CreateCommandSnippet now sn)"
  "preserves P (UpdateCommandSnippet now i n c2)" "preserves P (DeleteCommandSnippet i)"
  "preserves P (CreateOutputChunk now ck)" "preserves P (audit_log i now ev)"
proof -
  note o = op [unfolded preserves_void]
  show "preserves P (CreateLoginChallenge now c)" using op [of "OpCreateLoginChallenge now c"] by simp
  show "preserves P (ConsumeLoginSecondFactor p)" using op [of "OpConsumeLogin p"] by simp
  show "preserves P (SavePendingTwoFactorIfUnchanged now x prev)"
    using op [of "OpSavePendingIfUnchanged now x prev"] by simp
  show "preserves P (EnableTwoFactor i cfg cnt codes now)" using op [of "OpEnable i cfg cnt codes now"] by simp
  show "preserves P (ReplaceRecoveryCodesAfterTOTP i cfg cnt codes now)"
    using op [of "OpReplaceCodes i cfg cnt codes now"] by simp
  show "preserves P (DisableTwoFactor i)" using op [of "OpDisable i"] by simp
  show "preserves P (CreateAgentToken now tp)" using op [of "OpCreateToken now tp"] by (simp add: preserves_void)
  show "preserves P (RevokeAgentToken i now)" using op [of "OpRevokeToken i now"] by (simp add: preserves_void)
  show "preserves P (DeleteRevokedAgentToken i)" using op [of "OpDeleteToken i"] by simp
  show "preserves P (UseAgentTokenByHash h now)" using op [of "OpUseToken h now"] by (simp add: preserves_void)
  show "preserves P (CreateDevice now d)" using op [of "OpCreateDevice now d"] by (simp add: preserves_void)
  show "preserves P (UpdateDeviceName now i n)" using op [of "OpRenameDevice now i n"] by simp
  show "preserves P (TouchDevice now i now2)" using op [of "OpTouchDevice now i now2"] by simp
  show "preserves P (CreateCommandSnippet now sn)" using op [of "OpCreateSnippet now sn"] by (simp add: preserves_void)
  show "preserves P (UpdateCommandSnippet now i n c2)" using op [of "OpUpdateSnippet now i n c2"] by (simp add: preserves_void)
  show "preserves P (DeleteCommandSnippet i)" using op [of "OpDeleteSnippet i"] by simp
  show "preserves P (CreateOutputChunk now ck)" using op [of "OpCreateChunk now ck"] by (simp add: preserves_void)
  have "preserves P (CreateAuditEvent now2 ev2)" for now2 ev2
    using op [of "OpAudit now2 ev2"] by (simp add: preserves_void)
  then show "preserves P (audit_log i now ev)" unfolding audit_log_def Let_def by (intro keep)
qed (auto simp: GetUserByUsername_def GetUserByID_def GetEnabledTwoFactor_def GetTwoFactorStatus_def
    GetUserTwoFactor_def GetPendingTwoFactor_def ListAgentTokens_def ListCommandSnippets_def intro!: keep)

lemma audited [intro]: "holds P s \<Longrightarrow> holds P (try_audit i now ev s)"
  by (rule frame_audit [OF calls(26)])

lemma audits [intro]:
  "holds P s \<Longrightarrow> holds P (auditLoginRateLimit L i now uid stage ip s)"
  "holds P s \<Longrightarrow> holds P (auditManagementRateLimit L i now uid stage ip s)"
  "holds P s \<Longrightarrow> holds P (auditCommittedTwoFactorChange i now uid et su s)"
  by (simp_all add: auditLoginRateLimit_def auditManagementRateLimit_def auditCommittedTwoFactorChange_def audited)

text \<open>Tokens, registration and snippets.\<close>

lemma token_handlers:
  "holds P s \<Longrightarrow> holds P (snd (handleCreateAgentToken L R e req s))"
  "holds P s \<Longrightarrow> holds P (snd (handleListAgentTokens L R e req s))"
  "holds P s \<Longrightarrow> holds P (snd (handleDeleteRevokedAgentToken e user i s))"
  "holds P s \<Longrightarrow> holds P (snd (revoke_token L e user i s))"
  unfolding handleCreateAgentToken_def handleListAgentTokens_def handleDeleteRevokedAgentToken_def revoke_token_def
  by (rule frame calls audits audited | assumption)+

lemma registration_handlers:
  "holds P s \<Longrightarrow> holds P (snd (handleRevokeAgentToken L R e req s))"
  "holds P s \<Longrightarrow> holds P (snd (register_device e body s))"
  unfolding handleRevokeAgentToken_def register_device_def
  by (rule frame calls audits audited token_handlers | assumption)+

lemma handleAgentRegister_frame: "holds P s \<Longrightarrow> holds P (snd (handleAgentRegister L e req s))"
  unfolding handleAgentRegister_def
  by (rule frame calls registration_handlers | assumption)+

lemma snippet_handlers:
  "holds P s \<Longrightarrow> holds P (snd (handleListSnippets L R e req s))"
  "holds P s \<Longrightarrow> holds P (snd (handleCreateSnippet L R e req s))"
  "holds P s \<Longrightarrow> holds P (snd (handleUpdateSnippet L R e req s))"
  "holds P s \<Longrightarrow> holds P (snd (handleDeleteSnippet L R e req s))"
  unfolding handleListSnippets_def handleCreateSnippet_def handleUpdateSnippet_def handleDeleteSnippet_def
  by (rule frame calls audits audited | assumption)+

text \<open>Logins.\<close>

lemma login_steps:
  "holds P s \<Longrightarrow> holds P (snd (completeLogin L R e user m s))"
  "holds P s \<Longrightarrow> holds P (snd (login_challenge L e tm user setting s))"
  "holds P s \<Longrightarrow> holds P (snd (password_refused L e ks i ip s))"
  "holds P s \<Longrightarrow> holds P (snd (writeInvalidSecondFactor L e i ip ks s))"
  unfolding completeLogin_def login_challenge_def password_refused_def writeInvalidSecondFactor_def
  by (rule frame calls audits audited | assumption | simp only: holds_limiters)+

lemma login_parts:
  "holds P s \<Longrightarrow> holds P (snd (password_accepted L R e user s))"
  "holds P s \<Longrightarrow> holds P (snd (spend_second_factor L R m e ch user setting code ip ks now s))"
  unfolding password_accepted_def spend_second_factor_def
  by (rule frame calls login_steps | assumption | simp only: holds_limiters split: code_error.split | intro conjI impI)+

lemma login_handlers:
  "holds P s \<Longrightarrow> holds P (snd (handleLogin L R e req s))"
  "holds P s \<Longrightarrow> holds P (snd (handleLoginTwoFactor L R e req s))"
  "holds P s \<Longrightarrow> holds P (snd (handleMe L R e req s))"
  unfolding handleLogin_def handleLoginTwoFactor_def handleMe_def
  by (rule frame calls login_steps login_parts | assumption | simp only: holds_limiters)+

text \<open>The second factor's management.\<close>

lemma management_steps:
  "holds P s \<Longrightarrow> holds P (snd (writeInvalidManagementCredential L e i stage ip ks code text s))"
  "holds P s \<Longrightarrow> holds P (snd (save_setup L m e user ks prev s))"
  "holds P s \<Longrightarrow> holds P (snd (enable_setup L m e i cfg ks cnt now s))"
  "holds P s \<Longrightarrow> holds P (snd (disable_factor e i ks s))"
  unfolding writeInvalidManagementCredential_def save_setup_def enable_setup_def disable_factor_def
  by (rule frame calls audits audited | assumption | simp only: holds_limiters)+

lemma rotate_frame: "holds P s \<Longrightarrow> holds P (snd (rotate_codes L m e i cfg ip ks cnt now s))"
  unfolding rotate_codes_def
  by (rule frame calls audits audited management_steps | assumption | simp only: holds_limiters)+

lemma management_handlers:
  "holds P s \<Longrightarrow> holds P (snd (handleTwoFactorStatus L R e req s))"
  "holds P s \<Longrightarrow> holds P (snd (handleTwoFactorSetup L R e req s))"
  "holds P s \<Longrightarrow> holds P (snd (handleTwoFactorEnable L R e req s))"
  "holds P s \<Longrightarrow> holds P (snd (handleTwoFactorRecoveryCodes L R e req s))"
  "holds P s \<Longrightarrow> holds P (snd (handleTwoFactorDisable L R e req s))"
  unfolding handleTwoFactorStatus_def handleTwoFactorSetup_def handleTwoFactorEnable_def
    handleTwoFactorRecoveryCodes_def handleTwoFactorDisable_def
  by (rule frame calls management_steps rotate_frame | assumption | simp only: holds_limiters)+

end

end
