(* ===== verification/SiteFrame.thy ===== *)
theory SiteFrame
  imports ServerFrame AgentFrame
begin

text \<open>
  What every handler and connection of the server keeps: a property of the database, the hub and the
  presence of devices that the primitive changes keep (an operation of the store, a new session with
  its route, the route of a session to its own device, connections that come and go) holds after
  every message, every connection and every request.
\<close>

section \<open>Reads and writes\<close>

lemma rows_get [simp]: "rows (snd (site_db (GetDevice i) s)) = rows s"
  "rows (snd (site_db ListDevices s)) = rows s" "rows (snd (site_db (GetTerminalSession i) s)) = rows s"
  "rows (snd (site_db (ListTerminalSessionsForDevice d) s)) = rows s"
  "rows (snd (site_db (ListOutputChunks i) s)) = rows s"
  by (simp_all add: GetDevice_def ListDevices_def GetTerminalSession_def ListTerminalSessionsForDevice_def
      ListOutputChunks_def)

lemma presence_steps [simp]:
  "presence (on_hub f s) = presence s" "presence (on_presence g s) = g (presence s)"
  "presence (on_fs h s) = presence s" "presence (snd (site_send k s)) = presence s"
  "presence (reply_to p msg s) = presence s" "presence (try_db m s) = presence s"
  "presence (site_audit i now ev s) = presence s" "presence (s\<lparr>out_store := d\<rparr>) = presence s"
  by (simp_all add: on_hub_def on_presence_def on_fs_def site_send_def reply_to_def try_db_def
      site_audit_def split: prod.splits)

lemma presence_call: "site_db m s = (r, s1) \<Longrightarrow> presence s1 = presence s"
  using site_parts(2) [of m s] by simp

lemma rows_online: "rows (try_db m (on_presence f s)) = rows (try_db m s)"
  by (simp add: try_db_def rows_def on_presence_def)

lemma hub_call: "site_db m s = (r, s1) \<Longrightarrow> hub s1 = hub s"
  using site_parts(1) [of m s] by simp

lemma exec_failed:
  "fst (bind (exec st) (\<lambda>_. ok x) c) = Inl err \<Longrightarrow> contents (snd (bind (exec st) (\<lambda>_. ok x) c)) = contents c"
  by (auto simp: exec_def bind_def io_def ok_def split: option.splits prod.splits sum.splits if_splits)

lemma exec_worked:
  "fst (bind (exec st) (\<lambda>_. ok x) c) = Inr y \<Longrightarrow>
    y = x \<and> (\<exists>n. st (contents c) = Some (contents (snd (bind (exec st) (\<lambda>_. ok x) c)), n))"
  by (auto simp: exec_def bind_def io_def ok_def split: option.splits prod.splits sum.splits if_splits)

lemma create_outcome:
  assumes "site_db (CreateTerminalSession now y) s = (r, s1)"
  shows "r = Inl err \<Longrightarrow> rows s1 = rows s"
    and "r = Inr x \<Longrightarrow> session_by_id (ts_ID y) (rows s) = None"
    and "r = Inr x \<Longrightarrow> terminal_sessions (rows s1) = terminal_sessions (rows s) @ [x]"
    and "r = Inr x \<Longrightarrow> ts_ID x = ts_ID y \<and> ts_DeviceID x = ts_DeviceID y \<and> ts_Status x = ts_Status y \<and>
      ts_ShellPath x = ts_ShellPath y \<and> ts_WorkingDirectory x = ts_WorkingDirectory y"
proof -
  define z where "z = (let x1 = (if ts_CreatedAt y = zero_time then y\<lparr>ts_CreatedAt := now\<rparr> else y)
    in if ts_UpdatedAt x1 = zero_time then x1\<lparr>ts_UpdatedAt := now\<rparr> else x1)"
  have c: "CreateTerminalSession now y = bind (exec (stmt_insert_session z)) (\<lambda>_. ok z)"
    by (simp add: CreateTerminalSession_def z_def Let_def)
  have z: "ts_ID z = ts_ID y \<and> ts_DeviceID z = ts_DeviceID y \<and> ts_Status z = ts_Status y \<and>
      ts_ShellPath z = ts_ShellPath y \<and> ts_WorkingDirectory z = ts_WorkingDirectory y"
    by (simp add: z_def Let_def)
  note run = site_db_run [OF assms, unfolded c]
  show "r = Inl err \<Longrightarrow> rows s1 = rows s"
    using exec_failed [of "stmt_insert_session z" z "db (srv s)" err] run by (simp add: rows_def)
  assume "r = Inr x"
  with exec_worked [of "stmt_insert_session z" z "db (srv s)" x] run obtain n where
    x: "x = z" and st: "stmt_insert_session z (rows s) = Some (rows s1, n)" by (auto simp: rows_def)
  from st have "rows s1 = rows s\<lparr>terminal_sessions := terminal_sessions (rows s) @ [z]\<rparr>"
    by (simp add: stmt_insert_session_def split: if_splits)
  then show "terminal_sessions (rows s1) = terminal_sessions (rows s) @ [x]" using x by simp
  from st z have "ts_ID y \<notin> ts_ID ` set (terminal_sessions (rows s))"
    by (simp add: stmt_insert_session_def split: if_splits)
  then show "session_by_id (ts_ID y) (rows s) = None"
    by (simp add: session_by_id_def find_None_iff image_iff) metis
  from x z show "ts_ID x = ts_ID y \<and> ts_DeviceID x = ts_DeviceID y \<and> ts_Status x = ts_Status y \<and>
      ts_ShellPath x = ts_ShellPath y \<and> ts_WorkingDirectory x = ts_WorkingDirectory y" by simp
qed

lemma user_same: "contents (db (snd (requireUser L R now req s))) = contents (db s)"
  using frame_user [of "\<lambda>T. T = contents (db s)" s "\<lambda>r s1. (r, s1)" L R now req] by (simp add: holds_def)

text \<open>What runs while a request waits keeps the property \<open>I\<close>.\<close>

definition polite :: "(site \<Rightarrow> bool) \<Rightarrow> turn \<Rightarrow> bool" where
  "polite I t \<longleftrightarrow> (\<forall>s. I s \<longrightarrow> I (tr_others t s))"

section \<open>Runs of the server\<close>

text \<open>
  What can happen, from the state a run has reached: a request with what runs while its file
  transfer waits, an agent's first message, its next ones and its end, and a browser's.
\<close>

inductive site_run :: "libs \<Rightarrow> router \<Rightarrow> site \<Rightarrow> site \<Rightarrow> bool" for L R where
  starts: "site_run L R s s"
| request: "site_run L R s t \<Longrightarrow> (\<And>n y. site_run L R y (tr_others (xf_turns x n) y)) \<Longrightarrow>
    ServeHTTP mux other L R e x refusal req t = Some (a, u) \<Longrightarrow> site_run L R s u"
| agent_refused: "site_run L R s t \<Longrightarrow> agent_handshake L data t = (Inl reason, u) \<Longrightarrow> site_run L R s u"
| agent_opens: "site_run L R s t \<Longrightarrow> agent_handshake L data t = (Inr (device, hello), u) \<Longrightarrow>
    site_run L R s (agent_connected e device hello p u)"
| agent_speaks: "site_run L R s t \<Longrightarrow> site_run L R s (agent_message L \<sigma> e d data p t)"
| agent_ends: "site_run L R s t \<Longrightarrow> site_run L R s (agent_disconnected e d t)"
| web_speaks: "site_run L R s t \<Longrightarrow> site_run L R s (web_message L transport data p t)"
| web_ends: "site_run L R s t \<Longrightarrow> site_run L R s (web_closed p t)"

section \<open>The contract\<close>

locale site_frame =
  fixes I :: "site \<Rightarrow> bool"
  assumes same: "I s \<Longrightarrow> rows s' = rows s \<Longrightarrow> hub s' = hub s \<Longrightarrow> presence s' = presence s \<Longrightarrow> I s'"
    and store: "I s \<Longrightarrow> \<not> session_op opn \<Longrightarrow> rows s' = contents (snd (apply_op opn (db (srv s)))) \<Longrightarrow>
      hub s' = hub s \<Longrightarrow> presence s' = presence s \<Longrightarrow> I s'"
    and status: "I s \<Longrightarrow> I (snd (site_db (UpdateTerminalSessionStatus now i st pid sq) s))"
    and title: "I s \<Longrightarrow> I (snd (site_db (UpdateTerminalSessionTitle now i t) s))"
    and create: "I s \<Longrightarrow> session_by_id (ts_ID y) (rows s) = None \<Longrightarrow>
      I (on_hub (BindSession (ts_ID y) (ts_DeviceID y)) (snd (site_db (CreateTerminalSession now y) s)))"
    and bind: "I s \<Longrightarrow> session_by_id i (rows s) = Some x \<Longrightarrow> I (on_hub (BindSession i (ts_DeviceID x)) s)"
    and attach: "I s \<Longrightarrow> rows s' = rows s \<Longrightarrow> hub s' = AttachAgent d p (hub s) \<Longrightarrow>
      presence s' = SetCapabilities d caps (SetOnline d True (presence s)) \<Longrightarrow> I s'"
    and detach: "I s \<Longrightarrow> rows s' = rows s \<Longrightarrow> hub s' = DetachAgent d (hub s) \<Longrightarrow>
      presence s' = SetOnline d False (presence s) \<Longrightarrow> I s'"
    and subscribe: "I s \<Longrightarrow> I (on_hub (SubscribeWeb i p) s)"
    and unsubscribe: "I s \<Longrightarrow> I (on_hub (UnsubscribePeer p) s)"

text \<open>The rows that the property allows beside a hub and a presence.\<close>

sublocale site_frame \<subseteq> server: server_frame "\<lambda>T. \<forall>s. rows s = T \<and> hub s = h \<and> presence s = q \<longrightarrow> I s" for h q
proof unfold_locales
  fix x
  assume x: "\<not> session_op x"
  show "preserves (\<lambda>T. \<forall>s. rows s = T \<and> hub s = h \<and> presence s = q \<longrightarrow> I s) (apply_op x)"
    unfolding preserves_def
  proof (intro allI impI)
    fix c :: "tables conn" and s' :: site
    assume c: "\<forall>s. rows s = contents c \<and> hub s = h \<and> presence s = q \<longrightarrow> I s"
      and s': "rows s' = contents (snd (apply_op x c)) \<and> hub s' = h \<and> presence s' = q"
    let ?s = "s'\<lparr>srv := (srv s')\<lparr>db := c\<rparr>\<rparr>"
    have "I ?s" using c s' by (simp add: rows_def)
    then show "I s'" by (rule store [OF _ x]) (use s' in simp_all)
  qed
qed

context site_frame begin

lemma on_server_frame:
  assumes "I s" and "\<And>y. holds (\<lambda>T. \<forall>t. rows t = T \<and> hub t = hub s \<and> presence t = presence s \<longrightarrow> I t) y \<Longrightarrow>
      holds (\<lambda>T. \<forall>t. rows t = T \<and> hub t = hub s \<and> presence t = presence s \<longrightarrow> I t) (snd (h y))"
  shows "I (snd (on_server h s))"
proof -
  have "holds (\<lambda>T. \<forall>t. rows t = T \<and> hub t = hub s \<and> presence t = presence s \<longrightarrow> I t) (srv s)"
    using same [OF assms(1)] by (simp add: holds_def rows_def)
  from assms(2) [OF this] show ?thesis by (simp add: on_server_def holds_def rows_def split: prod.splits)
qed

lemma quiet [simp]:
  "I s \<Longrightarrow> I (reply_to p msg s)" "I s \<Longrightarrow> I (on_fs g s)"
  "I s \<Longrightarrow> I (from_agent \<sigma> d m s)" "I s \<Longrightarrow> I (snd (site_send k s))" "I s \<Longrightarrow> I (s\<lparr>out_store := o'\<rparr>)"
  by (erule same; simp add: from_agent_def)+

lemma store_call:
  "I s \<Longrightarrow> \<not> session_op x \<Longrightarrow> snd (m (db (srv s))) = snd (apply_op x (db (srv s))) \<Longrightarrow> I (snd (site_db m s))"
  by (erule store [of s x]) (simp_all add: rows_def)

lemma calls_kept [simp]:
  "I s \<Longrightarrow> I (snd (site_db (UpdateDeviceName now i n) s))"
  "I s \<Longrightarrow> I (try_db (TouchDevice now i t) s)"
  "I s \<Longrightarrow> I (try_db (CreateOutputChunk now c) s)"
  "I s \<Longrightarrow> I (try_db (UpdateTerminalSessionStatus now i st pid sq) s)"
  "I s \<Longrightarrow> I (site_audit i now ev s)"
proof -
  have v: "snd (void m c) = snd (m c)" for m :: "'a store" and c
    by (simp add: void_def SqlStore.bind_def ok_def split: prod.split sum.split)
  show "I s \<Longrightarrow> I (snd (site_db (UpdateDeviceName now i n) s))"
    by (erule store_call [of _ "OpRenameDevice now i n"]) simp_all
  show "I s \<Longrightarrow> I (try_db (TouchDevice now i t) s)"
    unfolding try_db_def by (erule store_call [of _ "OpTouchDevice now i t"]) simp_all
  show "I s \<Longrightarrow> I (try_db (CreateOutputChunk now c) s)"
    unfolding try_db_def by (erule store_call [of _ "OpCreateChunk now c"]) (simp_all add: v)
  show "I s \<Longrightarrow> I (try_db (UpdateTerminalSessionStatus now i st pid sq) s)"
    unfolding try_db_def by (rule status)
  show "I s \<Longrightarrow> I (site_audit i now ev s)"
  proof -
    assume "I s"
    then have "holds (\<lambda>T. \<forall>t. rows t = T \<and> hub t = hub s \<and> presence t = presence s \<longrightarrow> I t) (srv s)"
      using same by (simp add: holds_def rows_def)
    from server.audited [OF this, of i now ev] show ?thesis
      by (simp add: holds_def rows_def site_audit_def)
  qed
qed

lemma read_kept:
  "I s \<Longrightarrow> site_db (GetTerminalSession i) s = (r, s1) \<Longrightarrow> I s1"
  "I s \<Longrightarrow> site_db (ListTerminalSessionsForDevice d) s = (r', s1) \<Longrightarrow> I s1"
  "I s \<Longrightarrow> site_db (GetDevice d) s = (r'', s1) \<Longrightarrow> I s1"
  "I s \<Longrightarrow> site_db ListDevices s = (q, s1) \<Longrightarrow> I s1"
  "I s \<Longrightarrow> site_db (ListOutputChunks i) s = (q', s1) \<Longrightarrow> I s1"
proof -
  have "I (snd (site_db (GetTerminalSession i) s))" "I (snd (site_db (ListTerminalSessionsForDevice d) s))"
    "I (snd (site_db (GetDevice d) s))" "I (snd (site_db ListDevices s))" "I (snd (site_db (ListOutputChunks i) s))"
    if "I s" using same [OF that] by simp_all
  then show "I s \<Longrightarrow> site_db (GetTerminalSession i) s = (r, s1) \<Longrightarrow> I s1"
    "I s \<Longrightarrow> site_db (ListTerminalSessionsForDevice d) s = (r', s1) \<Longrightarrow> I s1"
    "I s \<Longrightarrow> site_db (GetDevice d) s = (r'', s1) \<Longrightarrow> I s1"
    "I s \<Longrightarrow> site_db ListDevices s = (q, s1) \<Longrightarrow> I s1"
    "I s \<Longrightarrow> site_db (ListOutputChunks i) s = (q', s1) \<Longrightarrow> I s1"
    by fastforce+
qed

section \<open>Agents\<close>

lemma owns_kept: "I s \<Longrightarrow> agentOwnsSession d i s = (b, s1) \<Longrightarrow> I s1"
  by (auto simp: agentOwnsSession_def split: prod.splits sum.splits dest: read_kept(1))

lemma created:
  "I s \<Longrightarrow> session_by_id i (rows s) = None \<Longrightarrow> ts_ID y = i \<Longrightarrow> ts_DeviceID y = d \<Longrightarrow>
    I (on_hub (BindSession i d) (try_db (CreateTerminalSession now y) s))"
  using create by (auto simp: try_db_def)

lemma bound:
  "I s \<Longrightarrow> session_by_id i (rows s) = Some x \<Longrightarrow> ts_DeviceID x = d \<Longrightarrow> I (on_hub (BindSession i d) s)"
  using bind by auto

lemma sync_session_kept: "I s \<Longrightarrow> I (sync_session e d n x s)"
proof -
  assume s: "I s"
  obtain r s1 where r: "site_db (GetTerminalSession (sum_SessionID x)) s = (r, s1)" by force
  note read = read_cases [OF r] and s1 = read_kept(1) [OF s r]
  show ?thesis
  proof (cases r)
    case (Inl err)
    have "err = ErrNotFound \<Longrightarrow> session_by_id (sum_SessionID x) (rows s1) = None" using read Inl by simp
    then show ?thesis using r s1 Inl by (auto simp: sync_session_def intro!: created)
  next
    case (Inr y)
    have "session_by_id (sum_SessionID x) (rows s1) = Some y" using read Inr by simp
    from bound [OF s1 this] r s1 Inr show ?thesis by (auto simp: sync_session_def)
  qed
qed

lemma sync_reported_kept: "I s \<Longrightarrow> I (sync_reported e d n xs s)"
  by (induction xs arbitrary: n s) (simp_all add: sync_session_kept)

lemma lose_sessions_kept: "I s \<Longrightarrow> I (lose_sessions e n seen xs s)"
  by (induction xs arbitrary: n s) simp_all

lemma session_lists_kept:
  "I s \<Longrightarrow> I (syncAgentSessions e n d xs s)" "I s \<Longrightarrow> I (markDisconnectedSessionsLost e n d s)"
  unfolding syncAgentSessions_def markDisconnectedSessionsLost_def
  by (auto split: prod.splits sum.splits intro: lose_sessions_kept read_kept(2) sync_reported_kept)

lemma persist_kept: "I s \<Longrightarrow> I (persistOutputChunk e i sq data s)"
  by (auto simp: persistOutputChunk_def split: option.split prod.split)

lemma note_kept: "I s \<Longrightarrow> I (note_output e i sq s)"
  by (auto simp: note_output_def split: prod.split sum.split dest: read_kept(1))

lemma started_kept: "I s \<Longrightarrow> I (session_started \<sigma> e d m p s)"
proof -
  assume s: "I s"
  obtain i pid t sq where m: "m = (i, pid, t, sq)" by (cases m)
  obtain r s1 where r: "site_db (GetTerminalSession i) s = (r, s1)" by force
  note read = read_cases [OF r] and s1 = read_kept(1) [OF s r]
  show ?thesis
  proof (cases "\<exists>x. r = Inr x \<and> ts_DeviceID x = d")
    case True
    then obtain x where x: "r = Inr x" "ts_DeviceID x = d" by auto
    let ?s = "try_db (UpdateTerminalSessionStatus (clock e 0) i SessionRunning pid sq) s1"
    have "session_by_id i (rows s1) = Some x" using read x by simp
    then obtain y where "session_by_id i (rows ?s) = Some y" "ts_DeviceID y = d"
      using rows_status [of "clock e 0" i SessionRunning pid sq s1] x(2) by (auto simp: set_status_def)
    from bound [OF _ this] s1 r x m show ?thesis
      by (simp add: session_started_def agentOwnsSession_def)
  next
    case False
    then show ?thesis using r s1 m by (auto simp: session_started_def agentOwnsSession_def split: sum.splits)
  qed
qed

lemma output_kept: "I s \<Longrightarrow> I (session_output \<sigma> e d m p s)"
  by (auto simp: session_output_def split: prod.split bool.split intro!: quiet(3) persist_kept note_kept
      dest: owns_kept)

lemma exited_kept: "I s \<Longrightarrow> I (session_exited \<sigma> e d m p s)"
proof -
  assume s: "I s"
  obtain i code reason where m: "m = (i, code, reason)" by (cases m)
  obtain b s1 where b: "agentOwnsSession d i s = (b, s1)" by force
  obtain st pid sq s2 where x: "exit_state i s1 = ((st, pid, sq), s2)" by (metis prod.exhaust)
  from owns_kept [OF s b] x have "I s2"
    by (auto simp: exit_state_def split: prod.splits sum.splits dest: read_kept(1))
  with owns_kept [OF s b] m b x show ?thesis by (cases b) (simp_all add: session_exited_def)
qed

lemma kept_if: "I a \<Longrightarrow> I b \<Longrightarrow> I (if c then a else b)"
  by simp

lemma kept_option: "I a \<Longrightarrow> (\<And>y. I (f y)) \<Longrightarrow> I (case x of None \<Rightarrow> a | Some y \<Rightarrow> f y)"
  by (simp split: option.split)

lemma envelope_kept: "I s \<Longrightarrow> I (handleAgentEnvelope \<sigma> e d env p s)"
  unfolding handleAgentEnvelope_def
  by (intro kept_if kept_option quiet calls_kept session_lists_kept started_kept output_kept exited_kept)

lemma agent_kept:
  "I s \<Longrightarrow> I (snd (agent_handshake L data s))" "I s \<Longrightarrow> I (agent_connected e dev hello p s)"
  "I s \<Longrightarrow> I (agent_disconnected e d s)" "I s \<Longrightarrow> I (agent_message L \<sigma> e d data p s)"
proof -
  show "I s \<Longrightarrow> I (snd (agent_handshake L data s))"
    by (auto simp: agent_handshake_def split: option.split prod.split sum.split dest: read_kept(3))
  show "I s \<Longrightarrow> I (agent_connected e dev hello p s)"
    unfolding agent_connected_def
    by (rule session_lists_kept(1), rule attach [OF calls_kept(2) [of s "clock e 1" "dev_ID dev" "clock e 0"]])
      (simp_all add: rows_online)
  show "I s \<Longrightarrow> I (agent_disconnected e d s)"
    unfolding agent_disconnected_def
    by (rule detach [OF session_lists_kept(2) [of s e 0 d]]) simp_all
  show "I s \<Longrightarrow> I (agent_message L \<sigma> e d data p s)"
    by (simp add: agent_message_def envelope_kept split: option.split)
qed

section \<open>Browsers\<close>

lemma send_kept: "I s \<Longrightarrow> site_send k s = (r, s1) \<Longrightarrow> I s1"
  using quiet(4) [of s k] by simp

lemma forward_kept: "I s \<Longrightarrow> I (web_forward tr m p s)"
  by (auto simp: web_forward_def split: prod.split option.split dest: send_kept)

lemma subscribe_kept: "I s \<Longrightarrow> I (web_subscribe i p s)"
proof -
  assume s: "I s"
  obtain r s1 where r: "site_db (GetTerminalSession i) s = (r, s1)" by force
  note read = read_cases [OF r] and s1 = read_kept(1) [OF s r]
  show ?thesis
  proof (cases r)
    case (Inl err)
    then show ?thesis using r s1 by (simp add: web_subscribe_def)
  next
    case (Inr y)
    have y: "session_by_id i (rows s1) = Some y" using read Inr by simp
    then have "ts_ID y = i" by (auto dest: session_by_idD)
    with bind [OF s1 y] r Inr show ?thesis by (simp add: web_subscribe_def subscribe)
  qed
qed

lemma web_kept: "I s \<Longrightarrow> I (web_message L tr data p s)" "I s \<Longrightarrow> I (web_closed p s)"
  by (auto simp: web_message_def web_closed_def forward_kept subscribe_kept unsubscribe split: option.split)

section \<open>Requests\<close>

lemma read_now:
  "I s \<Longrightarrow> I (snd (site_db (GetTerminalSession i) s))"
  "I s \<Longrightarrow> I (snd (site_db (ListTerminalSessionsForDevice d) s))"
  "I s \<Longrightarrow> I (snd (site_db (GetDevice d) s))" "I s \<Longrightarrow> I (snd (site_db ListDevices s))"
  "I s \<Longrightarrow> I (snd (site_db (ListOutputChunks i) s))"
  by (erule same; simp)+

lemma k_answer: "I s \<Longrightarrow> I (snd (resp, s))"
  by simp

lemma k_call: "I (snd x) \<Longrightarrow> (\<And>r s1. I s1 \<Longrightarrow> I (snd (f r s1))) \<Longrightarrow> I (snd (case x of (r, s1) \<Rightarrow> f r s1))"
  by (cases x) simp

lemma k_pair: "(\<And>a b. I (snd (f a b))) \<Longrightarrow> I (snd (case x of (a, b) \<Rightarrow> f a b))"
  by (cases x) simp

lemma k_sum:
  "(\<And>a. I (snd (f a))) \<Longrightarrow> (\<And>b. I (snd (g b))) \<Longrightarrow> I (snd (case x of Inl a \<Rightarrow> f a | Inr b \<Rightarrow> g b))"
  by (cases x) simp_all

lemma k_option: "I (snd f) \<Longrightarrow> (\<And>b. I (snd (g b))) \<Longrightarrow> I (snd (case x of None \<Rightarrow> f | Some b \<Rightarrow> g b))"
  by (cases x) simp_all

lemma k_if: "I (snd f) \<Longrightarrow> I (snd g) \<Longrightarrow> I (snd (if b then f else g))"
  by simp

lemma k_let: "I (snd (f x)) \<Longrightarrow> I (snd (let y = x in f y))"
  by (simp add: Let_def)

lemma k_user: "I s \<Longrightarrow> (\<And>u s1. I s1 \<Longrightarrow> I (snd (f u s1))) \<Longrightarrow> I (snd (for_user L R e req s f))"
proof -
  assume s: "I s" and f: "\<And>u s1. I s1 \<Longrightarrow> I (snd (f u s1))"
  have "I (s\<lparr>srv := snd (requireUser L R (clock e 0) req (srv s))\<rparr>)"
    using user_same [of L R "clock e 0" req "srv s"] by (intro same [OF s]) (simp_all add: rows_def)
  with f show ?thesis by (auto simp: for_user_def split: prod.splits sum.splits)
qed

lemmas k = k_user k_call k_pair k_sum k_option k_if k_let k_answer

lemmas stored = read_now calls_kept status title

lemma device_handlers:
  "I s \<Longrightarrow> I (snd (handleListDevices L R e req s))"
  "I s \<Longrightarrow> I (snd (handleRenameDevice L R e req d s))"
  "I s \<Longrightarrow> I (snd (handleListSessions L R e req d s))"
  unfolding handleListDevices_def handleRenameDevice_def handleListSessions_def
  by (rule k stored | assumption)+

lemma session_handlers:
  "I s \<Longrightarrow> I (snd (handleRenameSession L R e req i s))"
  "I s \<Longrightarrow> I (snd (handleCloseSession L R e req i s))"
  "I s \<Longrightarrow> I (snd (handleSessionOutput L R e req i s))"
  unfolding handleRenameSession_def handleCloseSession_def handleSessionOutput_def
  by (rule k stored quiet | assumption)+

lemma session_routes: "I s \<Longrightarrow> I (snd (handleSessionRoutes L R e req s))"
  unfolding handleSessionRoutes_def by (rule k session_handlers | assumption)+

lemma start_kept: "I (on_hub (BindSession (ts_ID x) d) s) \<Longrightarrow> I (snd (start_session e user d body x s))"
  unfolding start_session_def by (rule k stored quiet | assumption)+

lemma create_kept: "I s \<Longrightarrow> I (snd (create_session e user d body s))"
proof -
  assume s: "I s"
  let ?y = "\<lparr>ts_ID = uuid e 0, ts_DeviceID = d, ts_Title = ''shell'',
    ts_ShellPath = cr_ShellPath body, ts_WorkingDirectory = cr_WorkingDirectory body,
    ts_Status = SessionStarting, ts_AgentPID = 0, ts_LastOutputSeq = 0,
    ts_CreatedAt = zero_time, ts_UpdatedAt = zero_time\<rparr>"
  obtain r s1 where r: "site_db (CreateTerminalSession (clock e 1) ?y) s = (r, s1)" by force
  note done_by = create_outcome [OF r]
  have "hub s1 = hub s" by (rule hub_call [OF r])
  then show ?thesis
  proof (cases r)
    case (Inl err)
    then have "I s1" using done_by(1) \<open>hub s1 = hub s\<close> presence_call [OF r] by (intro same [OF s]) simp_all
    then show ?thesis using r Inl by (simp add: create_session_def)
  next
    case (Inr x)
    with done_by(2,4) [of x] have x: "ts_ID x = uuid e 0" "session_by_id (uuid e 0) (rows s) = None" by simp_all
    with create [OF s, of ?y "clock e 1"] r have "I (on_hub (BindSession (ts_ID x) d) s1)" by simp
    from start_kept [OF this] show ?thesis using r Inr by (simp add: create_session_def)
  qed
qed

lemma handleCreateSession_kept: "I s \<Longrightarrow> I (snd (handleCreateSession L R e req d s))"
  unfolding handleCreateSession_def by (rule k stored create_kept | assumption)+

section \<open>File transfers\<close>



lemma await_kept: "I s \<Longrightarrow> I (snd (await_reply t s))"
  by (auto simp: await_reply_def split: wake.split option.split)

lemma roundTrip_kept: "polite I t \<Longrightarrow> I s \<Longrightarrow> I (snd (roundTrip t d ty m s))"
proof -
  assume t: "polite I t" and s: "I s"
  have "I (snd (await_reply t (tr_others t y)))" if "I y" for y
    using t that await_kept by (simp add: polite_def)
  with s show ?thesis unfolding roundTrip_def by - (rule k quiet | assumption)+
qed

lemma enter_kept: "I s \<Longrightarrow> I (snd (enter_op d s))"
  unfolding enter_op_def by (cases "acquire d (fs s)") (auto split: option.split simp: rows_def elim!: same)

lemma list_kept: "polite I t \<Longrightarrow> I s \<Longrightarrow> I (snd (Service_List quoted t d path s))"
  unfolding Service_List_def by (rule k quiet enter_kept roundTrip_kept | assumption)+

lemma confirm_kept:
  assumes "\<And>n ty m s. I s \<Longrightarrow> I (snd (rt n ty m s))" "I s"
  shows "I (snd (confirm quoted rt decode want n ty m s))"
  unfolding confirm_def by (rule k assms | assumption)+

lemma download_kept:
  assumes rt: "\<And>n ty m s. I s \<Longrightarrow> I (snd (rt n ty m s))"
    and run: "download_loop quoted rt bs ann path n off kk s = Some y" and s: "I s"
  shows "I (snd (snd y))"
proof -
  let ?P = "\<lambda>quoted rt (bs :: nat) (ann :: bool) (path :: string) (n :: nat) (off :: int) (kk :: sink) s y.
    (\<forall>n ty m s. I s \<longrightarrow> I (snd (rt n ty m s))) \<longrightarrow> I s \<longrightarrow> I (snd (snd y))"
  have "?P quoted rt bs ann path n off kk s y"
  proof (rule download_loop.raw_induct [where P = ?P, OF _ run], intro impI)
    fix loop quoted and rt :: "site link" and bs ann path n off kk s y
    assume IH: "\<And>quoted rt bs ann path n off kk s y. loop quoted rt bs ann path n off kk s = Some y \<Longrightarrow>
        ?P quoted rt bs ann path n off kk s y"
      and y: "(case rt n TypeFsRead (FsRead path off (int bs)) s of
        (Inl err, s1) \<Rightarrow> Some (Some err, kk, s1)
      | (Inr env, s1) \<Rightarrow> (case take_chunk quoted ann off env kk of
            (Inl err, k1) \<Rightarrow> Some (Some err, k1, s1)
          | (Inr (len, eof), k1) \<Rightarrow> if eof then Some (None, k1, s1)
              else loop quoted rt bs ann path (Suc n) (int64 (off + int len)) k1 s1)) = Some y"
      and rt: "\<forall>n ty m s. I s \<longrightarrow> I (snd (rt n ty m s))" and s: "I s"
    obtain q s2 where q: "rt n TypeFsRead (FsRead path off (int bs)) s = (q, s2)" by force
    from rt s have "I (snd (rt n TypeFsRead (FsRead path off (int bs)) s))" by blast
    then have s2: "I s2" unfolding q by simp
    show "I (snd (snd y))"
    proof (cases q)
      case (Inl err)
      then show ?thesis using y q s2 by auto
    next
      case (Inr env)
      obtain c k1 where c: "take_chunk quoted ann off env kk = (c, k1)" by force
      show ?thesis
      proof (cases c)
        case (Inl err)
        then show ?thesis using y q s2 Inr c by auto
      next
        case (Inr lf)
        obtain len eof where "lf = (len, eof)" by (cases lf)
        then show ?thesis
          using y q s2 \<open>q = Inr env\<close> c Inr IH [of quoted rt bs ann path "Suc n" "int64 (off + int len)" k1 s2 y] rt
          by (cases eof) auto
      qed
    qed
  qed
  with rt s show ?thesis by simp
qed

lemma upload_loop_kept:
  assumes rt: "\<And>n ty m s. I s \<Longrightarrow> I (snd (rt n ty m s))"
    and run: "upload_loop quoted rt bs uid n off rd s = Some y" and s: "I s"
  shows "I (snd y)"
proof -
  let ?P = "\<lambda>quoted rt (bs :: nat) (uid :: string) (n :: nat) (off :: int) (rd :: reader) s y.
    (\<forall>n ty m s. I s \<longrightarrow> I (snd (rt n ty m s))) \<longrightarrow> I s \<longrightarrow> I (snd y)"
  have "?P quoted rt bs uid n off rd s y"
  proof (rule upload_loop.raw_induct [where P = ?P, OF _ run], intro impI)
    fix loop quoted and rt :: "site link" and bs uid n off rd s y
    assume IH: "\<And>quoted rt bs uid n off rd s y. loop quoted rt bs uid n off rd s = Some y \<Longrightarrow>
        ?P quoted rt bs uid n off rd s y"
      and y: "(case ReadFull bs rd of (bytes, readErr, r1) \<Rightarrow>
          (case (if bytes = [] then (None, s) else send_chunk quoted rt uid n off bytes s) of
             (None, s1) \<Rightarrow> (case readErr of
                  None \<Rightarrow> loop quoted rt bs uid (Suc n) (int64 (off + int (length bytes))) r1 s1
                | Some (ReadFailed reason) \<Rightarrow> Some (Inl (IOError reason), s1)
                | Some _ \<Rightarrow> Some (Inr (int64 (off + int (length bytes)), Suc n), s1))
           | (Some err, s1) \<Rightarrow> Some (Inl err, s1))) = Some y"
      and rt: "\<forall>n ty m s. I s \<longrightarrow> I (snd (rt n ty m s))" and s: "I s"
    obtain bytes e r1 where b: "ReadFull bs rd = (bytes, e, r1)" by (metis prod.exhaust)
    obtain q s2 where q: "(if bytes = [] then (None, s) else send_chunk quoted rt uid n off bytes s) = (q, s2)"
      by force
    have "I (snd (if bytes = [] then (None, s) else send_chunk quoted rt uid n off bytes s))"
      using rt s by (auto simp: send_chunk_def intro!: confirm_kept)
    then have s2: "I s2" by (simp add: q)
    show "I (snd y)"
      using y s2 IH [of quoted rt bs uid "Suc n" "int64 (off + int (length bytes))" r1 s2 y] rt
      unfolding b prod.case q
      by (auto split: option.splits read_error.splits)
  qed
  with rt s show ?thesis by simp
qed

lemma link_kept: "(\<And>n. polite I (turns n)) \<Longrightarrow> I s \<Longrightarrow> I (snd (device_link turns d n ty m s))"
  by (simp add: device_link_def roundTrip_kept)

lemma Service_Download_kept:
  assumes turns: "\<And>n. polite I (turns n)" and s: "I s"
    and run: "Service_Download quoted turns d path ann kk s = Some (r, k1, s1)"
  shows "I s1"
proof -
  obtain q s2 where q: "enter_op d s = (q, s2)" by force
  with enter_kept [OF s, of d] have s2: "I s2" by simp
  show ?thesis
  proof (cases q)
    case None
    with run q obtain s3 where
      l: "download_loop quoted (device_link turns d) (chunkSize (fs s2)) ann path 0 0 kk s2 = Some (r, k1, s3)"
      and s1: "s1 = on_fs (release d) s3" by (auto simp: Service_Download_def)
    from download_kept [OF _ l s2] link_kept [OF turns] have "I s3" by simp
    then show ?thesis by (simp add: s1)
  next
    case (Some err)
    then show ?thesis using run q s2 by (simp add: Service_Download_def)
  qed
qed

lemma upload_body_kept:
  assumes rt: "\<And>n ty m s. I s \<Longrightarrow> I (snd (rt n ty m s))" and s: "I s"
    and run: "upload_body quoted rt bs uid path declared ow rd s = Some (r, s1)"
  shows "I s1"
proof -
  let ?open = "confirm quoted rt decode_upload TypeFsWriteOpened 0 TypeFsWriteOpen (FsWriteOpen uid path declared ow) s"
  obtain q s2 where q: "?open = (q, s2)" by force
  have "I (snd ?open)" by (rule confirm_kept [OF rt s])
  then have s2: "I s2" unfolding q by simp
  have fin: "I y \<Longrightarrow> I (snd (finish_upload quoted rt uid declared n off y))" for n off y
    by (auto simp: finish_upload_def rt intro!: confirm_kept)
  show ?thesis
  proof (cases q)
    case None
    note run = run [unfolded upload_body_def q None prod.case option.case]
    obtain w where w: "upload_loop quoted rt bs uid 1 0 rd s2 = Some w" using run by (auto split: option.splits)
    from upload_loop_kept [OF rt w s2] have "I (snd w)" .
    moreover obtain a b where ab: "w = (a, b)" by force
    ultimately have b: "I b" by simp
    show ?thesis
    proof (cases a)
      case (Inl err)
      then show ?thesis using run w ab b by simp
    next
      case (Inr v)
      obtain off n where "v = (off, n)" by force
      with run w ab Inr have "finish_upload quoted rt uid declared n off b = (r, s1)" by simp
      with fin [OF b, of n off] show ?thesis by simp
    qed
  next
    case (Some err)
    then show ?thesis using run s2 unfolding upload_body_def q by simp
  qed
qed

lemma Service_Upload_kept:
  assumes turns: "\<And>n. polite I (turns n)" and s: "I s"
    and run: "Service_Upload quoted turns uid d path declared ow rd s = Some (r, s1)"
  shows "I s1"
proof -
  obtain q s2 where q: "enter_op d s = (q, s2)" by force
  with enter_kept [OF s, of d] have s2: "I s2" by simp
  show ?thesis
  proof (cases q)
    case None
    with run q obtain s3 where
      l: "upload_body quoted (device_link turns d) (chunkSize (fs s2)) uid path declared ow rd s2 = Some (r, s3)"
      and s1: "s1 = on_fs (release d) s3" by (auto simp: Service_Upload_def)
    from upload_body_kept [OF _ s2 l] link_kept [OF turns] have "I s3" by simp
    then show ?thesis by (simp add: s1)
  next
    case (Some err)
    then show ?thesis using run q s2 by (simp add: Service_Upload_def)
  qed
qed

lemma with_path_kept: "I s \<Longrightarrow> I (snd (with_path L R e req d s))"
proof -
  assume s: "I s"
  have "I (s\<lparr>srv := snd (requireUser L R (clock e 0) req (srv s))\<rparr>)"
    using user_same [of L R "clock e 0" req "srv s"] by (intro same [OF s]) (simp_all add: rows_def)
  moreover obtain q x where "requireUser L R (clock e 0) req (srv s) = (q, x)" by force
  ultimately show ?thesis unfolding with_path_def
    by (cases q) (auto intro!: k_if k_call read_now k_sum)
qed

lemma handleFsList_kept: "polite I t \<Longrightarrow> I s \<Longrightarrow> I (snd (handleFsList L R quoted e t req d s))"
  unfolding handleFsList_def by (rule k with_path_kept list_kept | assumption)+

lemma handleFsDownload_kept:
  assumes turns: "\<And>n. polite I (turns n)" and s: "I s"
    and run: "handleFsDownload L R quoted e turns fails req d s = Some (r, s1)"
  shows "I s1"
proof -
  obtain q s2 where q: "with_path L R e req d s = (q, s2)" by force
  with with_path_kept [OF s, of L R e req d] have s2: "I s2" by simp
  show ?thesis
    using run q s2 Service_Download_kept [OF turns s2]
    by (fastforce simp: handleFsDownload_def split: sum.splits option.splits prod.splits)
qed

lemma handleFsUpload_kept:
  assumes turns: "\<And>n. polite I (turns n)" and s: "I s"
    and run: "handleFsUpload L R quoted e turns be req d s = Some (r, s1)"
  shows "I s1"
proof -
  obtain q s2 where q: "with_path L R e req d s = (q, s2)" by force
  with with_path_kept [OF s, of L R e req d] have s2: "I s2" by simp
  show ?thesis
    using run q s2 Service_Upload_kept [OF turns s2]
    by (fastforce simp: handleFsUpload_def split: sum.splits option.splits prod.splits if_splits)
qed

section \<open>Every request\<close>

lemma pred_option_if: "pred_option Q a \<Longrightarrow> pred_option Q b \<Longrightarrow> pred_option Q (if c then a else b)"
  by simp

lemma pred_option_Some: "I (snd z) \<Longrightarrow> pred_option (\<lambda>z. I (snd z)) (Some z)"
  by simp

lemma device_routes:
  assumes turns: "\<And>n. polite I (xf_turns x n)" and s: "I s"
    and run: "handleDeviceRoutes L R e x req s = Some z"
  shows "I (snd z)"
proof -
  have files: "pred_option (\<lambda>z. I (snd z)) (handleFsDownload L R qt e (xf_turns x) fl req d s)"
    "pred_option (\<lambda>z. I (snd z)) (handleFsUpload L R qt e (xf_turns x) be req d s)" for qt fl be d
    using handleFsDownload_kept [OF turns s] handleFsUpload_kept [OF turns s]
    by (auto simp: option.pred_set elim: option.set_cases)
  have "pred_option (\<lambda>z. I (snd z)) (handleDeviceRoutes L R e x req s)"
    unfolding handleDeviceRoutes_def
    by (cases "cutAt slash (trimPrefix (rq_path req) ''/api/devices/'')", simp only: prod.case)
      (rule pred_option_if pred_option_Some files k_answer device_handlers handleCreateSession_kept
        handleFsList_kept turns s)+
  then show ?thesis using run by simp
qed

lemma serve_kept:
  assumes turns: "\<And>n. polite I (xf_turns x n)" and s: "I s"
    and run: "serve L R e x refusal ep req s = Some (a, s1)"
  shows "I s1"
proof -
  have now: "\<And>h. responds h = Some (a, s1) \<Longrightarrow> I (snd h) \<Longrightarrow> I s1" by (auto simp: responds_def)
  note server = server.token_handlers server.registration_handlers server.handleAgentRegister_frame
    server.snippet_handlers server.login_handlers server.management_handlers
  show ?thesis
  proof (cases ep)
    case DeviceRoutes
    with run device_routes [OF turns s] show ?thesis by (force simp: serve_def)
  next
    case WebSocket
    have "I (s\<lparr>srv := snd (requireUser L R (clock e 0) req (srv s))\<rparr>)"
      using user_same [of L R "clock e 0" req "srv s"] by (intro same [OF s]) (simp_all add: rows_def)
    with run WebSocket show ?thesis by (auto simp: serve_def handleWebWebSocket_def split: prod.splits sum.splits)
  qed (use run s in \<open>simp_all add: serve_def\<close>,
      auto elim!: now intro!: on_server_frame server device_handlers(1) session_routes)
qed

section \<open>Runs\<close>

lemma run_kept: "site_run L R s t \<Longrightarrow> I s \<Longrightarrow> I t"
proof (induction rule: site_run.induct)
  case (request s t x mux other e refusal req a u)
  have turns: "polite I (xf_turns x n)" for n using request.IH(2) by (simp add: polite_def)
  show ?case
  proof (cases "mux routes req")
    case None
    then show ?thesis using request by (simp add: ServeHTTP_def responds_def)
  next
    case (Some ep)
    with request.hyps have "serve L R e x refusal ep req t = Some (a, u)" by (simp add: ServeHTTP_def)
    from serve_kept [OF turns request.IH(1) [OF request.prems] this] show ?thesis .
  qed
next
  case (agent_refused s t data reason u)
  then show ?case using agent_kept(1) [of t L data] by simp
next
  case (agent_opens s t data device hello u e p)
  then show ?case using agent_kept(1) [of t L data] by (simp add: agent_kept(2))
qed (simp_all add: agent_kept web_kept)

end

end
