(* ===== verification/RouteClaims.thy ===== *)
theory RouteClaims
  imports ServerMain SiteFrame ConnectionClaims ManagementClaims
begin

text \<open>
  Properties of the server as a whole: what a request without a session can do, how a session comes
  to its device, and how the server starts.
\<close>

section \<open>Requests without a session\<close>

definition without_session :: "libs \<Rightarrow> router \<Rightarrow> env \<Rightarrow> request \<Rightarrow> bool" where
  "without_session L R e req \<longleftrightarrow>
     (case Get (lib_parseNano L) (rt_secret R) (clock e 0) (rq_cookie req) of Inl _ \<Rightarrow> True | Inr _ \<Rightarrow> False)"

definition unauthorized :: response where
  "unauthorized = writeError 401 ''unauthorized'' ''login required''"

lemma requireUser_refuses:
  "without_session L R e req \<Longrightarrow> requireUser L R (clock e 0) req s = (Inl unauthorized, s)"
  by (auto simp: without_session_def requireUser_def unauthorized_def split: sum.splits)

lemma guarded_refuses:
  assumes "without_session L R e req"
  shows "with_user L R e req s k = (unauthorized, s)" "for_user L R e req y k' = (unauthorized, y)"
    "with_path L R e req d y = (Inl unauthorized, y)"
  using requireUser_refuses [OF assms] by (simp_all add: with_user_def for_user_def with_path_def)

lemmas server_handlers = handleTwoFactorStatus_def handleTwoFactorSetup_def handleTwoFactorEnable_def
  handleTwoFactorRecoveryCodes_def handleTwoFactorDisable_def handleMe_def handleCreateAgentToken_def
  handleListAgentTokens_def handleRevokeAgentToken_def handleListSnippets_def handleCreateSnippet_def
  handleUpdateSnippet_def handleDeleteSnippet_def

lemmas device_handlers = handleListDevices_def handleRenameDevice_def handleCreateSession_def
  handleListSessions_def handleFsList_def handleFsDownload_def handleFsUpload_def handleRenameSession_def
  handleCloseSession_def handleSessionOutput_def

text \<open>The endpoints a browser without a session, or an agent, is meant to reach.\<close>

definition open_endpoints :: "endpoint set" where
  "open_endpoints = {Login, LoginTwoFactor, Logout, AgentRegister, AgentSocket}"

text \<open>C38: A request without a valid session cookie to any endpoint but the login, the logout, the
  registration and the connection of agents is refused (401, or 404 or 405 for a path or method that
  no handler takes), and leaves the whole state of the server as it was: database, limiters, hub,
  presence, connections, file service and output files.
\<close>

theorem unauthenticated_refused:
  assumes "without_session L R e req" and "ep \<notin> open_endpoints"
  shows "\<exists>resp. serve L R e x refusal ep req s = Some (Responds resp, s) \<and> rs_status resp \<in> {401, 404, 405}"
proof -
  note refuse = guarded_refuses [OF assms(1)] requireUser_refuses [OF assms(1)]
  note defs = refuse server_handlers device_handlers
  have [simp]: "rs_status unauthorized = 401" by (simp add: unauthorized_def)
  have devices: "\<exists>resp. handleDeviceRoutes L R e x req s = Some (resp, s) \<and> rs_status resp \<in> {401, 404, 405}"
    by (simp add: handleDeviceRoutes_def defs route_not_found_def split: prod.split)
  have sessions: "\<exists>resp. handleSessionRoutes L R e req s = (resp, s) \<and> rs_status resp \<in> {401, 404, 405}"
    by (simp add: handleSessionRoutes_def defs route_not_found_def split: prod.split)
  show ?thesis
  proof (cases ep)
    case DeviceRoutes
    with devices show ?thesis by (auto simp: serve_def)
  next
    case SessionRoutes
    with sessions show ?thesis by (auto simp: serve_def responds_def)
  qed (use assms(2) in \<open>simp_all add: serve_def open_endpoints_def on_server_def defs responds_def handleWebWebSocket_def\<close>)
qed

definition bare_request :: "string \<Rightarrow> string \<Rightarrow> request" where
  "bare_request meth path = \<lparr>rq_method = meth, rq_path = path, rq_query = [], rq_remoteAddr = ''10.0.0.1:9'',
     rq_contentType = [], rq_contentLength = 0, rq_cookie = None, rq_body = [], rq_broken = False\<rparr>"

definition bare_router :: router where
  "bare_router = \<lparr>rt_twoFactor = None, rt_secret = ''secret'', rt_ttl = hour, rt_fsMaxUpload = 1024\<rparr>"

definition bare_transfer :: transfer where
  "bare_transfer = \<lparr>xf_quoted = id,
     xf_turns = (\<lambda>_. \<lparr>tr_requestID = ''r'', tr_others = id, tr_wake = TimedOut\<rparr>), xf_failures = [], xf_bodyEnd = EOF\<rparr>"

theorem unauthenticated_refused_witness:
  "\<exists>resp. serve conn_libs bare_router sample_clock bare_transfer None DeviceRoutes
       (bare_request ''DELETE'' ''/api/devices/d/sessions'') sample_site =
     Some (Responds resp, sample_site) \<and> rs_status resp \<in> {401, 404, 405}"
  by (rule unauthenticated_refused) (simp_all add: without_session_def bare_request_def Get_def open_endpoints_def)

section \<open>New sessions\<close>

text \<open>
  A session has been made and started: its row and its route name the device, and the device's agent
  has been sent the normalized request, and nothing else has been sent.
\<close>

definition started_on :: "string \<Rightarrow> string \<Rightarrow> CreateRequest \<Rightarrow> site \<Rightarrow> site \<Rightarrow> bool" where
  "started_on i deviceID c s s' \<longleftrightarrow>
     Online deviceID (presence s) \<and> deviceID \<in> dev_ID ` set (devices (rows s)) \<and>
     (\<exists>p. agents (hub s) deviceID = Some p \<and>
        sent (wires s') = sent (wires s) @ [(p, outbound (StartSession i (cr_ShellPath c)
          (cr_WorkingDirectory c) (cr_Cols c) (cr_Rows c)))]) \<and>
     sessionDevices (hub s') i = Some deviceID \<and> session_by_id i (rows s) = None \<and>
     (\<exists>x. session_by_id i (rows s') = Some x \<and> ts_DeviceID x = deviceID \<and> ts_Status x = SessionStarting \<and>
        ts_ShellPath x = cr_ShellPath c \<and> ts_WorkingDirectory x = cr_WorkingDirectory c)"

lemma db_parts:
  "site_db m s = (r, s1) \<Longrightarrow> hub s1 = hub s \<and> presence s1 = presence s \<and> wires s1 = wires s"
  using site_parts(1-3) [of m s] by simp

lemma try_db_wires [simp]: "wires (try_db m s) = wires s" "hub (try_db m s) = hub s"
  by simp_all

lemma GetDevice_found:
  assumes "site_db (GetDevice i) s = (r, s1)"
  shows "rows s1 = rows s" "r = Inr d \<Longrightarrow> i \<in> dev_ID ` set (devices (rows s))"
proof -
  have "s1 = snd (site_db (GetDevice i) s)" using assms by simp
  then show "rows s1 = rows s" by (simp add: GetDevice_def)
  show "r = Inr d \<Longrightarrow> i \<in> dev_ID ` set (devices (rows s))"
    using site_db_run [OF assms] by (auto simp: GetDevice_def query_row_Inr rows_def find_Some_iff)
qed

lemma CreateTerminalSession_row:
  assumes "site_db (CreateTerminalSession now y) s = (Inr x, s1)"
  shows "session_by_id (ts_ID y) (rows s) = None" "session_by_id (ts_ID y) (rows s1) = Some x"
    "ts_ID x = ts_ID y \<and> ts_DeviceID x = ts_DeviceID y \<and> ts_Status x = ts_Status y \<and>
     ts_ShellPath x = ts_ShellPath y \<and> ts_WorkingDirectory x = ts_WorkingDirectory y"
proof -
  note made = create_outcome(2-4) [OF assms refl]
  then show "session_by_id (ts_ID y) (rows s1) = Some x" by (simp add: session_by_id_def find_snoc)
qed (use create_outcome(2,4) [OF assms refl] in simp_all)

lemma StartSession_sent:
  assumes "site_send (FromWeb (StartSession i sh wd c r)) (on_hub (BindSession i d) s) = (q, s1)"
  shows "hub s1 = BindSession i d (hub s)" "rows s1 = rows s"
    "q = None \<Longrightarrow> \<exists>p. agents (hub s) d = Some p \<and>
       sent (wires s1) = sent (wires s) @ [(p, outbound (StartSession i sh wd c r))]"
    "q \<noteq> None \<Longrightarrow> sent (wires s1) = sent (wires s)"
proof -
  have "s1 = snd (site_send (FromWeb (StartSession i sh wd c r)) (on_hub (BindSession i d) s))"
    using assms by simp
  then show "hub s1 = BindSession i d (hub s)" "rows s1 = rows s" by simp_all
  show "q = None \<Longrightarrow> \<exists>p. agents (hub s) d = Some p \<and>
       sent (wires s1) = sent (wires s) @ [(p, outbound (StartSession i sh wd c r))]"
    "q \<noteq> None \<Longrightarrow> sent (wires s1) = sent (wires s)"
    using assms
    by (auto simp: site_send_def FromWeb_def sessionIDOf_def BindSession_def send_result_def Send_def on_hub_def
        split: prod.splits option.splits if_splits)
qed

lemma start_session_result:
  assumes "start_session e user d c x s = (resp, s')"
  shows "rs_status resp = 201 \<Longrightarrow> hub s' = BindSession (ts_ID x) d (hub s) \<and>
      terminal_sessions (rows s') = terminal_sessions (rows s) \<and>
      (\<exists>p. agents (hub s) d = Some p \<and> sent (wires s') = sent (wires s) @ [(p, outbound
         (StartSession (ts_ID x) (cr_ShellPath c) (cr_WorkingDirectory c) (cr_Cols c) (cr_Rows c)))])"
    and "rs_status resp \<noteq> 201 \<Longrightarrow> sent (wires s') = sent (wires s)"
proof -
  obtain q s1 where sd: "site_send (FromWeb (StartSession (ts_ID x) (cr_ShellPath c) (cr_WorkingDirectory c)
      (cr_Cols c) (cr_Rows c))) (on_hub (BindSession (ts_ID x) d) s) = (q, s1)" by (metis surj_pair)
  note st = StartSession_sent [OF sd]
  have audit: "terminal_sessions (rows (site_audit i now ev t)) = terminal_sessions (rows t)" for i now ev t
    by (rule rows_audit [of "\<lambda>T. terminal_sessions T = terminal_sessions (rows t)"])
      (auto simp: audit_log_def CreateAuditEvent_def insertAuditEvent_def Let_def keeps_def insert_audit_def
        split: if_splits intro!: keep)
  show "rs_status resp = 201 \<Longrightarrow> hub s' = BindSession (ts_ID x) d (hub s) \<and>
      terminal_sessions (rows s') = terminal_sessions (rows s) \<and>
      (\<exists>p. agents (hub s) d = Some p \<and> sent (wires s') = sent (wires s) @ [(p, outbound
         (StartSession (ts_ID x) (cr_ShellPath c) (cr_WorkingDirectory c) (cr_Cols c) (cr_Rows c)))])"
    using assms sd st(1,2,3) by (cases q) (auto simp: start_session_def audit)
  show "rs_status resp \<noteq> 201 \<Longrightarrow> sent (wires s') = sent (wires s)"
    using assms sd st(4) by (cases q) (auto simp: start_session_def)
qed

lemma refusals_not_created [simp]:
  "rs_status (writeStoreError err x) \<noteq> 201" "readJSON L req dest = Inl resp \<Longrightarrow> rs_status resp \<noteq> 201"
  "requireUser L R now req y = (Inl resp, y1) \<Longrightarrow> rs_status resp \<noteq> 201"
  by (auto simp: writeStoreError_def readJSON_def requireUser_def split: option.splits sum.splits prod.splits if_splits)

lemma create_session_outcome:
  assumes cs: "create_session e user deviceID c s2 = (resp, s')"
    and p2: "rows s2 = rows s" "hub s2 = hub s" "presence s2 = presence s" "wires s2 = wires s"
    and dev: "Online deviceID (presence s)" "deviceID \<in> dev_ID ` set (devices (rows s))"
  shows "if rs_status resp = 201 then started_on (uuid e 0) deviceID c s s' else sent (wires s') = sent (wires s)"
proof -
  let ?y = "\<lparr>ts_ID = uuid e 0, ts_DeviceID = deviceID, ts_Title = ''shell'', ts_ShellPath = cr_ShellPath c,
    ts_WorkingDirectory = cr_WorkingDirectory c, ts_Status = SessionStarting, ts_AgentPID = 0,
    ts_LastOutputSeq = 0, ts_CreatedAt = zero_time, ts_UpdatedAt = zero_time\<rparr>"
  obtain rc s3 where rc: "site_db (CreateTerminalSession (clock e 1) ?y) s2 = (rc, s3)" by (metis surj_pair)
  note p3 = db_parts [OF rc]
  show ?thesis
  proof (cases rc)
    case (Inl err)
    with cs rc p2 p3 have "rs_status resp \<noteq> 201 \<and> sent (wires s') = sent (wires s)"
      by (auto simp: create_session_def)
    then show ?thesis by simp
  next
    case (Inr z)
    note row = CreateTerminalSession_row [OF rc [unfolded Inr]]
    have st: "start_session e user deviceID c z s3 = (resp, s')"
      using cs rc Inr by (simp add: create_session_def)
    note res = start_session_result [OF st]
    show ?thesis
    proof (cases "rs_status resp = 201")
      case True
      from res(1) [OF this] row p2 p3 dev True show ?thesis
        by (auto simp: started_on_def session_by_id_def BindSession_def)
    next
      case False
      with res(2) p2 p3 show ?thesis by simp
    qed
  qed
qed

text \<open>C39: A request for a new session answers 201 only for an online device of the database, after the
  session has got its row and route there and its start, with the normalized settings of the body,
  has been sent to the agent of that device and to nobody else. On any other answer nothing is sent.
\<close>

theorem session_starts_on_its_device:
  "case handleCreateSession L R e req deviceID s of (resp, s') \<Rightarrow>
     if rs_status resp = 201
     then \<exists>body. readJSON L req create_fields = Inr body \<and>
            started_on (uuid e 0) deviceID (NormalizeCreateRequest (create_request body)) s s'
     else sent (wires s') = sent (wires s)"
proof -
  obtain resp s' where h: "handleCreateSession L R e req deviceID s = (resp, s')" by (metis surj_pair)
  obtain ru x where ru: "requireUser L R (clock e 0) req (srv s) = (ru, x)" by (metis surj_pair)
  let ?s1 = "s\<lparr>srv := x\<rparr>"
  have r1: "rows ?s1 = rows s" using requireUser_contents [OF ru] by (simp add: rows_def)
  obtain rg s2 where rg: "site_db (GetDevice deviceID) ?s1 = (rg, s2)" by (metis surj_pair)
  note p2 = db_parts [OF rg] GetDevice_found [OF rg]
  note h1 = h [unfolded handleCreateSession_def for_user_def ru]
  have "if rs_status resp = 201
     then \<exists>body. readJSON L req create_fields = Inr body \<and>
            started_on (uuid e 0) deviceID (NormalizeCreateRequest (create_request body)) s s'
     else sent (wires s') = sent (wires s)"
  proof (cases "\<exists>user d body. ru = Inr user \<and> rg = Inr d \<and> Online deviceID (presence s) \<and>
      readJSON L req create_fields = Inr body")
    case False
    with h1 rg p2 have "rs_status resp \<noteq> 201 \<and> sent (wires s') = sent (wires s)"
      using refusals_not_created(3) [of L R "clock e 0" req "srv s" _ x] ru
      by (cases ru; cases rg; cases "readJSON L req create_fields") (auto split: if_splits)
    then show ?thesis by simp
  next
    case True
    then obtain user d body where ok: "ru = Inr user" "rg = Inr d" "Online deviceID (presence s)"
      "readJSON L req create_fields = Inr body" by blast
    from ok h1 rg p2 have cs: "create_session e user deviceID (NormalizeCreateRequest (create_request body)) s2 = (resp, s')"
      by simp
    have "deviceID \<in> dev_ID ` set (devices (rows s))" using p2 ok(2) r1 by auto
    with create_session_outcome [OF cs, of s] p2 r1 ok show ?thesis by simp
  qed
  with h show ?thesis by simp
qed

section \<open>The start of the server\<close>

text \<open>
  What the start leaves in the table of users: nothing is configured, or the administrator is there;
  and at most one user is new, with the hash of the configured password, when the name was free.
\<close>

definition admin_ready :: "(string \<Rightarrow> string option) \<Rightarrow> Config \<Rightarrow> tables \<Rightarrow> tables \<Rightarrow> bool" where
  "admin_ready hash cfg T T' \<longleftrightarrow>
     (cf_AdminUsername cfg = [] \<or> cf_AdminPassword cfg = [] \<or>
      cf_AdminUsername cfg \<in> u_Username ` set (users T')) \<and>
     (users T' = users T \<or>
      (\<exists>u h. cf_AdminUsername cfg \<notin> u_Username ` set (users T) \<and> hash (cf_AdminPassword cfg) = Some h \<and>
         users T' = users T @ [u] \<and> u_Username u = cf_AdminUsername cfg \<and> u_PasswordHash u = h))"

lemma CreateUser_row:
  assumes "CreateUser now u c = (Inr v, c1)"
  shows "\<exists>w. users (contents c1) = users (contents c) @ [w] \<and> u_Username w = u_Username u \<and>
    u_PasswordHash w = u_PasswordHash u"
proof -
  define w where "w = (let u1 = (if u_CreatedAt u = zero_time then u\<lparr>u_CreatedAt := now\<rparr> else u)
    in if u_UpdatedAt u1 = zero_time then u1\<lparr>u_UpdatedAt := now\<rparr> else u1)"
  have "CreateUser now u = bind (exec (insert_user w)) (\<lambda>_. ok w)"
    by (simp add: CreateUser_def w_def Let_def)
  with assms have "\<exists>n. insert_user w (contents c) = Some (contents c1, n)"
    by (auto simp: bind_Inr ok_Inr exec_Inr)
  then have "contents c1 = (contents c)\<lparr>users := users (contents c) @ [w]\<rparr>"
    by (auto simp: insert_user_def split: if_splits)
  moreover have "u_Username w = u_Username u" "u_PasswordHash w = u_PasswordHash u"
    by (simp_all add: w_def Let_def)
  ultimately show ?thesis by simp
qed

lemma GetUserByUsername_result:
  assumes "GetUserByUsername n c = (r, c1)"
  shows "contents c1 = contents c" "r = Inr u \<Longrightarrow> n \<in> u_Username ` set (users (contents c))"
    "r = Inl ErrNotFound \<Longrightarrow> n \<notin> u_Username ` set (users (contents c))"
proof -
  show "contents c1 = contents c"
    using assms query_row_contents [of ErrNotFound "\<lambda>T. find (\<lambda>u. u_Username u = n) (users T)" c]
    by (simp add: GetUserByUsername_def)
  show "r = Inr u \<Longrightarrow> n \<in> u_Username ` set (users (contents c))"
    using assms by (auto simp: GetUserByUsername_def query_row_Inr find_Some_iff)
  show "r = Inl ErrNotFound \<Longrightarrow> n \<notin> u_Username ` set (users (contents c))"
    using assms
    by (auto simp: GetUserByUsername_def query_row_def query_def bind_def io_def ok_def fail_def find_None_iff
        split: if_splits option.splits)
qed

lemma ensureAdmin_ready:
  assumes "ensureAdmin hash e (cf_AdminUsername cfg) (cf_AdminPassword cfg) c = (Inr u, c')"
  shows "admin_ready hash cfg (contents c) (contents c')"
proof (cases "cf_AdminUsername cfg = [] \<or> cf_AdminPassword cfg = []")
  case True
  with assms show ?thesis by (auto simp: ensureAdmin_def admin_ready_def)
next
  case False
  obtain r c1 where g: "GetUserByUsername (cf_AdminUsername cfg) c = (r, c1)" by (metis surj_pair)
  note g1 = GetUserByUsername_result [OF g]
  show ?thesis
  proof (cases r)
    case (Inr v)
    with assms False g g1 show ?thesis by (auto simp: ensureAdmin_def admin_ready_def)
  next
    case (Inl err)
    with assms False g have e: "err = ErrNotFound" by (auto simp: ensureAdmin_def split: if_splits)
    obtain h where h: "hash (cf_AdminPassword cfg) = Some h"
      using assms False g Inl e by (auto simp: ensureAdmin_def split: option.splits)
    obtain q c2 where q: "CreateUser (clock e 0) \<lparr>u_ID = uuid e 0, u_Username = cf_AdminUsername cfg,
        u_PasswordHash = h, u_CreatedAt = zero_time, u_UpdatedAt = zero_time\<rparr> c1 = (q, c2)" by (metis surj_pair)
    obtain v where "q = Inr v" "c2 = c'" using assms False g Inl e h q by (cases q) (auto simp: ensureAdmin_def)
    with CreateUser_row [of "clock e 0" _ c1 v c'] q g1(1) obtain w
      where w: "users (contents c') = users (contents c) @ [w]" "u_Username w = cf_AdminUsername cfg"
        "u_PasswordHash w = h" by fastforce
    with g1(3) Inl e h show ?thesis by (auto simp: admin_ready_def)
  qed
qed

text \<open>When the server starts, its router has the configured secret, sessions of a day, a positive
  upload limit and the two-factor keys of the secret; its limiters are empty and lock after five
  failures, no agent is connected, and the configured administrator exists. An administrator that
  was there keeps the password it had.
\<close>

theorem server_starts:
  "case server_main H d of
     Inl _ \<Rightarrow> True
   | Inr (R, s) \<Rightarrow>
       \<exists>cfg c m. Load (ho_readFile H) (ho_yaml H) (ho_getenv H) = Inr cfg \<and>
         ho_openDB H (cf_DatabasePath cfg) = Some c \<and>
         NewTwoFactorManager (ho_hkdf H) (ho_gcm H) (cf_SessionSecret cfg) = Some m \<and>
         R = \<lparr>rt_twoFactor = Some m, rt_secret = cf_SessionSecret cfg, rt_ttl = 24 * hour,
              rt_fsMaxUpload = cf_FsMaxUploadSize cfg\<rparr> \<and> 0 < cf_FsMaxUploadSize cfg \<and>
         admin_ready (ho_hash H) cfg (contents c) (rows s) \<and>
         (list_all (\<lambda>l. entries l = [] \<and> maxFailures l = 5 \<and> blockFor l = 15 * minute \<and> maxEntries l = 5000)
            [passwordLimiter (srv s), twoFactorLimiter (srv s), managementLimiter (srv s)]) \<and>
         hub s = NewHub \<and> presence s = NewPresence \<and> fs s = NewService"
proof -
  have sized: "0 < cf_FsMaxUploadSize cfg \<and> cf_SessionDuration cfg = 24 * hour"
    if "Load rf y g = Inr cfg" for rf y g cfg
    using that by (auto simp: Load_def applyEnv_def applyFile_def defaultConfig_def upload_size_def
        split: if_splits sum.splits option.splits)
  have lim: "NewFailureLimiter 5 (10 * minute) (15 * minute) 5000 =
      Inr \<lparr>entries = [], maxFailures = 5, window = 10 * minute, blockFor = 15 * minute, maxEntries = 5000\<rparr>"
    "NewFailureLimiter 5 (5 * minute) (15 * minute) 5000 =
      Inr \<lparr>entries = [], maxFailures = 5, window = 5 * minute, blockFor = 15 * minute, maxEntries = 5000\<rparr>"
    by (simp_all add: NewFailureLimiter_def minute_def second_def)
  show ?thesis
  proof (cases "server_main H d")
    case (Inl err)
    then show ?thesis by simp
  next
    case (Inr z)
    obtain cfg where cfg: "Load (ho_readFile H) (ho_yaml H) (ho_getenv H) = Inr cfg"
      using Inr by (auto simp: server_main_def split: sum.splits)
    obtain d1 where d1: "ensureDatabaseDir (cf_DatabasePath cfg) d = (True, d1)"
      using Inr cfg by (auto simp: server_main_def split: prod.splits bool.splits)
    obtain c where c: "ho_openDB H (cf_DatabasePath cfg) = Some c"
      using Inr cfg d1 by (auto simp: server_main_def split: option.splits)
    obtain u c1 where ad: "ensureAdmin (ho_hash H) (ho_env H) (cf_AdminUsername cfg) (cf_AdminPassword cfg) c = (Inr u, c1)"
      using Inr cfg d1 c by (auto simp: server_main_def split: prod.splits sum.splits)
    obtain m where m: "NewTwoFactorManager (ho_hkdf H) (ho_gcm H) (cf_SessionSecret cfg) = Some m"
      using Inr cfg d1 c ad by (auto simp: server_main_def split: option.splits)
    have "NewRouter (server_deps cfg m c1 d1) = Inr z"
      using Inr cfg d1 c ad m by (auto simp: server_main_def split: sum.splits)
    with cfg c m sized [OF cfg] ensureAdmin_ready [OF ad] show ?thesis
      unfolding Inr by (auto simp: NewRouter_def default_limiter_def server_deps_def lim router_of_def
          site_of_def rows_def)
  qed
qed

end
