(* ===== verification/SiteClaims.thy ===== *)
theory SiteClaims
  imports SiteFrame RouteClaims
begin

text \<open>
  What holds in every state the server can reach, whatever requests, agents and browsers it meets and
  in whatever order, with file transfers open meanwhile: the constraints of the database, that recovery
  codes are kept for enabled settings only, the sets of subscribers, the routes of the sessions to the
  devices of their rows, and that a device is online when an agent is attached for it. So what a browser
  types reaches the session's own device and no other agent.
\<close>

section \<open>The invariant\<close>

lemma routes_simps [simp]:
  "sessionDevices (BindSession i d h) = (sessionDevices h)(i \<mapsto> d)"
  "sessionDevices (AttachAgent d p h) = sessionDevices h" "sessionDevices (DetachAgent d h) = sessionDevices h"
  "sessionDevices (SubscribeWeb i p h) = sessionDevices h"
  "sessionDevices (UnsubscribePeer p h) = sessionDevices h"
  by (simp_all add: BindSession_def AttachAgent_def DetachAgent_def SubscribeWeb_def UnsubscribePeer_def)

definition routes_right :: "site \<Rightarrow> bool" where
  "routes_right s \<longleftrightarrow> (\<forall>i d x. sessionDevices (hub s) i = Some d \<longrightarrow> session_by_id i (rows s) = Some x \<longrightarrow>
     ts_DeviceID x = d)"

text \<open>The devices that are shown online are the ones with a connection.\<close>

definition present :: "site \<Rightarrow> bool" where
  "present s \<longleftrightarrow> (\<forall>d. Online d (presence s) \<longleftrightarrow> agents (hub s) d \<noteq> None)"

definition site_inv :: "site \<Rightarrow> bool" where
  "site_inv s \<longleftrightarrow> wf_tables (rows s) \<and> codes_guarded (rows s) \<and> hub_inv (hub s) \<and> routes_right s \<and> present s"

lemma agents_simps [simp]:
  "agents (AttachAgent d p h) = (agents h)(d \<mapsto> p)" "agents (DetachAgent d h) = (agents h)(d := None)"
  "agents (BindSession i d h) = agents h" "agents (SubscribeWeb i p h) = agents h"
  "agents (UnsubscribePeer p h) = agents h"
  by (simp_all add: BindSession_def AttachAgent_def DetachAgent_def SubscribeWeb_def UnsubscribePeer_def)

text \<open>The devices of the rows, which is what the routes are about.\<close>

definition owner :: "tables \<Rightarrow> string \<rightharpoonup> string" where
  "owner T i = map_option ts_DeviceID (session_by_id i T)"

lemma routes_right_owner:
  "routes_right s \<longleftrightarrow> (\<forall>i d d'. sessionDevices (hub s) i = Some d \<longrightarrow> owner (rows s) i = Some d' \<longrightarrow> d' = d)"
  by (auto simp: routes_right_def owner_def)

lemma owner_same: "terminal_sessions T' = terminal_sessions T \<Longrightarrow> owner T' = owner T"
  by (simp add: owner_def session_by_id_def fun_eq_iff)

lemma owner_edit:
  assumes "\<And>x. ts_ID (f x) = ts_ID x" "\<And>x. ts_DeviceID (f x) = ts_DeviceID x"
    and "terminal_sessions T' = map f (terminal_sessions T)"
  shows "owner T' = owner T"
proof -
  have "map_option ts_DeviceID (find (\<lambda>x. ts_ID x = i) (map f xs)) =
      map_option ts_DeviceID (find (\<lambda>x. ts_ID x = i) xs)" for i xs
    by (induction xs) (simp_all add: assms)
  then show ?thesis by (simp add: owner_def session_by_id_def assms(3) fun_eq_iff)
qed

lemma owner_keeps: "untouched terminal_sessions st \<Longrightarrow> keeps (\<lambda>T. owner T = f) st"
  by (erule untouched_keeps) (metis owner_same)

lemma untouched_sessions [simp]:
  "untouched terminal_sessions (insert_user u)"
  "untouched terminal_sessions (stmt_bump_counter c now uid cfg)"
  "untouched terminal_sessions (stmt_use_recovery now uid h)"
  "untouched terminal_sessions (stmt_upsert_pending x)"
  "untouched terminal_sessions (stmt_insert_pending x)"
  "untouched terminal_sessions (stmt_replace_pending x prev)"
  "untouched terminal_sessions (stmt_enable uid cfg c now)"
  "untouched terminal_sessions (stmt_delete_recovery uid)"
  "untouched terminal_sessions (stmt_insert_recovery uid now code)"
  "untouched terminal_sessions (stmt_delete_enabled uid)"
  "untouched terminal_sessions (stmt_insert_token t)"
  "untouched terminal_sessions (stmt_revoke_token i now)"
  "untouched terminal_sessions (stmt_delete_token i)"
  "untouched terminal_sessions (stmt_use_token i now)"
  "untouched terminal_sessions (stmt_insert_device d)"
  "untouched terminal_sessions (stmt_rename_device i name now)"
  "untouched terminal_sessions (stmt_touch_device i seen now)"
  "untouched terminal_sessions (insert_audit e)"
  "untouched terminal_sessions (stmt_insert_chunk oc)"
  "untouched terminal_sessions (stmt_insert_snippet sn)"
  "untouched terminal_sessions (stmt_update_snippet i name cmd now)"
  "untouched terminal_sessions (stmt_delete_snippet i)"
  "untouched terminal_sessions (stmt_purge_expired now)"
  "untouched terminal_sessions (stmt_drop_active uid now)"
  "untouched terminal_sessions (stmt_insert_challenge ch)"
  "untouched terminal_sessions (stmt_consume_challenge now jti uid cfg)"
  by (rule untouchedI, auto simp: stmt_frame_defs split: if_splits)+

lemma session_stmts: "\<not> session_op x \<Longrightarrow> st \<in> op_stmts x \<Longrightarrow> untouched terminal_sessions st"
  by (cases x) (auto simp: Let_def)

lemma wf_ops: "preserves wf_tables (apply_op x)"
  by (rule op_preserves) (rule wf_keeps_stmts)

lemma owner_ops: "\<not> session_op x \<Longrightarrow> preserves (\<lambda>T. owner T = f) (apply_op x)"
  by (rule op_preserves) (rule owner_keeps, rule session_stmts)


lemma rows_title:
  "\<exists>f. (\<forall>x. ts_ID (f x) = ts_ID x \<and> ts_DeviceID (f x) = ts_DeviceID x) \<and>
    terminal_sessions (rows (snd (site_db (UpdateTerminalSessionTitle now i t) s))) = map f (terminal_sessions (rows s))"
proof -
  let ?f = "\<lambda>x :: TerminalSession. if ts_ID x = i then x\<lparr>ts_Title := t, ts_UpdatedAt := now\<rparr> else x"
  from exec_rows [of "stmt_session_title i t now" ErrNotFound "db (srv s)"]
  have "terminal_sessions (rows (snd (site_db (UpdateTerminalSessionTitle now i t) s))) \<in>
      {terminal_sessions (rows s), map ?f (terminal_sessions (rows s))}"
    by (auto simp: rows_def UpdateTerminalSessionTitle_def stmt_session_title_def sql_update_def)
  then show ?thesis
  proof (elim insertE emptyE)
    assume "terminal_sessions (rows (snd (site_db (UpdateTerminalSessionTitle now i t) s))) = terminal_sessions (rows s)"
    then show ?thesis by (intro exI [of _ "\<lambda>x. x"]) simp
  next
    assume "terminal_sessions (rows (snd (site_db (UpdateTerminalSessionTitle now i t) s))) =
      map ?f (terminal_sessions (rows s))"
    then show ?thesis by (intro exI [of _ ?f]) simp
  qed
qed

lemma owner_status: "owner (rows (snd (site_db (UpdateTerminalSessionStatus now i st pid sq) s))) = owner (rows s)"
proof -
  have "owner (with_status i st pid sq now T) = owner T" for T
    by (rule owner_edit [of "\<lambda>x. if ts_ID x = i then set_status st pid sq now x else x"])
      (simp_all add: set_status_def with_status_def)
  then show ?thesis using rows_status [of now i st pid sq s] by (auto simp: try_db_def)
qed

lemma owner_title: "owner (rows (snd (site_db (UpdateTerminalSessionTitle now i t) s))) = owner (rows s)"
  using rows_title [of now i t s] owner_edit by metis

text \<open>What every operation preserves.\<close>

definition rows_good :: "tables \<Rightarrow> bool" where
  "rows_good T \<longleftrightarrow> wf_tables T \<and> codes_guarded T"

lemma good_ops: "preserves rows_good (apply_op x)"
  using wf_ops [of x] guarded_ops [of x] by (auto simp: preserves_def rows_good_def)

lemma good_session_calls:
  assumes "rows_good (rows s)"
  shows "rows_good (rows (snd (site_db (UpdateTerminalSessionStatus now i st pid sq) s)))"
    "rows_good (rows (snd (site_db (UpdateTerminalSessionTitle now i t) s)))"
    "rows_good (rows (snd (site_db (CreateTerminalSession now y) s)))"
  using good_ops [of "OpSessionStatus now i st pid sq"] good_ops [of "OpSessionTitle now i t"]
    good_ops [of "OpCreateSession now y"] assms
  by (simp_all add: rows_site_db preserves_void)

lemma site_inv_parts:
  "site_inv s \<longleftrightarrow> rows_good (rows s) \<and> hub_inv (hub s) \<and> routes_right s \<and> present s"
  by (auto simp: site_inv_def rows_good_def)

lemma routes_created:
  assumes "routes_right s" and none: "session_by_id (ts_ID y) (rows s) = None"
  shows "routes_right (on_hub (BindSession (ts_ID y) (ts_DeviceID y)) (snd (site_db (CreateTerminalSession now y) s)))"
proof -
  obtain r s1 where r: "site_db (CreateTerminalSession now y) s = (r, s1)" by force
  have hub: "hub s1 = hub s" by (rule hub_call [OF r])
  show ?thesis
  proof (cases r)
    case (Inl err)
    then have "rows s1 = rows s" using create_outcome(1) [OF r] by simp
    then show ?thesis using assms r hub by (auto simp: routes_right_def)
  next
    case (Inr x)
    note x = create_outcome(3,4) [OF r this]
    have "owner (rows s1) = (owner (rows s))(ts_ID y \<mapsto> ts_DeviceID y)"
      using x none by (auto simp: owner_def session_by_id_def find_snoc fun_eq_iff split: option.split)
    then show ?thesis using assms(1) r hub by (auto simp: routes_right_owner split: if_splits)
  qed
qed

lemmas site_inv_simps = site_inv_parts good_session_calls routes_right_owner present_def

interpretation system: site_frame site_inv
proof unfold_locales
  fix s s' :: site
  assume "site_inv s" "rows s' = rows s" "hub s' = hub s" "presence s' = presence s"
  then show "site_inv s'" by (simp add: site_inv_simps)
next
  fix s s' :: site and opn
  assume s: "site_inv s" and x: "\<not> session_op opn"
    and s': "rows s' = contents (snd (apply_op opn (db (srv s))))" "hub s' = hub s" "presence s' = presence s"
  have "owner (rows s') = owner (rows s)"
    using owner_ops [OF x, of "owner (rows s)"] unfolding preserves_def s'(1) by (simp add: rows_def)
  moreover have "rows_good (rows s')"
    using good_ops [of opn] s unfolding preserves_def s'(1) by (simp add: rows_def site_inv_parts)
  ultimately show "site_inv s'" using s s' by (simp add: site_inv_simps)
next
  fix s :: site and now i st pid sq
  assume "site_inv s"
  then show "site_inv (snd (site_db (UpdateTerminalSessionStatus now i st pid sq) s))"
    by (simp add: site_inv_simps owner_status)
next
  fix s :: site and now i t
  assume "site_inv s"
  then show "site_inv (snd (site_db (UpdateTerminalSessionTitle now i t) s))"
    by (simp add: site_inv_simps owner_title)
next
  fix s :: site and now and y :: TerminalSession
  assume "site_inv s" "session_by_id (ts_ID y) (rows s) = None"
  then show "site_inv (on_hub (BindSession (ts_ID y) (ts_DeviceID y)) (snd (site_db (CreateTerminalSession now y) s)))"
    by (simp add: site_inv_parts good_session_calls routes_created hub_inv_def present_def)
next
  fix s :: site and i and x :: TerminalSession
  assume "site_inv s" "session_by_id i (rows s) = Some x"
  then show "site_inv (on_hub (BindSession i (ts_DeviceID x)) s)"
    by (auto simp: site_inv_parts hub_inv_def routes_right_def present_def)
qed (auto simp: site_inv_simps hub_inv_def distinct_removeAll)

text \<open>The constraints alone, for the handlers that only use the database.\<close>

interpretation constraints: server_frame wf_tables
  by unfold_locales (rule wf_ops)

section \<open>The start\<close>

text \<open>
  The databases that opening gives satisfy their declared constraints and hold recovery codes for
  enabled settings only. An empty database does.
\<close>

definition opens_sound :: "host \<Rightarrow> bool" where
  "opens_sound H \<longleftrightarrow> (\<forall>path c. ho_openDB H path = Some c \<longrightarrow> rows_good (contents c))"

lemma start_inv:
  assumes "server_main H d = Inr (R, s)" and opened: "opens_sound H"
  shows "site_inv s"
proof -
  from assms(1) obtain cfg c c1 u m d1 where c: "ho_openDB H (cf_DatabasePath cfg) = Some c"
    and ad: "ensureAdmin (ho_hash H) (ho_env H) (cf_AdminUsername cfg) (cf_AdminPassword cfg) c = (Inr u, c1)"
    and new: "NewRouter (server_deps cfg m c1 d1) = Inr (R, s)"
    by (auto simp: server_main_def split: sum.splits prod.splits bool.splits option.splits)
  have "preserves rows_good (GetUserByUsername n)" for n unfolding GetUserByUsername_def by (rule keep)
  moreover have "preserves rows_good (CreateUser now y)" for now y
    using good_ops [of "OpCreateUser now y"] by (simp add: preserves_void)
  ultimately have "rows_good (contents c1)"
    using opened [unfolded opens_sound_def] c ad
    by (auto simp: ensureAdmin_def preserves_def split: if_splits prod.splits sum.splits option.splits) (metis snd_conv)+
  with new show ?thesis
    by (auto simp: NewRouter_def site_of_def server_deps_def rows_def site_inv_parts routes_right_def hub_inv_def
        present_def NewHub_def NewPresence_def Online_def subscribers_def split: sum.splits)
qed

section \<open>What a browser types\<close>

text \<open>
  Replies go to the browser itself; everything else is a message of one session for the connection
  of one device, and when the session has a row the row names this device.
\<close>

definition typed_targets :: "site \<Rightarrow> peer \<Rightarrow> (peer \<times> Outbound) set" where
  "typed_targets s p = {(q, m). q = p \<or> ob_Type m \<in> {TypeStdin, TypeResize} \<and>
     (\<exists>d. agents (hub s) d = Some q \<and>
        (case session_by_id (ob_SessionID m) (rows s) of None \<Rightarrow> True | Some x \<Rightarrow> ts_DeviceID x = d))}"

lemma typed_reply: "sent (wires t) = sent (wires s) \<Longrightarrow> sends (typed_targets s p) s (reply_to p m t)"
  using Send_sent [of p m "wires t"] by (auto simp: sends_def reply_to_def typed_targets_def)

lemma typed_forward:
  assumes routes: "routes_right s" and m: "typeOf m \<in> {TypeStdin, TypeResize}"
  shows "sends (typed_targets s p) s (web_forward tr m p s)"
proof -
  obtain r s1 where r: "site_send (FromWeb m) s = (r, s1)" by force
  show ?thesis
  proof (cases "\<exists>d q. sessionDevices (hub s) (sessionIDOf m) = Some d \<and> agents (hub s) d = Some q")
    case False
    then have "wires s1 = wires s" "r \<noteq> None"
      using r by (auto simp: site_send_def FromWeb_def split: option.splits)
    then show ?thesis using r by (auto simp: web_forward_def typed_reply)
  next
    case True
    then obtain d q where d: "sessionDevices (hub s) (sessionIDOf m) = Some d" "agents (hub s) d = Some q" by blast
    have ok: "(q, outbound m) \<in> typed_targets s p"
      using routes m d by (auto simp: typed_targets_def outbound_def routes_right_def split: option.split)
    from r d have s1: "wires s1 = snd (Send q (outbound m) (wires s))" and res: "r = (if fst (Send q (outbound m) (wires s)) then None else Some SendFailed)"
      by (auto simp: site_send_def FromWeb_def send_result_def)
    show ?thesis
    proof (cases "fst (Send q (outbound m) (wires s))")
      case True
      then have "sent (wires s1) = sent (wires s) @ [(q, outbound m)]"
        unfolding s1 by (auto simp: Send_def split: if_splits)
      with True r res ok show ?thesis by (simp add: web_forward_def sends_def)
    next
      case False
      then have "sent (wires s1) = sent (wires s)" unfolding s1 by (auto simp: Send_def split: if_splits)
      with False r res show ?thesis by (simp add: web_forward_def typed_reply)
    qed
  qed
qed

lemma typed_subscribe: "sends (typed_targets s p) s (web_subscribe i p s)"
proof -
  obtain r s1 where r: "site_db (GetTerminalSession i) s = (r, s1)" by force
  then have "wires s1 = wires s" using site_parts(3) [of "GetTerminalSession i" s] by simp
  with r show ?thesis by (auto simp: web_subscribe_def split: sum.split intro!: typed_reply)
qed

section \<open>The properties\<close>

text \<open>A machine without a configuration, whose database is \<open>c\<close>.\<close>

definition host_on :: "tables conn \<Rightarrow> host" where
  "host_on c = \<lparr>ho_readFile = (\<lambda>_. None), ho_yaml = (\<lambda>_. None),
     ho_getenv = (\<lambda>v. if v = ''VIBE_DB'' then ''vibe.db'' else []), ho_openDB = (\<lambda>_. Some c),
     ho_hash = (\<lambda>_. None), ho_hkdf = (\<lambda>_ _. Some []), ho_gcm = (\<lambda>_. Some (\<lambda>_ p. p, \<lambda>_ c. Some c)), ho_env = sample_clock\<rparr>"

definition sample_host :: host where
  "sample_host = host_on (calm sample_rows)"

lemma host_starts: "\<exists>R s. server_main (host_on c) \<lparr>files = Map.empty, io_script = []\<rparr> = Inr (R, s) \<and> db (srv s) = c"
proof -
  have cfg: "Load (ho_readFile (host_on c)) (ho_yaml (host_on c)) (ho_getenv (host_on c)) =
      Inr (defaultConfig\<lparr>cf_DatabasePath := ''vibe.db''\<rparr>)"
    by (simp add: host_on_def Load_def applyEnv_def defaultConfig_def override_def)
  have dir: "Dir ''vibe.db'' = ''.''" by code_simp
  show ?thesis
    unfolding server_main_def cfg
    by (simp add: host_on_def ensureDatabaseDir_def dir ensureAdmin_def defaultConfig_def NewTwoFactorManager_def
        derivePurposeKey_def NewRouter_def default_limiter_def server_deps_def site_of_def NewFailureLimiter_def
        minute_def second_def)
qed

lemma sample_host_starts: "\<exists>R s. server_main sample_host \<lparr>files = Map.empty, io_script = []\<rparr> = Inr (R, s)"
  using host_starts [of "calm sample_rows"] unfolding sample_host_def by blast

lemma sample_host_rows: "opens_sound sample_host"
  using sample_rows_facts(1) by (auto simp: opens_sound_def sample_host_def host_on_def sample_site_def rows_def rows_good_def
      codes_guarded_def sample_rows_def empty_tables_def)

lemma sample_site_run: "site_run L R s (agent_disconnected sample_clock ''d1'' (web_closed 8 s))"
  by (rule site_run.agent_ends, rule site_run.web_ends, rule site_run.starts)

text \<open>C27: In every state that a server started on a database in order can reach, by requests, agents and
  browsers in any order and with any failures of the database, the constraints of the tables hold,
  recovery codes belong to users whose second factor is enabled, no browser is subscribed twice to a
  session, the route of a session with a row leads to the device of the row, and the devices shown
  online are exactly those an agent is attached for.\<close>

theorem server_invariant:
  assumes "server_main H d = Inr (R, s0)" and "opens_sound H" and "site_run L R s0 s"
  shows "wf_tables (rows s) \<and> codes_guarded (rows s) \<and> hub_inv (hub s) \<and> routes_right s \<and> present s"
  using system.run_kept [OF assms(3) start_inv [OF assms(1,2)]] by (simp add: site_inv_def)

theorem server_invariant_witness:
  "\<exists>R s0. server_main sample_host \<lparr>files = Map.empty, io_script = []\<rparr> = Inr (R, s0) \<and>
     present (agent_disconnected sample_clock ''d1'' (web_closed 8 s0))"
proof -
  obtain R s0 where s0: "server_main sample_host \<lparr>files = Map.empty, io_script = []\<rparr> = Inr (R, s0)"
    using sample_host_starts by blast
  from server_invariant [OF s0 sample_host_rows sample_site_run [of conn_libs]]
  have "present (agent_disconnected sample_clock ''d1'' (web_closed 8 s0))" by (elim conjE)
  with s0 show ?thesis by (intro exI conjI)
qed

text \<open>C28: In every state the server can reach, a message of a browser makes the server send replies to this
  browser, and what is typed or resized to the agent attached for one device: the device of the
  session's row. No other agent and no other browser hears of it.\<close>

theorem typed_input_reaches_owner:
  assumes "server_main H d = Inr (R, s0)" and "opens_sound H" and "site_run L R s0 s"
  shows "sends (typed_targets s p) s (web_message L transport data p s)"
proof -
  have "routes_right s" using system.run_kept [OF assms(3) start_inv [OF assms(1,2)]] by (simp add: site_inv_def)
  then show ?thesis unfolding web_message_def
    by (intro sends_if sends_option typed_reply typed_subscribe)
      (auto split: prod.split intro!: typed_forward simp: typeOf_def)
qed

theorem typed_input_reaches_owner_witness:
  "\<exists>R s0. server_main sample_host \<lparr>files = Map.empty, io_script = []\<rparr> = Inr (R, s0) \<and>
     (let s = agent_disconnected sample_clock ''d1'' (web_closed 8 s0)
      in sends (typed_targets s 7) s (web_message conn_libs ''gone'' ''hello'' 7 s))"
proof -
  obtain R s0 where s0: "server_main sample_host \<lparr>files = Map.empty, io_script = []\<rparr> = Inr (R, s0)"
    using sample_host_starts by blast
  with typed_input_reaches_owner [OF s0 sample_host_rows sample_site_run [of conn_libs]] show ?thesis
    unfolding Let_def by (intro exI conjI)
qed

end
