(* ===== verification/AgentPty.thy ===== *)
theory AgentPty
  imports FileAgent
begin

text \<open>
  The terminals of an agent: \<^verbatim>\<open>agent/src/buffer.rs\<close>, \<^verbatim>\<open>registry.rs\<close> and \<^verbatim>\<open>pty_manager.rs\<close>. What the
  operating system does (whether a shell starts, a terminal takes input or a new size) is an argument;
  what a shell prints, and its end, arrive as events of its reader thread on one channel.
\<close>

section \<open>Ordered maps\<close>

text \<open>\<^verbatim>\<open>BTreeMap<String, _>\<close>: pairs in the order of their keys, which is that of the bytes.\<close>

fun str_less :: "string \<Rightarrow> string \<Rightarrow> bool" where
  "str_less [] [] = False"
| "str_less [] (b # bs) = True"
| "str_less (a # as) [] = False"
| "str_less (a # as) (b # bs) =
     ((of_char a :: nat) < of_char b \<or> a = b \<and> str_less as bs)"

fun bt_insert :: "string \<Rightarrow> 'a \<Rightarrow> (string \<times> 'a) list \<Rightarrow> (string \<times> 'a) list" where
  "bt_insert k v [] = [(k, v)]"
| "bt_insert k v ((l, w) # m) =
     (if k = l then (k, v) # m else if str_less k l then (k, v) # (l, w) # m else (l, w) # bt_insert k v m)"

definition bt_remove :: "string \<Rightarrow> (string \<times> 'a) list \<Rightarrow> (string \<times> 'a) list" where
  "bt_remove k m = filter (\<lambda>p. fst p \<noteq> k) m"

lemma map_of_bt_remove [simp]: "map_of (bt_remove k m) = (map_of m)(k := None)"
  by (induction m) (auto simp: bt_remove_def fun_eq_iff)

lemma map_of_bt_insert [simp]: "map_of (bt_insert k v m) = (map_of m)(k \<mapsto> v)"
  by (induction k v m rule: bt_insert.induct) (auto simp: fun_eq_iff)

section \<open>The buffer of a session\<close>

record OutputFrame =
  fr_seq :: int
  fr_data :: string

record OutputBuffer =
  bf_max :: nat
  bf_next :: int
  bf_frames :: "OutputFrame list"

definition buffer_new :: "nat \<Rightarrow> OutputBuffer" where
  "buffer_new n = \<lparr>bf_max = n, bf_next = 1, bf_frames = []\<rparr>"

text \<open>The loop that removes frames from the front removes those that are too many.\<close>

definition buffer_push :: "string \<Rightarrow> OutputBuffer \<Rightarrow> OutputFrame \<times> OutputBuffer" where
  "buffer_push data b =
     (let frame = \<lparr>fr_seq = bf_next b, fr_data = data\<rparr>;
          frames = bf_frames b @ [frame]
      in (frame, b\<lparr>bf_next := bf_next b + 1, bf_frames := drop (length frames - bf_max b) frames\<rparr>))"

definition frames_since :: "int \<Rightarrow> OutputBuffer \<Rightarrow> OutputFrame list" where
  "frames_since seq b = filter (\<lambda>f. seq < fr_seq f) (bf_frames b)"

section \<open>The registry of sessions\<close>

text \<open>A record has the fields of the summaries a greeting carries.\<close>

type_synonym SessionRegistry = "(string \<times> SessionSummary) list"

definition registry_upsert :: "SessionSummary \<Rightarrow> SessionRegistry \<Rightarrow> SessionRegistry" where
  "registry_upsert x r = bt_insert (sum_SessionID x) x r"

definition mark_lost_after_restart :: "SessionRegistry \<Rightarrow> SessionRegistry" where
  "mark_lost_after_restart r =
     map (\<lambda>(k, x). (k, if sum_Status x = ''running'' \<or> sum_Status x = ''starting''
                        then x\<lparr>sum_Status := ''lost''\<rparr> else x)) r"

definition registry_list :: "SessionRegistry \<Rightarrow> SessionSummary list" where
  "registry_list r = map snd r"

section \<open>The manager of the terminals\<close>

text \<open>What a session's terminal was given: its input and its size, besides the process.\<close>

record ManagedSession =
  ms_pid :: int
  ms_input :: string
  ms_size :: "int \<times> int"

datatype PtyEvent = PrintedBy string string | EndOf string

record PtyManager =
  pt_sessions :: "(string \<times> ManagedSession) list"
  pt_channel :: "PtyEvent list"
  pt_pending :: "(string \<times> string list) list"
  pt_exited :: "(string \<times> unit) list"

definition pty_new :: PtyManager where
  "pty_new = \<lparr>pt_sessions = [], pt_channel = [], pt_pending = [], pt_exited = []\<rparr>"

text \<open>\<open>spawned\<close>: the process, or None when the terminal or the shell cannot be had.\<close>

definition pty_start :: "int option \<Rightarrow> string \<Rightarrow> int \<Rightarrow> int \<Rightarrow> PtyManager \<Rightarrow> int option \<times> PtyManager" where
  "pty_start spawned i cols nrows m =
     (case spawned of
        None \<Rightarrow> (None, m)
      | Some pid \<Rightarrow>
          (Some pid, m\<lparr>pt_sessions := bt_insert i \<lparr>ms_pid = pid, ms_input = [], ms_size = (cols, nrows)\<rparr> (pt_sessions m)\<rparr>))"

text \<open>\<open>taken\<close>: None when the terminal takes all the input, otherwise how much of it before it fails.\<close>

definition pty_write :: "nat option \<Rightarrow> string \<Rightarrow> string \<Rightarrow> PtyManager \<Rightarrow> bool \<times> PtyManager" where
  "pty_write taken i data m =
     (case map_of (pt_sessions m) i of
        None \<Rightarrow> (False, m)
      | Some x \<Rightarrow>
          (taken = None, m\<lparr>pt_sessions := bt_insert i
             (x\<lparr>ms_input := ms_input x @ (case taken of None \<Rightarrow> data | Some n \<Rightarrow> take n data)\<rparr>) (pt_sessions m)\<rparr>))"

definition pty_resize :: "bool \<Rightarrow> string \<Rightarrow> int \<Rightarrow> int \<Rightarrow> PtyManager \<Rightarrow> bool \<times> PtyManager" where
  "pty_resize works i cols nrows m =
     (case map_of (pt_sessions m) i of
        None \<Rightarrow> (False, m)
      | Some x \<Rightarrow>
          (works, if works then m\<lparr>pt_sessions := bt_insert i (x\<lparr>ms_size := (cols, nrows)\<rparr>) (pt_sessions m)\<rparr> else m))"

definition has_session :: "string \<Rightarrow> PtyManager \<Rightarrow> bool" where
  "has_session i m \<longleftrightarrow> map_of (pt_sessions m) i \<noteq> None"

definition pending_of :: "string \<Rightarrow> PtyManager \<Rightarrow> string list" where
  "pending_of i m = (case map_of (pt_pending m) i of None \<Rightarrow> [] | Some ds \<Rightarrow> ds)"

definition push_pending :: "string \<Rightarrow> string \<Rightarrow> PtyManager \<Rightarrow> PtyManager" where
  "push_pending i data m = m\<lparr>pt_pending := bt_insert i (pending_of i m @ [data]) (pt_pending m)\<rparr>"

definition note_exit :: "string \<Rightarrow> PtyManager \<Rightarrow> PtyManager" where
  "note_exit i m =
     (if has_session i m
      then m\<lparr>pt_sessions := bt_remove i (pt_sessions m), pt_exited := bt_insert i () (pt_exited m)\<rparr>
      else m)"

text \<open>The loop over the events that have arrived, with the output of the session \<open>i\<close> so far.\<close>

fun read_events :: "string \<Rightarrow> PtyEvent list \<Rightarrow> string \<Rightarrow> PtyManager \<Rightarrow> string \<times> PtyManager" where
  "read_events i [] out m = (out, m)"
| "read_events i (PrintedBy j data # es) out m =
     (if j = i then read_events i es (out @ data) m else read_events i es out (push_pending j data m))"
| "read_events i (EndOf j # es) out m = read_events i es out (note_exit j m)"

text \<open>None is the error for a session that is not there.\<close>

definition read_available :: "string \<Rightarrow> PtyManager \<Rightarrow> string option \<times> PtyManager" where
  "read_available i m =
     (if \<not> has_session i m then (None, m)
      else (case read_events i (pt_channel m) (concat (pending_of i m))
                  (m\<lparr>pt_pending := bt_remove i (pt_pending m), pt_channel := []\<rparr>) of
              (out, m1) \<Rightarrow> (Some out, m1)))"

fun drain_events :: "PtyEvent list \<Rightarrow> PtyManager \<Rightarrow> PtyManager" where
  "drain_events [] m = m"
| "drain_events (PrintedBy j data # es) m = drain_events es (push_pending j data m)"
| "drain_events (EndOf j # es) m = drain_events es (note_exit j m)"

definition drain_exited :: "PtyManager \<Rightarrow> string list \<times> PtyManager" where
  "drain_exited m =
     (let m1 = drain_events (pt_channel m) (m\<lparr>pt_channel := []\<rparr>)
      in (map fst (pt_exited m1), m1\<lparr>pt_exited := []\<rparr>))"

definition pty_close :: "string \<Rightarrow> PtyManager \<Rightarrow> PtyManager" where
  "pty_close i m = m\<lparr>pt_sessions := bt_remove i (pt_sessions m)\<rparr>"

section \<open>What is read\<close>

text \<open>
  The output of a session that waits: what is pending, and what is still in the channel. The manager
  neither loses nor reorders any of it.
\<close>

fun printed_in :: "string \<Rightarrow> PtyEvent list \<Rightarrow> string" where
  "printed_in i [] = []"
| "printed_in i (PrintedBy j data # es) = (if j = i then data else []) @ printed_in i es"
| "printed_in i (EndOf j # es) = printed_in i es"

definition waiting :: "string \<Rightarrow> PtyManager \<Rightarrow> string" where
  "waiting i m = concat (pending_of i m) @ printed_in i (pt_channel m)"

lemma printed_in_append [simp]: "printed_in i (es @ es2) = printed_in i es @ printed_in i es2"
  by (induction i es rule: printed_in.induct) auto

lemma pty_parts [simp]:
  "pending_of j (push_pending i data m) = (if j = i then pending_of i m @ [data] else pending_of j m)"
  "pt_channel (push_pending i data m) = pt_channel m" "pt_sessions (push_pending i data m) = pt_sessions m"
  "pending_of j (note_exit i m) = pending_of j m" "pt_channel (note_exit i m) = pt_channel m"
  "has_session j (push_pending i data m) = has_session j m"
  "has_session j (note_exit i m) \<longleftrightarrow> j \<noteq> i \<and> has_session j m"
  by (auto simp: push_pending_def note_exit_def pending_of_def has_session_def)

lemma read_events_effect:
  assumes "read_events i es out m = (r, m1)"
  shows "r = out @ printed_in i es" "pt_channel m1 = pt_channel m"
    "concat (pending_of j m1) = concat (pending_of j m) @ (if j = i then [] else printed_in j es)"
    "has_session j m1 \<Longrightarrow> has_session j m"
  using assms by (induction i es out m rule: read_events.induct) (auto split: if_splits)

lemma read_available_effect:
  assumes "read_available i m = (Some r, m1)"
  shows "r = waiting i m" "waiting j m1 = (if j = i then [] else waiting j m)" "pt_channel m1 = []"
    "has_session j m1 \<Longrightarrow> has_session j m"
proof -
  let ?m = "m\<lparr>pt_pending := bt_remove i (pt_pending m), pt_channel := []\<rparr>"
  have run: "read_events i (pt_channel m) (concat (pending_of i m)) ?m = (r, m1)"
    using assms by (auto simp: read_available_def split: if_splits prod.splits)
  note e = read_events_effect [OF run]
  have p: "pending_of j ?m = (if j = i then [] else pending_of j m)" for j by (simp add: pending_of_def)
  from e show "r = waiting i m" "waiting j m1 = (if j = i then [] else waiting j m)" "pt_channel m1 = []"
    by (simp_all add: waiting_def p)
  from e(4) show "has_session j m1 \<Longrightarrow> has_session j m" by (simp add: has_session_def)
qed

lemma drain_events_effect:
  "pt_channel (drain_events es m) = pt_channel m"
  "concat (pending_of j (drain_events es m)) = concat (pending_of j m) @ printed_in j es"
  "has_session j (drain_events es m) \<Longrightarrow> has_session j m"
  by (induction es m rule: drain_events.induct) auto

lemma drain_exited_effect:
  assumes "drain_exited m = (gone, m1)"
  shows "waiting j m1 = waiting j m" "has_session j m1 \<Longrightarrow> has_session j m"
  using assms drain_events_effect [where es = "pt_channel m" and m = "m\<lparr>pt_channel := []\<rparr>"]
  by (auto simp: drain_exited_def Let_def waiting_def pending_of_def has_session_def)

text \<open>A session the manager has reported, or will report, as ended is no longer there.\<close>

definition apart :: "PtyManager \<Rightarrow> bool" where
  "apart m \<longleftrightarrow> (\<forall>i. map_of (pt_exited m) i \<noteq> None \<longrightarrow> \<not> has_session i m)"

lemma apart_steps [simp]:
  "apart (push_pending i data m) = apart m" "apart m \<Longrightarrow> apart (note_exit i m)"
  "apart (m\<lparr>pt_channel := es\<rparr>) = apart m" "apart (m\<lparr>pt_pending := ps\<rparr>) = apart m"
  by (auto simp: apart_def push_pending_def note_exit_def has_session_def)

lemma read_events_apart: "apart m \<Longrightarrow> read_events i es out m = (r, m1) \<Longrightarrow> apart m1"
  by (induction i es out m rule: read_events.induct) (auto split: if_splits)

lemma read_available_apart: "apart m \<Longrightarrow> read_available i m = (r, m1) \<Longrightarrow> apart m1"
  by (auto simp: read_available_def split: if_splits prod.splits dest: read_events_apart [rotated])

lemma drain_events_apart: "apart m \<Longrightarrow> apart (drain_events es m)"
  by (induction es m rule: drain_events.induct) auto

lemma drain_exited_apart:
  assumes "apart m" and "drain_exited m = (gone, m1)"
  shows "i \<in> set gone \<Longrightarrow> \<not> has_session i m1" "pt_exited m1 = []"
proof -
  let ?d = "drain_events (pt_channel m) (m\<lparr>pt_channel := []\<rparr>)"
  have m1: "gone = map fst (pt_exited ?d)" "m1 = ?d\<lparr>pt_exited := []\<rparr>"
    using assms(2) by (simp_all add: drain_exited_def Let_def)
  have "apart ?d" using assms(1) by (simp add: drain_events_apart)
  then show "i \<in> set gone \<Longrightarrow> \<not> has_session i m1"
    unfolding apart_def m1 set_map by (simp add: has_session_def map_of_eq_None_iff)
  show "pt_exited m1 = []" by (simp add: m1)
qed

end
