(* ===== verification/AgentLoop.thy ===== *)
theory AgentLoop
  imports AgentPty
begin

text \<open>
  \<^verbatim>\<open>agent/src/client.rs\<close>: the loop an agent runs over its connection, message by message and tick by
  tick. None is the error that ends the loop, and with it the agent. Messages are the
  structs of \<^verbatim>\<open>protocol.rs\<close>, which have the fields of the server's; AgentProtocol reads them from texts.
\<close>

section \<open>The address of the server\<close>

text \<open>\<^verbatim>\<open>trim_end_matches('/')\<close>\<close>

definition trim_slashes :: "string \<Rightarrow> string" where
  "trim_slashes s = rev (dropWhile (\<lambda>c. c = slash) (rev s))"

definition agent_ws_url :: "string \<Rightarrow> string" where
  "agent_ws_url url =
     (let base = trim_slashes url
      in if hasPrefix base ''https://'' then ''wss://'' @ drop 8 base @ ''/ws/agent''
         else if hasPrefix base ''http://'' then ''ws://'' @ drop 7 base @ ''/ws/agent''
         else base @ ''/ws/agent'')"

section \<open>The greeting\<close>

record AgentConfig =
  ac_server :: string
  ac_device :: string
  ac_credential :: string
  ac_name :: string

text \<open>\<open>platform\<close> and \<open>version\<close> are constants of the build.\<close>

definition agent_hello :: "string \<Rightarrow> string \<Rightarrow> AgentConfig \<Rightarrow> SessionRegistry \<Rightarrow> AgentHello" where
  "agent_hello platform version c r =
     \<lparr>hello_DeviceID = ac_device c, hello_Credential = ac_credential c, hello_Platform = platform,
      hello_AgentVersion = version, hello_ProtocolVersion = ''v1'', hello_Capabilities = [''fs''],
      hello_Sessions = registry_list r\<rparr>"

section \<open>The state of the loop\<close>

record control =
  ct_registry :: SessionRegistry
  ct_pty :: PtyManager
  ct_buffers :: "(string \<times> OutputBuffer) list"
  ct_files :: agent_files

definition control_new :: "SessionRegistry \<Rightarrow> agent_files \<Rightarrow> control" where
  "control_new r a = \<lparr>ct_registry = r, ct_pty = pty_new, ct_buffers = [], ct_files = a\<rparr>"

text \<open>
  What the system does in a step: the process it starts, what a terminal takes, whether it takes its
  size, and which uploads have been idle for a minute.
\<close>

record system_does =
  os_spawned :: "int option"
  os_taken :: "nat option"
  os_resized :: bool
  os_stale :: "string list"

datatype incoming = Undecodable | Incoming string message

definition session_frame :: "string \<Rightarrow> message \<Rightarrow> Outbound" where
  "session_frame i m = \<lparr>ob_Type = typeOf m, ob_SessionID = i, ob_RequestID = [], ob_Payload = m\<rparr>"

section \<open>Messages of the server\<close>

definition u16 :: "int \<Rightarrow> bool" where
  "u16 n \<longleftrightarrow> 0 \<le> n \<and> n < 2 ^ 16"

definition start_terminal :: "system_does \<Rightarrow> string \<Rightarrow> string \<Rightarrow> string \<Rightarrow> int \<Rightarrow> int \<Rightarrow> control \<Rightarrow> Outbound list option \<times> control" where
  "start_terminal os i shell dir cols nrows s =
     (case pty_start (os_spawned os) i cols nrows (ct_pty s) of
        (None, p) \<Rightarrow> (None, s\<lparr>ct_pty := p\<rparr>)
      | (Some pid, p) \<Rightarrow>
          (Some [session_frame i (SessionStarted i pid ''shell'' 0)],
           s\<lparr>ct_registry := registry_upsert
               \<lparr>sum_SessionID = i, sum_Title = ''shell'', sum_ShellPath = shell, sum_WorkingDirectory = dir,
                sum_Status = ''running'', sum_AgentPID = pid, sum_LastOutputSeq = 0\<rparr> (ct_registry s),
             ct_pty := p, ct_buffers := bt_insert i (buffer_new 1024) (ct_buffers s)\<rparr>))"

text \<open>A call on a terminal whose session has no buffer is not made.\<close>

definition if_session_exists ::
    "string \<Rightarrow> (PtyManager \<Rightarrow> bool \<times> PtyManager) \<Rightarrow> control \<Rightarrow> Outbound list option \<times> control" where
  "if_session_exists i call s =
     (if map_of (ct_buffers s) i = None then (Some [], s)
      else case call (ct_pty s) of (works, p) \<Rightarrow> (if works then Some [] else None, s\<lparr>ct_pty := p\<rparr>))"

definition close_terminal :: "string \<Rightarrow> control \<Rightarrow> Outbound list option \<times> control" where
  "close_terminal i s =
     (Some [session_frame i (SessionExit i 0 ''closed'')],
      s\<lparr>ct_pty := pty_close i (ct_pty s), ct_buffers := bt_remove i (ct_buffers s)\<rparr>)"

definition answer_request :: "string \<Rightarrow> message \<Rightarrow> control \<Rightarrow> Outbound list option \<times> control" where
  "answer_request requestID m s =
     (case handle_fs_message m (ct_files s) of
        (None, a) \<Rightarrow> (Some [], s\<lparr>ct_files := a\<rparr>)
      | (Some (replyType, payload), a) \<Rightarrow>
          (Some [\<lparr>ob_Type = replyType, ob_SessionID = [], ob_RequestID = requestID, ob_Payload = payload\<rparr>],
           s\<lparr>ct_files := a\<rparr>))"

definition handle_control :: "system_does \<Rightarrow> incoming \<Rightarrow> control \<Rightarrow> Outbound list option \<times> control" where
  "handle_control os m s =
     (case m of
        Undecodable \<Rightarrow> (None, s)
      | Incoming requestID msg \<Rightarrow>
          (case msg of
             StartSession i shell dir cols nrows \<Rightarrow>
               if u16 cols \<and> u16 nrows then start_terminal os i shell dir cols nrows s else (None, s)
           | Stdin i data \<Rightarrow> if_session_exists i (pty_write (os_taken os) i data) s
           | Resize i cols nrows \<Rightarrow>
               if u16 cols \<and> u16 nrows then if_session_exists i (pty_resize (os_resized os) i cols nrows) s
               else (None, s)
           | CloseSession i \<Rightarrow> close_terminal i s
           | _ \<Rightarrow> answer_request requestID msg s))"

section \<open>Ticks\<close>

text \<open>\<^verbatim>\<open>flush_pty_outputs\<close>: a frame for each session that has printed something.\<close>

fun flush_pty_outputs ::
    "string list \<Rightarrow> PtyManager \<Rightarrow> (string \<times> OutputBuffer) list \<Rightarrow>
     Outbound list option \<times> PtyManager \<times> (string \<times> OutputBuffer) list" where
  "flush_pty_outputs [] p b = (Some [], p, b)"
| "flush_pty_outputs (i # ks) p b =
     (if \<not> has_session i p then flush_pty_outputs ks p b
      else case read_available i p of
             (None, p1) \<Rightarrow> (None, p1, b)
           | (Some out, p1) \<Rightarrow>
               if out = [] then flush_pty_outputs ks p1 b
               else (case buffer_push out (case map_of b i of None \<Rightarrow> buffer_new 1024 | Some x \<Rightarrow> x) of
                       (frame, x) \<Rightarrow>
                         (case flush_pty_outputs ks p1 (bt_insert i x b) of
                            (r, rest) \<Rightarrow>
                              (map_option (\<lambda>ms. session_frame i (Stdout i (fr_seq frame) (fr_data frame)) # ms) r, rest))))"

definition cleanup_stale :: "string list \<Rightarrow> agent_files \<Rightarrow> agent_files" where
  "cleanup_stale stale a = fold drop_upload stale a"

text \<open>\<open>late\<close>: what the readers report while the frames are sent.\<close>

definition tick_outputs :: "system_does \<Rightarrow> PtyEvent list \<Rightarrow> control \<Rightarrow> Outbound list option \<times> control" where
  "tick_outputs os late s =
     (case flush_pty_outputs (map fst (ct_buffers s)) (ct_pty s) (ct_buffers s) of
        (None, p, b) \<Rightarrow> (None, s\<lparr>ct_pty := p, ct_buffers := b\<rparr>)
      | (Some frames, p, b) \<Rightarrow>
          (case drain_exited (p\<lparr>pt_channel := pt_channel p @ late\<rparr>) of
             (gone, p1) \<Rightarrow>
               (Some (frames @ map (\<lambda>i. session_frame i (SessionExit i 0 ''exited'')) gone),
                s\<lparr>ct_pty := p1, ct_buffers := fold bt_remove gone b,
                  ct_files := cleanup_stale (os_stale os) (ct_files s)\<rparr>)))"

end
