(* ===== verification/OutputClaims.thy ===== *)
theory OutputClaims
  imports AgentLoop
begin

text \<open>
  What becomes of the output of a session: an agent sends it in order, numbered from one, without
  losing or repeating any of it while the session runs.
\<close>

section \<open>What was sent\<close>

fun stdout_data :: "string \<Rightarrow> Outbound list \<Rightarrow> string" where
  "stdout_data i [] = []"
| "stdout_data i (m # ms) =
     (case ob_Payload m of Stdout j n d \<Rightarrow> if j = i then d else [] | _ \<Rightarrow> []) @ stdout_data i ms"

fun stdout_seqs :: "string \<Rightarrow> Outbound list \<Rightarrow> int list" where
  "stdout_seqs i [] = []"
| "stdout_seqs i (m # ms) =
     (case ob_Payload m of Stdout j n d \<Rightarrow> if j = i then [n] else [] | _ \<Rightarrow> []) @ stdout_seqs i ms"

definition was_started :: "string \<Rightarrow> Outbound list \<Rightarrow> bool" where
  "was_started i ms \<longleftrightarrow> (\<exists>m \<in> set ms. \<exists>pid t n. ob_Payload m = SessionStarted i pid t n)"

lemma stdout_append [simp]:
  "stdout_data i (ms @ ns) = stdout_data i ms @ stdout_data i ns"
  "stdout_seqs i (ms @ ns) = stdout_seqs i ms @ stdout_seqs i ns"
  "was_started i (ms @ ns) \<longleftrightarrow> was_started i ms \<or> was_started i ns"
  by (induction ms) (auto simp: was_started_def)

text \<open>Messages without output.\<close>

definition silent :: "Outbound list \<Rightarrow> bool" where
  "silent ms \<longleftrightarrow> (\<forall>m \<in> set ms. \<forall>j n d. ob_Payload m \<noteq> Stdout j n d)"

lemma silent_sends [simp]: "silent ms \<Longrightarrow> stdout_data i ms = []" "silent ms \<Longrightarrow> stdout_seqs i ms = []"
  by (induction ms) (auto simp: silent_def split: message.splits)

section \<open>Flushing\<close>

definition numbered :: "string \<Rightarrow> int list \<Rightarrow> (string \<times> OutputBuffer) list \<Rightarrow> bool" where
  "numbered i ns b \<longleftrightarrow> ns = map int [1..<Suc (length ns)] \<and>
     (case map_of b i of None \<Rightarrow> True | Some x \<Rightarrow> bf_next x = int (length ns) + 1)"

lemma numbered_push:
  assumes "numbered i ns b" and "map_of b i = Some x"
  shows "numbered i (ns @ [bf_next x]) (bt_insert i (snd (buffer_push d x)) b)"
  using assms by (simp add: numbered_def buffer_push_def Let_def)

lemma read_has: "has_session k p \<Longrightarrow> \<exists>out q. read_available k p = (Some out, q)"
  by (auto simp: read_available_def split: prod.split)

definition flushed :: "string list \<Rightarrow> PtyManager \<Rightarrow> (string \<times> OutputBuffer) list \<Rightarrow>
    Outbound list \<Rightarrow> PtyManager \<Rightarrow> (string \<times> OutputBuffer) list \<Rightarrow> bool" where
  "flushed ks p b ms p1 b1 \<longleftrightarrow>
     (\<forall>i. stdout_data i ms @ waiting i p1 = waiting i p) \<and> (\<forall>i. \<not> was_started i ms) \<and>
     (\<forall>i. has_session i p1 \<longrightarrow> has_session i p) \<and> (apart p \<longrightarrow> apart p1) \<and>
     (\<forall>i \<in> set ks. has_session i p1 \<longrightarrow> waiting i p1 = []) \<and>
     dom (map_of b1) = dom (map_of b) \<and> (\<forall>i. i \<notin> set ks \<longrightarrow> stdout_seqs i ms = []) \<and>
     (\<forall>i ns. numbered i ns b \<longrightarrow> numbered i (ns @ stdout_seqs i ms) b1)"

lemma flushedD:
  assumes "flushed ks p b ms p1 b1"
  shows "stdout_data i ms @ waiting i p1 = waiting i p" "\<not> was_started i ms"
    "has_session i p1 \<Longrightarrow> has_session i p" "i \<in> set ks \<Longrightarrow> has_session i p1 \<Longrightarrow> waiting i p1 = []"
    "dom (map_of b1) = dom (map_of b)" "numbered i ns b \<Longrightarrow> numbered i (ns @ stdout_seqs i ms) b1"
    "apart p \<Longrightarrow> apart p1" "i \<notin> set ks \<Longrightarrow> stdout_seqs i ms = []"
  using assms by (simp_all add: flushed_def)

lemma flushed_skip:
  assumes f: "flushed ks q b ms p1 b1" and q: "\<And>i. waiting i q = waiting i p" "waiting k p = []"
    and sub: "\<And>i. has_session i q \<Longrightarrow> has_session i p" "apart p \<Longrightarrow> apart q"
  shows "flushed (k # ks) p b ms p1 b1"
proof -
  note d = flushedD [OF f]
  have "waiting k p1 = []" using d(1) [of k] q by simp
  with d q sub show ?thesis unfolding flushed_def by auto
qed

lemma flushed_frame:
  assumes f: "flushed ks q (bt_insert k (snd (buffer_push d x)) b) ms p1 b1"
    and q: "\<And>i. waiting i q = (if i = k then [] else waiting i p)" "waiting k p = d"
    and sub: "\<And>i. has_session i q \<Longrightarrow> has_session i p" "apart p \<Longrightarrow> apart q" and x: "map_of b k = Some x"
  shows "flushed (k # ks) p b (session_frame k (Stdout k (bf_next x) d) # ms) p1 b1"
proof -
  note r = flushedD [OF f]
  have k: "stdout_data k ms = []" "waiting k p1 = []" using r(1) [of k] q(1) [of k] by simp_all
  have "numbered i (ns @ stdout_seqs i (session_frame k (Stdout k (bf_next x) d) # ms)) b1" if "numbered i ns b" for i ns
  proof (cases "i = k")
    case True
    with that x have "numbered k (ns @ [bf_next x]) (bt_insert k (snd (buffer_push d x)) b)"
      by (simp add: numbered_push)
    from r(6) [OF this] True show ?thesis by (simp add: session_frame_def)
  next
    case False
    with that have "numbered i ns (bt_insert k (snd (buffer_push d x)) b)" by (simp add: numbered_def)
    from r(6) [OF this] False show ?thesis by (simp add: session_frame_def)
  qed
  moreover have "dom (map_of b1) = dom (map_of b)" using r(5) x by auto
  moreover have "\<not> was_started i (session_frame k (Stdout k (bf_next x) d) # ms)" for i
    using r(2) by (simp add: was_started_def session_frame_def)
  moreover have "stdout_data i (session_frame k (Stdout k (bf_next x) d) # ms) @ waiting i p1 = waiting i p" for i
    using r(1) [of i] q k by (cases "i = k") (simp_all add: session_frame_def)
  moreover have "stdout_seqs i (session_frame k (Stdout k (bf_next x) d) # ms) = []" if "i \<notin> set (k # ks)" for i
    using that r(8) by (auto simp: session_frame_def)
  ultimately show ?thesis
    unfolding flushed_def using r(3,4,7) sub k(2) by auto
qed

lemma flush_effect:
  "set ks \<subseteq> dom (map_of b) \<Longrightarrow>
    \<exists>ms p1 b1. flush_pty_outputs ks p b = (Some ms, p1, b1) \<and> flushed ks p b ms p1 b1"
proof (induction ks arbitrary: p b)
  case Nil
  then show ?case by (simp add: flushed_def was_started_def)
next
  case (Cons k ks)
  then have ks: "set ks \<subseteq> dom (map_of b)" by simp
  show ?case
  proof (cases "has_session k p")
    case False
    from Cons.IH [OF ks, of p] obtain ms p1 b1 where
      f: "flush_pty_outputs ks p b = (Some ms, p1, b1)" "flushed ks p b ms p1 b1" by blast
    with False have "flushed (k # ks) p b ms p1 b1" by (auto simp: flushed_def)
    with f False show ?thesis by simp
  next
    case True
    then obtain out q where q: "read_available k p = (Some out, q)" using read_has by blast
    note e = read_available_effect [OF q] read_available_apart [OF _ q]
    obtain x where x: "map_of b k = Some x" using Cons.prems by auto
    show ?thesis
    proof (cases "out = []")
      case True
      from Cons.IH [OF ks, of q] obtain ms p1 b1 where
        f: "flush_pty_outputs ks q b = (Some ms, p1, b1)" "flushed ks q b ms p1 b1" by blast
      have "flushed (k # ks) p b ms p1 b1"
        by (rule flushed_skip [OF f(2)]) (use e True in auto)
      with f \<open>has_session k p\<close> q True show ?thesis by simp
    next
      case False
      let ?b = "bt_insert k (snd (buffer_push out x)) b"
      have "set ks \<subseteq> dom (map_of ?b)" using ks by auto
      from Cons.IH [OF this, of q] obtain ms p1 b1 where
        f: "flush_pty_outputs ks q ?b = (Some ms, p1, b1)" "flushed ks q ?b ms p1 b1" by blast
      have "flushed (k # ks) p b (session_frame k (Stdout k (bf_next x) out) # ms) p1 b1"
        by (rule flushed_frame [OF f(2) _ _ _ _ x]) (use e in auto)
      with f False True q x show ?thesis by (simp add: buffer_push_def Let_def)
    qed
  qed
qed

section \<open>Runs of the agent\<close>

text \<open>
  What was sent so far, and what each session's shell has printed. The server starts a session once.
\<close>

definition starts :: "string \<Rightarrow> incoming \<Rightarrow> bool" where
  "starts i m \<longleftrightarrow> (\<exists>q sh d c r. m = Incoming q (StartSession i sh d c r))"

inductive control_run :: "control \<Rightarrow> control \<Rightarrow> (string \<Rightarrow> string) \<Rightarrow> Outbound list \<Rightarrow> bool" for s0 where
  begins: "control_run s0 s0 (\<lambda>i. []) []"
| prints: "control_run s0 s w ms \<Longrightarrow>
    control_run s0 (s\<lparr>ct_pty := (ct_pty s)\<lparr>pt_channel := pt_channel (ct_pty s) @ [e]\<rparr>\<rparr>)
      (\<lambda>i. w i @ printed_in i [e]) ms"
| hears: "control_run s0 s w ms \<Longrightarrow> handle_control os m s = (Some rs, t) \<Longrightarrow>
    (\<And>i. starts i m \<Longrightarrow> \<not> was_started i ms) \<Longrightarrow> control_run s0 t w (ms @ rs)"
| ticks: "control_run s0 s w ms \<Longrightarrow> tick_outputs os late s = (Some rs, t) \<Longrightarrow>
    control_run s0 t (\<lambda>i. w i @ printed_in i late) (ms @ rs)"

definition control_inv :: "control \<Rightarrow> (string \<Rightarrow> string) \<Rightarrow> Outbound list \<Rightarrow> bool" where
  "control_inv s w ms \<longleftrightarrow>
     (\<forall>i. w i = stdout_data i ms @ waiting i (ct_pty s)) \<and>
     (\<forall>i. has_session i (ct_pty s) \<longrightarrow> i \<in> dom (map_of (ct_buffers s))) \<and>
     (\<forall>i. numbered i (stdout_seqs i ms) (ct_buffers s)) \<and> pt_exited (ct_pty s) = [] \<and>
     (\<forall>i. \<not> was_started i ms \<longrightarrow> map_of (ct_buffers s) i = None \<and> stdout_seqs i ms = [])"

lemma pty_calls [simp]:
  "waiting i (snd (pty_write x j d p)) = waiting i p" "has_session i (snd (pty_write x j d p)) = has_session i p"
  "waiting i (snd (pty_resize y j c r p)) = waiting i p" "has_session i (snd (pty_resize y j c r p)) = has_session i p"
  "waiting i (pty_close j p) = waiting i p" "has_session i (pty_close j p) \<longleftrightarrow> i \<noteq> j \<and> has_session i p"
  "waiting i (snd (pty_start z j c r p)) = waiting i p" "pt_exited (snd (pty_write x j d p)) = pt_exited p"
  "pt_exited (snd (pty_resize y j c r p)) = pt_exited p" "pt_exited (pty_close j p) = pt_exited p"
  "pt_exited (snd (pty_start z j c r p)) = pt_exited p"
  by (auto simp: pty_write_def pty_resize_def pty_close_def pty_start_def waiting_def pending_of_def has_session_def
      split: option.split)

lemma inv_call:
  assumes "control_inv s w ms" and "if_session_exists i call s = (Some rs, t)"
    and "\<And>j p. waiting j (snd (call p)) = waiting j p" "\<And>j p. has_session j (snd (call p)) = has_session j p"
    "\<And>p. pt_exited (snd (call p)) = pt_exited p"
  shows "control_inv t w (ms @ rs)"
proof -
  from assms(2) have t: "rs = []" "ct_buffers t = ct_buffers s"
    "ct_pty t = ct_pty s \<or> ct_pty t = snd (call (ct_pty s))"
    by (auto simp: if_session_exists_def split: if_splits prod.splits)
  with assms(1,3-5) show ?thesis by (auto simp: control_inv_def)
qed

lemma fs_replies:
  "answer_request q m s = (Some rs, t) \<Longrightarrow> silent rs" "answer_request q m s = (Some rs, t) \<Longrightarrow> \<not> was_started i rs"
  by (auto simp: answer_request_def handle_fs_message_def reply_with_def fs_reply_def invalid_request_def
      silent_def was_started_def list_dir_def read_chunk_def then_call_def chunk_reply_def Let_def map_sum_def
      split: prod.splits option.splits message.splits sum.splits if_splits)

lemma inv_answer:
  assumes "control_inv s w ms" and run: "answer_request q m s = (Some rs, t)"
  shows "control_inv t w (ms @ rs)"
proof -
  from run have "ct_buffers t = ct_buffers s" "ct_pty t = ct_pty s"
    by (auto simp: answer_request_def split: prod.splits option.splits)
  with assms(1) fs_replies [OF run] show ?thesis by (simp add: control_inv_def)
qed

lemma inv_start:
  assumes inv: "control_inv s w ms" and fresh: "\<not> was_started i ms"
    and run: "start_terminal os i sh d c r s = (Some rs, t)"
  shows "control_inv t w (ms @ rs)"
proof -
  from run obtain pid where pid: "os_spawned os = Some pid"
    by (auto simp: start_terminal_def pty_start_def split: option.splits)
  with run have rs: "rs = [session_frame i (SessionStarted i pid ''shell'' 0)]"
    and b: "ct_buffers t = bt_insert i (buffer_new 1024) (ct_buffers s)"
    and p: "ct_pty t = snd (pty_start (Some pid) i c r (ct_pty s))"
    by (auto simp: start_terminal_def pty_start_def)
  have sil: "silent rs" and st: "was_started j rs \<longleftrightarrow> j = i" for j
    by (auto simp: rs silent_def was_started_def session_frame_def)
  have has: "has_session j (ct_pty t) \<longleftrightarrow> j = i \<or> has_session j (ct_pty s)" for j
    by (simp add: p pty_start_def has_session_def)
  from fresh inv have "stdout_seqs i ms = []" by (simp add: control_inv_def)
  then have "numbered j (stdout_seqs j ms) (ct_buffers t)" if "numbered j (stdout_seqs j ms) (ct_buffers s)" for j
    using that by (auto simp: b numbered_def buffer_new_def)
  moreover have "waiting j (ct_pty t) = waiting j (ct_pty s)" "pt_exited (ct_pty t) = pt_exited (ct_pty s)" for j
    by (simp_all add: p)
  moreover have "map_of (ct_buffers t) j = (if j = i then Some (buffer_new 1024) else map_of (ct_buffers s) j)" for j
    by (simp add: b)
  ultimately show ?thesis using inv unfolding control_inv_def by (auto simp: sil st has)
qed

lemma inv_hears:
  assumes inv: "control_inv s w ms" and run: "handle_control os m s = (Some rs, t)"
    and fresh: "\<And>i. starts i m \<Longrightarrow> \<not> was_started i ms"
  shows "control_inv t w (ms @ rs)"
proof (cases m)
  case Undecodable
  with run show ?thesis by (simp add: handle_control_def)
next
  case (Incoming q msg)
  note run = run [unfolded handle_control_def Incoming incoming.case]
  show ?thesis
  proof (cases "\<exists>i sh d c r. msg = StartSession i sh d c r")
    case True
    then obtain i sh d c r where msg: "msg = StartSession i sh d c r" by blast
    with fresh [of i] Incoming have "\<not> was_started i ms" by (simp add: starts_def)
    from inv_start [OF inv this, of os sh d c r rs t] run msg show ?thesis by (simp split: if_splits)
  next
    case no_start: False
    show ?thesis
    proof (cases "\<exists>i. msg = CloseSession i")
      case True
      then obtain i where "msg = CloseSession i" by blast
      with run have rs: "rs = [session_frame i (SessionExit i 0 ''closed'')]" "ct_buffers t = bt_remove i (ct_buffers s)"
        "ct_pty t = pty_close i (ct_pty s)" by (auto simp: close_terminal_def)
      then have "silent rs" "\<not> was_started j rs" for j
        by (auto simp: silent_def was_started_def session_frame_def)
      moreover have "numbered j ns b \<Longrightarrow> numbered j ns (bt_remove i b)" for j ns b by (simp add: numbered_def)
      ultimately show ?thesis using inv rs(2,3) unfolding control_inv_def by auto
    next
      case False
      with no_start run inv show ?thesis
        by (cases msg) (auto intro: inv_call inv_answer split: if_splits)
    qed
  qed
qed

lemma waiting_more: "waiting i (p\<lparr>pt_channel := pt_channel p @ es\<rparr>) = waiting i p @ printed_in i es"
  by (simp add: waiting_def pending_of_def)

lemma fold_remove: "map_of (fold bt_remove ks b) i = (if i \<in> set ks then None else map_of b i)"
  by (induction ks arbitrary: b) auto

lemma numbered_removed: "numbered i ns b \<Longrightarrow> numbered i ns (fold bt_remove ks b)"
  by (simp add: numbered_def fold_remove)

lemma tick_effect:
  assumes inv: "control_inv s w ms" and run: "tick_outputs os late s = (r, t)"
  shows "\<exists>rs. r = Some rs \<and> control_inv t (\<lambda>i. w i @ printed_in i late) (ms @ rs) \<and>
    (\<forall>i. has_session i (ct_pty t) \<longrightarrow> stdout_data i (ms @ rs) = w i)"
proof -
  obtain out p1 b1 where f: "flush_pty_outputs (map fst (ct_buffers s)) (ct_pty s) (ct_buffers s) = (Some out, p1, b1)"
    and fl: "flushed (map fst (ct_buffers s)) (ct_pty s) (ct_buffers s) out p1 b1"
    using flush_effect [of "map fst (ct_buffers s)" "ct_buffers s" "ct_pty s"] by (auto simp: dom_map_of_conv_image_fst)
  note d = flushedD [OF fl]
  obtain gone p2 where g: "drain_exited (p1\<lparr>pt_channel := pt_channel p1 @ late\<rparr>) = (gone, p2)" by force
  let ?ends = "map (\<lambda>i. session_frame i (SessionExit i 0 ''exited'')) gone"
  have ends: "silent ?ends" "\<not> was_started i ?ends" for i
    by (auto simp: silent_def was_started_def session_frame_def)
  from run f g have r: "r = Some (out @ ?ends)" and t: "ct_pty t = p2" "ct_buffers t = fold bt_remove gone b1"
    by (auto simp: tick_outputs_def)
  note e = drain_exited_effect [OF g, unfolded waiting_more]
  have "apart (ct_pty s)" using inv by (simp add: control_inv_def apart_def)
  then have "apart (p1\<lparr>pt_channel := pt_channel p1 @ late\<rparr>)" using d(7) by simp
  note a = drain_exited_apart [OF this g]
  have sub: "has_session i p2 \<Longrightarrow> has_session i p1" for i using e(2) by (simp add: has_session_def)
  have bufs: "has_session i p2 \<Longrightarrow> i \<in> dom (map_of b1)" for i
    using sub d(3,5) inv by (auto simp: control_inv_def)
  show ?thesis
    unfolding r control_inv_def t
  proof (intro exI conjI allI impI; (rule refl)?)
    fix i
    show "w i @ printed_in i late = stdout_data i (ms @ out @ ?ends) @ waiting i p2"
      using inv d(1) [of i] e(1) ends by (simp add: control_inv_def)
    show "numbered i (stdout_seqs i (ms @ out @ ?ends)) (fold bt_remove gone b1)"
      using inv d(6) ends by (simp add: control_inv_def numbered_removed)
  next
    fix i assume i: "has_session i p2"
    with a(1) have "i \<notin> set gone" by blast
    with bufs [OF i] show "i \<in> dom (map_of (fold bt_remove gone b1))" by (simp add: fold_remove domIff)
    have "waiting i p1 = []"
      using i sub d(3,4) inv by (auto simp: control_inv_def dom_map_of_conv_image_fst)
    with inv d(1) [of i] ends show "stdout_data i (ms @ out @ ?ends) = w i" by (simp add: control_inv_def)
  next
    fix i assume "\<not> was_started i (ms @ out @ ?ends)"
    then have old: "map_of (ct_buffers s) i = None" "stdout_seqs i ms = []" using inv by (simp_all add: control_inv_def)
    then have "i \<notin> set (map fst (ct_buffers s))" by (simp add: map_of_eq_None_iff)
    with d(8) old ends show "stdout_seqs i (ms @ out @ ?ends) = []" by simp
    show "map_of (fold bt_remove gone b1) i = None" using old d(5) by (simp add: fold_remove domIff) (metis domIff)
  qed (rule a(2))
qed

lemma run_inv: "control_run (control_new reg a) s w ms \<Longrightarrow> control_inv s w ms"
proof (induction rule: control_run.induct)
  case begins
  then show ?case
    by (simp add: control_inv_def control_new_def pty_new_def waiting_def pending_of_def has_session_def numbered_def)
next
  case (prints s w ms ev)
  then show ?case by (auto simp: control_inv_def waiting_more has_session_def)
next
  case (hears s w ms os m rs t)
  then show ?case by (blast intro: inv_hears)
next
  case (ticks s w ms os late rs t)
  with tick_effect [OF ticks.IH ticks.hyps(2)] show ?case by simp
qed


definition sample_files :: agent_files where
  "sample_files = \<lparr>ag_home = None, ag_files = Map.empty, ag_dirs = Map.empty, ag_uploads = Map.empty, ag_script = []\<rparr>"

definition works_fine :: system_does where
  "works_fine = \<lparr>os_spawned = Some 7, os_taken = None, os_resized = True, os_stale = []\<rparr>"

definition running :: control where
  "running = snd (handle_control works_fine (Incoming [] (StartSession ''s'' ''/bin/sh'' ''/'' 80 24)) (control_new [] sample_files))"

text \<open>The session \<open>s\<close> after its shell has printed \<open>hi\<close>.\<close>

definition printing :: control where
  "printing = running\<lparr>ct_pty := (ct_pty running)\<lparr>pt_channel := pt_channel (ct_pty running) @ [PrintedBy ''s'' ''hi'']\<rparr>\<rparr>"

lemma sample_start: "handle_control works_fine (Incoming [] (StartSession ''s'' ''/bin/sh'' ''/'' 80 24)) (control_new [] sample_files) =
    (Some [session_frame ''s'' (SessionStarted ''s'' 7 ''shell'' 0)], running)"
  by (simp add: running_def handle_control_def u16_def start_terminal_def works_fine_def pty_start_def control_new_def)

lemma sample_control_run:
  "control_run (control_new [] sample_files) printing (\<lambda>i. printed_in i [PrintedBy ''s'' ''hi''])
     [session_frame ''s'' (SessionStarted ''s'' 7 ''shell'' 0)]"
proof -
  have "control_run (control_new [] sample_files) running (\<lambda>i. [])
      ([] @ [session_frame ''s'' (SessionStarted ''s'' 7 ''shell'' 0)])"
    by (rule control_run.hears [OF control_run.begins sample_start]) (simp add: was_started_def)
  from control_run.prints [OF this, of "PrintedBy ''s'' ''hi''"] show ?thesis by (simp add: printing_def)
qed


text \<open>
  A session that ends takes its last output with it when another session's output is read in between:
  here the shell of \<open>t\<close> prints \<open>bye\<close> and ends, and the tick reports the end without the output.
\<close>

definition two_sessions :: control where
  "two_sessions = (let s = snd (handle_control works_fine (Incoming [] (StartSession ''t'' ''/bin/sh'' ''/'' 80 24)) running)
     in s\<lparr>ct_pty := (ct_pty s)\<lparr>pt_channel := [PrintedBy ''t'' ''bye'', EndOf ''t'']\<rparr>\<rparr>)"

lemma last_output_lost:
  "fst (tick_outputs works_fine [] two_sessions) = Some [session_frame ''t'' (SessionExit ''t'' 0 ''exited'')]"
  by code_simp

end
