(* ===== verification/AgentProgram.thy ===== *)
theory AgentProgram
  imports AgentLoop
begin

text \<open>
  The agent as a program, \<^verbatim>\<open>agent/src/main.rs\<close>: the registration over HTTP of \<^verbatim>\<open>client.rs\<close>, the files of
  \<^verbatim>\<open>config.rs\<close> and \<^verbatim>\<open>registry.rs\<close>, and how a run begins. What serde derives for a struct is written
  out; reading and writing the text of a value is \<^verbatim>\<open>serde_json\<close>'s, and an argument.
\<close>

section \<open>The machine\<close>

text \<open>Constants of the build and the environment of the process.\<close>

record machine =
  mc_os :: string
  mc_arch :: string
  mc_version :: string
  mc_hostname :: "string option"
  mc_computername :: "string option"
  mc_config_dir :: "string option"

definition device_name :: "machine \<Rightarrow> string" where
  "device_name mc =
     (case mc_hostname mc of
        Some n \<Rightarrow> n
      | None \<Rightarrow> (case mc_computername mc of Some n \<Rightarrow> n | None \<Rightarrow> ''vibe-agent''))"

definition device_fingerprint :: "machine \<Rightarrow> string \<Rightarrow> string" where
  "device_fingerprint mc name = mc_os mc @ '':'' @ mc_arch mc @ '':'' @ name"

text \<open>\<^verbatim>\<open>Path::join\<close>\<close>

definition path_join :: "string \<Rightarrow> string \<Rightarrow> string" where
  "path_join base p =
     (if rooted p then p else if base = [] \<or> last base = slash then base @ p else base @ slash # p)"

definition default_config_path :: "machine \<Rightarrow> string option" where
  "default_config_path mc =
     map_option (\<lambda>base. path_join (path_join base ''vibe-terminal'') ''agent.json'') (mc_config_dir mc)"

section \<open>Values and structs\<close>

text \<open>\<^verbatim>\<open>to_string\<close>, \<^verbatim>\<open>to_string_pretty\<close> and \<^verbatim>\<open>from_str\<close>, with None for a text that is no JSON.\<close>

record serde =
  sd_write :: "json \<Rightarrow> string"
  sd_pretty :: "json \<Rightarrow> string"
  sd_read :: "string \<Rightarrow> json option"

text \<open>The member of an object that is there once: a missing or repeated field is an error.\<close>

definition member :: "string \<Rightarrow> (string \<times> json) list \<Rightarrow> json option" where
  "member k kvs = (case filter (\<lambda>p. fst p = k) kvs of [p] \<Rightarrow> Some (snd p) | _ \<Rightarrow> None)"

text \<open>A struct is read from an object with its fields, others are skipped, or from the array of them.\<close>

definition struct_values :: "string list \<Rightarrow> json \<Rightarrow> json list option" where
  "struct_values names v =
     (case v of
        JObject kvs \<Rightarrow> those (map (\<lambda>k. member k kvs) names)
      | JArray vs \<Rightarrow> if length vs = length names then Some vs else None
      | _ \<Rightarrow> None)"

text \<open>Numbers without a fraction or an exponent; minus zero is a float.\<close>

definition serde_unsigned :: "nat \<Rightarrow> string \<Rightarrow> int option" where
  "serde_unsigned w s =
     (if s \<noteq> [] \<and> list_all is_digit s \<and> nat_of_digits s < 2 ^ w then Some (int (nat_of_digits s)) else None)"

definition serde_i64 :: "string \<Rightarrow> int option" where
  "serde_i64 s = (if s = ''-0'' then None else parse_int64 s)"

section \<open>The configuration\<close>

definition config_json :: "AgentConfig \<Rightarrow> json" where
  "config_json c = JObject
     [(''server_url'', JString (ac_server c)), (''device_id'', JString (ac_device c)),
      (''credential'', JString (ac_credential c)), (''device_name'', JString (ac_name c))]"

definition decode_config :: "json \<Rightarrow> AgentConfig option" where
  "decode_config v =
     (case struct_values [''server_url'', ''device_id'', ''credential'', ''device_name''] v of
        Some [JString url, JString dev, JString cred, JString name] \<Rightarrow>
          Some \<lparr>ac_server = url, ac_device = dev, ac_credential = cred, ac_name = name\<rparr>
      | _ \<Rightarrow> None)"

text \<open>\<^verbatim>\<open>create_dir_all\<close> of the parent and \<^verbatim>\<open>fs::write\<close>, for both files the agent keeps.\<close>

definition save_text :: "string \<Rightarrow> string \<Rightarrow> disk \<Rightarrow> bool \<times> disk" where
  "save_text path data d =
     (case parent_dir path of
        None \<Rightarrow> WriteFile path data d
      | Some dir \<Rightarrow>
          (case MkdirAll dir d of (False, d1) \<Rightarrow> (False, d1) | (True, d1) \<Rightarrow> WriteFile path data d1))"

definition config_save :: "serde \<Rightarrow> string \<Rightarrow> AgentConfig \<Rightarrow> disk \<Rightarrow> bool \<times> disk" where
  "config_save sd path c d = save_text path (sd_pretty sd (config_json c)) d"

definition config_load :: "serde \<Rightarrow> string \<Rightarrow> disk \<Rightarrow> AgentConfig option \<times> disk" where
  "config_load sd path d =
     (case ReadFile path d of
        (None, d1) \<Rightarrow> (None, d1)
      | (Some data, d1) \<Rightarrow> (Option.bind (sd_read sd data) decode_config, d1))"

section \<open>The registry in a file\<close>

text \<open>
  The members of a record are those of a summary. What is at the path of a registry is a file or nothing, no
  directory; a file that is no UTF-8 is no JSON.
\<close>

definition registry_json :: "SessionRegistry \<Rightarrow> json" where
  "registry_json r = JObject [(''sessions'', JObject (map (\<lambda>(k, x). (k, summary_json x)) r))]"

definition decode_record :: "json \<Rightarrow> SessionSummary option" where
  "decode_record v =
     (case struct_values [''session_id'', ''title'', ''shell_path'', ''working_directory'', ''status'', ''agent_pid'',
         ''last_output_seq''] v of
        Some [JString i, JString title, JString shell, JString dir, JString st, JNumber pid, JNumber seq] \<Rightarrow>
          Option.bind (serde_unsigned 32 pid) (\<lambda>n. map_option (\<lambda>sq.
            \<lparr>sum_SessionID = i, sum_Title = title, sum_ShellPath = shell, sum_WorkingDirectory = dir,
             sum_Status = st, sum_AgentPID = n, sum_LastOutputSeq = sq\<rparr>) (serde_i64 seq))
      | _ \<Rightarrow> None)"

text \<open>A map takes its members one after the other; a later one replaces an earlier one.\<close>

definition decode_registry :: "json \<Rightarrow> SessionRegistry option" where
  "decode_registry v =
     (case struct_values [''sessions''] v of
        Some [JObject kvs] \<Rightarrow>
          map_option (\<lambda>xs. fold (\<lambda>(k, x). bt_insert k x) (zip (map fst kvs) xs) [])
            (those (map (\<lambda>(k, v). decode_record v) kvs))
      | _ \<Rightarrow> None)"

definition registry_save :: "serde \<Rightarrow> string \<Rightarrow> SessionRegistry \<Rightarrow> disk \<Rightarrow> bool \<times> disk" where
  "registry_save sd path r d = save_text path (sd_pretty sd (registry_json r)) d"

definition registry_load :: "serde \<Rightarrow> string \<Rightarrow> disk \<Rightarrow> SessionRegistry option \<times> disk" where
  "registry_load sd path d =
     (if files d path = None then (Some [], d)
      else case ReadFile path d of
             (None, d1) \<Rightarrow> (None, d1)
           | (Some data, d1) \<Rightarrow> (Option.bind (sd_read sd data) decode_registry, d1))"

section \<open>Registration\<close>

definition register_json :: "machine \<Rightarrow> string \<Rightarrow> string \<Rightarrow> json" where
  "register_json mc token name = JObject
     [(''token'', JString token), (''name'', JString name), (''platform'', JString (mc_os mc)),
      (''agent_version'', JString (mc_version mc)), (''fingerprint'', JString (device_fingerprint mc name))]"

definition decode_registered :: "json \<Rightarrow> (string \<times> string) option" where
  "decode_registered v =
     (case struct_values [''device_id'', ''credential''] v of
        Some [JString dev, JString cred] \<Rightarrow> Some (dev, cred)
      | _ \<Rightarrow> None)"

text \<open>
  \<open>post\<close> sends a body to an address and gives the status and the body of the answer, or None when there
  is none; \<open>'s\<close> is what it works on.
\<close>

definition register_agent ::
    "(string \<Rightarrow> string \<Rightarrow> 's \<Rightarrow> (int \<times> string) option \<times> 's) \<Rightarrow> serde \<Rightarrow> machine \<Rightarrow> string \<Rightarrow> string \<Rightarrow> string \<Rightarrow> 's \<Rightarrow>
     AgentConfig option \<times> 's" where
  "register_agent post sd mc url token name s =
     (case post (trim_slashes url @ ''/api/agents/register'') (sd_write sd (register_json mc token name)) s of
        (None, s1) \<Rightarrow> (None, s1)
      | (Some (status, body), s1) \<Rightarrow>
          if \<not> (200 \<le> status \<and> status < 300) then (None, s1)
          else (case Option.bind (sd_read sd body) decode_registered of
                  None \<Rightarrow> (None, s1)
                | Some (dev, cred) \<Rightarrow>
                    (Some \<lparr>ac_server = url, ac_device = dev, ac_credential = cred, ac_name = name\<rparr>, s1)))"

section \<open>The two commands\<close>

text \<open>\<^verbatim>\<open>vibe-agent register\<close>: the result is whether the program ends without an error.\<close>

definition vibe_register ::
    "(string \<Rightarrow> string \<Rightarrow> 's \<Rightarrow> (int \<times> string) option \<times> 's) \<Rightarrow> serde \<Rightarrow> machine \<Rightarrow> string \<Rightarrow> string \<Rightarrow> 's \<times> disk \<Rightarrow>
     bool \<times> 's \<times> disk" where
  "vibe_register post sd mc url token sd0 =
     (case sd0 of (s, d) \<Rightarrow>
        (case register_agent post sd mc url token (device_name mc) s of
           (None, s1) \<Rightarrow> (False, s1, d)
         | (Some c, s1) \<Rightarrow>
             (case default_config_path mc of
                None \<Rightarrow> (False, s1, d)
              | Some path \<Rightarrow> (case config_save sd path c d of (works, d1) \<Rightarrow> (works, s1, d1)))))"

text \<open>The greeting as the agent writes it, the members of an object in the order of their names.\<close>

definition hello_json :: "AgentHello \<Rightarrow> json" where
  "hello_json h = JObject
     [(''payload'', JObject
         [(''agent_version'', JString (hello_AgentVersion h)),
          (''capabilities'', JArray (map JString (hello_Capabilities h))),
          (''credential'', JString (hello_Credential h)), (''device_id'', JString (hello_DeviceID h)),
          (''platform'', JString (hello_Platform h)), (''protocol_version'', JString (hello_ProtocolVersion h)),
          (''sessions'', JArray (map summary_json (hello_Sessions h)))]),
      (''type'', JString ''agent_hello'')]"

text \<open>
  \<^verbatim>\<open>vibe-agent run\<close> until the loop starts: the address it connects to, the first message it sends there,
  and the registry. None is an error before that.
\<close>

definition vibe_run :: "serde \<Rightarrow> machine \<Rightarrow> disk \<Rightarrow> (string \<times> string \<times> SessionRegistry) option \<times> disk" where
  "vibe_run sd mc d =
     (case default_config_path mc of
        None \<Rightarrow> (None, d)
      | Some path \<Rightarrow>
          (case config_load sd path d of
             (None, d1) \<Rightarrow> (None, d1)
           | (Some c, d1) \<Rightarrow>
               (let r = mark_lost_after_restart []
                in (Some (agent_ws_url (ac_server c),
                      sd_write sd (hello_json (agent_hello (mc_os mc) (mc_version mc) c r)), r), d1))))"

section \<open>Round trips of the files\<close>

lemma decode_config_json: "decode_config (config_json c) = Some c"
  by (simp add: decode_config_def config_json_def struct_values_def member_def)

lemma save_text_reads:
  assumes "save_text path data d = (True, d1)" and "io_script d1 = []"
  shows "ReadFile path d1 = (Some data, d1)"
proof -
  obtain d0 where "WriteFile path data d0 = (True, d1)"
    using assms(1) by (auto simp: save_text_def split: option.splits prod.splits bool.splits)
  then have "files d1 path = Some data"
    by (auto simp: WriteFile_def split: if_splits prod.splits io_result.splits)
  with assms(2) show ?thesis by (simp add: ReadFile_def next_io_def)
qed

lemma config_round_trip:
  assumes "config_save sd path c d = (True, d1)" and "io_script d1 = []"
    and "sd_read sd (sd_pretty sd (config_json c)) = Some (config_json c)"
  shows "config_load sd path d1 = (Some c, d1)"
  using save_text_reads [OF assms(1) [unfolded config_save_def] assms(2)] assms(3)
  by (simp add: config_load_def decode_config_json)

end
