(* ===== verification/AgentProtocol.thy ===== *)
theory AgentProtocol
  imports AgentProgram ProtocolClaims
begin

text \<open>
  \<^verbatim>\<open>agent/src/protocol.rs\<close>: how the agent reads the text of a message, and that it reads what the server's
  sockets write (\<^verbatim>\<open>socketPeer.Send\<close>) as the message that was sent.
\<close>

section \<open>Fields\<close>

text \<open>A field that may be missing or null.\<close>

definition optional :: "string \<Rightarrow> (string \<times> json) list \<Rightarrow> string option option" where
  "optional k kvs =
     (case filter (\<lambda>p. fst p = k) kvs of
        [] \<Rightarrow> Some None
      | [(_, JNull)] \<Rightarrow> Some None
      | [(_, JString s)] \<Rightarrow> Some (Some s)
      | _ \<Rightarrow> None)"

text \<open>\<^verbatim>\<open>Envelope<Value>\<close>: the type, the request and the payload.\<close>

definition decode_envelope :: "json \<Rightarrow> (string \<times> string option \<times> json) option" where
  "decode_envelope v =
     (case v of
        JObject kvs \<Rightarrow>
          (case (member ''type'' kvs, optional ''request_id'' kvs, optional ''session_id'' kvs, member ''payload'' kvs) of
             (Some (JString ty), Some r, Some _, Some p) \<Rightarrow> Some (ty, r, p)
           | _ \<Rightarrow> None)
      | JArray [JString ty, r, i, p] \<Rightarrow>
          (case (optional [] [([], r)], optional [] [([], i)]) of
             (Some x, Some _) \<Rightarrow> Some (ty, x, p)
           | _ \<Rightarrow> None)
      | _ \<Rightarrow> None)"

text \<open>A payload is a value already, in which the last of equal members counts.\<close>

definition payload_values :: "string list \<Rightarrow> json \<Rightarrow> json list option" where
  "payload_values names v =
     (case v of
        JObject kvs \<Rightarrow> those (map (map_of (rev kvs)) names)
      | JArray vs \<Rightarrow> if length vs = length names then Some vs else None
      | _ \<Rightarrow> None)"

section \<open>Payloads\<close>

definition read_start :: "json \<Rightarrow> message option" where
  "read_start v =
     (case payload_values [''session_id'', ''shell_path'', ''working_directory'', ''cols'', ''rows''] v of
        Some [JString i, JString shell, JString dir, JNumber c, JNumber r] \<Rightarrow>
          Option.bind (serde_unsigned 16 c) (\<lambda>cols. map_option (StartSession i shell dir cols) (serde_unsigned 16 r))
      | _ \<Rightarrow> None)"

definition read_stdin :: "json \<Rightarrow> message option" where
  "read_stdin v =
     (case payload_values [''session_id'', ''data''] v of
        Some [JString i, JString keys] \<Rightarrow> Some (Stdin i keys)
      | _ \<Rightarrow> None)"

definition read_resize :: "json \<Rightarrow> message option" where
  "read_resize v =
     (case payload_values [''session_id'', ''cols'', ''rows''] v of
        Some [JString i, JNumber c, JNumber r] \<Rightarrow>
          Option.bind (serde_unsigned 16 c) (\<lambda>cols. map_option (Resize i cols) (serde_unsigned 16 r))
      | _ \<Rightarrow> None)"

definition read_close :: "json \<Rightarrow> message option" where
  "read_close v = (case payload_values [''session_id''] v of Some [JString i] \<Rightarrow> Some (CloseSession i) | _ \<Rightarrow> None)"

definition read_fs :: "string \<Rightarrow> json \<Rightarrow> message option" where
  "read_fs ty v =
     (if ty = ''fs_list''
      then (case payload_values [''path''] v of Some [JString path] \<Rightarrow> Some (FsList path) | _ \<Rightarrow> None)
      else if ty = ''fs_read''
      then (case payload_values [''path'', ''offset'', ''length''] v of
              Some [JString path, JNumber off, JNumber len] \<Rightarrow>
                Option.bind (serde_unsigned 64 off) (\<lambda>n. map_option (FsRead path n) (serde_unsigned 32 len))
            | _ \<Rightarrow> None)
      else if ty = ''fs_write_open''
      then (case payload_values [''upload_id'', ''path'', ''size'', ''overwrite''] v of
              Some [JString up, JString path, JNumber len, JBool overwrite] \<Rightarrow>
                map_option (\<lambda>n. FsWriteOpen up path n overwrite) (serde_unsigned 64 len)
            | _ \<Rightarrow> None)
      else if ty = ''fs_write_chunk''
      then (case payload_values [''upload_id'', ''offset'', ''data''] v of
              Some [JString up, JNumber off, JString bytes] \<Rightarrow>
                map_option (\<lambda>n. FsWriteChunk up n bytes) (serde_unsigned 64 off)
            | _ \<Rightarrow> None)
      else (case payload_values [''upload_id'', ''total_size''] v of
              Some [JString up, JNumber len] \<Rightarrow> map_option (FsWriteClose up) (serde_unsigned 64 len)
            | _ \<Rightarrow> None))"

section \<open>Messages\<close>

definition fs_requests :: "string list" where
  "fs_requests = [''fs_list'', ''fs_read'', ''fs_write_open'', ''fs_write_chunk'', ''fs_write_close'']"

text \<open>
  The text of a message as the loop takes it. A payload of a file request that cannot be read stands as
  the request with a negative offset, which is answered in the same way; a type the agent does not know
  is one it ignores.
\<close>

definition incoming_of :: "serde \<Rightarrow> string \<Rightarrow> incoming" where
  "incoming_of sd data =
     (case Option.bind (sd_read sd data) decode_envelope of
        None \<Rightarrow> Undecodable
      | Some (ty, r, v) \<Rightarrow>
          (let req = (case r of None \<Rightarrow> [] | Some x \<Rightarrow> x);
               taken = (\<lambda>m. case m of None \<Rightarrow> Undecodable | Some x \<Rightarrow> Incoming req x)
           in if ty = ''start_session'' then taken (read_start v)
              else if ty = ''stdin'' then taken (read_stdin v)
              else if ty = ''resize'' then taken (read_resize v)
              else if ty = ''close_session'' then taken (read_close v)
              else if ty \<in> set fs_requests
              then Incoming req (case read_fs ty v of None \<Rightarrow> FsRead [] (- 1) 0 | Some m \<Rightarrow> m)
              else Incoming req (Heartbeat [])))"

section \<open>What the server sends is understood\<close>

text \<open>The messages for agents, with numbers their fields have room for.\<close>

definition sized :: "nat \<Rightarrow> int \<Rightarrow> bool" where
  "sized w n \<longleftrightarrow> 0 \<le> n \<and> n < 2 ^ w"

definition for_agents :: "Outbound \<Rightarrow> bool" where
  "for_agents m =
     (case ob_Payload m of
        StartSession _ _ _ cols nrows \<Rightarrow> ob_Type m = TypeStartSession \<and> sized 16 cols \<and> sized 16 nrows
      | Stdin _ _ \<Rightarrow> ob_Type m = TypeStdin
      | Resize _ cols nrows \<Rightarrow> ob_Type m = TypeResize \<and> sized 16 cols \<and> sized 16 nrows
      | CloseSession _ \<Rightarrow> ob_Type m = TypeCloseSession
      | FsList _ \<Rightarrow> ob_Type m = TypeFsList
      | FsRead _ off len \<Rightarrow> ob_Type m = TypeFsRead \<and> sized 64 off \<and> sized 32 len
      | FsWriteOpen _ _ len _ \<Rightarrow> ob_Type m = TypeFsWriteOpen \<and> sized 64 len
      | FsWriteChunk _ off _ \<Rightarrow> ob_Type m = TypeFsWriteChunk \<and> sized 64 off
      | FsWriteClose _ len \<Rightarrow> ob_Type m = TypeFsWriteClose \<and> sized 64 len
      | _ \<Rightarrow> False)"

text \<open>The value of a frame, and that \<^verbatim>\<open>serde_json\<close> reads it as \<^verbatim>\<open>encoding/json\<close> has written it.\<close>

definition frame_json :: "Outbound \<Rightarrow> json" where
  "frame_json m = envelope_json \<lparr>env_Type = ob_Type m, env_RequestID = ob_RequestID m,
     env_SessionID = (case SessionIdentifier (ob_Payload m) of None \<Rightarrow> [] | Some i \<Rightarrow> i),
     env_Payload = Some (payload_json (ob_Payload m))\<rparr>"

definition crosses :: "libs \<Rightarrow> serde \<Rightarrow> Outbound \<Rightarrow> bool" where
  "crosses L sd m \<longleftrightarrow> sd_read sd (lib_marshal L (frame_json m)) = Some (frame_json m)"

lemma socket_frame_json: "socket_frame L m = lib_marshal L (frame_json m)"
  by (simp add: socket_frame_def frame_json_def EncodeEnvelopeWithRequest_def EncodeEnvelope_def)

lemma unsigned_formatInt: "sized w n \<Longrightarrow> serde_unsigned w (formatInt n) = Some n"
  using digits_of_start [of "nat n"] nat_less_iff [of n "2 ^ w"]
  by (simp add: sized_def serde_unsigned_def formatInt_def list_all_iff digits_of_digits)

lemma envelope_read:
  "decode_envelope (frame_json m) =
    Some (ob_Type m, if ob_RequestID m = [] then None else Some (ob_RequestID m), payload_json (ob_Payload m))"
  by (simp add: decode_envelope_def frame_json_def envelope_json_def omit_empty_def member_def optional_def)

lemma agent_reads:
  assumes "for_agents m" and "crosses L sd m"
  shows "incoming_of sd (socket_frame L m) = Incoming (ob_RequestID m) (ob_Payload m)"
  using assms
  by (cases "ob_Payload m")
    (simp_all add: for_agents_def incoming_of_def socket_frame_json crosses_def envelope_read payload_values_def
      payload_json_def json_int_def unsigned_formatInt read_start_def read_stdin_def read_resize_def read_close_def
      read_fs_def fs_requests_def Let_def)

text \<open>A library of both sides.\<close>

definition plain_serde :: serde where
  "plain_serde = \<lparr>sd_write = lib_marshal plain_libs, sd_pretty = lib_marshal plain_libs, sd_read = unmarshal plain_libs\<rparr>"

lemma plain_crosses: "crosses plain_libs plain_serde m"
  by (simp add: crosses_def plain_serde_def unmarshal_marshal plain_libs_carry)

text \<open>A value arrives as it was written: from agent to server, back, and through a file of the agent.\<close>

definition arrives :: "libs \<Rightarrow> serde \<Rightarrow> json \<Rightarrow> bool" where
  "arrives L sd v \<longleftrightarrow> lib_lex L (sd_write sd v) = (tokens_of v, True) \<and> sd_read sd (lib_marshal L v) = Some v \<and>
     sd_read sd (sd_pretty sd v) = Some v"

lemma plain_arrives: "arrives plain_libs plain_serde v"
  using plain_libs_carry [of v] unmarshal_marshal [OF plain_libs_carry [of v]]
  by (simp add: arrives_def carries_def plain_serde_def)

end
