(* ===== verification/Delivery.thy ===== *)
theory Delivery
  imports SiteClaims FileLink OutputClaims AgentProtocol
begin

text \<open>
  From the shell to the screen: what an agent sends of a session's output, the server passes on to a
  browser that has subscribed to the session, each frame once and in order.
\<close>

section \<open>A session somebody watches\<close>

text \<open>
  \<^verbatim>\<open>send_payload\<close>, and what it decodes to; the order in which the members of a payload are written is of
  no account to the server.
\<close>

definition null_or :: "string \<Rightarrow> json" where
  "null_or s = (if s = [] then JNull else JString s)"

definition send_payload_json :: "Outbound \<Rightarrow> json" where
  "send_payload_json m = JObject
     [(''payload'', payload_json (ob_Payload m)), (''request_id'', null_or (ob_RequestID m)),
      (''session_id'', null_or (ob_SessionID m)), (''type'', JString (ob_Type m))]"

definition sends_text :: "libs \<Rightarrow> serde \<Rightarrow> Outbound \<Rightarrow> bool" where
  "sends_text L sd m \<longleftrightarrow>
     lib_lex L (sd_write sd (send_payload_json m)) = (tokens_of (send_payload_json m), True)"

definition frame_env :: "Outbound \<Rightarrow> Envelope" where
  "frame_env m = \<lparr>env_Type = ob_Type m, env_RequestID = ob_RequestID m, env_SessionID = ob_SessionID m,
     env_Payload = Some (payload_json (ob_Payload m))\<rparr>"

lemma send_payload_decodes:
  assumes "sends_text L sd m" and "ob_Type m \<noteq> []"
  shows "DecodeEnvelope L (sd_write sd (send_payload_json m)) = Some (frame_env m)"
proof -
  have "unmarshal L (sd_write sd (send_payload_json m)) = Some (send_payload_json m)"
    using assms(1) first_value_tokens [of "send_payload_json m" "[]"] by (simp add: sends_text_def unmarshal_def)
  with assms(2) show ?thesis
    by (cases "ob_RequestID m = []"; cases "ob_SessionID m = []")
      (simp_all add: DecodeEnvelope_def send_payload_json_def null_or_def envelope_fields_def frame_env_def
        decode_struct_def target_field_def str_field_def raw_field_def)
qed

text \<open>The output of the session \<open>i\<close> that was sent to the browser \<open>q\<close>.\<close>

definition shown :: "string \<Rightarrow> peer \<Rightarrow> site \<Rightarrow> string" where
  "shown i q s = stdout_data i (map snd (filter (\<lambda>f. fst f = q) (sent (wires s))))"

text \<open>The database and the connections work, and \<open>q\<close> watches the session \<open>i\<close> of the device \<open>dev\<close>.\<close>

definition watched :: "string \<Rightarrow> string \<Rightarrow> peer \<Rightarrow> site \<Rightarrow> bool" where
  "watched i dev q s \<longleftrightarrow> faults (db (srv s)) = [] \<and> outcomes (wires s) = [] \<and>
     owner (rows s) i = Some dev \<and> q \<in> set (subscribers (hub s) i) \<and> distinct (subscribers (hub s) i)"

definition passes :: "string \<Rightarrow> string \<Rightarrow> peer \<Rightarrow> string \<Rightarrow> site \<Rightarrow> site \<Rightarrow> bool" where
  "passes i dev q d s t \<longleftrightarrow> watched i dev q t \<and> shown i q t = shown i q s @ d"

lemma watched_cong:
  "watched i dev q s \<Longrightarrow> faults (db (srv t)) = [] \<Longrightarrow> wires t = wires s \<Longrightarrow> owner (rows t) = owner (rows s) \<Longrightarrow>
    (\<And>j. subscribers (hub t) j = subscribers (hub s) j) \<Longrightarrow> passes i dev q [] s t"
  by (simp add: watched_def passes_def shown_def)

lemma passes_trans: "passes i dev q d s t \<Longrightarrow> passes i dev q e t u \<Longrightarrow> passes i dev q (d @ e) s u"
  by (simp add: passes_def)

lemma passes_refl: "watched i dev q s \<Longrightarrow> passes i dev q [] s s"
  by (simp add: passes_def)

lemma passes_watched: "passes i dev q d s t \<Longrightarrow> watched i dev q t"
  by (simp add: passes_def)

section \<open>Calls\<close>

lemma faults_calm: "faults c = [] \<Longrightarrow> c = calm (contents c)"
  by (simp add: calm_def)

lemma calm_faults [simp]: "faults (calm T) = []"
  by (simp add: calm_def)

lemma calls_calm:
  assumes "faults c = []"
  shows "faults (snd (GetTerminalSession i c)) = []" "faults (snd (UpdateTerminalSessionStatus now i st pid sq c)) = []"
    "faults (snd (CreateOutputChunk now ck c)) = []" "faults (snd (audit_log u now ev c)) = []"
proof -
  obtain T where c: "c = calm T" using faults_calm [OF assms] by blast
  show "faults (snd (GetTerminalSession i c)) = []" unfolding c GetTerminalSession_def by simp
  show "faults (snd (UpdateTerminalSessionStatus now i st pid sq c)) = []"
    unfolding c UpdateTerminalSessionStatus_def by (cases "stmt_session_status i st pid sq now T") auto
  have e: "faults (snd (SqlStore.bind (exec stm) (\<lambda>_. ok x) (calm T))) = []" for stm and x :: 'z
    by (cases "stm T") (auto simp: SqlStore.bind_def ok_def)
  show "faults (snd (CreateOutputChunk now ck c)) = []"
    unfolding c CreateOutputChunk_def Let_def by (rule e)
  show "faults (snd (audit_log u now ev c)) = []"
    unfolding c audit_log_eq by (rule e)
qed

text \<open>No handler that only uses the database changes whose sessions are whose.\<close>

interpretation owners: server_frame "\<lambda>T. owner T = f" for f
  by unfold_locales (rule owner_ops)

lemma quiet_calls:
  assumes w: "watched i dev q s"
  shows "passes i dev q [] s (try_db (UpdateTerminalSessionStatus now j st pid sq) s)"
    "passes i dev q [] s (try_db (CreateOutputChunk now ck) s)"
    "passes i dev q [] s (site_audit u now ev s)"
    "passes i dev q [] s (s\<lparr>out_store := d\<rparr>)" "passes i dev q [] s (on_fs g s)"
    "passes i dev q [] s (on_hub (BindSession j d2) s)"
proof -
  have f: "faults (db (srv s)) = []" using w by (simp add: watched_def)
  show "passes i dev q [] s (try_db (UpdateTerminalSessionStatus now j st pid sq) s)"
    by (rule watched_cong [OF w]) (simp_all add: try_db_def calls_calm f owner_status)
  have "owner (rows (try_db (CreateOutputChunk now ck) s)) = owner (rows s)"
    by (rule rows_try_db [OF owners.calls(25)]) (rule refl)
  then show "passes i dev q [] s (try_db (CreateOutputChunk now ck) s)"
    by (intro watched_cong [OF w]) (simp_all add: try_db_def calls_calm f)
  have "owner (rows (site_audit u now ev s)) = owner (rows s)"
    by (rule rows_audit [OF owners.calls(26)]) (rule refl)
  then show "passes i dev q [] s (site_audit u now ev s)"
    by (intro watched_cong [OF w]) (simp_all add: site_audit_def try_audit_def calls_calm f)
  show "passes i dev q [] s (s\<lparr>out_store := d\<rparr>)" "passes i dev q [] s (on_fs g s)"
    "passes i dev q [] s (on_hub (BindSession j d2) s)"
    by (auto intro!: watched_cong [OF w] simp: f rows_def on_fs_def on_hub_def)
qed

lemma read_calm:
  assumes w: "watched i dev q s" and r: "site_db (GetTerminalSession j) s = (r, s1)"
  shows "passes i dev q [] s s1" "j = i \<Longrightarrow> \<exists>x. r = Inr x \<and> ts_DeviceID x = dev"
proof -
  have s1: "s1 = snd (site_db (GetTerminalSession j) s)" using r by simp
  have f: "faults (db (srv s)) = []" using w by (simp add: watched_def)
  show "passes i dev q [] s s1"
    by (rule watched_cong [OF w]) (simp_all add: s1 calls_calm f)
  assume j: "j = i"
  obtain x where x: "session_by_id i (rows s) = Some x" "ts_DeviceID x = dev"
    using w by (auto simp: watched_def owner_def)
  have "fst (GetTerminalSession j (calm (rows s))) = Inr x" by (simp add: GetTerminalSession_def j x)
  then have "r = Inr x"
    using site_parts(7) [of "GetTerminalSession j" s] r faults_calm [OF f] by (simp add: rows_def)
  with x show "\<exists>x. r = Inr x \<and> ts_DeviceID x = dev" by simp
qed

section \<open>Messages\<close>

lemma replied:
  assumes w: "watched i dev q s" and m: "silent [m]"
  shows "passes i dev q [] s (reply_to p m s)"
proof -
  have o: "outcomes (wires s) = []" using w by (simp add: watched_def)
  have "silent (map snd (filter (\<lambda>f. fst f = q) [(p, m)]))" using m by (simp add: silent_def)
  then show ?thesis using w o
    by (simp add: passes_def watched_def shown_def reply_to_def Send_works rows_def)
qed

lemma forwarded:
  assumes w: "watched i dev q s"
  shows "passes i dev q (case m of Stdout j n d \<Rightarrow> if j = i then d else [] | _ \<Rightarrow> []) s (from_agent \<sigma> dev2 m s)"
proof -
  have o: "outcomes (wires s) = []" using w by (simp add: watched_def)
  let ?ps = "visit \<sigma> (subscribers (hub s) (sessionIDOf m))"
  have t: "wires (from_agent \<sigma> dev2 m s) = (wires s)\<lparr>sent := sent (wires s) @ map (\<lambda>p. (p, outbound m)) ?ps\<rparr>"
    "rows (from_agent \<sigma> dev2 m s) = rows s" "hub (from_agent \<sigma> dev2 m s) = hub s"
    "srv (from_agent \<sigma> dev2 m s) = srv s"
    using send_each_works [OF o, of "outbound m" ?ps]
    by (simp_all add: from_agent_def site_send_def FromAgent_def rows_def)
  have t1: "sent (wires (from_agent \<sigma> dev2 m s)) = sent (wires s) @ map (\<lambda>p. (p, outbound m)) ?ps"
    by (simp add: t(1))
  have sel: "map snd (filter (\<lambda>f. fst f = q) (map (\<lambda>p. (p, outbound m)) ps)) =
      replicate (count (mset ps) q) (outbound m)" for ps
    by (induction ps) auto
  have one: "count (mset ?ps) q = (if q \<in> set ?ps then 1 else 0)" if "distinct ?ps"
    using that by (simp add: distinct_count_atmost_1)
  have rep: "stdout_data i (replicate n (outbound m)) = []" if "\<nexists>n d. m = Stdout i n d" for n
    using that by (induction n) (auto simp: outbound_def split: message.split)
  have n: "shown i q (from_agent \<sigma> dev2 m s) =
      shown i q s @ stdout_data i (replicate (count (mset ?ps) q) (outbound m))"
    unfolding shown_def t1 by (simp only: filter_append map_append stdout_append sel)
  have "shown i q (from_agent \<sigma> dev2 m s) = shown i q s @ (case m of Stdout j n d \<Rightarrow> if j = i then d else [] | _ \<Rightarrow> [])"
  proof (cases "\<exists>n d. m = Stdout i n d")
    case True
    then obtain n d where m: "m = Stdout i n d" by blast
    then have "sessionIDOf m = i" by (simp add: sessionIDOf_def)
    then have "count (mset ?ps) q = 1" using one w by (simp add: watched_def)
    then have "shown i q (from_agent \<sigma> dev2 m s) = shown i q s @ stdout_data i [outbound m]" unfolding n by simp
    then show ?thesis by (simp add: m outbound_def)
  next
    case False
    then show ?thesis unfolding n by (auto simp: rep split: message.split)
  qed
  with w show ?thesis by (simp add: passes_def watched_def t)
qed

text \<open>The output of the session, and of any other.\<close>

lemma note_passes: "watched i dev q s \<Longrightarrow> passes i dev q [] s (note_output e j n s)"
proof -
  assume w: "watched i dev q s"
  obtain r s1 where r: "site_db (GetTerminalSession j) s = (r, s1)" by force
  note r1 = read_calm(1) [OF w r]
  show ?thesis
  proof (cases r)
    case (Inl err)
    with r r1 show ?thesis by (simp add: note_output_def)
  next
    case (Inr x)
    from passes_trans [OF r1 quiet_calls(1) [OF passes_watched [OF r1]]] r Inr show ?thesis
      by (simp add: note_output_def)
  qed
qed

lemma persist_passes: "watched i dev q s \<Longrightarrow> passes i dev q [] s (persistOutputChunk e j n data s)"
proof -
  assume w: "watched i dev q s"
  show ?thesis
  proof (cases "out_store s")
    case None
    with w show ?thesis by (simp add: persistOutputChunk_def passes_refl)
  next
    case (Some rd)
    obtain root d res d1 where "rd = (root, d)" "WriteChunk root j n n data d = (res, d1)" by (metis prod.exhaust)
    moreover note q = quiet_calls(4) [OF w, of "Some (root, d1)"]
    note passes_trans [OF q quiet_calls(2) [OF passes_watched [OF q]]]
      passes_trans [OF q quiet_calls(3) [OF passes_watched [OF q]]]
    ultimately show ?thesis using Some by (auto simp: persistOutputChunk_def split: option.split)
  qed
qed

lemma output_passes:
  assumes w: "watched i dev q s"
  shows "passes i dev q (if j = i then data else []) s (session_output \<sigma> e dev (j, n, data) p s)"
proof -
  obtain r s1 where r: "site_db (GetTerminalSession j) s = (r, s1)" by force
  note r1 = read_calm(1) [OF w r]
  note w1 = passes_watched [OF r1]
  note n1 = note_passes [OF w1, of e j n]
  note p1 = persist_passes [OF passes_watched [OF n1], of e j n data]
  note f1 = forwarded [OF passes_watched [OF p1], of "Stdout j n data" \<sigma> dev]
  have sent_on: "passes i dev q (if j = i then data else []) s
      (from_agent \<sigma> dev (Stdout j n data) (persistOutputChunk e j n data (note_output e j n s1)))"
    using passes_trans [OF r1 passes_trans [OF n1 passes_trans [OF p1 f1]]] by simp
  have refused: "passes i dev q [] s (reply_to p session_forbidden s1)"
    using passes_trans [OF r1 replied [OF w1]] by (simp add: session_forbidden_def errorOutbound_def silent_def)
  show ?thesis
  proof (cases "\<exists>x. r = Inr x \<and> ts_DeviceID x = dev")
    case True
    with r sent_on show ?thesis by (auto simp: session_output_def agentOwnsSession_def)
  next
    case False
    moreover from this read_calm(2) [OF w r] have "j \<noteq> i" by blast
    ultimately show ?thesis using r refused
      by (auto simp: session_output_def agentOwnsSession_def split: sum.splits)
  qed
qed

lemma started_passes:
  assumes w: "watched i dev q s"
  shows "passes i dev q [] s (session_started \<sigma> e dev m p s)"
proof -
  obtain j pid t n where m: "m = (j, pid, t, n)" by (cases m)
  obtain r s1 where r: "site_db (GetTerminalSession j) s = (r, s1)" by force
  note r1 = read_calm(1) [OF w r]
  note u1 = quiet_calls(1) [OF passes_watched [OF r1], of "clock e 0" j SessionRunning pid n]
  note b1 = quiet_calls(6) [OF passes_watched [OF u1], of j dev]
  note f1 = forwarded [OF passes_watched [OF b1], of "SessionStarted j pid t n" \<sigma> dev]
  have refused: "passes i dev q [] s (reply_to p session_forbidden s1)"
    using passes_trans [OF r1 replied [OF passes_watched [OF r1]]]
    by (simp add: session_forbidden_def errorOutbound_def silent_def)
  show ?thesis
    using passes_trans [OF r1 passes_trans [OF u1 passes_trans [OF b1 f1]]] refused r
    by (auto simp: m session_started_def agentOwnsSession_def split: sum.split bool.split)
qed

lemma exited_passes:
  assumes w: "watched i dev q s"
  shows "passes i dev q [] s (session_exited \<sigma> e dev m p s)"
proof -
  obtain j code reason where m: "m = (j, code, reason)" by (cases m)
  obtain r s1 where r: "site_db (GetTerminalSession j) s = (r, s1)" by force
  note r1 = read_calm(1) [OF w r]
  obtain r' s2 where r': "site_db (GetTerminalSession j) s1 = (r', s2)" by force
  note r2 = read_calm(1) [OF passes_watched [OF r1] r']
  have told: "passes i dev q [] s (from_agent \<sigma> dev (SessionState j st reason)
      (try_db (UpdateTerminalSessionStatus (clock e 0) j st pid n) s2))" for st pid n
  proof -
    note u1 = quiet_calls(1) [OF passes_watched [OF r2], of "clock e 0" j st pid n]
    from passes_trans [OF r1 passes_trans [OF r2 passes_trans [OF u1
        forwarded [OF passes_watched [OF u1], of "SessionState j st reason" \<sigma> dev]]]] show ?thesis by simp
  qed
  have refused: "passes i dev q [] s (reply_to p session_forbidden s1)"
    using passes_trans [OF r1 replied [OF passes_watched [OF r1]]]
    by (simp add: session_forbidden_def errorOutbound_def silent_def)
  show ?thesis
    using told refused r r'
    by (auto simp: m session_exited_def agentOwnsSession_def exit_state_def split: sum.split bool.split)
qed

section \<open>What an agent's loop sends\<close>

definition agent_sends :: "Outbound \<Rightarrow> bool" where
  "agent_sends m \<longleftrightarrow>
     (\<exists>j pid t n. m = session_frame j (SessionStarted j pid t n)) \<or> (\<exists>j n d. m = session_frame j (Stdout j n d)) \<or>
     (\<exists>j c r. m = session_frame j (SessionExit j c r)) \<or>
     silent [m] \<and> ob_Type m \<in> {TypeFsListResult, TypeFsReadResult, TypeFsWriteOpened, TypeFsWriteAck,
       TypeFsWriteResult, TypeFsError}"

lemma kinds [simp]:
  "agent_sends (session_frame j (SessionStarted j pid t n))" "agent_sends (session_frame j (Stdout j n d))"
  "agent_sends (session_frame j (SessionExit j c r))"
  unfolding agent_sends_def by blast+

lemma answers_sent: "answer_request r m s = (Some ms, t) \<Longrightarrow> \<forall>x \<in> set ms. agent_sends x"
proof -
  assume a: "answer_request r m s = (Some ms, t)"
  have "ob_Type x \<in> {TypeFsListResult, TypeFsReadResult, TypeFsWriteOpened, TypeFsWriteAck,
      TypeFsWriteResult, TypeFsError}" if "x \<in> set ms" for x
    using a that by (auto simp: answer_request_def handle_fs_message_def reply_with_def fs_reply_def
        invalid_request_def split: prod.splits option.splits message.splits sum.splits if_splits)
  with fs_replies(1) [OF a] show ?thesis by (auto simp: agent_sends_def silent_def)
qed

lemma calls_sent: "if_session_exists i call s = (Some ms, t) \<Longrightarrow> ms = []"
  by (auto simp: if_session_exists_def split: if_splits prod.splits)

lemma control_sent: "handle_control os m s = (Some ms, t) \<Longrightarrow> \<forall>x \<in> set ms. agent_sends x"
proof -
  assume h: "handle_control os m s = (Some ms, t)"
  have started: "\<forall>x \<in> set ms. agent_sends x" if "start_terminal os i sh d c r s = (Some ms, t)" for i sh d c r
    using that by (auto simp: start_terminal_def pty_start_def split: option.splits)
  have closed_: "\<forall>x \<in> set ms. agent_sends x" if "close_terminal i s = (Some ms, t)" for i
    using that by (auto simp: close_terminal_def)
  show ?thesis
  proof (cases m)
    case Undecodable
    with h show ?thesis by (simp add: handle_control_def)
  next
    case (Incoming q msg)
    with h show ?thesis
      by (cases msg) (auto simp: handle_control_def dest: started closed_ answers_sent calls_sent split: if_splits)
  qed
qed

lemma flush_sent: "flush_pty_outputs ks p b = (Some ms, r) \<Longrightarrow> \<forall>x \<in> set ms. agent_sends x"
proof (induction ks arbitrary: p b ms r)
  case (Cons k ks)
  show ?case
  proof (cases "has_session k p")
    case False
    with Cons show ?thesis by simp
  next
    case True
    then obtain out q where q: "read_available k p = (Some out, q)" using read_has by blast
    show ?thesis
    proof (cases "out = []")
      case False
      obtain f x where f: "buffer_push out (case map_of b k of None \<Rightarrow> buffer_new 1024 | Some x \<Rightarrow> x) = (f, x)" by force
      obtain res rest where run: "flush_pty_outputs ks q (bt_insert k x b) = (res, rest)"
        by (metis surj_pair)
      from Cons.prems True q False f run obtain ns where ns: "res = Some ns"
        and "ms = session_frame k (Stdout k (fr_seq f) (fr_data f)) # ns" by auto
      with Cons.IH [OF run [unfolded ns]] show ?thesis by simp
    qed (use Cons True q in auto)
  qed
qed simp

lemma run_sent: "control_run s0 s w ms \<Longrightarrow> \<forall>x \<in> set ms. agent_sends x"
proof (induction rule: control_run.induct)
  case (hears s w ms os m rs t)
  with control_sent show ?case by fastforce
next
  case (ticks s w ms os late rs t)
  have "\<forall>x \<in> set rs. agent_sends x"
    using ticks.hyps(2) flush_sent
    by (fastforce simp: tick_outputs_def split: prod.splits option.splits)
  with ticks.IH show ?case by auto
qed simp_all

lemma stdout_decodes:
  "min_int64 \<le> n \<Longrightarrow> n \<le> max_int64 \<Longrightarrow> decode_stdout (frame_env (session_frame j (Stdout j n d))) = Some (j, n, d)"
  by (simp add: frame_env_def session_frame_def decode_stdout_def decode_defs)

lemma message_passes:
  assumes w: "watched i dev q s" and m: "agent_sends m"
    and range: "\<forall>j n d. ob_Payload m = Stdout j n d \<longrightarrow> 1 \<le> n \<and> n \<le> max_int64"
  shows "passes i dev q (stdout_data i [m]) s (handleAgentEnvelope \<sigma> e dev (frame_env m) p s)"
proof -
  have err: "silent [invalid_payload x]" for x by (simp add: invalid_payload_def errorOutbound_def silent_def)
  note pass = replied [OF w err] started_passes [OF w] exited_passes [OF w] quiet_calls(5) [OF w]
  from m consider j pid t n where "m = session_frame j (SessionStarted j pid t n)"
    | j n d where "m = session_frame j (Stdout j n d)" | j c r where "m = session_frame j (SessionExit j c r)"
    | "silent [m]" "ob_Type m \<in> {TypeFsListResult, TypeFsReadResult, TypeFsWriteOpened, TypeFsWriteAck,
        TypeFsWriteResult, TypeFsError}"
    unfolding agent_sends_def by blast
  then show ?thesis
  proof cases
    case 1
    then show ?thesis using pass
      by (simp add: handleAgentEnvelope_def frame_env_def session_frame_def typeOf_def split: option.split)
  next
    case 2
    then have "min_int64 \<le> n" "n \<le> max_int64" using range by (auto simp: session_frame_def min_int64_def)
    from stdout_decodes [OF this, of j d] 2 output_passes [OF w, of j d \<sigma> e n p] show ?thesis
      by (simp add: handleAgentEnvelope_def) (simp add: frame_env_def session_frame_def typeOf_def)
  next
    case 3
    then show ?thesis using pass
      by (simp add: handleAgentEnvelope_def frame_env_def session_frame_def typeOf_def split: option.split)
  next
    case 4
    then show ?thesis using pass(4) by (auto simp: handleAgentEnvelope_def frame_env_def simp del: stdout_data.simps)
  qed
qed

section \<open>The property\<close>

text \<open>The server takes an agent's messages, one after the other.\<close>

fun server_takes :: "libs \<Rightarrow> serde \<Rightarrow> string \<Rightarrow> peer \<Rightarrow> (choice \<times> env \<times> Outbound) list \<Rightarrow> site \<Rightarrow> site" where
  "server_takes L sd dev p [] s = s"
| "server_takes L sd dev p ((\<sigma>, e, m) # xs) s =
     server_takes L sd dev p xs (agent_message L \<sigma> e dev (sd_write sd (send_payload_json m)) p s)"

definition messages_of :: "(choice \<times> env \<times> Outbound) list \<Rightarrow> Outbound list" where
  "messages_of xs = map (\<lambda>(\<sigma>, e, m). m) xs"

lemma sends_typed: "agent_sends m \<Longrightarrow> ob_Type m \<noteq> []"
  by (auto simp: agent_sends_def session_frame_def typeOf_def)

lemma takes_passes:
  assumes "watched i dev q s" and "\<forall>m \<in> set (messages_of xs). agent_sends m \<and> sends_text L sd m"
    and "\<forall>m \<in> set (messages_of xs). \<forall>j n d. ob_Payload m = Stdout j n d \<longrightarrow> 1 \<le> n \<and> n \<le> max_int64"
  shows "passes i dev q (stdout_data i (messages_of xs)) s (server_takes L sd dev p xs s)"
  using assms
proof (induction xs arbitrary: s)
  case Nil
  then show ?case by (simp add: messages_of_def passes_refl)
next
  case (Cons x xs)
  obtain \<sigma> e m where x: "x = (\<sigma>, e, m)" by (metis prod.exhaust)
  have first: "passes i dev q (stdout_data i [m]) s (handleAgentEnvelope \<sigma> e dev (frame_env m) p s)"
    using Cons.prems by (intro message_passes) (simp_all add: x messages_of_def)
  have "DecodeEnvelope L (sd_write sd (send_payload_json m)) = Some (frame_env m)"
    using Cons.prems(2) by (intro send_payload_decodes) (auto simp: x messages_of_def dest: sends_typed)
  then have t: "agent_message L \<sigma> e dev (sd_write sd (send_payload_json m)) p s =
      handleAgentEnvelope \<sigma> e dev (frame_env m) p s"
    by (simp add: agent_message_def)
  have "passes i dev q (stdout_data i (messages_of xs)) (handleAgentEnvelope \<sigma> e dev (frame_env m) p s)
      (server_takes L sd dev p xs (handleAgentEnvelope \<sigma> e dev (frame_env m) p s))"
    using Cons.prems by (intro Cons.IH passes_watched [OF first]) (simp_all add: x messages_of_def)
  from passes_trans [OF first this] show ?case by (simp add: x messages_of_def t)
qed

lemma seq_in_range: "m \<in> set ms \<Longrightarrow> ob_Payload m = Stdout j n d \<Longrightarrow> n \<in> set (stdout_seqs j ms)"
  by (induction ms) auto

lemma length_seqs: "length (stdout_seqs j ms) \<le> length ms"
  by (induction ms) (auto split: message.split)


text \<open>The sample session \<open>s\<close> on the device \<open>d\<close>, watched by the browser 8.\<close>

definition watched_site :: site where
  "watched_site = sample_site\<lparr>srv := (srv sample_site)\<lparr>db := calm (empty_tables\<lparr>devices := [sample_device ''d''],
       terminal_sessions := [sample_session ''s'' ''d'' SessionStarting]\<rparr>)\<rparr>,
     hub := SubscribeWeb ''s'' 8 NewHub\<rparr>"

lemma sample_watched: "watched ''s'' ''d'' 8 watched_site"
  by (simp add: watched_def watched_site_def sample_site_def rows_def owner_def session_by_id_def
      sample_session_def)

lemma sample_tick:
  "fst (tick_outputs works_fine [] printing) = Some [session_frame ''s'' (Stdout ''s'' 1 ''hi'')]"
  by code_simp


end
