(* ===== verification/InputClaims.thy ===== *)
theory InputClaims
  imports SiteClaims OutputClaims AgentProtocol
begin

text \<open>
  From the keyboard to the shell: what browsers type into a session, the server sends to the agent of
  the session's device, and the agent gives it to the session's terminal, in order and without a loss.
\<close>

section \<open>Terminals and buffers\<close>

text \<open>
  Between two steps of its loop an agent has buffers for exactly the sessions that have a terminal, so
  input for a session that has ended is skipped and does not end the loop.
\<close>

definition known :: "string \<Rightarrow> PtyManager \<Rightarrow> bool" where
  "known i m \<longleftrightarrow> has_session i m \<or> map_of (pt_exited m) i \<noteq> None"

lemma known_steps [simp]:
  "known i (push_pending j data m) = known i m" "known i (note_exit j m) = known i m"
  "known i (m\<lparr>pt_channel := es\<rparr>) = known i m" "known i (m\<lparr>pt_pending := ps\<rparr>) = known i m"
  by (auto simp: known_def push_pending_def note_exit_def has_session_def)

lemma known_read_events: "read_events j es out m = (r, m1) \<Longrightarrow> known i m1 = known i m"
  by (induction j es out m rule: read_events.induct) (auto split: if_splits)

lemma known_read: "read_available j m = (r, m1) \<Longrightarrow> known i m1 = known i m"
  by (auto simp: read_available_def split: if_splits prod.splits dest: known_read_events [where i = i])

lemma known_flush: "flush_pty_outputs ks p b = (r, p1, b1) \<Longrightarrow> known i p1 = known i p"
proof (induction ks p b arbitrary: r p1 b1 rule: flush_pty_outputs.induct)
  case (2 k ks p b)
  then show ?case
    by (auto split: if_splits prod.splits option.splits dest: known_read [where i = i])
qed simp

lemma known_drained: "known i (drain_events es m) = known i m"
  by (induction es m rule: drain_events.induct) simp_all

definition synced :: "control \<Rightarrow> bool" where
  "synced c \<longleftrightarrow> (\<forall>i. map_of (ct_buffers c) i = None \<longleftrightarrow> map_of (pt_sessions (ct_pty c)) i = None)"

lemma synced_iff: "synced c \<longleftrightarrow> (\<forall>i. map_of (ct_buffers c) i = None \<longleftrightarrow> \<not> has_session i (ct_pty c))"
  by (simp add: synced_def has_session_def)

lemma drained_exit:
  assumes "drain_exited m = (gone, m1)" and "apart m"
  shows "has_session i m1 \<longleftrightarrow> known i m \<and> i \<notin> set gone"
proof -
  let ?d = "drain_events (pt_channel m) (m\<lparr>pt_channel := []\<rparr>)"
  have m1: "gone = map fst (pt_exited ?d)" "m1 = ?d\<lparr>pt_exited := []\<rparr>"
    using assms(1) by (simp_all add: drain_exited_def Let_def)
  have "apart ?d" using assms(2) by (simp add: drain_events_apart)
  moreover have "known i ?d = known i m" by (simp add: known_drained)
  moreover have "i \<in> set gone \<longleftrightarrow> map_of (pt_exited ?d) i \<noteq> None"
    unfolding m1 by (simp add: map_of_eq_None_iff)
  ultimately show ?thesis unfolding m1(2) by (auto simp: known_def apart_def has_session_def)
qed

lemma tick_synced:
  assumes inv: "control_inv s w ms" and sync: "synced s" and run: "tick_outputs os late s = (r, t)"
  shows "synced t"
proof -
  obtain out p1 b1 where f: "flush_pty_outputs (map fst (ct_buffers s)) (ct_pty s) (ct_buffers s) = (Some out, p1, b1)"
    and fl: "flushed (map fst (ct_buffers s)) (ct_pty s) (ct_buffers s) out p1 b1"
    using flush_effect [of "map fst (ct_buffers s)" "ct_buffers s" "ct_pty s"] by (auto simp: dom_map_of_conv_image_fst)
  obtain gone p2 where g: "drain_exited (p1\<lparr>pt_channel := pt_channel p1 @ late\<rparr>) = (gone, p2)" by force
  from run f g have t: "ct_pty t = p2" "ct_buffers t = fold bt_remove gone b1" by (auto simp: tick_outputs_def)
  have exited: "pt_exited (ct_pty s) = []" using inv by (simp add: control_inv_def)
  then have "apart (ct_pty s)" by (simp add: apart_def)
  then have "apart (p1\<lparr>pt_channel := pt_channel p1 @ late\<rparr>)" using flushedD(7) [OF fl] by simp
  note has = drained_exit [OF g this]
  have "known i p1 \<longleftrightarrow> has_session i (ct_pty s)" for i
    using known_flush [OF f, of i] exited by (simp add: known_def)
  moreover have "map_of b1 i = None \<longleftrightarrow> map_of (ct_buffers s) i = None" for i
    using flushedD(5) [OF fl] by (metis domIff)
  ultimately show ?thesis using sync by (simp add: synced_iff t has fold_remove)
qed

lemma call_synced:
  assumes "synced s" and "if_session_exists i call s = (r, t)"
    and "\<And>j p. has_session j (snd (call p)) = has_session j p"
  shows "synced t"
proof -
  from assms(2) have "ct_buffers t = ct_buffers s" "ct_pty t = ct_pty s \<or> ct_pty t = snd (call (ct_pty s))"
    by (auto simp: if_session_exists_def split: if_splits prod.splits)
  with assms(1,3) show ?thesis by (auto simp: synced_iff)
qed

lemma typing_synced:
  "synced s \<Longrightarrow> if_session_exists i (pty_write x j d) s = (r, t) \<Longrightarrow> synced t"
  "synced s \<Longrightarrow> if_session_exists i (pty_resize y j c n) s = (r, t) \<Longrightarrow> synced t"
  by (erule (1) call_synced; simp)+

lemma start_synced: "synced s \<Longrightarrow> start_terminal os i sh d c r s = (Some rs, t) \<Longrightarrow> synced t"
  by (auto simp: start_terminal_def pty_start_def synced_def split: option.splits)

lemma answer_synced: "synced s \<Longrightarrow> answer_request q m s = (r, t) \<Longrightarrow> synced t"
  by (auto simp: answer_request_def synced_def split: prod.splits option.splits)

lemma close_synced: "synced s \<Longrightarrow> close_terminal i s = (r, t) \<Longrightarrow> synced t"
  by (auto simp: close_terminal_def pty_close_def synced_def split: if_splits)

lemma hears_synced: "synced s \<Longrightarrow> handle_control os m s = (Some rs, t) \<Longrightarrow> synced t"
  by (auto simp: handle_control_def split: incoming.splits message.splits if_splits
      dest: start_synced answer_synced close_synced typing_synced)

lemma run_synced: "control_run (control_new reg f) c w ms \<Longrightarrow> synced c"
proof (induction rule: control_run.induct)
  case begins
  then show ?case by (simp add: synced_def control_new_def pty_new_def has_session_def)
next
  case (ticks s w ms os late rs t)
  then show ?case using tick_synced run_inv by blast
next
  case (hears s w ms os m rs t)
  then show ?case by (blast intro: hears_synced)
qed (simp add: synced_def)

section \<open>What an agent hears\<close>

text \<open>The agent takes the texts the server has sent it; the system does \<open>os\<close> in each step.\<close>

fun agent_hears :: "serde \<Rightarrow> system_does \<Rightarrow> string list \<Rightarrow> control \<Rightarrow> Outbound list option \<times> control" where
  "agent_hears sd os [] c = (Some [], c)"
| "agent_hears sd os (data # xs) c =
     (case handle_control os (incoming_of sd data) c of
        (None, c1) \<Rightarrow> (None, c1)
      | (Some rs, c1) \<Rightarrow> (case agent_hears sd os xs c1 of (r, c2) \<Rightarrow> (map_option ((@) rs) r, c2)))"

text \<open>The input that the terminal of a session was given.\<close>

definition typed_input :: "string \<Rightarrow> control \<Rightarrow> string" where
  "typed_input i c = (case map_of (pt_sessions (ct_pty c)) i of None \<Rightarrow> [] | Some x \<Rightarrow> ms_input x)"

definition frame_keys :: "string \<Rightarrow> Outbound \<Rightarrow> string" where
  "frame_keys i m = (case ob_Payload m of Stdin j k \<Rightarrow> if j = i then k else [] | _ \<Rightarrow> [])"

text \<open>Keys, or a size that the agent can read.\<close>

definition keyboard :: "Outbound \<Rightarrow> bool" where
  "keyboard m \<longleftrightarrow> for_agents m \<and>
     ((\<exists>j k. ob_Payload m = Stdin j k) \<or> (\<exists>j c r. ob_Payload m = Resize j c r \<and> u16 c \<and> u16 r))"

definition takes_input :: "system_does \<Rightarrow> bool" where
  "takes_input os \<longleftrightarrow> os_taken os = None \<and> os_resized os"

lemma keyboard_step:
  assumes "synced c" and "takes_input os" and m: "keyboard m"
  shows "\<exists>c1. handle_control os (Incoming q (ob_Payload m)) c = (Some [], c1) \<and> synced c1 \<and>
    has_session i (ct_pty c1) = has_session i (ct_pty c) \<and>
    (has_session i (ct_pty c) \<longrightarrow> typed_input i c1 = typed_input i c @ frame_keys i m)"
proof -
  from m consider j k where "ob_Payload m = Stdin j k"
    | j x y where "ob_Payload m = Resize j x y" "u16 x" "u16 y" unfolding keyboard_def by blast
  then show ?thesis
  proof cases
    case 1
    then show ?thesis using assms(1,2)
      by (auto simp: handle_control_def if_session_exists_def pty_write_def takes_input_def synced_def typed_input_def
          has_session_def frame_keys_def split: option.split)
  next
    case 2
    then show ?thesis using assms(1,2)
      by (auto simp: handle_control_def if_session_exists_def pty_resize_def takes_input_def synced_def typed_input_def
          has_session_def frame_keys_def split: option.split)
  qed
qed

lemma keyboard_steps:
  assumes "takes_input os"
  shows "synced c \<Longrightarrow> has_session i (ct_pty c) \<Longrightarrow> \<forall>m \<in> set ms. keyboard m \<and> crosses L sd m \<Longrightarrow>
    \<exists>c1. agent_hears sd os (map (socket_frame L) ms) c = (Some [], c1) \<and> typed_input i c1 = typed_input i c @ concat (map (frame_keys i) ms)"
proof (induction ms arbitrary: c)
  case (Cons m ms)
  have m: "incoming_of sd (socket_frame L m) = Incoming (ob_RequestID m) (ob_Payload m)"
    using Cons.prems(3) by (intro agent_reads) (auto simp: keyboard_def)
  from keyboard_step [OF Cons.prems(1) assms, of m "ob_RequestID m" i] Cons.prems obtain c1 where
    c1: "handle_control os (Incoming (ob_RequestID m) (ob_Payload m)) c = (Some [], c1)" "synced c1"
      "has_session i (ct_pty c1)" "typed_input i c1 = typed_input i c @ frame_keys i m" by auto
  from Cons.IH [OF c1(2,3)] Cons.prems obtain c2 where
    "agent_hears sd os (map (socket_frame L) ms) c1 = (Some [], c2)" "typed_input i c2 = typed_input i c1 @ concat (map (frame_keys i) ms)" by auto
  with c1 show ?case by (simp add: m)
qed simp

section \<open>What browsers type\<close>

text \<open>Messages of browsers, each with the connection it came on, one after the other.\<close>

fun browsers_type :: "libs \<Rightarrow> string \<Rightarrow> (string \<times> peer) list \<Rightarrow> site \<Rightarrow> site" where
  "browsers_type L transport [] s = s"
| "browsers_type L transport ((data, p) # xs) s = browsers_type L transport xs (web_message L transport data p s)"

text \<open>The keys in a message for the session \<open>i\<close>.\<close>

definition keys_of :: "libs \<Rightarrow> string \<Rightarrow> string \<Rightarrow> string" where
  "keys_of L i data =
     (case DecodeEnvelope L data of
        None \<Rightarrow> []
      | Some env \<Rightarrow>
          if env_Type env = TypeStdin
          then (case decode_stdin env of Some (j, k) \<Rightarrow> if j = i then k else [] | None \<Rightarrow> [])
          else [])"

text \<open>A size in a message is one the agent can read.\<close>

definition size_fits :: "libs \<Rightarrow> string \<Rightarrow> bool" where
  "size_fits L data =
     (case DecodeEnvelope L data of
        None \<Rightarrow> True
      | Some env \<Rightarrow> env_Type env \<noteq> TypeResize \<or>
          (case decode_resize env of Some (j, c, r) \<Rightarrow> u16 c \<and> u16 r | None \<Rightarrow> True))"

text \<open>The connections work, and the session \<open>i\<close> is routed to a device with the agent \<open>a\<close>.\<close>

definition wired :: "string \<Rightarrow> string \<Rightarrow> peer \<Rightarrow> site \<Rightarrow> bool" where
  "wired i dev a s \<longleftrightarrow> site_inv s \<and> outcomes (wires s) = [] \<and> sessionDevices (hub s) i = Some dev \<and>
     agents (hub s) dev = Some a"

text \<open>What was sent to \<open>a\<close> between two states.\<close>

definition newly :: "peer \<Rightarrow> site \<Rightarrow> site \<Rightarrow> Outbound list" where
  "newly a s t = map snd (filter (\<lambda>f. fst f = a) (drop (length (sent (wires s))) (sent (wires t))))"

definition keyed :: "string \<Rightarrow> string \<Rightarrow> peer \<Rightarrow> string \<Rightarrow> site \<Rightarrow> site \<Rightarrow> bool" where
  "keyed i dev a ks s t \<longleftrightarrow> wired i dev a t \<and> (\<exists>fs. sent (wires t) = sent (wires s) @ fs) \<and>
     (\<forall>m \<in> set (newly a s t). keyboard m) \<and> concat (map (frame_keys i) (newly a s t)) = ks"

lemma keyed_refl: "wired i dev a s \<Longrightarrow> keyed i dev a [] s s"
  by (simp add: keyed_def newly_def)

lemma keyed_trans: "keyed i dev a ks s t \<Longrightarrow> keyed i dev a ks' t u \<Longrightarrow> keyed i dev a (ks @ ks') s u"
  by (auto simp: keyed_def newly_def)

lemma keyed_send:
  assumes "wired i dev a t" and "sent (wires t) = sent (wires s) @ [(q, m)]" and "q = a \<Longrightarrow> keyboard m"
  shows "keyed i dev a (if q = a then frame_keys i m else []) s t"
  using assms by (simp add: keyed_def newly_def)

lemma wired_cong:
  "wired i dev a s \<Longrightarrow> site_inv t \<Longrightarrow> outcomes (wires t) = [] \<Longrightarrow> hub t = hub s \<Longrightarrow> wired i dev a t"
  by (simp add: wired_def)

lemma reply_keyed:
  assumes "wired i dev a s" and "p \<noteq> a"
  shows "keyed i dev a [] s (reply_to p m s)"
proof -
  have "site_inv (reply_to p m s)" using assms(1) by (simp add: wired_def)
  then have "wired i dev a (reply_to p m s)"
    using assms(1) by (intro wired_cong [OF assms(1)]) (simp_all add: wired_def, simp add: reply_to_def Send_works)
  from keyed_send [OF this, of s p m] assms show ?thesis by (simp add: wired_def reply_to_def Send_works)
qed

lemma forward_keyed:
  assumes w: "wired i dev a s" and p: "p \<noteq> a" and m: "keyboard (outbound m)"
    and j: "sessionIDOf m = i \<or> frame_keys i (outbound m) = []"
  shows "keyed i dev a (frame_keys i (outbound m)) s (web_forward tr m p s)"
proof -
  have o: "outcomes (wires s) = []" using w by (simp add: wired_def)
  show ?thesis
  proof (cases "\<exists>d q. sessionDevices (hub s) (sessionIDOf m) = Some d \<and> agents (hub s) d = Some q")
    case True
    then obtain d q where d: "sessionDevices (hub s) (sessionIDOf m) = Some d" "agents (hub s) d = Some q" by blast
    let ?t = "s\<lparr>wires := (wires s)\<lparr>sent := sent (wires s) @ [(q, outbound m)]\<rparr>\<rparr>"
    have t: "web_forward tr m p s = ?t"
      using d o by (simp add: web_forward_def site_send_def FromWeb_def send_result_def Send_works)
    have "site_inv ?t" using system.quiet(4) [of s "FromWeb m"] w d o
      by (simp add: wired_def site_send_def FromWeb_def send_result_def Send_works)
    then have "wired i dev a ?t" using o by (intro wired_cong [OF w]) simp_all
    from keyed_send [OF this, of s q "outbound m"] m
    have "keyed i dev a (if q = a then frame_keys i (outbound m) else []) s ?t" by simp
    moreover have "q = a \<or> frame_keys i (outbound m) = []" using j d w by (auto simp: wired_def)
    ultimately show ?thesis unfolding t by (cases "q = a") simp_all
  next
    case False
    then have "sessionIDOf m \<noteq> i" using w by (auto simp: wired_def)
    then have k: "frame_keys i (outbound m) = []" using j by simp
    from False have "\<exists>err. site_send (FromWeb m) s = (Some err, s)"
      by (cases "sessionDevices (hub s) (sessionIDOf m)") (simp_all add: site_send_def FromWeb_def)
    then obtain err where "site_send (FromWeb m) s = (Some err, s)" by blast
    then have "web_forward tr m p s = reply_to p (errorOutbound ''agent_unavailable'' (hub_error_text tr err)) s"
      by (simp add: web_forward_def)
    with reply_keyed [OF w p] k show ?thesis by simp
  qed
qed

lemma subscribe_keyed:
  assumes w: "wired i dev a s" and p: "p \<noteq> a"
  shows "keyed i dev a [] s (web_subscribe j p s)"
proof -
  obtain r s1 where r: "site_db (GetTerminalSession j) s = (r, s1)" by force
  have s1: "wired i dev a s1" "wires s1 = wires s"
    using w system.read_kept(1) [OF _ r] site_parts(1,3) [of "GetTerminalSession j" s] r
    by (auto simp: wired_def)
  then have eq: "keyed i dev a ks s1 u = keyed i dev a ks s u" for ks u by (simp add: keyed_def newly_def)
  show ?thesis
  proof (cases r)
    case (Inl err)
    with r reply_keyed [OF s1(1) p] eq show ?thesis by (simp add: web_subscribe_def)
  next
    case (Inr x)
    note read = read_cases [OF r]
    have x: "session_by_id j (rows s1) = Some x" "ts_ID x = j" using read Inr by (auto dest: session_by_idD)
    let ?u = "on_hub (SubscribeWeb j p) (on_hub (BindSession j (ts_DeviceID x)) s1)"
    have "site_inv ?u" using system.bind [of s1 j x] x(1) s1(1) by (simp add: wired_def system.subscribe)
    moreover have "j = i \<Longrightarrow> ts_DeviceID x = dev"
      using s1(1) x(1) by (auto simp: wired_def site_inv_def routes_right_def)
    ultimately have u: "wired i dev a ?u" using s1(1) by (auto simp: wired_def)
    have "keyed i dev a ks ?u v = keyed i dev a ks s v" for ks v
      using s1(2) by (simp add: keyed_def newly_def)
    with reply_keyed [OF u p] r Inr x(2) show ?thesis by (simp add: web_subscribe_def)
  qed
qed

lemma message_keyed:
  assumes w: "wired i dev a s" and p: "p \<noteq> a" and fits: "size_fits L data"
  shows "keyed i dev a (keys_of L i data) s (web_message L tr data p s)"
proof (cases "DecodeEnvelope L data")
  case None
  then show ?thesis by (simp add: keys_of_def web_message_def reply_keyed [OF w p])
next
  case (Some env)
  note parts = Some keys_of_def web_message_def size_fits_def
  show ?thesis
  proof (cases "env_Type env = TypeStdin")
    case True
    show ?thesis
    proof (cases "decode_stdin env")
      case None
      with True Some show ?thesis by (simp add: keys_of_def web_message_def reply_keyed [OF w p])
    next
      case (Some jk)
      obtain j k where jk: "jk = (j, k)" by force
      have "keyed i dev a (frame_keys i (outbound (Stdin j k))) s (web_forward tr (Stdin j k) p s)"
        by (rule forward_keyed [OF w p]) (auto simp: keyboard_def for_agents_def sized_def u16_def typeOf_def outbound_def frame_keys_def sessionIDOf_def SessionIdentifier_def)
      with True Some jk parts show ?thesis by (simp add: outbound_def frame_keys_def)
    qed
  next
    case False
    show ?thesis
    proof (cases "env_Type env = TypeResize")
      case True
      show ?thesis
      proof (cases "decode_resize env")
        case None
        with True Some show ?thesis by (simp add: keys_of_def web_message_def reply_keyed [OF w p])
      next
        case (Some jk)
        obtain j x y where jk: "jk = (j, x, y)" by (cases jk)
        with fits Some True parts have "u16 x" "u16 y" by simp_all
        then have "keyed i dev a (frame_keys i (outbound (Resize j x y))) s (web_forward tr (Resize j x y) p s)"
          by (intro forward_keyed [OF w p]) (auto simp: keyboard_def for_agents_def sized_def u16_def typeOf_def outbound_def frame_keys_def)
        with True Some jk parts show ?thesis by (simp add: outbound_def frame_keys_def)
      qed
    next
      case no_size: False
      with False Some show ?thesis
        by (simp add: keys_of_def web_message_def reply_keyed [OF w p] subscribe_keyed [OF w p] split: option.split)
    qed
  qed
qed

section \<open>The property\<close>

lemma browsers_keyed:
  "wired i dev a s \<Longrightarrow> \<forall>x \<in> set xs. snd x \<noteq> a \<and> size_fits L (fst x) \<Longrightarrow>
    keyed i dev a (concat (map (\<lambda>x. keys_of L i (fst x)) xs)) s (browsers_type L tr xs s)"
proof (induction xs arbitrary: s)
  case Nil
  then show ?case by (simp add: keyed_refl)
next
  case (Cons x xs)
  obtain data p where x: "x = (data, p)" by force
  let ?t = "web_message L tr data p s"
  have first: "keyed i dev a (keys_of L i data) s ?t"
    using Cons.prems x by (intro message_keyed) simp_all
  then have "wired i dev a ?t" by (simp add: keyed_def)
  with Cons.IH [of ?t] Cons.prems
  have "keyed i dev a (concat (map (\<lambda>x. keys_of L i (fst x)) xs)) ?t (browsers_type L tr xs ?t)" by simp
  from keyed_trans [OF first this] show ?case by (simp add: x)
qed

text \<open>C21: What browsers type into a session that runs is what its terminal is given: whatever the browsers
  send, on any number of connections and about any sessions, the agent of the session's device takes
  all of what the server sends it meanwhile without an error, and the terminal gets the keys typed into
  the session, in order, none lost, repeated or from another session. This holds in every state of
  the server in which the session is routed to an agent, and every state of that agent, while the
  connections and the terminals work, no size exceeds 65535, and the agent's JSON is the server's.\<close>

theorem input_reaches_shell:
  assumes "wired i dev a s" and "\<forall>x \<in> set xs. snd x \<noteq> a \<and> size_fits L (fst x)"
    and "control_run (control_new reg f) c w ms" and "has_session i (ct_pty c)" and "takes_input os"
    and "\<forall>m \<in> set (newly a s (browsers_type L tr xs s)). crosses L sd m"
  shows "\<exists>c1. agent_hears sd os (map (socket_frame L) (newly a s (browsers_type L tr xs s))) c = (Some [], c1) \<and>
    typed_input i c1 = typed_input i c @ concat (map (\<lambda>x. keys_of L i (fst x)) xs)"
proof -
  have "keyed i dev a (concat (map (\<lambda>x. keys_of L i (fst x)) xs)) s (browsers_type L tr xs s)"
    by (rule browsers_keyed [OF assms(1,2)])
  with keyboard_steps [OF assms(5) run_synced [OF assms(3)] assms(4), of "newly a s (browsers_type L tr xs s)" L sd]
    assms(6) show ?thesis by (simp add: keyed_def)
qed

text \<open>The sample session \<open>s\<close>, whose device has the agent 7, and \<open>ls\<close> typed into it on the connection 8.\<close>

definition typing_site :: site where
  "typing_site = sample_site\<lparr>srv := (srv sample_site)\<lparr>db := calm (empty_tables\<lparr>devices := [sample_device ''d''],
       terminal_sessions := [sample_session ''s'' ''d'' SessionStarting]\<rparr>)\<rparr>,
     hub := BindSession ''s'' ''d'' (AttachAgent ''d'' 7 NewHub), presence := SetOnline ''d'' True NewPresence\<rparr>"

definition typed_ls :: string where
  "typed_ls = EncodeEnvelope plain_libs TypeStdin (Stdin ''s'' ''ls'')"

lemma ls_decodes: "DecodeEnvelope plain_libs typed_ls = Some \<lparr>env_Type = TypeStdin, env_RequestID = [],
    env_SessionID = ''s'', env_Payload = Some (payload_json (Stdin ''s'' ''ls''))\<rparr>"
  using envelope_decodes [OF plain_libs_carry, of "\<lparr>env_Type = TypeStdin, env_RequestID = [],
    env_SessionID = ''s'', env_Payload = Some (payload_json (Stdin ''s'' ''ls''))\<rparr>"]
  by (simp add: typed_ls_def EncodeEnvelope_def SessionIdentifier_def)

lemma ls_typed: "keys_of plain_libs ''s'' typed_ls = ''ls''" "size_fits plain_libs typed_ls"
  using payload_reads_back [of "\<lparr>env_Type = TypeStdin, env_RequestID = [],
    env_SessionID = ''s'', env_Payload = Some (payload_json (Stdin ''s'' ''ls''))\<rparr>" "Stdin ''s'' ''ls''"]
  by (simp_all add: keys_of_def size_fits_def ls_decodes)

lemma typing_wired: "wired ''s'' ''d'' 7 typing_site"
  by (simp add: wired_def typing_site_def sample_site_def site_inv_def wf_tables_def empty_tables_def rows_def
      codes_guarded_def hub_inv_def routes_right_def present_def NewHub_def NewPresence_def subscribers_def
      BindSession_def AttachAgent_def session_by_id_def sample_session_def sample_device_def)
    (simp add: Online_def)

theorem input_reaches_shell_witness:
  "\<exists>c1. agent_hears plain_serde works_fine (map (socket_frame plain_libs) (newly 7 typing_site (browsers_type plain_libs [] [(typed_ls, 8)] typing_site))) printing =
     (Some [], c1) \<and> typed_input ''s'' c1 = ''ls''"
proof -
  have "has_session ''s'' (ct_pty printing)" "typed_input ''s'' printing = []" by code_simp+
  with input_reaches_shell [OF typing_wired _ sample_control_run, of "[(typed_ls, 8)]" plain_libs works_fine "[]" plain_serde] ls_typed
  show ?thesis by (simp add: takes_input_def works_fine_def plain_crosses)
qed

end
