(* ===== verification/ProgramClaims.thy ===== *)
theory ProgramClaims
  imports AgentProtocol SiteClaims
begin

text \<open>
  The agent's program against the server: what \<^verbatim>\<open>vibe-agent register\<close> leaves behind is what
  \<^verbatim>\<open>vibe-agent run\<close> needs to connect.
\<close>

section \<open>The registry in its file\<close>

text \<open>A registry as the program makes it: ordered by the identifiers, which are those of the records.\<close>

definition registry_good :: "SessionRegistry \<Rightarrow> bool" where
  "registry_good r \<longleftrightarrow> sorted_wrt str_less (map fst r) \<and>
     (\<forall>(k, x) \<in> set r. sum_SessionID x = k \<and> 0 \<le> sum_AgentPID x \<and> sum_AgentPID x < 2 ^ 32 \<and>
        in_int64 (sum_LastOutputSeq x))"

lemma str_less_irrefl: "\<not> str_less a a"
  by (induction a) auto

lemma str_less_asym: "str_less a b \<Longrightarrow> \<not> str_less b a"
  by (induction a b rule: str_less.induct) auto

lemma str_less_trans: "str_less a b \<Longrightarrow> str_less b c \<Longrightarrow> str_less a c"
proof (induction a b arbitrary: c rule: str_less.induct)
  case (4 x xs y ys)
  then show ?case by (cases c) auto
next
  case (2 b bs)
  then show ?case by (cases c) auto
qed auto

lemma str_less_total: "a \<noteq> b \<Longrightarrow> str_less a b \<or> str_less b a"
  by (induction a b rule: str_less.induct) (auto simp: nat_neq_iff)

lemma bt_insert_last: "\<forall>l \<in> fst ` set m. str_less l k \<Longrightarrow> bt_insert k v m = m @ [(k, v)]"
  by (induction k v m rule: bt_insert.induct) (auto simp: str_less_irrefl dest: str_less_asym)

lemma keys_bt_insert: "fst ` set (bt_insert k v m) = insert k (fst ` set m)"
  by (induction k v m rule: bt_insert.induct) auto

lemma bt_insert_sorted: "sorted_wrt str_less (map fst m) \<Longrightarrow> sorted_wrt str_less (map fst (bt_insert k v m))"
proof (induction k v m rule: bt_insert.induct)
  case (2 k v l w m)
  then show ?case
    using str_less_total [of k l] keys_bt_insert [of k v m]
    by (auto intro: str_less_trans simp: image_iff Ball_def)
qed simp

lemma fold_inserts:
  "sorted_wrt str_less (map fst (m @ r)) \<Longrightarrow> fold (\<lambda>(k, x). bt_insert k x) r m = m @ r"
proof (induction r arbitrary: m)
  case (Cons kx r)
  obtain k x where kx: "kx = (k, x)" by force
  have "bt_insert k x m = m @ [(k, x)]"
    using Cons.prems by (intro bt_insert_last) (auto simp: kx sorted_wrt_append)
  with Cons.IH [of "m @ [(k, x)]"] Cons.prems show ?case by (simp add: kx)
qed simp


lemma formatInt_zero: "formatInt i \<noteq> ''-0''"
proof (cases "i < 0")
  case True
  have "digits_of (nat (- i)) \<noteq> ''0''"
  proof
    assume "digits_of (nat (- i)) = ''0''"
    then have "nat (- i) = nat_of_digits ''0''" using nat_of_digits_of [of "nat (- i)"] by simp
    moreover have "nat_of_digits ''0'' = 0" by code_simp
    ultimately show False using True by simp
  qed
  with True show ?thesis by (simp add: formatInt_def)
next
  case False
  then show ?thesis using digits_of_start [of "nat i"] by (auto simp: formatInt_def hasPrefix_iff)
qed

lemma decode_record_json:
  assumes "0 \<le> sum_AgentPID x" "sum_AgentPID x < 2 ^ 32" "in_int64 (sum_LastOutputSeq x)"
  shows "decode_record (summary_json x) = Some x"
proof -
  have "serde_unsigned 32 (formatInt (sum_AgentPID x)) = Some (sum_AgentPID x)"
    by (rule unsigned_formatInt) (use assms(1,2) in \<open>simp add: sized_def\<close>)
  moreover have "serde_i64 (formatInt (sum_LastOutputSeq x)) = Some (sum_LastOutputSeq x)"
    using assms(3) by (simp add: serde_i64_def formatInt_zero in_int64_def)
  ultimately show ?thesis
    by (simp add: decode_record_def summary_json_def struct_values_def member_def json_int_def)
qed

lemma decode_registry_json:
  assumes "registry_good r"
  shows "decode_registry (registry_json r) = Some r"
proof -
  have "those (map (\<lambda>(k, v). decode_record v) (map (\<lambda>(k, x). (k, summary_json x)) r)) = Some (map snd r)"
    using those_decoded [of r "\<lambda>(k, v). map_option (Pair k) (decode_record v)" "\<lambda>(k, x). (k, summary_json x)"]
      assms by (induction r) (auto simp: registry_good_def decode_record_json)
  moreover have "zip (map fst r) (map snd r) = r" by (rule zip_map_fst_snd)
  moreover have keys: "map (fst \<circ> (\<lambda>(k, x). (k, summary_json x))) r = map fst r" by (simp add: comp_def case_prod_beta)
  ultimately show ?thesis
    using fold_inserts [of "[]" r] assms
    by (simp add: decode_registry_def registry_json_def struct_values_def member_def registry_good_def keys)
qed

text \<open>What was saved is loaded again, and the changes the program makes keep a registry in order.\<close>

lemma registry_round_trip:
  assumes "registry_save sd path r d = (True, d1)" and "io_script d1 = []" and "registry_good r"
    and "sd_read sd (sd_pretty sd (registry_json r)) = Some (registry_json r)"
  shows "registry_load sd path d1 = (Some r, d1)"
proof -
  note read = save_text_reads [OF assms(1) [unfolded registry_save_def] assms(2)]
  then obtain y where "files d1 path = Some y" by (auto simp: ReadFile_def next_io_def split: list.splits if_splits)
  with read assms(3,4) show ?thesis by (simp add: registry_load_def decode_registry_json)
qed

lemma registry_steps:
  "registry_good r \<Longrightarrow> 0 \<le> sum_AgentPID x \<Longrightarrow> sum_AgentPID x < 2 ^ 32 \<Longrightarrow> in_int64 (sum_LastOutputSeq x) \<Longrightarrow>
    registry_good (registry_upsert x r)"
  "registry_good r \<Longrightarrow> registry_good (mark_lost_after_restart r)"
proof -
  have "p \<in> set (bt_insert k v m) \<Longrightarrow> p = (k, v) \<or> p \<in> set m" for p k and v :: SessionSummary and m
    by (induction k v m rule: bt_insert.induct) (auto split: if_splits)
  then show "registry_good r \<Longrightarrow> 0 \<le> sum_AgentPID x \<Longrightarrow> sum_AgentPID x < 2 ^ 32 \<Longrightarrow> in_int64 (sum_LastOutputSeq x) \<Longrightarrow>
    registry_good (registry_upsert x r)"
    by (fastforce simp: registry_good_def registry_upsert_def bt_insert_sorted)
  have "map fst (mark_lost_after_restart r) = map fst r"
    by (simp add: mark_lost_after_restart_def case_prod_beta comp_def)
  then show "registry_good r \<Longrightarrow> registry_good (mark_lost_after_restart r)"
    by (auto simp: registry_good_def) (auto simp: mark_lost_after_restart_def split: if_splits)
qed

section \<open>A registration against the server\<close>

definition register_post :: "string \<Rightarrow> request" where
  "register_post body =
     \<lparr>rq_method = ''POST'', rq_path = ''/api/agents/register'', rq_query = [], rq_remoteAddr = [],
      rq_contentType = ''application/json'', rq_contentLength = int (length body), rq_cookie = None,
      rq_body = body, rq_broken = False\<rparr>"

text \<open>The address names this server; a body is written by \<^verbatim>\<open>encoding/json\<close>.\<close>

definition http_post ::
    "((string option \<times> string \<times> endpoint) list \<Rightarrow> request \<Rightarrow> endpoint option) \<Rightarrow> (request \<Rightarrow> response) \<Rightarrow> libs \<Rightarrow>
     router \<Rightarrow> env \<Rightarrow> transfer \<Rightarrow> string \<Rightarrow> string \<Rightarrow> site \<Rightarrow> (int \<times> string) option \<times> site" where
  "http_post mux other L R e x address body s =
     (case ServeHTTP mux other L R e x None (register_post body) s of
        Some (Responds resp, s1) \<Rightarrow>
          (Some (rs_status resp, case rs_body resp of None \<Rightarrow> [] | Some v \<Rightarrow> lib_marshal L v), s1)
      | _ \<Rightarrow> (None, s))"

definition new_config :: "machine \<Rightarrow> env \<Rightarrow> string \<Rightarrow> AgentConfig" where
  "new_config mc e url = \<lparr>ac_server = url, ac_device = uuid e 0, ac_credential = randomToken (random e 0),
     ac_name = device_name mc\<rparr>"

text \<open>The values that are exchanged: the answer, the configuration and the greeting.\<close>

definition exchanged :: "machine \<Rightarrow> env \<Rightarrow> string \<Rightarrow> json list" where
  "exchanged mc e url =
     [json_strings [(''device_id'', uuid e 0), (''credential'', randomToken (random e 0))],
      config_json (new_config mc e url),
      hello_json (agent_hello (mc_os mc) (mc_version mc) (new_config mc e url) [])]"

lemma register_status:
  assumes "handleAgentRegister L e req s = (resp, s')" and "rs_status resp < 300"
  shows "rs_status resp = 201"
  using assms
  by (auto simp: handleAgentRegister_def readJSON_def register_device_def Let_def split: option.splits sum.splits
      prod.splits if_splits)

lemma register_answer: "decode_registered (json_strings [(''device_id'', i), (''credential'', c)]) = Some (i, c)"
  by (simp add: decode_registered_def json_strings_def json_map_def struct_values_def member_def)

lemma registration:
  assumes reg: "register_agent (http_post mux other L R e x) sd mc url token (device_name mc) s = (Some c, s1)"
    and route: "\<forall>body. mux routes (register_post body) = Some AgentRegister"
    and ok: "\<forall>v \<in> set (exchanged mc e url). arrives L sd v" and wf: "wf_tables (rows s)"
  shows "c = new_config mc e url" "wf_tables (rows s1)"
    "registered (uuid e 0) (hashSecret (randomToken (random e 0))) (rows s1)"
proof -
  let ?body = "sd_write sd (register_json mc token (device_name mc))"
  obtain resp s2 where h: "handleAgentRegister L e (register_post ?body) (srv s) = (resp, s2)" by force
  with reg have s1: "s1 = s\<lparr>srv := s2\<rparr>" and status: "200 \<le> rs_status resp" "rs_status resp < 300"
    and c: "Option.bind (sd_read sd (case rs_body resp of None \<Rightarrow> [] | Some v \<Rightarrow> lib_marshal L v)) decode_registered =
      Some (ac_device c, ac_credential c)" "ac_server c = url" "ac_name c = device_name mc"
    by (auto simp: register_agent_def http_post_def ServeHTTP_def route serve_def responds_def on_server_def
        split: if_splits option.splits)
  note r = register_registers [OF h register_status [OF h status(2)]]
  show "wf_tables (rows s1)" using register_wf [OF _ h] wf by (simp add: s1 rows_def)
  show "registered (uuid e 0) (hashSecret (randomToken (random e 0))) (rows s1)" using r(2) by (simp add: s1 rows_def)
  have "ac_device c = uuid e 0 \<and> ac_credential c = randomToken (random e 0)"
    using c(1) ok by (simp add: r(1) exchanged_def arrives_def register_answer)
  with c(2,3) show "c = new_config mc e url" by (simp add: new_config_def)
qed

text \<open>The greeting as the server reads it.\<close>

lemma hello_read:
  assumes "arrives L sd (hello_json (agent_hello p v c []))"
  shows "greeting L (sd_write sd (hello_json (agent_hello p v c []))) = Some (agent_hello p v c [])"
proof -
  let ?h = "agent_hello p v c []"
  have "unmarshal L (sd_write sd (hello_json ?h)) = Some (hello_json ?h)"
    using assms first_value_tokens [of "hello_json ?h" "[]"] by (simp add: arrives_def unmarshal_def)
  then show ?thesis
    by (simp add: greeting_def DecodeEnvelope_def hello_json_def envelope_fields_def decode_hello_def decode_slice_def
        decode_string_def agent_hello_def registry_list_def decode_defs)
qed

section \<open>The property\<close>

text \<open>No request, agent or browser takes a registration away.\<close>

lemma enrolled_ops: "preserves (\<lambda>T. wf_tables T \<and> registered i h T) (apply_op x)"
  using wf_ops [of x] op_preserves [of x "registered i h"] registered_keeps [of _ x i h]
  by (auto simp: preserves_def)

lemma enrolled_session_calls:
  "preserves (\<lambda>T. wf_tables T \<and> registered i h T) (UpdateTerminalSessionStatus now j st pid sq)"
  "preserves (\<lambda>T. wf_tables T \<and> registered i h T) (UpdateTerminalSessionTitle now j t)"
  "preserves (\<lambda>T. wf_tables T \<and> registered i h T) (CreateTerminalSession now y)"
  using enrolled_ops [of i h "OpSessionStatus now j st pid sq"] enrolled_ops [of i h "OpSessionTitle now j t"]
    enrolled_ops [of i h "OpCreateSession now y"]
  by (simp_all add: preserves_void)

lemmas enrolled_calls = enrolled_session_calls [THEN rows_site_db]

interpretation enrolled: site_frame "\<lambda>s. wf_tables (rows s) \<and> registered i h (rows s)" for i h
proof unfold_locales
  fix s s' :: site and opn
  assume "wf_tables (rows s) \<and> registered i h (rows s)" "rows s' = contents (snd (apply_op opn (db (srv s))))"
  then show "wf_tables (rows s') \<and> registered i h (rows s')"
    using enrolled_ops [of i h opn] by (simp add: preserves_def rows_def)
next
  fix s :: site and now j st pid sq
  assume "wf_tables (rows s) \<and> registered i h (rows s)"
  then show "wf_tables (rows (snd (site_db (UpdateTerminalSessionStatus now j st pid sq) s))) \<and>
      registered i h (rows (snd (site_db (UpdateTerminalSessionStatus now j st pid sq) s)))"
    by (rule enrolled_calls)
next
  fix s :: site and now j t
  assume "wf_tables (rows s) \<and> registered i h (rows s)"
  then show "wf_tables (rows (snd (site_db (UpdateTerminalSessionTitle now j t) s))) \<and>
      registered i h (rows (snd (site_db (UpdateTerminalSessionTitle now j t) s)))"
    by (rule enrolled_calls)
next
  fix s :: site and now and y :: TerminalSession
  assume "wf_tables (rows s) \<and> registered i h (rows s)"
  then show "wf_tables (rows (on_hub (BindSession (ts_ID y) (ts_DeviceID y)) (snd (site_db (CreateTerminalSession now y) s)))) \<and>
      registered i h (rows (on_hub (BindSession (ts_ID y) (ts_DeviceID y)) (snd (site_db (CreateTerminalSession now y) s))))"
    unfolding rows_simps by (rule enrolled_calls)
qed simp_all

text \<open>C32: An agent that was registered can connect: when \<^verbatim>\<open>vibe-agent register\<close> has ended without an error
  against a server in a state it can reach, then \<^verbatim>\<open>vibe-agent run\<close> reads the configuration that was left,
  and the server accepts its greeting, at any later time, whatever requests, agents and browsers it has
  met since, as the registered device. This needs that the agent can read its file, the database works
  when the agent connects, and JSON is read as it was written.\<close>

theorem registered_agent_connects:
  assumes "server_main H d0 = Inr (R, s0)" and "opens_sound H" and "site_run L R s0 s"
    and "\<forall>body. mux routes (register_post body) = Some AgentRegister"
    and "\<forall>v \<in> set (exchanged mc e url). arrives L sd v"
    and "vibe_register (http_post mux other L R e x) sd mc url token (s, d) = (True, s1, d1)"
    and "site_run L R s1 t" and "faults (db (srv t)) = []" and "io_script d1 = []"
  shows "\<exists>data hello device. vibe_run sd mc d1 = (Some (agent_ws_url url, data, []), d1) \<and>
    fst (agent_handshake L data t) = Inr (device, hello) \<and> dev_ID device = uuid e 0 \<and> hello_Capabilities hello = [''fs'']"
proof -
  have wf: "wf_tables (rows s)"
    using system.run_kept [OF assms(3) start_inv [OF assms(1,2)]] by (simp add: site_inv_def)
  obtain c path where reg: "register_agent (http_post mux other L R e x) sd mc url token (device_name mc) s = (Some c, s1)"
    and path: "default_config_path mc = Some path" and save: "config_save sd path c d = (True, d1)"
    using assms(6) by (auto simp: vibe_register_def split: prod.splits option.splits)
  note new = registration [OF reg assms(4,5) wf]
  let ?h = "agent_hello (mc_os mc) (mc_version mc) c []"
  have ok: "arrives L sd (config_json c)" "arrives L sd (hello_json ?h)"
    using assms(5) by (simp_all add: exchanged_def new(1))
  have "config_load sd path d1 = (Some c, d1)"
    by (rule config_round_trip [OF save assms(9)]) (use ok(1) in \<open>simp add: arrives_def\<close>)
  then have run: "vibe_run sd mc d1 = (Some (agent_ws_url url, sd_write sd (hello_json ?h), []), d1)"
    by (simp add: vibe_run_def path mark_lost_after_restart_def new(1)) (simp add: new_config_def)
  have later: "wf_tables (rows t) \<and> registered (uuid e 0) (hashSecret (randomToken (random e 0))) (rows t)"
    by (rule enrolled.run_kept [OF assms(7)]) (use new in simp)
  have hello: "hello_DeviceID ?h = uuid e 0" "hello_Credential ?h = randomToken (random e 0)"
    "hello_ProtocolVersion ?h = ''v1''" "hello_Capabilities ?h = [''fs'']"
    by (simp_all add: agent_hello_def new(1) new_config_def)
  from registered_handshake [OF _ _ assms(8) hello_read [OF ok(2)], unfolded hello] later run hello(4)
  show ?thesis by blast
qed

text \<open>A server with one registration token, and a machine that registers with it.\<close>

definition token_rows :: tables where
  "token_rows = empty_tables\<lparr>agent_tokens := [conn_token]\<rparr>"

lemma token_host: "opens_sound (host_on (calm token_rows))"
  by (simp add: opens_sound_def host_on_def rows_good_def token_rows_def wf_tables_def codes_guarded_def empty_tables_def)

definition laptop :: machine where
  "laptop = \<lparr>mc_os = ''linux'', mc_arch = ''x86_64'', mc_version = ''0.1.0'', mc_hostname = Some ''laptop'',
     mc_computername = None, mc_config_dir = Some ''/home/dev/.config''\<rparr>"

definition pick_register :: "(string option \<times> string \<times> endpoint) list \<Rightarrow> request \<Rightarrow> endpoint option" where
  "pick_register rs req = map_option (snd \<circ> snd) (find (\<lambda>r. fst (snd r) = rq_path req) rs)"

definition quiet_transfer :: transfer where
  "quiet_transfer = \<lparr>xf_quoted = (\<lambda>s. s), xf_turns = (\<lambda>_. \<lparr>tr_requestID = [], tr_others = (\<lambda>s. s), tr_wake = Replied\<rparr>),
     xf_failures = [], xf_bodyEnd = EOF\<rparr>"

lemma laptop_saves:
  "\<exists>path d1. default_config_path laptop = Some path \<and>
     config_save plain_serde path c \<lparr>files = Map.empty, io_script = []\<rparr> = (True, d1) \<and> io_script d1 = []"
proof -
  have path: "default_config_path laptop = Some ''/home/dev/.config/vibe-terminal/agent.json''" by code_simp
  have dir: "parent_dir ''/home/dev/.config/vibe-terminal/agent.json'' = Some ''/home/dev/.config/vibe-terminal''"
    by code_simp
  have plain: "byte 0 \<notin> set ''/home/dev/.config/vibe-terminal/agent.json''" "byte 0 \<notin> set ''/home/dev/.config/vibe-terminal''"
    by code_simp+
  show ?thesis unfolding path using plain
    by (simp add: config_save_def save_text_def dir MkdirAll_def WriteFile_def next_io_def)
qed

definition laptop_post :: request where
  "laptop_post = register_post (sd_write plain_serde (register_json laptop ''tok'' ''laptop''))"

lemma laptop_body:
  "readJSON plain_libs laptop_post register_fields = Inr [(''token'', FString ''tok''), (''name'', FString ''laptop''),
     (''platform'', FString ''linux''), (''agent_version'', FString ''0.1.0''),
     (''fingerprint'', FString ''linux:x86_64:laptop'')]"
proof -
  let ?v = "register_json laptop ''tok'' ''laptop''"
  have "fst (lib_lex plain_libs (rq_body laptop_post)) = tokens_of ?v"
    using plain_arrives [of ?v] by (simp add: arrives_def laptop_post_def register_post_def)
  then have "first_value (fst (lib_lex plain_libs (rq_body laptop_post))) = Some (?v, [])"
    using first_value_tokens [of ?v "[]"] by simp
  then show ?thesis
    unfolding readJSON_def by (simp add: register_json_def device_fingerprint_def laptop_def register_fields_def decode_defs)
qed

lemma laptop_registers:
  assumes "db x = calm token_rows"
  shows "\<exists>x1. handleAgentRegister plain_libs sample_clock laptop_post x =
     (writeJSON 201 (json_strings [(''device_id'', ''id''), (''credential'', randomToken ''bytes'')]), x1) \<and>
     faults (db x1) = []"
  by (simp add: handleAgentRegister_def laptop_body str_field_def run_db_def assms UseAgentTokenByHash_def
      conn_token_def token_rows_def token_usable_def sample_clock_def clock_def transaction_calm stmt_use_token_def
      sql_update_def register_device_def CreateDevice_def Let_def stmt_insert_device_def empty_tables_def
      SqlStore.bind_def ok_def try_audit_def audit_log_def CreateAuditEvent_def insertAuditEvent_def insert_audit_def
      zero_event_def)
    (simp add: calm_def)

theorem registered_agent_connects_witness:
  "\<exists>R s0 s1 d1 data hello device. server_main (host_on (calm token_rows)) \<lparr>files = Map.empty, io_script = []\<rparr> = Inr (R, s0) \<and>
     vibe_register (http_post pick_register (\<lambda>_. writeHeader 404) plain_libs R sample_clock quiet_transfer) plain_serde laptop
       ''https://vibe.example/'' ''tok'' (s0, \<lparr>files = Map.empty, io_script = []\<rparr>) = (True, s1, d1) \<and>
     vibe_run plain_serde laptop d1 = (Some (''wss://vibe.example/ws/agent'', data, []), d1) \<and>
     fst (agent_handshake plain_libs data s1) = Inr (device, hello) \<and> dev_ID device = ''id''"
proof -
  let ?d = "\<lparr>files = Map.empty, io_script = []\<rparr> :: disk"
  obtain R s0 where s0: "server_main (host_on (calm token_rows)) ?d = Inr (R, s0)" "db (srv s0) = calm token_rows"
    using host_starts by blast
  let ?post = "http_post pick_register (\<lambda>_. writeHeader 404) plain_libs R sample_clock quiet_transfer"
  obtain x1 where x1: "handleAgentRegister plain_libs sample_clock laptop_post (srv s0) =
     (writeJSON 201 (json_strings [(''device_id'', ''id''), (''credential'', randomToken ''bytes'')]), x1)" "faults (db x1) = []"
    using laptop_registers [OF s0(2)] by blast
  have route: "\<forall>body. pick_register routes (register_post body) = Some AgentRegister"
    by (simp add: pick_register_def routes_def register_post_def)
  have ok: "\<forall>v \<in> set (exchanged laptop sample_clock ''https://vibe.example/''). arrives plain_libs plain_serde v"
    by (simp add: plain_arrives)
  have "device_name laptop = ''laptop''" by (simp add: device_name_def laptop_def)
  then obtain c where "register_agent ?post plain_serde laptop ''https://vibe.example/'' ''tok'' (device_name laptop) s0 =
      (Some c, s0\<lparr>srv := x1\<rparr>)"
    using x1(1) route plain_arrives [of "json_strings [(''device_id'', ''id''), (''credential'', randomToken ''bytes'')]"]
    by (simp add: register_agent_def http_post_def ServeHTTP_def serve_def responds_def on_server_def laptop_post_def
        writeJSON_def register_answer arrives_def)
  moreover obtain path d1 where "default_config_path laptop = Some path" "config_save plain_serde path c ?d = (True, d1)"
    "io_script d1 = []" using laptop_saves by blast
  ultimately have reg: "vibe_register ?post plain_serde laptop ''https://vibe.example/'' ''tok'' (s0, ?d) =
      (True, s0\<lparr>srv := x1\<rparr>, d1)" and d1: "io_script d1 = []"
    by (simp_all add: vibe_register_def)
  have url: "agent_ws_url ''https://vibe.example/'' = ''wss://vibe.example/ws/agent''" by code_simp
  have "faults (db (srv (s0\<lparr>srv := x1\<rparr>))) = []" using x1(2) by simp
  from registered_agent_connects [OF s0(1) token_host site_run.starts route ok reg site_run.starts this d1]
  show ?thesis using s0(1) reg unfolding url by (auto simp: sample_clock_def)
qed

end
