(* ===== verification/Workspace.thy ===== *)
theory Workspace
  imports GoStrings
begin

text \<open>
  \<^verbatim>\<open>server/internal/workspace/workspace.go\<close>: the container with a user's workspace. The container
  runtime is the interface \<^verbatim>\<open>Client\<close>, here the record of its operations on a state \<open>'c\<close>; the
  repository's own implementation is \<open>FakeClient\<close>.
\<close>

record ContainerSpec =
  sp_Name :: string
  sp_Image :: string
  sp_DataVolume :: string
  sp_Labels :: "string \<rightharpoonup> string"

text \<open>Inl is the error of an operation.\<close>

record 'c Client =
  cl_Exists :: "string \<Rightarrow> 'c \<Rightarrow> (string + bool) \<times> 'c"
  cl_Create :: "ContainerSpec \<Rightarrow> 'c \<Rightarrow> (string + unit) \<times> 'c"
  cl_Start :: "string \<Rightarrow> 'c \<Rightarrow> (string + unit) \<times> 'c"

record Manager =
  mg_Image :: string
  mg_DataVolume :: string
  mg_ContainerID :: string

definition sanitize :: "(string \<Rightarrow> string) \<Rightarrow> string \<Rightarrow> string" where
  "sanitize lower v = replaceAll ''.'' ''-'' (replaceAll ''_'' ''-'' (toLower lower v))"

definition container_name :: "(string \<Rightarrow> string) \<Rightarrow> Manager \<Rightarrow> string \<Rightarrow> string" where
  "container_name lower m userID =
     (if mg_ContainerID m = [] then ''vibe-workspace-'' @ sanitize lower userID else mg_ContainerID m)"

definition container_spec :: "(string \<Rightarrow> string) \<Rightarrow> Manager \<Rightarrow> string \<Rightarrow> ContainerSpec" where
  "container_spec lower m userID =
     \<lparr>sp_Name = container_name lower m userID, sp_Image = mg_Image m, sp_DataVolume = mg_DataVolume m,
      sp_Labels = [''vibe-terminal.user_id'' \<mapsto> userID]\<rparr>"

definition Ensure :: "(string \<Rightarrow> string) \<Rightarrow> 'c Client \<Rightarrow> Manager \<Rightarrow> string \<Rightarrow> 'c \<Rightarrow> (string + unit) \<times> 'c" where
  "Ensure lower client m userID s =
     (case cl_Exists client (container_name lower m userID) s of
        (Inl err, s1) \<Rightarrow> (Inl err, s1)
      | (Inr exists, s1) \<Rightarrow>
          (case (if exists then (Inr (), s1) else cl_Create client (container_spec lower m userID) s1) of
             (Inl err, s2) \<Rightarrow> (Inl err, s2)
           | (Inr _, s2) \<Rightarrow> cl_Start client (container_name lower m userID) s2))"

section \<open>The client in memory\<close>

record FakeClient =
  Existing :: "string \<rightharpoonup> bool"
  Created :: "string \<rightharpoonup> bool"
  Started :: "string \<rightharpoonup> bool"

definition NewFakeClient :: FakeClient where
  "NewFakeClient = \<lparr>Existing = Map.empty, Created = Map.empty, Started = Map.empty\<rparr>"

definition fake_Exists :: "string \<Rightarrow> FakeClient \<Rightarrow> (string + bool) \<times> FakeClient" where
  "fake_Exists name c = (Inr (Existing c name = Some True \<or> Created c name = Some True), c)"

definition fake_Create :: "ContainerSpec \<Rightarrow> FakeClient \<Rightarrow> (string + unit) \<times> FakeClient" where
  "fake_Create spec c = (Inr (), c\<lparr>Created := (Created c)(sp_Name spec \<mapsto> True)\<rparr>)"

definition fake_Start :: "string \<Rightarrow> FakeClient \<Rightarrow> (string + unit) \<times> FakeClient" where
  "fake_Start name c = (Inr (), c\<lparr>Started := (Started c)(name \<mapsto> True)\<rparr>)"

definition fake_client :: "FakeClient Client" where
  "fake_client = \<lparr>cl_Exists = fake_Exists, cl_Create = fake_Create, cl_Start = fake_Start\<rparr>"

section \<open>The contract of a client\<close>

text \<open>
  \<open>exists s\<close> are the names of the containers there are, \<open>running s\<close> of the started ones.
  An operation that reports no error has its effect; one that fails removes nothing.
\<close>

locale container_client =
  fixes client :: "'c Client"
    and existing :: "'c \<Rightarrow> string set"
    and running :: "'c \<Rightarrow> string set"
  assumes exists_result: "cl_Exists client name s = (Inr b, s1) \<Longrightarrow> b = (name \<in> existing s)"
    and exists_frame: "cl_Exists client name s = (re, s1) \<Longrightarrow> existing s1 = existing s \<and> running s1 = running s"
    and create_effect: "cl_Create client spec s = (Inr u, s1) \<Longrightarrow> existing s1 = insert (sp_Name spec) (existing s)"
    and create_grows: "cl_Create client spec s = (r, s1) \<Longrightarrow>
           existing s \<subseteq> existing s1 \<and> existing s1 \<subseteq> insert (sp_Name spec) (existing s) \<and> running s1 = running s"
    and start_effect: "cl_Start client name s = (Inr u, s1) \<Longrightarrow> running s1 = insert name (running s)"
    and start_frame: "cl_Start client name s = (r, s1) \<Longrightarrow>
           existing s1 = existing s \<and> running s \<subseteq> running s1 \<and> running s1 \<subseteq> insert name (running s)"
begin

text \<open>A successful \<open>Ensure\<close> leaves the user's container there and running, and no other one new.\<close>

lemma ensure_success:
  assumes "Ensure lower client m userID s = (Inr u, s')"
  shows "existing s' = insert (container_name lower m userID) (existing s)"
    and "running s' = insert (container_name lower m userID) (running s)"
proof -
  let ?name = "container_name lower m userID"
  obtain b s1 where e: "cl_Exists client ?name s = (Inr b, s1)"
    using assms by (auto simp: Ensure_def split: prod.splits sum.splits)
  note e1 = exists_result [OF e] exists_frame [OF e]
  have "existing s' = insert ?name (existing s) \<and> running s' = insert ?name (running s)"
  proof (cases b)
    case True
    with assms e have st: "cl_Start client ?name s1 = (Inr u, s')" by (simp add: Ensure_def)
    from start_effect [OF st] start_frame [OF st] e1 True show ?thesis by (simp add: insert_absorb)
  next
    case False
    obtain v s2 where c: "cl_Create client (container_spec lower m userID) s1 = (Inr v, s2)"
      using assms e False by (auto simp: Ensure_def split: prod.splits sum.splits)
    have st: "cl_Start client ?name s2 = (Inr u, s')" using assms e False c by (simp add: Ensure_def)
    from start_effect [OF st] start_frame [OF st] create_effect [OF c] create_grows [OF c] e1
    show ?thesis by (simp add: container_spec_def)
  qed
  then show "existing s' = insert ?name (existing s)" "running s' = insert ?name (running s)" by simp_all
qed

text \<open>Whatever fails, only the user's container can have been made or started.\<close>

lemma ensure_frame:
  assumes "Ensure lower client m userID s = (r, s')"
  shows "existing s \<subseteq> existing s'" "existing s' \<subseteq> insert (container_name lower m userID) (existing s)"
    and "running s \<subseteq> running s'" "running s' \<subseteq> insert (container_name lower m userID) (running s)"
proof -
  let ?name = "container_name lower m userID"
  obtain re s1 where e: "cl_Exists client ?name s = (re, s1)" by (metis surj_pair)
  obtain rc s2 where c: "cl_Create client (container_spec lower m userID) s1 = (rc, s2)" by (metis surj_pair)
  obtain ra sa where sa: "cl_Start client ?name s1 = (ra, sa)" by (metis surj_pair)
  obtain rb sb where sb: "cl_Start client ?name s2 = (rb, sb)" by (metis surj_pair)
  have n: "sp_Name (container_spec lower m userID) = ?name" by (simp add: container_spec_def)
  have cases: "s' = s1 \<or> s' = s2 \<or> s' = sa \<or> s' = sb"
    using assms by (cases re; cases rc) (simp_all add: Ensure_def e c sa sb split: if_splits)
  have "existing s \<subseteq> existing s' \<and> existing s' \<subseteq> insert ?name (existing s) \<and>
    running s \<subseteq> running s' \<and> running s' \<subseteq> insert ?name (running s)"
    using cases
  proof (elim disjE)
    assume "s' = s1"
    with exists_frame [OF e] show ?thesis by blast
  next
    assume "s' = s2"
    with exists_frame [OF e] create_grows [OF c] show ?thesis unfolding n by blast
  next
    assume "s' = sa"
    with exists_frame [OF e] start_frame [OF sa] show ?thesis by blast
  next
    assume "s' = sb"
    with exists_frame [OF e] create_grows [OF c] start_frame [OF sb] show ?thesis unfolding n by blast
  qed
  then show "existing s \<subseteq> existing s'" "existing s' \<subseteq> insert ?name (existing s)"
    "running s \<subseteq> running s'" "running s' \<subseteq> insert ?name (running s)" by simp_all
qed

end

definition fake_existing :: "FakeClient \<Rightarrow> string set" where
  "fake_existing c = {name. Existing c name = Some True \<or> Created c name = Some True}"

definition fake_running :: "FakeClient \<Rightarrow> string set" where
  "fake_running c = {name. Started c name = Some True}"

interpretation fake: container_client fake_client fake_existing fake_running
  by unfold_locales (auto simp: fake_client_def fake_Exists_def fake_Create_def fake_Start_def
      fake_existing_def fake_running_def)

text \<open>Against the client the repository brings, ensuring a user's workspace never fails; afterwards
  exactly the user's container is new, if it was not there, and it is started.
\<close>

lemma ensure_workspace:
  "\<exists>s'. Ensure lower fake_client m userID s = (Inr (), s') \<and>
     fake_existing s' = insert (container_name lower m userID) (fake_existing s) \<and>
     fake_running s' = insert (container_name lower m userID) (fake_running s)"
proof -
  have "fst (Ensure lower fake_client m userID s) = Inr ()"
    by (simp add: Ensure_def fake_client_def fake_Exists_def fake_Create_def fake_Start_def)
  then obtain s' where s': "Ensure lower fake_client m userID s = (Inr (), s')" by (metis prod.collapse)
  from fake.ensure_success [OF s'] s' show ?thesis by blast
qed

end
