(* ===== verification/Spec2Isabelle.thy ===== *)
theory Spec2Isabelle
  imports StoreClaims LimiterClaims TwoFactorCrypto Challenge HttpClaims
    ManagementClaims LockOrder TokenApi ConnectionClaims FileClaims RouteClaims SiteClaims Delivery InputClaims ProgramClaims Workspace
begin

text \<open>
  The server of vibe-terminal, a remote terminal in the browser: agents connect from the machines
  they run on, browsers log in, open sessions on these machines and type into them. The development
  models the Go server (\<^verbatim>\<open>server/\<close>) from its database to its routes, and the Rust agent
  (\<^verbatim>\<open>agent/src\<close>) from its two commands to its terminals and files. File names below are relative to
  \<^verbatim>\<open>server/internal\<close> when they name no other directory.

  \<^bold>\<open>The program and its state.\<close> \<^verbatim>\<open>cmd/server/main.go\<close> reads the settings, opens the database,
  makes the administrator and builds the router. A request is dispatched to a handler; most handlers
  check the session cookie, then read and write the database. Agents and browsers keep websockets
  open; the hub sends what browsers type to the agent of the session's device, and what agents send
  to the browsers that have subscribed to the session. The record \<open>site\<close> (theory Site) is this
  whole state: the database and the three limiters (\<open>srv\<close>), the hub, the presence of devices, what
  was sent on the connections (\<open>wires\<close>), the file service (\<open>fs\<close>) and the files with the output of
  sessions (\<open>out_store\<close>).

  \<^bold>\<open>Foundations.\<close>
  \<^item> Prelude: instants and durations of Go's \<^verbatim>\<open>time\<close> (times compare as instants, arithmetic saturates
    and wraps as there), Go maps as association lists with the order of a visit as an argument.
  \<^item> GoStrings, Codec, Base64Std, Crypto: the functions of \<^verbatim>\<open>strings\<close>, \<^verbatim>\<open>strconv\<close>,
    \<^verbatim>\<open>encoding/base64\<close>, \<^verbatim>\<open>encoding/base32\<close>, SHA-1, SHA-256 and HMAC that the code calls, with the
    round trips the properties need.
  \<^item> SqlStore: calls of \<^verbatim>\<open>database/sql\<close> as functions on a connection, with a script of failures, and
    transactions that roll back. The collection \<open>store_inv\<close> says what a call that succeeded has done,
    \<open>keep\<close> what a call preserves whatever fails.

  \<^bold>\<open>The database\<close> (\<^verbatim>\<open>store/store.go\<close>).
  \<^item> Schema, TwoFactorStore, AgentStore: the tables with their declared constraints and every
    operation, statement by statement. TwoFactorFacts: guard and effect of each two-factor operation.
  \<^item> StoreRuns: all operations as one datatype, runs of them, and what every statement leaves alone.
    StoreSafety: the constraints are kept.
  \<^item> SingleUse: one contract (the locale \<open>single_use\<close>) for TOTP counters, login challenges, recovery
    codes and registration tokens: what was accepted is not accepted again, in any run.
  \<^item> TwoFactorSpec: the state machine of a user's second factor, which every operation implements, and
    the outcome of the second login step as a decision list. RecoveryCodes: which codes a user has.
  \<^item> StoreClaims: the properties.

  \<^bold>\<open>Authentication\<close> (\<^verbatim>\<open>auth/\<close>).
  \<^item> Limiter, LimiterSpec, LimiterClaims: \<^verbatim>\<open>limiter.go\<close>; the contract of a key is a counter of
    failures in a window (\<open>view\<close>), which the operations implement for any order of the map.
  \<^item> Totp (\<^verbatim>\<open>totp.go\<close>), TwoFactorCrypto (\<^verbatim>\<open>two_factor_crypto.go\<close>), Challenge (\<^verbatim>\<open>challenge.go\<close> and the
    cookies of \<^verbatim>\<open>auth.go\<close>): each with the round trips and what an accepted value means.

  \<^bold>\<open>Requests\<close> (\<^verbatim>\<open>httpapi/router.go\<close>, \<^verbatim>\<open>httpapi/router_2fa.go\<close>).
  \<^item> Json: the scan for duplicate fields and the decoding of a body into a struct, on the tokens of
    \<^verbatim>\<open>encoding/json\<close>. The fuel of the scan is twice the number of tokens and two, which
    \<open>scan_enough_fuel\<close> proves sufficient: the scan always ends with a result.
  \<^item> Http: requests, responses, the session check and what the handlers share.
  \<^item> LoginApi, ManagementApi, TokenApi, DeviceApi: the handlers, each as one function from the
    request and the state to the response and the state, every early return a branch.
  \<^item> LoginFacts, LoginClaims, HttpClaims, ManagementClaims: what a session cookie, a changed second
    factor and a shown recovery code mean. LockOrder: the mutexes that serialize the management
    requests, as a step relation, with mutual exclusion and progress.
  \<^item> Routes: \<^verbatim>\<open>NewRouter\<close>, the table of routes and the dispatch. Config, ServerMain: settings and start.

  \<^bold>\<open>Connections\<close>.
  \<^item> Protocol (\<^verbatim>\<open>protocol/messages.go\<close>), Hub (\<^verbatim>\<open>ws/hub.go\<close>, \<^verbatim>\<open>devices/service.go\<close>), Terminal
    (\<^verbatim>\<open>terminal/service.go\<close>): messages, routing, presence, the files with output. ProtocolClaims: a message that was written
    is read as it was.
  \<^item> AgentApi: both websockets, message by message.
  \<^item> AgentFrame, AgentClaims: the locale \<open>agent_frame\<close> goes once through everything an agent's messages
    can do to the database; its two interpretations give that an agent has no power over other
    devices and that it does not reopen closed sessions. ConnectionClaims: who may connect.

  \<^bold>\<open>Files\<close>.
  \<^item> Files (\<^verbatim>\<open>files/service.go\<close>): an operation is a sequence of requests to the agent; what the rest of
    the server does while one waits, and what ends the wait, is the \<open>turn\<close> of the request. The loops
    have no bound of their own and are partial functions: None is a transfer that never ends.
  \<^item> FileAgent: the agent's side. FileLink and FileTransfer: the locale \<open>file_link\<close> is any link that may
    lose requests or answers, \<open>reliable_link\<close> one that delivers. FileClaims: the service and the agent
    over the real hub are such links; uploads end and are whole or nothing, a file comes back byte by
    byte, slots are neither exceeded nor leaked.

  \<^bold>\<open>The agent\<close> (\<^verbatim>\<open>agent/src\<close>: \<^verbatim>\<open>buffer.rs\<close>, \<^verbatim>\<open>registry.rs\<close>, \<^verbatim>\<open>pty_manager.rs\<close>, \<^verbatim>\<open>client.rs\<close>, \<^verbatim>\<open>config.rs\<close>,
  \<^verbatim>\<open>protocol.rs\<close>, \<^verbatim>\<open>main.rs\<close>).
  \<^item> AgentPty: buffers, the registry and the manager of the terminals; reader threads are events on one
    channel. AgentLoop: what the agent does with a message and at a tick. OutputClaims: runs of the
    agent, and that its frames give the output of a session in order, complete while it runs.
  \<^item> AgentProgram: the commands \<^verbatim>\<open>register\<close> and \<^verbatim>\<open>run\<close>, the request of the registration, and the files
    with the configuration and the registry. AgentProtocol: how the agent reads the text of a message,
    and that it reads what the server's sockets write as the message that was sent.

  \<^bold>\<open>The whole server\<close>.
  \<^item> ServerFrame, SiteFrame: the locales \<open>server_frame\<close> and \<open>site_frame\<close> go once through every handler
    and every connection, and carry any property of the database, the hub and the presence of devices that the primitive changes
    of state keep, to the end of any run (\<open>site_run\<close>).
  \<^item> SiteClaims: the invariant of the server, and where typed input goes.
    RouteClaims: requests without a session, the start of a terminal session, the start of the server.
  \<^item> InputClaims: the way from the keyboard to the shell. What a browser types is written to the socket
    of the session's device, and the agent that reads it gives it to the session's terminal, in order.
  \<^item> Delivery: the way from a shell to the screen. What an agent that runs sends, the server passes on
    whole and in order to a browser that watches, and no message of the agent on other sessions adds to it.
  \<^item> ProgramClaims: the agent that was registered connects whenever it runs later, whatever the server
    has met since.
  \<^item> Workspace (\<^verbatim>\<open>workspace/workspace.go\<close>): the containers of users, over an interface of the runtime.

  \<^bold>\<open>What is taken for granted.\<close> A handler is one step, except that others run while a file request
  waits; so is a message on a websocket. Clocks, identifiers, random bytes and failures are arguments,
  and a theorem holds for all of them; reading random bytes never fails. Ties in \<^verbatim>\<open>order by\<close> go by
  insertion. A slice that a JSON object names twice is replaced. There are no symbolic links below the
  output directory, and the agent's files are changed by the agent alone. Arguments of the model stand
  for bcrypt, HKDF, AES-GCM, the tokenizers and writers of JSON (Go's and \<^verbatim>\<open>serde_json\<close>), RFC 3339, YAML, \<^verbatim>\<open>mime\<close>, Unicode case
  mapping and the matching of routes; where a property relies on their documented behaviour it says so.

  \<^bold>\<open>Not modelled.\<close> Opening and migrating the database file and its pragmas, the transport of
  websockets and HTTP, static files, the tests and their helpers; of the agent, the parsing of its
  command line, its HTTP client and its websocket; the operating system's processes and terminals; the
  web front end and deployment.
\<close>

end
